(* ===== verification/Prelude.thy ===== *)
theory Prelude
  imports Complex_Main "HOL-Library.AList" "HOL-Library.Char_ord" "HOL-Library.List_Lexorder"
    "HOL-Library.State_Monad"
begin

text \<open>
  The part of the Go standard library that the agent's sources use on strings, slices and paths
  (packages \<^verbatim>\<open>strings\<close>, \<^verbatim>\<open>slices\<close>, \<^verbatim>\<open>strconv\<close>, \<^verbatim>\<open>path/filepath\<close>), the lemma collections of
  the development and the generic lemmas its theories share.

  A Go string is a list of bytes (\<^typ>\<open>string\<close>). The functions below that look at white space
  follow the ASCII branch of the library; every separator that the sources pass to
  \<^verbatim>\<open>strings.Split\<close> is a single byte.
\<close>

named_theorems go_str "unfolding rules for the string library"
named_theorems io_simps "symbolic execution of the modelled operations"
named_theorems frame_intros "compositional rules for what an operation leaves unchanged"

subsection \<open>Prefixes, suffixes and substrings\<close>

fun strip_prefix :: "'a list \<Rightarrow> 'a list \<Rightarrow> 'a list option" where
  "strip_prefix [] ys = Some ys"
| "strip_prefix (x # xs) [] = None"
| "strip_prefix (x # xs) (y # ys) = (if x = y then strip_prefix xs ys else None)"

definition HasPrefix :: "string \<Rightarrow> string \<Rightarrow> bool" where
  "HasPrefix s p \<longleftrightarrow> strip_prefix p s \<noteq> None"

definition TrimPrefix :: "string \<Rightarrow> string \<Rightarrow> string" where
  "TrimPrefix s p = (case strip_prefix p s of None \<Rightarrow> s | Some r \<Rightarrow> r)"

definition HasSuffix :: "string \<Rightarrow> string \<Rightarrow> bool" where
  "HasSuffix s p \<longleftrightarrow> strip_prefix (rev p) (rev s) \<noteq> None"

definition TrimSuffix :: "string \<Rightarrow> string \<Rightarrow> string" where
  "TrimSuffix s p = (case strip_prefix (rev p) (rev s) of None \<Rightarrow> s | Some r \<Rightarrow> rev r)"

text \<open>\<^verbatim>\<open>strings.Index\<close>: the position of the first occurrence; \<^const>\<open>None\<close> is Go's -1.\<close>

fun Index :: "string \<Rightarrow> string \<Rightarrow> nat option" where
  "Index [] sub = (if sub = [] then Some 0 else None)"
| "Index (c # s) sub =
     (if strip_prefix sub (c # s) \<noteq> None then Some 0 else map_option Suc (Index s sub))"

definition Contains :: "string \<Rightarrow> string \<Rightarrow> bool" where
  "Contains s sub \<longleftrightarrow> Index s sub \<noteq> None"

text \<open>\<^verbatim>\<open>strings.Replace(s, old, new, 1)\<close> for a non-empty \<^verbatim>\<open>old\<close>.\<close>

definition Replace1 :: "string \<Rightarrow> string \<Rightarrow> string \<Rightarrow> string" where
  "Replace1 s old new =
     (case Index s old of None \<Rightarrow> s | Some i \<Rightarrow> take i s @ new @ drop (i + length old) s)"

subsection \<open>Splitting and joining\<close>

fun Split :: "string \<Rightarrow> char \<Rightarrow> string list" where
  "Split [] c = [[]]"
| "Split (x # xs) c =
     (if x = c then [] # Split xs c
      else (case Split xs c of [] \<Rightarrow> [[x]] | y # ys \<Rightarrow> (x # y) # ys))"

text \<open>\<^verbatim>\<open>strings.SplitN\<close> with a positive limit \<^verbatim>\<open>Suc n\<close>.\<close>

fun SplitN :: "string \<Rightarrow> char \<Rightarrow> nat \<Rightarrow> string list" where
  "SplitN s c 0 = []"
| "SplitN s c (Suc 0) = [s]"
| "SplitN s c (Suc (Suc n)) =
     (if c \<in> set s
      then takeWhile (\<lambda>x. x \<noteq> c) s # SplitN (tl (dropWhile (\<lambda>x. x \<noteq> c) s)) c (Suc n)
      else [s])"

fun Join :: "string list \<Rightarrow> string \<Rightarrow> string" where
  "Join [] sep = []"
| "Join [x] sep = x"
| "Join (x # y # ys) sep = x @ sep @ Join (y # ys) sep"

definition TrimLeft :: "string \<Rightarrow> string \<Rightarrow> string" where
  "TrimLeft s cutset = dropWhile (\<lambda>c. c \<in> set cutset) s"

definition TrimRight :: "string \<Rightarrow> string \<Rightarrow> string" where
  "TrimRight s cutset = rev (dropWhile (\<lambda>c. c \<in> set cutset) (rev s))"

definition Trim :: "string \<Rightarrow> string \<Rightarrow> string" where
  "Trim s cutset = TrimRight (TrimLeft s cutset) cutset"

definition white :: string where
  "white = [CHR 0x09, CHR 0x0A, CHR 0x0B, CHR 0x0C, CHR 0x0D, CHR '' '']"

definition TrimSpace :: "string \<Rightarrow> string" where
  "TrimSpace s = Trim s white"

text \<open>\<^verbatim>\<open>strings.Fields\<close>: the maximal runs of non-blank bytes.\<close>

fun fields_aux :: "string \<Rightarrow> string \<Rightarrow> string list" where
  "fields_aux acc [] = (if acc = [] then [] else [rev acc])"
| "fields_aux acc (c # cs) =
     (if c \<in> set white then (if acc = [] then [] else [rev acc]) @ fields_aux [] cs
      else fields_aux (c # acc) cs)"

definition Fields :: "string \<Rightarrow> string list" where
  "Fields s = fields_aux [] s"

subsection \<open>Numbers\<close>

definition digit :: "nat \<Rightarrow> char" where
  "digit d = char_of (48 + d)"

fun show_nat :: "nat \<Rightarrow> string" where
  "show_nat n = (if n < 10 then [digit n] else show_nat (n div 10) @ [digit (n mod 10)])"

declare show_nat.simps [simp del]

definition show_int :: "int \<Rightarrow> string" where
  "show_int i = (if i < 0 then ''-'' @ show_nat (nat (- i)) else show_nat (nat i))"

definition is_digit :: "char \<Rightarrow> bool" where
  "is_digit c \<longleftrightarrow> 48 \<le> (of_char c :: nat) \<and> (of_char c :: nat) \<le> 57"

definition digit_val :: "char \<Rightarrow> nat" where
  "digit_val c = (of_char c :: nat) - 48"

definition read_nat :: "string \<Rightarrow> nat option" where
  "read_nat s = (if s \<noteq> [] \<and> list_all is_digit s
     then Some (foldl (\<lambda>n c. 10 * n + digit_val c) 0 s) else None)"

text \<open>\<^verbatim>\<open>strconv.Atoi\<close>: an optional sign, decimal digits, and the range of a 64-bit \<^verbatim>\<open>int\<close>.\<close>

definition Atoi :: "string \<Rightarrow> int option" where
  "Atoi s =
     (let neg = (case s of c # _ \<Rightarrow> c = CHR ''-'' | [] \<Rightarrow> False);
          body = (case s of c # r \<Rightarrow> if c = CHR ''-'' \<or> c = CHR ''+'' then r else s | [] \<Rightarrow> [])
      in case read_nat body of
           None \<Rightarrow> None
         | Some n \<Rightarrow> (let i = (if neg then - int n else int n)
                      in if - (2 ^ 63) \<le> i \<and> i < 2 ^ 63 then Some i else None))"

text \<open>\<^verbatim>\<open>strconv.ParseBool\<close>.\<close>

definition ParseBool :: "string \<Rightarrow> bool option" where
  "ParseBool s =
     (if s \<in> set [''1'', ''t'', ''T'', ''true'', ''TRUE'', ''True''] then Some True
      else if s \<in> set [''0'', ''f'', ''F'', ''false'', ''FALSE'', ''False''] then Some False
      else None)"

subsection \<open>Paths\<close>

text \<open>\<^verbatim>\<open>filepath.Clean\<close>, \<^verbatim>\<open>filepath.Join\<close>, \<^verbatim>\<open>filepath.Dir\<close> and \<^verbatim>\<open>filepath.Base\<close> on Unix.\<close>

fun clean_comps :: "bool \<Rightarrow> string list \<Rightarrow> string list \<Rightarrow> string list" where
  "clean_comps rooted acc [] = rev acc"
| "clean_comps rooted acc (c # cs) =
     (if c = '''' \<or> c = ''.'' then clean_comps rooted acc cs
      else if c = ''..'' then
        (case acc of
           [] \<Rightarrow> clean_comps rooted (if rooted then [] else [''..'']) cs
         | a # as \<Rightarrow> clean_comps rooted (if a = ''..'' then ''..'' # acc else as) cs)
      else clean_comps rooted (c # acc) cs)"

definition Clean :: "string \<Rightarrow> string" where
  "Clean p =
     (let rooted = HasPrefix p ''/'';
          r = (if rooted then ''/'' else []) @ Join (clean_comps rooted [] (Split p (CHR ''/''))) ''/''
      in if r = [] then ''.'' else r)"

definition path_Join :: "string list \<Rightarrow> string" where
  "path_Join es = (case filter (\<lambda>e. e \<noteq> []) es of [] \<Rightarrow> [] | fs \<Rightarrow> Clean (Join fs ''/''))"

definition path_Dir :: "string \<Rightarrow> string" where
  "path_Dir p = Clean (rev (dropWhile (\<lambda>c. c \<noteq> CHR ''/'') (rev p)))"

definition path_Base :: "string \<Rightarrow> string" where
  "path_Base p =
     (if p = [] then ''.''
      else (let q = TrimRight p ''/''
            in if q = [] then ''/'' else rev (takeWhile (\<lambda>c. c \<noteq> CHR ''/'') (rev q))))"

subsection \<open>Slices and optional values\<close>

text \<open>\<^verbatim>\<open>slices.Contains\<close>.\<close>

definition slice_contains :: "'a list \<Rightarrow> 'a \<Rightarrow> bool" where
  "slice_contains xs x \<longleftrightarrow> x \<in> set xs"

text \<open>A pointer field that overrides a default when it is not nil.\<close>

definition deref_or :: "'a \<Rightarrow> 'a option \<Rightarrow> 'a" where
  "deref_or d p = (case p of None \<Rightarrow> d | Some v \<Rightarrow> v)"

subsection \<open>Lemmas on the string library\<close>

lemma deref_or_simps [simp]: "deref_or d None = d" "deref_or d (Some v) = v"
  by (simp_all add: deref_or_def)

lemma slice_contains_iff [simp]: "slice_contains xs x \<longleftrightarrow> x \<in> set xs"
  by (simp add: slice_contains_def)

lemma strip_prefix_Some: "strip_prefix p s = Some r \<longleftrightarrow> s = p @ r"
  by (induction p s rule: strip_prefix.induct) auto

lemma strip_prefix_append [simp]: "strip_prefix p (p @ r) = Some r"
  by (simp add: strip_prefix_Some)

lemma HasPrefix_iff: "HasPrefix s p \<longleftrightarrow> (\<exists>r. s = p @ r)"
  by (auto simp: HasPrefix_def strip_prefix_Some)

lemma HasPrefix_append [simp]: "HasPrefix (p @ r) p"
  by (auto simp: HasPrefix_iff)

lemma HasSuffix_iff: "HasSuffix s p \<longleftrightarrow> (\<exists>r. s = r @ p)"
proof -
  have "HasSuffix s p \<longleftrightarrow> (\<exists>r. rev s = rev p @ r)"
    by (auto simp: HasSuffix_def strip_prefix_Some)
  also have "\<dots> \<longleftrightarrow> (\<exists>r. s = rev r @ p)"
    by (metis rev_append rev_rev_ident)
  also have "\<dots> \<longleftrightarrow> (\<exists>r. s = r @ p)"
    by (metis rev_rev_ident)
  finally show ?thesis .
qed

lemma Index_Some_append:
  "Index s sub = Some i \<Longrightarrow> s = take i s @ sub @ drop (i + length sub) s"
proof (induction s sub arbitrary: i rule: Index.induct)
  case (1 sub)
  then show ?case by (auto split: if_splits)
next
  case (2 c s sub)
  show ?case
  proof (cases "strip_prefix sub (c # s)")
    case (Some r)
    with "2.prems" have "i = 0" by simp
    with Some show ?thesis by (auto simp: strip_prefix_Some)
  next
    case None
    with "2.prems" obtain j where "Index s sub = Some j" "i = Suc j" by auto
    with "2.IH" None show ?thesis by auto
  qed
qed

lemma Contains_iff: "Contains s sub \<longleftrightarrow> (\<exists>a b. s = a @ sub @ b)"
proof
  assume "Contains s sub"
  then obtain i where "Index s sub = Some i"
    by (auto simp: Contains_def)
  then show "\<exists>a b. s = a @ sub @ b"
    by (blast dest: Index_Some_append)
next
  assume "\<exists>a b. s = a @ sub @ b"
  then obtain a b where s: "s = a @ sub @ b" by blast
  show "Contains s sub"
    unfolding s
  proof (induction a)
    case Nil
    then show ?case
      by (cases sub; cases b) (auto simp: Contains_def strip_prefix_Some)
  next
    case (Cons x a)
    then show ?case by (auto simp: Contains_def)
  qed
qed

lemma Contains_append [simp]: "Contains (a @ s @ b) s"
  by (auto simp: Contains_iff)

lemma Contains_prefix [simp]: "Contains (s @ b) s"
  using Contains_append [of "[]" s b] by simp

lemma Split_not_Nil [simp]: "Split s c \<noteq> []"
  by (induction s) (auto split: list.splits)

lemma Split_no_sep: "x \<in> set (Split s c) \<Longrightarrow> c \<notin> set x"
  by (induction s arbitrary: x) (auto split: list.splits if_splits)

lemma Join_Cons: "Join (x # xs) sep = (if xs = [] then x else x @ sep @ Join xs sep)"
  by (cases xs) auto

lemma Join_append:
  "xs \<noteq> [] \<Longrightarrow> ys \<noteq> [] \<Longrightarrow> Join (xs @ ys) sep = Join xs sep @ sep @ Join ys sep"
  by (induction xs) (auto simp: Join_Cons)

lemma Join_Cons_prefix: "Join ((x @ y) # ys) sep = x @ Join (y # ys) sep"
  by (cases ys) auto

text \<open>Splitting at a byte and joining with it again is the identity, in both directions.\<close>

lemma Join_Split [simp]: "Join (Split s c) [c] = s"
proof (induction s)
  case Nil
  then show ?case by simp
next
  case (Cons x s)
  show ?case
  proof (cases "Split s c")
    case Nil
    then show ?thesis by simp
  next
    case (Cons y ys)
    with Cons.IH show ?thesis
      using Join_Cons_prefix [of "[x]" y ys "[c]"] by auto
  qed
qed

lemma Split_append_sep:
  "c \<notin> set x \<Longrightarrow> Split (x @ [c] @ s) c = x # Split s c"
  by (induction x) auto

lemma Split_no_occ: "c \<notin> set x \<Longrightarrow> Split x c = [x]"
  by (induction x) auto

lemma Split_Join:
  "xs \<noteq> [] \<Longrightarrow> \<forall>x \<in> set xs. c \<notin> set x \<Longrightarrow> Split (Join xs [c]) c = xs"
proof (induction xs)
  case Nil
  then show ?case by simp
next
  case (Cons x xs)
  then show ?case
    using Split_append_sep [of c x "Join xs [c]"] by (auto simp: Join_Cons Split_no_occ)
qed

lemma last_dropWhile: "dropWhile P ys \<noteq> [] \<Longrightarrow> last (dropWhile P ys) = last ys"
  by (induction ys) auto

lemma Trim_idem [simp]: "Trim (Trim s cs) cs = Trim s cs"
proof -
  define P where "P = (\<lambda>c. c \<in> set cs)"
  define l where "l = dropWhile P s"
  define r where "r = dropWhile P (rev l)"
  have hd: "dropWhile P (rev r) = rev r"
  proof (cases "r = []")
    case False
    then have "l \<noteq> []" by (auto simp: r_def)
    then have "\<not> P (hd l)" unfolding l_def by (rule hd_dropWhile)
    moreover have "last r = hd l"
      using False last_dropWhile [of P "rev l"] by (simp add: r_def last_rev)
    ultimately show ?thesis
      using False by (simp add: dropWhile_eq_self_iff hd_rev)
  qed simp
  have "dropWhile P r = r"
    unfolding r_def by simp
  with hd show ?thesis
    by (simp add: Trim_def TrimLeft_def TrimRight_def flip: P_def l_def r_def)
qed

lemma set_Trim: "set (Trim s cs) \<subseteq> set s"
  by (auto simp: Trim_def TrimLeft_def TrimRight_def dest!: set_dropWhileD)

subsection \<open>Lemmas on numbers\<close>

lemma of_char_digit: "d < 10 \<Longrightarrow> (of_char (digit d) :: nat) = 48 + d"
  by (simp add: digit_def)

lemma is_digit_digit [simp]: "d < 10 \<Longrightarrow> is_digit (digit d)"
  by (simp add: is_digit_def of_char_digit)

lemma digit_val_digit [simp]: "d < 10 \<Longrightarrow> digit_val (digit d) = d"
  by (simp add: digit_val_def of_char_digit)

lemma show_nat_not_Nil [simp]: "show_nat n \<noteq> []"
  by (subst show_nat.simps) simp

lemma show_nat_digits: "list_all is_digit (show_nat n)"
proof (induction n rule: show_nat.induct)
  case (1 n)
  then show ?case
    by (subst show_nat.simps) simp
qed

lemma show_nat_value: "foldl (\<lambda>n c. 10 * n + digit_val c) 0 (show_nat n) = n"
proof (induction n rule: show_nat.induct)
  case (1 n)
  then show ?case
    by (subst show_nat.simps) simp
qed

text \<open>Printing and reading a number is the identity.\<close>

lemma read_show_nat [simp]: "read_nat (show_nat n) = Some n"
  by (simp add: read_nat_def show_nat_digits show_nat_value)

lemma show_nat_inj [simp]: "show_nat m = show_nat n \<longleftrightarrow> m = n"
  by (metis option.inject read_show_nat)

lemma not_digit_not_in_show: "\<not> is_digit c \<Longrightarrow> c \<notin> set (show_nat n)"
  using show_nat_digits [of n] by (auto simp: list_all_iff)

lemma show_nat_hd: "is_digit (hd (show_nat n))"
  using show_nat_digits [of n] by (cases "show_nat n") auto

lemma show_int_inj [simp]: "show_int i = show_int j \<longleftrightarrow> i = j"
proof -
  have minus: "\<not> is_digit (CHR ''-'')" by (simp add: is_digit_def)
  have ne: "show_nat m \<noteq> CHR ''-'' # xs" for m xs
    using show_nat_hd [of m] minus by auto
  show ?thesis
    using ne ne [symmetric] by (auto simp: show_int_def)
qed

lemma Atoi_show_int:
  assumes "- (2 ^ 63) \<le> i" and "i < 2 ^ 63"
  shows "Atoi (show_int i) = Some i"
proof (cases "i < 0")
  case True
  with assms show ?thesis by (simp add: Atoi_def show_int_def)
next
  case False
  obtain c cs where cs: "show_nat (nat i) = c # cs"
    using show_nat_not_Nil by (metis list.exhaust)
  then have "c \<noteq> CHR ''-''" "c \<noteq> CHR ''+''"
    using show_nat_hd [of "nat i"] by (auto simp: is_digit_def)
  with cs False assms read_show_nat [of "nat i"] show ?thesis
    by (simp add: Atoi_def show_int_def)
qed

text \<open>The first occurrence of a separator splits a string in one way.\<close>

lemma append_sep_inj:
  assumes "a @ c # s = b @ c # t" and "c \<notin> set a" and "c \<notin> set b"
  shows "a = b \<and> s = t"
  using assms
proof (induction a arbitrary: b)
  case Nil
  then show ?case by (cases b) auto
next
  case (Cons x a)
  then show ?case by (cases b) auto
qed

subsection \<open>Lemmas on paths\<close>

lemma Split_append_tail:
  assumes "c \<notin> set s"
  obtains xs y where "Split (q @ s) c = xs @ [y @ s]"
proof -
  have "\<exists>xs y. Split (q @ s) c = xs @ [y @ s]"
  proof (induction q)
    case Nil
    show ?case using Split_no_occ [OF assms] by force
  next
    case (Cons a q)
    then obtain xs y where "Split (q @ s) c = xs @ [y @ s]" by blast
    then have "\<exists>ys z. Split (a # q @ s) c = ys @ [z @ s]"
    proof (cases "a = c")
      case True
      with \<open>Split (q @ s) c = xs @ [y @ s]\<close> have "Split (a # q @ s) c = ([] # xs) @ [y @ s]" by simp
      then show ?thesis by blast
    next
      case False
      show ?thesis
      proof (cases xs)
        case Nil
        with False \<open>Split (q @ s) c = xs @ [y @ s]\<close> have "Split (a # q @ s) c = [] @ [(a # y) @ s]" by simp
        then show ?thesis by blast
      next
        case (Cons x xs')
        with False \<open>Split (q @ s) c = xs @ [y @ s]\<close> have "Split (a # q @ s) c = ((a # x) # xs') @ [y @ s]" by simp
        then show ?thesis by blast
      qed
    qed
    then show ?case by simp
  qed
  with that show ?thesis by blast
qed

lemma clean_comps_last:
  "c \<noteq> [] \<Longrightarrow> c \<noteq> ''.'' \<Longrightarrow> c \<noteq> ''..'' \<Longrightarrow> \<exists>ys. clean_comps r acc (xs @ [c]) = ys @ [c]"
  by (induction xs arbitrary: acc) (auto split: list.split)

lemma Join_snoc: "Join (xs @ [x]) sep = (if xs = [] then [] else Join xs sep @ sep) @ x"
  by (simp add: Join_append)

text \<open>Cleaning keeps how the last component ends.\<close>

lemma Clean_suffix:
  assumes "CHR ''/'' \<notin> set s" and "2 < length s"
  shows "\<exists>r. Clean (q @ s) = r @ s"
proof -
  obtain xs y where sp: "Split (q @ s) (CHR ''/'') = xs @ [y @ s]"
    using Split_append_tail [OF assms(1)] .
  have "2 < length (y @ s)" using assms(2) by simp
  then have ne: "y @ s \<noteq> []" "y @ s \<noteq> ''.''" "y @ s \<noteq> ''..''" by fastforce+
  obtain ys where "clean_comps (HasPrefix (q @ s) ''/'') [] (Split (q @ s) (CHR ''/'')) = ys @ [y @ s]"
    unfolding sp using clean_comps_last [OF ne] by blast
  then have "Clean (q @ s) = (if HasPrefix (q @ s) ''/'' then ''/'' else []) @ Join (ys @ [y @ s]) ''/''"
    using assms(2) by (auto simp: Clean_def Let_def Join_snoc)
  also have "\<dots> = ((if HasPrefix (q @ s) ''/'' then ''/'' else []) @
      (if ys = [] then [] else Join ys ''/'' @ ''/'') @ y) @ s"
    by (simp add: Join_snoc)
  finally show ?thesis by blast
qed

lemma path_Join_suffix:
  assumes "CHR ''/'' \<notin> set s" and "2 < length s"
  shows "\<exists>r. path_Join (es @ [b @ s]) = r @ s"
proof -
  let ?fs = "filter (\<lambda>e. e \<noteq> []) es"
  have "path_Join (es @ [b @ s]) = Clean (Join (?fs @ [b @ s]) ''/'')"
    using assms(2) by (auto simp: path_Join_def split: list.split)
  also have "Join (?fs @ [b @ s]) ''/'' = ((if ?fs = [] then [] else Join ?fs ''/'' @ ''/'') @ b) @ s"
    by (simp add: Join_snoc)
  finally show ?thesis
    using Clean_suffix [OF assms, of "(if ?fs = [] then [] else Join ?fs ''/'' @ ''/'') @ b"] by (simp only:)
qed

text \<open>Joining a name to a path that is already clean.\<close>

lemma Split_append: "Split (x @ c # y) c = Split x c @ Split y c"
proof (induction x)
  case (Cons a x)
  then show ?case
    by (cases "Split x c") auto
qed simp

lemma clean_comps_snoc:
  "c \<noteq> [] \<Longrightarrow> c \<noteq> ''.'' \<Longrightarrow> c \<noteq> ''..'' \<Longrightarrow> clean_comps r acc (xs @ [c]) = clean_comps r acc xs @ [c]"
  by (induction xs arbitrary: acc) (auto split: list.split)

lemma path_Join_clean:
  assumes "Clean d = d" and "HasPrefix d ''/''" and "d \<noteq> ''/''"
    and "n \<noteq> []" and "n \<noteq> ''.''" and "n \<noteq> ''..''" and "CHR ''/'' \<notin> set n"
  shows "path_Join [d, n] = d @ ''/'' @ n"
proof -
  let ?cs = "clean_comps True [] (Split d (CHR ''/''))"
  from assms(2) have "HasPrefix (d @ ''/'' @ n) ''/''"
    by (auto simp: HasPrefix_iff)
  moreover have "Split (d @ ''/'' @ n) (CHR ''/'') = Split d (CHR ''/'') @ [n]"
    using Split_append [of d "CHR ''/''" n] Split_no_occ [OF assms(7)] by simp
  ultimately have "Clean (d @ ''/'' @ n) = ''/'' @ Join (?cs @ [n]) ''/''"
    using clean_comps_snoc [OF assms(4-6)] by (simp add: Clean_def)
  moreover have "d = ''/'' @ Join ?cs ''/''"
    using assms(1,2) by (simp add: Clean_def split: if_splits)
  moreover from this assms(3) have "?cs \<noteq> []"
    by auto
  ultimately show ?thesis
    using assms(2,4) by (auto simp: path_Join_def Join_snoc)
qed

lemma length_Join_take: "length (Join (take n xs) sep) \<le> length (Join xs sep)"
proof (induction xs arbitrary: n)
  case (Cons x xs)
  show ?case
  proof (cases n)
    case (Suc m)
    with Cons [of m] show ?thesis
      by (cases xs) (auto simp: Join_Cons)
  qed simp
qed simp

lemma length_Join_filter: "length (Join (filter P xs) sep) \<le> length (Join xs sep)"
  by (induction xs) (auto simp: Join_Cons)

end
