(* ===== verification/World.thy ===== *)
theory World
  imports Prelude "HOL-Library.Multiset"
begin

unbundle bit_operations_syntax

text \<open>
  The operating system as the agent sees it: Go error values, a file store with the system calls
  the sources make through package \<^verbatim>\<open>os\<close>, the clock, external commands and the order in which Go
  visits a map. An operation of the agent is a function in the state monad over \<^verbatim>\<open>'z world_scheme\<close>,
  so that a component with package-level variables extends the record.

  What the environment decides is read from fields that no operation updates, indexed by a tick
  that every system call advances: \<^verbatim>\<open>fault\<close> (an error the kernel may return at that call),
  \<^verbatim>\<open>exec\<close> (what a command prints, returns and does to the files), \<^verbatim>\<open>now\<close>, \<^verbatim>\<open>rand\<close> (the suffix
  \<^verbatim>\<open>os.CreateTemp\<close> ends on), \<^verbatim>\<open>shuffle\<close> (a map iteration order) and \<^verbatim>\<open>ctx\<close> (the error of the Go
  context, once it is done), \<^verbatim>\<open>lookpath\<close> (where a program is on the search path) and \<^verbatim>\<open>goos\<close>
  (\<^verbatim>\<open>runtime.GOOS\<close>). The fields \<^verbatim>\<open>trace\<close> and \<^verbatim>\<open>sleeps\<close> record the commands run and the
  intervals waited. A theorem that quantifies
  over the world therefore covers every failure and every order.
\<close>

subsection \<open>Errors and results\<close>

datatype errno = ENOENT | EEXIST | EACCES | EISDIR | ENOTDIR | ENOTEMPTY | EINVAL | ELOOP | EIO | ENOSPC

text \<open>\<^verbatim>\<open>run.Result\<close>, which is also an error value.\<close>

record result =
  ExitCode :: int
  StdErr :: string
  StdOut :: string
  Combined :: string

text \<open>
  How a child process ends: it could not be run (the message of the error), or it ran and left an
  exit code (-1 if a signal ended it), its two output streams and their interleaving.
\<close>

datatype proc_end = NotRun string | Exited int string string string

text \<open>
  Go error values. \<^verbatim>\<open>Sys\<close> is an \<^verbatim>\<open>*fs.PathError\<close> or another error of package \<^verbatim>\<open>os\<close>; \<^verbatim>\<open>Wrap\<close> is
  \<^verbatim>\<open>fmt.Errorf\<close> with the verb \<^verbatim>\<open>%w\<close>, through which \<^verbatim>\<open>errors.Is\<close> and \<^verbatim>\<open>errors.As\<close> see the cause;
  \<^verbatim>\<open>Flat\<close> is \<^verbatim>\<open>fmt.Errorf\<close> with \<^verbatim>\<open>%v\<close>, \<^verbatim>\<open>%+v\<close> or \<^verbatim>\<open>%s\<close>, through which they do not; \<^verbatim>\<open>Status\<close> is the
  metadata server's \<^verbatim>\<open>MDSReqError\<close> with its HTTP status and cause; \<^verbatim>\<open>ExecNotFound\<close> is the error of
  \<^verbatim>\<open>exec.LookPath\<close> that wraps \<^verbatim>\<open>exec.ErrNotFound\<close>.
\<close>

datatype goerr =
    Sys errno
  | Msg string
  | Wrap string goerr
  | Flat string goerr
  | ResultErr result
  | Status int "goerr option"
  | CtxCanceled
  | CtxDeadline
  | Unexpected string
  | ExecNotFound string

type_synonym 'a res = "goerr + 'a"

text \<open>The value of a Go call that may panic.\<close>

datatype 'a outcome = Ret 'a | Panic string

fun os_IsNotExist :: "goerr \<Rightarrow> bool" where
  "os_IsNotExist (Sys e) \<longleftrightarrow> e = ENOENT"
| "os_IsNotExist _ \<longleftrightarrow> False"

fun os_IsExist :: "goerr \<Rightarrow> bool" where
  "os_IsExist (Sys e) \<longleftrightarrow> e = EEXIST \<or> e = ENOTEMPTY"
| "os_IsExist _ \<longleftrightarrow> False"

text \<open>\<^verbatim>\<open>errors.Is(err, fs.ErrNotExist)\<close>, which looks through \<^verbatim>\<open>%w\<close>.\<close>

fun errors_Is_NotExist :: "goerr \<Rightarrow> bool" where
  "errors_Is_NotExist (Sys e) \<longleftrightarrow> e = ENOENT"
| "errors_Is_NotExist (Wrap _ e) \<longleftrightarrow> errors_Is_NotExist e"
| "errors_Is_NotExist _ \<longleftrightarrow> False"

text \<open>\<^verbatim>\<open>errors.As(err, &mdsErr)\<close>: the status of the \<^verbatim>\<open>MDSReqError\<close> in the chain of causes.\<close>

fun errors_As_MDS :: "goerr \<Rightarrow> (int \<times> goerr option) option" where
  "errors_As_MDS (Status s c) = Some (s, c)"
| "errors_As_MDS (Wrap _ e) = errors_As_MDS e"
| "errors_As_MDS _ = None"

text \<open>\<^verbatim>\<open>errors.Is(err, exec.ErrNotFound)\<close>.\<close>

fun errors_Is_ErrNotFound :: "goerr \<Rightarrow> bool" where
  "errors_Is_ErrNotFound (ExecNotFound _) \<longleftrightarrow> True"
| "errors_Is_ErrNotFound (Wrap _ e) \<longleftrightarrow> errors_Is_ErrNotFound e"
| "errors_Is_ErrNotFound _ \<longleftrightarrow> False"

subsection \<open>The file store\<close>

datatype node =
    Reg (content: string) (perm: nat) (owner: "int \<times> int")
  | Dir (perm: nat) (owner: "int \<times> int")
  | Link (target: string)
  | Fifo (perm: nat) (owner: "int \<times> int")

type_synonym files = "(string \<times> node) list"

record world =
  fs :: files
  tick :: nat
  trace :: "string list list"
  umask :: nat
  fault :: "nat \<Rightarrow> errno option"
  exec :: "nat \<Rightarrow> string list \<Rightarrow> files \<Rightarrow> proc_end \<times> files"
  now :: "nat \<Rightarrow> int"
  rand :: "nat \<Rightarrow> string"
  shuffle :: "nat \<Rightarrow> nat \<Rightarrow> nat list"
  ctx :: "nat \<Rightarrow> goerr option"
  sleeps :: "int list"
  lookpath :: "nat \<Rightarrow> string \<Rightarrow> string res"
  goos :: string

type_synonym ('z, 'a) io = "('z world_scheme, 'a) state"

definition is_dir :: "files \<Rightarrow> string \<Rightarrow> bool" where
  "is_dir f p \<longleftrightarrow> p = ''/'' \<or> p = ''.'' \<or>
     (case map_of f p of Some (Dir _ _) \<Rightarrow> True | _ \<Rightarrow> False)"

text \<open>Symbolic links are followed in the last component of a path, at most forty times.\<close>

fun resolve_n :: "nat \<Rightarrow> files \<Rightarrow> string \<Rightarrow> string option" where
  "resolve_n 0 f p = None"
| "resolve_n (Suc n) f p =
     (case map_of f p of
        Some (Link t) \<Rightarrow> resolve_n n f (if HasPrefix t ''/'' then t else path_Join [path_Dir p, t])
      | _ \<Rightarrow> Some p)"

definition resolve :: "files \<Rightarrow> string \<Rightarrow> string option" where
  "resolve f p = resolve_n 40 f p"

definition effective :: "nat \<Rightarrow> nat \<Rightarrow> nat" where
  "effective um p = p XOR (p AND um)"

definition set_perm :: "nat \<Rightarrow> node \<Rightarrow> node" where
  "set_perm m n = (case n of Reg c _ o1 \<Rightarrow> Reg c m o1 | Dir _ o1 \<Rightarrow> Dir m o1
     | Link t \<Rightarrow> Link t | Fifo _ o1 \<Rightarrow> Fifo m o1)"

text \<open>A user or group of -1 stays as it is.\<close>

definition new_owner :: "int \<times> int \<Rightarrow> int \<times> int \<Rightarrow> int \<times> int" where
  "new_owner u v = (if fst u = -1 then fst v else fst u, if snd u = -1 then snd v else snd u)"

definition set_owner :: "int \<times> int \<Rightarrow> node \<Rightarrow> node" where
  "set_owner u n = (case n of Reg c m v \<Rightarrow> Reg c m (new_owner u v) | Dir m v \<Rightarrow> Dir m (new_owner u v)
     | Link t \<Rightarrow> Link t | Fifo m v \<Rightarrow> Fifo m (new_owner u v))"

text \<open>\<^verbatim>\<open>fi.Mode() == m\<close>: for anything but a regular file the mode also carries type bits.\<close>

definition mode_is :: "node \<Rightarrow> nat \<Rightarrow> bool" where
  "mode_is n m \<longleftrightarrow> (case n of Reg _ p _ \<Rightarrow> p = m | _ \<Rightarrow> False)"

subsection \<open>System calls\<close>

text \<open>
  A system call takes one tick. It fails with the error the environment picks, or acts on the
  files; a failing call leaves the files as they were.
\<close>

definition syscall :: "(nat \<Rightarrow> files \<Rightarrow> errno + 'a \<times> files) \<Rightarrow> ('z, 'a res) io" where
  "syscall f = State (\<lambda>w.
     let w' = w\<lparr>tick := Suc (tick w)\<rparr> in
     case fault w (tick w) of
       Some e \<Rightarrow> (Inl (Sys e), w')
     | None \<Rightarrow> (case f (umask w) (fs w) of
         Inl e \<Rightarrow> (Inl (Sys e), w')
       | Inr (a, f') \<Rightarrow> (Inr a, w'\<lparr>fs := f'\<rparr>)))"

text \<open>The error part of a call whose value the source drops.\<close>

fun err_of :: "goerr + 'a \<Rightarrow> goerr option" where
  "err_of (Inl e) = Some e"
| "err_of (Inr _) = None"

definition errs :: "('s, 'a res) state \<Rightarrow> ('s, goerr option) state" where
  "errs m = do { r \<leftarrow> m; State_Monad.return (err_of r) }"

definition lookup :: "files \<Rightarrow> string \<Rightarrow> errno + string \<times> node" where
  "lookup f p = (case resolve f p of
     None \<Rightarrow> Inl ELOOP
   | Some q \<Rightarrow> (case map_of f q of
       Some n \<Rightarrow> Inr (q, n)
     | None \<Rightarrow> if is_dir f q then Inr (q, Dir 493 (0, 0)) else Inl ENOENT))"

definition os_Stat :: "string \<Rightarrow> ('z, node res) io" where
  "os_Stat p = syscall (\<lambda>um f. case lookup f p of Inl e \<Rightarrow> Inl e | Inr (q, n) \<Rightarrow> Inr (n, f))"

definition os_Lstat :: "string \<Rightarrow> ('z, node res) io" where
  "os_Lstat p = syscall (\<lambda>um f. case map_of f p of
     Some n \<Rightarrow> Inr (n, f)
   | None \<Rightarrow> if is_dir f p then Inr (Dir 493 (0, 0), f) else Inl ENOENT)"

definition os_ReadFile :: "string \<Rightarrow> ('z, string res) io" where
  "os_ReadFile p = syscall (\<lambda>um f. case lookup f p of
     Inl e \<Rightarrow> Inl e
   | Inr (q, Reg c _ _) \<Rightarrow> Inr (c, f)
   | Inr (q, Dir _ _) \<Rightarrow> Inl EISDIR
   | Inr (q, _) \<Rightarrow> Inl EINVAL)"

text \<open>
  \<^verbatim>\<open>os.OpenFile\<close> for writing, with the flags the sources combine: whether the file may be created,
  whether it must be new (\<^verbatim>\<open>O_EXCL\<close>, which a symbolic link is not either), and whether it is truncated. The value is the file's own path.
\<close>

definition os_Open :: "bool \<Rightarrow> bool \<Rightarrow> bool \<Rightarrow> nat \<Rightarrow> string \<Rightarrow> ('z, string res) io" where
  "os_Open create excl trunc m p = syscall (\<lambda>um f. if excl \<and> map_of f p \<noteq> None then Inl EEXIST else case lookup f p of
     Inl ENOENT \<Rightarrow> (case resolve f p of
         None \<Rightarrow> Inl ELOOP
       | Some q \<Rightarrow> if create \<and> is_dir f (path_Dir q)
           then Inr (q, AList.update q (Reg [] (effective um m) (0, 0)) f) else Inl ENOENT)
   | Inl e \<Rightarrow> Inl e
   | Inr (q, n) \<Rightarrow>
       if excl then Inl EEXIST
       else (case n of
         Reg c m' o1 \<Rightarrow> Inr (q, if trunc then AList.update q (Reg [] m' o1) f else f)
       | Dir _ _ \<Rightarrow> Inl EISDIR
       | _ \<Rightarrow> Inr (q, f)))"

text \<open>A write at an offset inside the file: what the file had beyond the written bytes stays.\<close>

definition os_WriteAt :: "string \<Rightarrow> nat \<Rightarrow> string \<Rightarrow> ('z, goerr option) io" where
  "os_WriteAt q off s = errs (syscall (\<lambda>um f. case map_of f q of
     Some (Reg c m o1) \<Rightarrow>
       Inr ((), AList.update q (Reg (take off c @ s @ drop (off + length s) c) m o1) f)
   | _ \<Rightarrow> Inr ((), f)))"

definition os_Write :: "string \<Rightarrow> string \<Rightarrow> ('z, goerr option) io" where
  "os_Write q s = os_WriteAt q 0 s"

text \<open>
  A sequence of \<^verbatim>\<open>fmt.Fprintf\<close> on an open file whose errors are ignored: a failed write does not
  move the file's offset.
\<close>

fun fprints :: "string \<Rightarrow> nat \<Rightarrow> string list \<Rightarrow> ('z, unit) io" where
  "fprints q off [] = State_Monad.return ()"
| "fprints q off (s # ss) = do {
     e \<leftarrow> os_WriteAt q off s;
     fprints q (if e = None then off + length s else off) ss }"

text \<open>\<^verbatim>\<open>os.WriteFile\<close>: open with \<^verbatim>\<open>O_CREATE|O_TRUNC\<close>, then write; the write alone may fail.\<close>

definition os_WriteFile :: "string \<Rightarrow> string \<Rightarrow> nat \<Rightarrow> ('z, goerr option) io" where
  "os_WriteFile p s m = do {
     r \<leftarrow> os_Open True False True m p;
     (case r of Inl e \<Rightarrow> State_Monad.return (Some e) | Inr q \<Rightarrow> os_Write q s) }"

text \<open>Closing a file: nothing is buffered, but the call can fail.\<close>

definition os_Close :: "('z, goerr option) io" where
  "os_Close = errs (syscall (\<lambda>um f. Inr ((), f)))"

definition os_Create :: "string \<Rightarrow> ('z, string res) io" where
  "os_Create p = os_Open True False True 438 p"

definition has_child :: "files \<Rightarrow> string \<Rightarrow> bool" where
  "has_child f p \<longleftrightarrow> (\<exists>q \<in> set (map fst f). HasPrefix q (p @ ''/''))"

definition os_Remove :: "string \<Rightarrow> ('z, goerr option) io" where
  "os_Remove p = errs (syscall (\<lambda>um f. case map_of f p of
     None \<Rightarrow> Inl ENOENT
   | Some (Dir _ _) \<Rightarrow> if has_child f p then Inl ENOTEMPTY else Inr ((), AList.delete p f)
   | Some _ \<Rightarrow> Inr ((), AList.delete p f)))"

definition below :: "string \<Rightarrow> string \<Rightarrow> bool" where
  "below p q \<longleftrightarrow> q = p \<or> HasPrefix q (p @ ''/'')"

text \<open>\<^verbatim>\<open>os.RemoveAll\<close>; it does nothing for the empty path.\<close>

definition os_RemoveAll :: "string \<Rightarrow> ('z, goerr option) io" where
  "os_RemoveAll p =
     (if p = [] then State_Monad.return None
      else errs (syscall (\<lambda>um f. Inr ((), filter (\<lambda>(q, n). \<not> below p q) f))))"

text \<open>\<^verbatim>\<open>os.Rename\<close> of anything but a directory, which is all the sources rename.\<close>

definition os_Rename :: "string \<Rightarrow> string \<Rightarrow> ('z, goerr option) io" where
  "os_Rename a b = errs (syscall (\<lambda>um f. case map_of f a of
     None \<Rightarrow> Inl ENOENT
   | Some (Dir _ _) \<Rightarrow> Inl EINVAL
   | Some n \<Rightarrow>
       if \<not> is_dir f (path_Dir b) then Inl ENOENT
       else if is_dir f b then Inl EEXIST
       else Inr ((), AList.update b n (AList.delete a f))))"

definition os_Mkdir :: "string \<Rightarrow> nat \<Rightarrow> ('z, goerr option) io" where
  "os_Mkdir p m = errs (syscall (\<lambda>um f.
     if map_of f p \<noteq> None \<or> is_dir f p then Inl EEXIST
     else if \<not> is_dir f (path_Dir p) then Inl ENOENT
     else Inr ((), AList.update p (Dir (effective um m) (0, 0)) f)))"

text \<open>The directories that \<^verbatim>\<open>os.MkdirAll\<close> may have to create, outermost first.\<close>

definition dir_prefixes :: "string \<Rightarrow> string list" where
  "dir_prefixes p =
     (let cs = filter (\<lambda>c. c \<noteq> []) (Split p (CHR ''/''))
      in map (\<lambda>i. (if HasPrefix p ''/'' then ''/'' else []) @ Join (take (Suc i) cs) ''/'')
           [0..<length cs])"

fun mkdirs :: "nat \<Rightarrow> string list \<Rightarrow> files \<Rightarrow> errno + files" where
  "mkdirs m [] f = Inr f"
| "mkdirs m (p # ps) f =
     (case lookup f p of
        Inr (_, Dir _ _) \<Rightarrow> mkdirs m ps f
      | Inr _ \<Rightarrow> Inl ENOTDIR
      | Inl ENOENT \<Rightarrow> if map_of f p = None then mkdirs m ps (AList.update p (Dir m (0, 0)) f) else Inl EEXIST
      | Inl e \<Rightarrow> Inl e)"

definition os_MkdirAll :: "string \<Rightarrow> nat \<Rightarrow> ('z, goerr option) io" where
  "os_MkdirAll p m = errs (syscall (\<lambda>um f. case mkdirs (effective um m) (dir_prefixes p) f of
     Inl e \<Rightarrow> Inl e | Inr f' \<Rightarrow> Inr ((), f')))"

definition os_Chmod :: "string \<Rightarrow> nat \<Rightarrow> ('z, goerr option) io" where
  "os_Chmod p m = errs (syscall (\<lambda>um f. case lookup f p of
     Inl e \<Rightarrow> Inl e | Inr (q, n) \<Rightarrow> Inr ((), AList.update q (set_perm m n) f)))"

definition os_Chown :: "string \<Rightarrow> int \<Rightarrow> int \<Rightarrow> ('z, goerr option) io" where
  "os_Chown p u g = errs (syscall (\<lambda>um f. case lookup f p of
     Inl e \<Rightarrow> Inl e | Inr (q, n) \<Rightarrow> Inr ((), AList.update q (set_owner (u, g) n) f)))"

definition os_Symlink :: "string \<Rightarrow> string \<Rightarrow> ('z, goerr option) io" where
  "os_Symlink t p = errs (syscall (\<lambda>um f.
     if map_of f p \<noteq> None \<or> is_dir f p then Inl EEXIST
     else if \<not> is_dir f (path_Dir p) then Inl ENOENT
     else Inr ((), AList.update p (Link t) f)))"

definition os_Readlink :: "string \<Rightarrow> ('z, string res) io" where
  "os_Readlink p = syscall (\<lambda>um f. case map_of f p of
     None \<Rightarrow> Inl ENOENT | Some (Link t) \<Rightarrow> Inr (t, f) | Some _ \<Rightarrow> Inl EINVAL)"

definition os_Mkfifo :: "string \<Rightarrow> nat \<Rightarrow> ('z, goerr option) io" where
  "os_Mkfifo p m = errs (syscall (\<lambda>um f.
     if map_of f p \<noteq> None \<or> is_dir f p then Inl EEXIST
     else if \<not> is_dir f (path_Dir p) then Inl ENOENT
     else Inr ((), AList.update p (Fifo (effective um m) (0, 0)) f)))"

text \<open>\<^verbatim>\<open>os.ReadDir\<close>: the entries of a directory by name, in order.\<close>

definition children :: "files \<Rightarrow> string \<Rightarrow> (string \<times> node) list" where
  "children f p = filter (\<lambda>(q, n). path_Dir q = Clean p \<and> q \<noteq> Clean p) f"

definition os_ReadDir :: "string \<Rightarrow> ('z, (string \<times> node) list res) io" where
  "os_ReadDir p = syscall (\<lambda>um f. case lookup f p of
     Inl e \<Rightarrow> Inl e
   | Inr (q, Dir _ _) \<Rightarrow>
       Inr (map (\<lambda>n. (n, the (map_of f (path_Join [q, n]))))
              (sort (remdups (map (path_Base \<circ> fst) (children f q)))), f)
   | Inr _ \<Rightarrow> Inl ENOTDIR)"

definition os_CreateTemp :: "string \<Rightarrow> string \<Rightarrow> ('z, string res) io" where
  "os_CreateTemp dir pre = do {
     w \<leftarrow> State_Monad.get;
     os_Open True True False 384 (path_Join [dir, pre @ rand w (tick w)]) }"

subsection \<open>Clock, commands and map order\<close>

definition time_Now :: "('z, int) io" where
  "time_Now = State (\<lambda>w. (now w (tick w), w\<lparr>tick := Suc (tick w)\<rparr>))"

definition time_Sleep :: "int \<Rightarrow> ('z, unit) io" where
  "time_Sleep d = State (\<lambda>w. ((), w\<lparr>tick := Suc (tick w), sleeps := sleeps w @ [d]\<rparr>))"

definition exec_LookPath :: "string \<Rightarrow> ('z, string res) io" where
  "exec_LookPath name = State (\<lambda>w. (lookpath w (tick w) name, w\<lparr>tick := Suc (tick w)\<rparr>))"

text \<open>\<^verbatim>\<open>runtime.GOOS == name\<close>.\<close>

definition is_goos :: "string \<Rightarrow> ('z, bool) io" where
  "is_goos name = State (\<lambda>w. (goos w = name, w))"

text \<open>\<^verbatim>\<open>ctx.Err()\<close>, and the \<^verbatim>\<open>select\<close> on \<^verbatim>\<open>ctx.Done()\<close> and \<^verbatim>\<open>time.After(d)\<close>.\<close>

definition ctx_Err :: "('z, goerr option) io" where
  "ctx_Err = State (\<lambda>w. (ctx w (tick w), w\<lparr>tick := Suc (tick w)\<rparr>))"

definition done_or_after :: "int \<Rightarrow> ('z, goerr option) io" where
  "done_or_after d = State (\<lambda>w.
     let w' = w\<lparr>tick := Suc (tick w)\<rparr> in
     case ctx w (tick w) of
       Some e \<Rightarrow> (Some e, w')
     | None \<Rightarrow> (None, w'\<lparr>sleeps := sleeps w @ [d]\<rparr>))"

definition spawn :: "string list \<Rightarrow> ('z, proc_end) io" where
  "spawn args = State (\<lambda>w.
     case exec w (tick w) args (fs w) of
       (r, f') \<Rightarrow> (r, w\<lparr>tick := Suc (tick w), trace := trace w @ [args], fs := f'\<rparr>))"

text \<open>The order of a \<^verbatim>\<open>range\<close> over a map: some permutation of its entries.\<close>

definition permute :: "nat list \<Rightarrow> 'a list \<Rightarrow> 'a list" where
  "permute p xs = (if sort p = [0..<length xs] then map (\<lambda>i. xs ! i) p else xs)"

definition range_map :: "'a list \<Rightarrow> ('z, 'a list) io" where
  "range_map xs = State (\<lambda>w.
     (permute (shuffle w (tick w) (length xs)) xs, w\<lparr>tick := Suc (tick w)\<rparr>))"

text \<open>
  A \<^verbatim>\<open>for ... range\<close> loop over local variables: the body returns \<^verbatim>\<open>Inl\<close> to leave the loop with a
  value and \<^verbatim>\<open>Inr\<close> to go on.
\<close>

fun for_range :: "('a \<Rightarrow> 'b \<Rightarrow> ('s, 'r + 'b) state) \<Rightarrow> 'a list \<Rightarrow> 'b \<Rightarrow> ('s, 'r + 'b) state" where
  "for_range body [] b = State_Monad.return (Inr b)"
| "for_range body (x # xs) b = do {
     r \<leftarrow> body x b;
     (case r of Inl v \<Rightarrow> State_Monad.return (Inl v) | Inr b' \<Rightarrow> for_range body xs b') }"

text \<open>A loop whose body either returns from the function with an error or goes on.\<close>

fun for_err :: "('a \<Rightarrow> ('s, goerr option) state) \<Rightarrow> 'a list \<Rightarrow> ('s, goerr option) state" where
  "for_err body [] = State_Monad.return None"
| "for_err body (x # xs) = do {
     r \<leftarrow> body x;
     (case r of Some e \<Rightarrow> State_Monad.return (Some e) | None \<Rightarrow> for_err body xs) }"

text \<open>A loop whose body never leaves it.\<close>

fun for_all :: "('a \<Rightarrow> ('s, unit) state) \<Rightarrow> 'a list \<Rightarrow> ('s, unit) state" where
  "for_all body [] = State_Monad.return ()"
| "for_all body (x # xs) = do { body x; for_all body xs }"

text \<open>An operation that goes on only if the one before it did not panic.\<close>

definition unless_panic ::
  "('s, 'a outcome) state \<Rightarrow> ('a \<Rightarrow> ('s, 'b outcome) state) \<Rightarrow> ('s, 'b outcome) state" where
  "unless_panic m k = do {
     r \<leftarrow> m;
     (case r of Panic s \<Rightarrow> State_Monad.return (Panic s) | Ret x \<Rightarrow> k x) }"

text \<open>A world in which nothing fails, every command succeeds silently and maps keep their order.\<close>

definition calm :: "files \<Rightarrow> world" where
  "calm f = \<lparr>fs = f, tick = 0, trace = [], umask = 18, fault = (\<lambda>_. None),
     exec = (\<lambda>_ _ g. (Exited 0 [] [] [], g)), now = (\<lambda>_. 0), rand = (\<lambda>_. ''1''),
     shuffle = (\<lambda>_ n. [0..<n]), ctx = (\<lambda>_. None), sleeps = [],
     lookpath = (\<lambda>_ p. Inl (ExecNotFound p)), goos = ''linux''\<rparr>"

lemma calm_simps [simp]:
  "fs (calm f) = f" "fault (calm f) = (\<lambda>_. None)" "lookpath (calm f) = (\<lambda>_ p. Inl (ExecNotFound p))"
  "now (calm f) = (\<lambda>_. 0)" "ctx (calm f) = (\<lambda>_. None)" "goos (calm f) = ''linux''" "tick (calm f) = 0"
  "exec (calm f) = (\<lambda>_ _ g. (Exited 0 [] [] [], g))" "trace (calm f) = []" "sleeps (calm f) = []"
  by (simp_all add: calm_def)

subsection \<open>Symbolic execution\<close>

lemma run_errs [simp]:
  "run_state (errs m) s = (case run_state m s of (r, s') \<Rightarrow> (err_of r, s'))"
  by (simp add: errs_def split: prod.splits)

text \<open>A permutation of a list has the same elements, with the same multiplicity.\<close>

lemma mset_permute [simp]: "mset (permute p xs) = mset xs"
proof (cases "sort p = [0..<length xs]")
  case True
  then have "mset p = mset [0..<length xs]"
    by (metis mset_sort)
  then have "mset (map (\<lambda>i. xs ! i) p) = mset (map (\<lambda>i. xs ! i) [0..<length xs])"
    by (simp only: mset_map)
  with True show ?thesis
    by (simp add: permute_def map_nth)
next
  case False
  then show ?thesis
    by (simp add: permute_def)
qed

lemma set_permute [simp]: "set (permute p xs) = set xs"
  by (metis mset_permute set_mset_mset)

lemma distinct_map_permute [simp]: "distinct (map f (permute p xs)) \<longleftrightarrow> distinct (map f xs)"
  by (rule mset_eq_imp_distinct_iff) (simp only: mset_map mset_permute)

lemma length_permute [simp]: "length (permute p xs) = length xs"
  by (metis mset_permute size_mset)

text \<open>What every round of a loop keeps holds of the values it ends with.\<close>

lemma for_range_inv:
  assumes "run_state (for_range g xs b) w = (Inr b', w')" and "J b"
    and "\<And>x b w b' w'. x \<in> set xs \<Longrightarrow> J b \<Longrightarrow> run_state (g x b) w = (Inr b', w') \<Longrightarrow> J b'"
  shows "J b'"
  using assms
proof (induction xs arbitrary: b w)
  case (Cons x xs)
  obtain r w1 where r: "run_state (g x b) w = (r, w1)" by fastforce
  with Cons.prems(1) obtain b1 where b1: "r = Inr b1"
    by (cases r) auto
  with r Cons.prems(3) [OF _ Cons.prems(2), of x w b1 w1] have J: "J b1" by simp
  from r b1 Cons.prems(1) have "run_state (for_range g xs b1) w1 = (Inr b', w')" by simp
  then show ?case
    by (rule Cons.IH [OF _ J]) (rule Cons.prems(3), auto)
qed auto

subsection \<open>What an operation leaves unchanged\<close>

definition keeps :: "('s \<Rightarrow> 's \<Rightarrow> bool) \<Rightarrow> ('s, 'a) state \<Rightarrow> bool" where
  "keeps R m \<longleftrightarrow> (\<forall>s. R s (snd (run_state m s)))"

lemma keepsI: "(\<And>s. R s (snd (run_state m s))) \<Longrightarrow> keeps R m"
  by (simp add: keeps_def)

lemma keepsD: "keeps R m \<Longrightarrow> R s (snd (run_state m s))"
  by (simp add: keeps_def)

text \<open>
  The frame rules of the monad hold for every preorder on states; a component's frame property is
  one application of them to the rules of the operations it is built from.
\<close>

locale frame_rel =
  fixes R :: "'s \<Rightarrow> 's \<Rightarrow> bool"
  assumes frame_refl: "R s s"
    and frame_trans: "R s t \<Longrightarrow> R t u \<Longrightarrow> R s u"
begin

lemma keeps_return: "keeps R (State_Monad.return x)"
  by (simp add: keeps_def frame_refl)

lemma keeps_get: "keeps R State_Monad.get"
  by (simp add: keeps_def frame_refl)

lemma keeps_bind: "keeps R m \<Longrightarrow> (\<And>x. keeps R (k x)) \<Longrightarrow> keeps R (State_Monad.bind m k)"
  unfolding keeps_def by (auto simp: split_beta intro: frame_trans)

lemma keeps_errs: "keeps R m \<Longrightarrow> keeps R (errs m)"
  by (simp add: keeps_def split_beta)

lemma keeps_for_range: "(\<And>x b. x \<in> set xs \<Longrightarrow> keeps R (body x b)) \<Longrightarrow> keeps R (for_range body xs b)"
proof (induction xs arbitrary: b)
  case Nil
  then show ?case by (simp add: keeps_return)
next
  case (Cons x xs)
  then show ?case
    by (auto intro!: keeps_bind keeps_return split: sum.split)
qed

lemma keeps_for_err: "(\<And>x. x \<in> set xs \<Longrightarrow> keeps R (body x)) \<Longrightarrow> keeps R (for_err body xs)"
proof (induction xs)
  case Nil
  then show ?case by (simp add: keeps_return)
next
  case (Cons x xs)
  then show ?case
    by (auto intro!: keeps_bind keeps_return split: option.split)
qed

lemma keeps_for_all: "(\<And>x. x \<in> set xs \<Longrightarrow> keeps R (body x)) \<Longrightarrow> keeps R (for_all body xs)"
  by (induction xs) (auto intro!: keeps_bind keeps_return)

lemmas keeps_rules = keeps_return keeps_get keeps_bind keeps_errs keeps_for_range keeps_for_err keeps_for_all

end

text \<open>A frame that reading the clock respects: so does whatever only computes and reads the clock.\<close>

locale clock_frame = frame_rel R for R :: "'z world_scheme \<Rightarrow> 'z world_scheme \<Rightarrow> bool" +
  assumes keeps_time_Now: "keeps R time_Now"

text \<open>A frame that waiting respects as well: retrying then keeps whatever the retried call keeps.\<close>

locale wait_frame = clock_frame R for R :: "'z world_scheme \<Rightarrow> 'z world_scheme \<Rightarrow> bool" +
  assumes keeps_ctx_Err: "keeps R ctx_Err"
    and keeps_done_or_after: "keeps R (done_or_after d)"

lemma keeps_if: "(b \<Longrightarrow> keeps R m) \<Longrightarrow> (\<not> b \<Longrightarrow> keeps R n) \<Longrightarrow> keeps R (if b then m else n)"
  by simp

lemma keeps_option:
  "keeps R m \<Longrightarrow> (\<And>x. v = Some x \<Longrightarrow> keeps R (k x)) \<Longrightarrow> keeps R (case v of None \<Rightarrow> m | Some x \<Rightarrow> k x)"
  by (cases v) auto

lemma keeps_sum:
  "(\<And>x. v = Inl x \<Longrightarrow> keeps R (m x)) \<Longrightarrow> (\<And>x. v = Inr x \<Longrightarrow> keeps R (k x)) \<Longrightarrow>
   keeps R (case v of Inl x \<Rightarrow> m x | Inr x \<Rightarrow> k x)"
  by (cases v) auto

lemma keeps_prod: "(\<And>x y. v = (x, y) \<Longrightarrow> keeps R (k x y)) \<Longrightarrow> keeps R (case v of (x, y) \<Rightarrow> k x y)"
  by (cases v) auto

lemma keeps_list:
  "keeps R m \<Longrightarrow> (\<And>x xs. keeps R (k x xs)) \<Longrightarrow> keeps R (case v of [] \<Rightarrow> m | x # xs \<Rightarrow> k x xs)"
  by (cases v) auto

lemma keeps_node:
  "(\<And>c m u. keeps R (k1 c m u)) \<Longrightarrow> (\<And>m u. keeps R (k2 m u)) \<Longrightarrow> (\<And>t. keeps R (k3 t)) \<Longrightarrow>
   (\<And>m u. keeps R (k4 m u)) \<Longrightarrow>
   keeps R (case v of Reg c m u \<Rightarrow> k1 c m u | Dir m u \<Rightarrow> k2 m u | Link t \<Rightarrow> k3 t | Fifo m u \<Rightarrow> k4 m u)"
  by (cases v) auto

lemmas keeps_cases = keeps_if keeps_option keeps_sum keeps_prod keeps_list keeps_node

end
