(* ===== verification/Frame.thy ===== *)
theory Frame
  imports World
begin

text \<open>
  Which files an operation may change. \<^verbatim>\<open>confined S\<close> relates two worlds when every file outside \<^verbatim>\<open>S\<close>
  is the same in both, for commands that themselves stay within \<^verbatim>\<open>S\<close> and as long as no path of
  \<^verbatim>\<open>S\<close> is a symbolic link (a write through a link would change the file it points to). It is a
  preorder, so it interprets \<^verbatim>\<open>frame_rel\<close>, and every system call has a rule for it.
\<close>

definition no_links :: "string set \<Rightarrow> files \<Rightarrow> bool" where
  "no_links S f \<longleftrightarrow> (\<forall>p \<in> S. \<forall>t. map_of f p \<noteq> Some (Link t))"

definition agree_off :: "string set \<Rightarrow> files \<Rightarrow> files \<Rightarrow> bool" where
  "agree_off S f f' \<longleftrightarrow> (\<forall>p. p \<notin> S \<longrightarrow> map_of f' p = map_of f p)"

definition step_within :: "string set \<Rightarrow> files \<Rightarrow> files \<Rightarrow> bool" where
  "step_within S f f' \<longleftrightarrow> (no_links S f \<longrightarrow> no_links S f' \<and> agree_off S f f')"

text \<open>The external commands change only files of \<^verbatim>\<open>S\<close>, and make no links there.\<close>

definition cmds_within :: "string set \<Rightarrow> (nat \<Rightarrow> string list \<Rightarrow> files \<Rightarrow> proc_end \<times> files) \<Rightarrow> bool" where
  "cmds_within S ex \<longleftrightarrow> (\<forall>t a f. step_within S f (snd (ex t a f)))"

definition confined :: "string set \<Rightarrow> 'z world_scheme \<Rightarrow> 'z world_scheme \<Rightarrow> bool" where
  "confined S w w' \<longleftrightarrow> exec w' = exec w \<and> (cmds_within S (exec w) \<longrightarrow> step_within S (fs w) (fs w'))"

lemma step_within_refl [simp]: "step_within S f f"
  by (simp add: step_within_def agree_off_def)

lemma step_within_trans: "step_within S f g \<Longrightarrow> step_within S g h \<Longrightarrow> step_within S f h"
  by (auto simp: step_within_def agree_off_def)

interpretation confined: wait_frame "confined S"
  by unfold_locales
     (auto simp: confined_def keeps_def time_Now_def ctx_Err_def done_or_after_def Let_def
       intro: step_within_trans split: option.splits)

lemmas within_rules [frame_intros] = confined.keeps_rules confined.keeps_time_Now
  confined.keeps_ctx_Err confined.keeps_done_or_after keeps_cases

lemma withinD:
  assumes "keeps (confined S) m" and "cmds_within S (exec w)" and "no_links S (fs w)" and "p \<notin> S"
  shows "map_of (fs (snd (run_state m w))) p = map_of (fs w) p"
  using assms keepsD [of "confined S" m w] by (auto simp: confined_def step_within_def agree_off_def)

lemma within_mono:
  assumes "confined S w w'" and "S \<subseteq> T" and "cmds_within S (exec w)" and "no_links S (fs w)" and "p \<notin> T"
  shows "map_of (fs w') p = map_of (fs w) p"
  using assms by (auto simp: confined_def step_within_def agree_off_def)

lemma within_syscall:
  assumes "\<And>um f a f'. no_links S f \<Longrightarrow> F um f = Inr (a, f') \<Longrightarrow> step_within S f f'"
  shows "keeps (confined S) (syscall F)"
proof (rule keepsI)
  fix w :: "'z world_scheme"
  show "confined S w (snd (run_state (syscall F) w))"
    using assms
    by (auto simp: syscall_def confined_def step_within_def agree_off_def Let_def
        split: option.splits sum.splits)
qed

lemma step_within_update: "p \<in> S \<Longrightarrow> (\<And>t. n \<noteq> Link t) \<Longrightarrow> step_within S f (AList.update p n f)"
  by (auto simp: step_within_def no_links_def agree_off_def update_conv')

lemma step_within_delete: "p \<in> S \<Longrightarrow> step_within S f (AList.delete p f)"
  by (auto simp: step_within_def no_links_def agree_off_def delete_conv')

lemma resolve_no_link: "(\<And>t. map_of f p \<noteq> Some (Link t)) \<Longrightarrow> resolve f p = Some p"
  by (auto simp: resolve_def eval_nat_numeral split: option.split node.split)

lemma resolve_no_links [simp]: "no_links S f \<Longrightarrow> p \<in> S \<Longrightarrow> resolve f p = Some p"
  by (rule resolve_no_link) (simp add: no_links_def)

lemma lookup_no_links: "no_links S f \<Longrightarrow> p \<in> S \<Longrightarrow> lookup f p = Inr (q, n) \<Longrightarrow> q = p \<and> (\<forall>t. n \<noteq> Link t)"
  by (auto simp: lookup_def no_links_def split: option.splits if_splits)

lemma set_perm_Link [simp]: "set_perm m n = Link t \<longleftrightarrow> n = Link t"
  by (auto simp: set_perm_def split: node.splits)

lemma set_owner_Link [simp]: "set_owner m n = Link t \<longleftrightarrow> n = Link t"
  by (auto simp: set_owner_def split: node.splits)

subsection \<open>Rules for the system calls\<close>

lemma within_reads [frame_intros]:
  "keeps (confined S) (os_Stat p)"
  "keeps (confined S) (os_Lstat p)"
  "keeps (confined S) (os_ReadFile p)"
  "keeps (confined S) (os_ReadDir p)"
  "keeps (confined S) (os_Readlink p)"
  unfolding os_Stat_def os_Lstat_def os_ReadFile_def os_ReadDir_def os_Readlink_def
  by (rule within_syscall; auto split: sum.splits option.splits node.splits prod.splits if_splits)+

lemma within_env [frame_intros]:
  "keeps (confined S) (exec_LookPath p)" "keeps (confined S) (is_goos p)" "keeps (confined S) (time_Sleep d)"
  by (auto simp: keeps_def exec_LookPath_def is_goos_def time_Sleep_def confined_def)

lemma within_range_map [frame_intros]: "keeps (confined S) (range_map xs)"
  by (simp add: keeps_def range_map_def confined_def)

lemma within_spawn [frame_intros]: "keeps (confined S) (spawn args)"
proof (rule keepsI)
  fix w :: "'z world_scheme"
  have "cmds_within S (exec w) \<Longrightarrow> step_within S (fs w) (snd (exec w (tick w) args (fs w)))"
    by (simp add: cmds_within_def)
  then show "confined S w (snd (run_state (spawn args) w))"
    by (cases "exec w (tick w) args (fs w)") (simp add: spawn_def confined_def)
qed

lemma within_Open [frame_intros]: "p \<in> S \<Longrightarrow> keeps (confined S) (os_Open c e t m p)"
  unfolding os_Open_def
  by (rule within_syscall)
     (auto split: sum.splits errno.splits option.splits node.splits if_splits prod.splits
       dest: lookup_no_links intro!: step_within_update)

text \<open>The path a successful open hands to the write is a path of \<^verbatim>\<open>S\<close>.\<close>

lemma Open_no_links:
  assumes "run_state (os_Open c e t m p) w = (Inr q, w')" and "p \<in> S" and "no_links S (fs w)"
  shows "q = p"
  using assms
  by (auto simp: os_Open_def syscall_def Let_def dest: lookup_no_links
      split: option.splits sum.splits errno.splits prod.splits if_splits node.splits)

lemma within_WriteAt [frame_intros]: "p \<in> S \<Longrightarrow> keeps (confined S) (os_WriteAt p off s)"
  unfolding os_WriteAt_def
  by (auto intro!: confined.keeps_errs within_syscall step_within_update split: option.splits node.splits)

lemma within_Write: "p \<in> S \<Longrightarrow> keeps (confined S) (os_Write p s)"
  unfolding os_Write_def by (rule within_WriteAt)

text \<open>
  What is done with an open file: with no links around it is the file of the path opened; with links
  the frame promises nothing but that the commands are the same, which holds for any set of files.
\<close>

lemma within_open:
  fixes m :: "('z, 'a) io"
  assumes p: "p \<in> S"
    and m: "m = do { r \<leftarrow> os_Open c e t pm p; (case r of Inl er \<Rightarrow> f er | Inr q \<Rightarrow> g q) }"
    and f: "\<And>er. keeps (confined S) (f er)" and g: "keeps (confined S) (g p)" and any: "\<And>q. keeps (confined UNIV) (g q)"
  shows "keeps (confined S) m"
proof (rule keepsI)
  fix w :: "'z world_scheme"
  obtain r w1 where o1: "run_state (os_Open c e t pm p) w = (r, w1)"
    by fastforce
  with keepsD [OF within_Open [OF p, of c e t pm], of w] have w1: "confined S w w1"
    by simp
  show "confined S w (snd (run_state m w))"
  proof (cases r)
    case (Inl er)
    with o1 w1 keepsD [OF f, of w1 er] show ?thesis
      unfolding m by (auto intro: confined.frame_trans)
  next
    case (Inr q)
    let ?w2 = "snd (run_state (g q) w1)"
    have "q = p \<Longrightarrow> confined S w1 ?w2"
      using keepsD [OF g, of w1] by simp
    moreover have "no_links S (fs w) \<Longrightarrow> q = p"
      using Open_no_links o1 Inr p by blast
    moreover have "exec ?w2 = exec w1"
      using keepsD [OF any [of q], of w1] by (simp add: confined_def)
    ultimately have "confined S w ?w2"
      using w1 by (auto simp: confined_def step_within_def agree_off_def)
    with o1 Inr show ?thesis
      unfolding m by simp
  qed
qed

lemma within_open_write:
  fixes m :: "('z, 'a) io"
  assumes p: "p \<in> S"
    and m: "m = do { r \<leftarrow> os_Open c e t pm p;
                     (case r of Inl er \<Rightarrow> f er | Inr q \<Rightarrow> do { x \<leftarrow> os_Write q s; g x }) }"
    and f: "\<And>er. keeps (confined S) (f er)" and g: "\<And>x. keeps (confined S) (g x)" and any: "\<And>x. keeps (confined UNIV) (g x)"
  shows "keeps (confined S) m"
  by (rule within_open [OF p m f]) (auto intro: confined.keeps_bind within_Write p g any)

lemma within_WriteFile [frame_intros]: "p \<in> S \<Longrightarrow> keeps (confined S) (os_WriteFile p s m)"
proof (rule within_open_write)
  show "os_WriteFile p s m = do { r \<leftarrow> os_Open True False True m p;
      (case r of Inl e \<Rightarrow> State_Monad.return (Some e) | Inr q \<Rightarrow> do { x \<leftarrow> os_Write q s; State_Monad.return x }) }"
    by (simp add: os_WriteFile_def cong: sum.case_cong)
qed (auto intro: confined.keeps_return)

lemma within_Remove [frame_intros]: "p \<in> S \<Longrightarrow> keeps (confined S) (os_Remove p)"
  unfolding os_Remove_def
  by (rule confined.keeps_errs, rule within_syscall)
     (auto split: option.splits node.splits if_splits intro!: step_within_delete)

lemma within_Rename [frame_intros]: "p \<in> S \<Longrightarrow> q \<in> S \<Longrightarrow> keeps (confined S) (os_Rename p q)"
  unfolding os_Rename_def
  by (rule confined.keeps_errs, rule within_syscall)
     (auto split: option.splits node.splits if_splits simp: no_links_def
       intro!: step_within_trans [OF step_within_delete step_within_update])

lemma within_Mkdir [frame_intros]: "p \<in> S \<Longrightarrow> keeps (confined S) (os_Mkdir p m)"
  unfolding os_Mkdir_def
  by (rule confined.keeps_errs, rule within_syscall)
     (auto split: if_splits intro!: step_within_update)

lemma within_Mkfifo [frame_intros]: "p \<in> S \<Longrightarrow> keeps (confined S) (os_Mkfifo p m)"
  unfolding os_Mkfifo_def
  by (rule confined.keeps_errs, rule within_syscall)
     (auto split: if_splits intro!: step_within_update)

lemma mkdirs_within: "set ps \<subseteq> S \<Longrightarrow> mkdirs m ps f = Inr f' \<Longrightarrow> step_within S f f'"
  by (induction ps arbitrary: f)
     (auto split: sum.splits prod.splits node.splits errno.splits if_splits
       intro: step_within_trans [OF step_within_update])

lemma within_MkdirAll [frame_intros]: "set (dir_prefixes p) \<subseteq> S \<Longrightarrow> keeps (confined S) (os_MkdirAll p m)"
  unfolding os_MkdirAll_def
  by (rule confined.keeps_errs, rule within_syscall) (auto split: sum.splits dest: mkdirs_within)

lemma within_Chmod [frame_intros]: "p \<in> S \<Longrightarrow> keeps (confined S) (os_Chmod p m)"
  unfolding os_Chmod_def
  by (rule confined.keeps_errs, rule within_syscall)
     (auto split: sum.splits prod.splits dest: lookup_no_links intro!: step_within_update)

lemma within_Chown [frame_intros]: "p \<in> S \<Longrightarrow> keeps (confined S) (os_Chown p u g)"
  unfolding os_Chown_def
  by (rule confined.keeps_errs, rule within_syscall)
     (auto split: sum.splits prod.splits dest: lookup_no_links intro!: step_within_update)

lemma map_of_remove_below:
  "map_of (filter (\<lambda>(q, n). \<not> below p q) f) x = (if below p x then None else map_of f x)"
  by (induction f) auto

lemma within_RemoveAll [frame_intros]: "(\<And>q. below p q \<Longrightarrow> q \<in> S) \<Longrightarrow> keeps (confined S) (os_RemoveAll p)"
  unfolding os_RemoveAll_def
  by (intro keeps_if confined.keeps_return confined.keeps_errs within_syscall)
     (auto simp: map_of_remove_below step_within_def no_links_def agree_off_def split: if_splits)

text \<open>A loop over a map, for bodies whose frame depends on the entry.\<close>

lemma within_bind_range_map:
  fixes k :: "'a list \<Rightarrow> ('z, 'b) io"
  assumes "\<And>ys. set ys = set xs \<Longrightarrow> keeps (confined S) (k ys)"
  shows "keeps (confined S) (State_Monad.bind (range_map xs) k)"
proof (rule keepsI)
  fix w :: "'z world_scheme"
  let ?ys = "permute (shuffle w (tick w) (length xs)) xs"
  have "confined S w (w\<lparr>tick := Suc (tick w)\<rparr>)"
    by (simp add: confined_def)
  moreover have "keeps (confined S) (k ?ys)"
    by (rule assms) simp
  ultimately show "confined S w (snd (run_state (State_Monad.bind (range_map xs) k) w))"
    using confined.frame_trans keepsD by (fastforce simp: range_map_def)
qed

end
