(* ===== verification/Calm.thy ===== *)
theory Calm
  imports Frame
begin

text \<open>
  Running file operations in a world without faults: what the calls return and what the files are
  afterwards, for paths that hold a regular file or nothing and for directories that exist.
\<close>

text \<open>What a sequence of prints does to the files.\<close>

definition write_at :: "string \<Rightarrow> nat \<Rightarrow> string \<Rightarrow> files \<Rightarrow> files" where
  "write_at q off s f = (case map_of f q of
     Some (Reg c m o1) \<Rightarrow> AList.update q (Reg (take off c @ s @ drop (off + length s) c) m o1) f | _ \<Rightarrow> f)"

fun prints :: "string \<Rightarrow> nat \<Rightarrow> string list \<Rightarrow> files \<Rightarrow> files" where
  "prints q off [] f = f"
| "prints q off (s # ss) f = prints q (off + length s) ss (write_at q off s f)"

lemma run_fprints:
  "fault w = (\<lambda>_. None) \<Longrightarrow>
   run_state (fprints q off ss) w = ((), w\<lparr>tick := tick w + length ss, fs := prints q off ss (fs w)\<rparr>)"
proof (induction ss arbitrary: off w)
  case Nil
  then show ?case by simp
next
  case (Cons s ss)
  then have "run_state (os_WriteAt q off s) w = (None, w\<lparr>tick := Suc (tick w), fs := write_at q off s (fs w)\<rparr>)"
    by (simp add: os_WriteAt_def syscall_def write_at_def split: option.splits node.splits)
  with Cons show ?case by simp
qed

lemma map_of_prints:
  "map_of f q = Some (Reg c m o1) \<Longrightarrow> off \<le> length c \<Longrightarrow>
   map_of (prints q off ss f) = (map_of f)(q \<mapsto> Reg (take off c @ concat ss @ drop (off + length (concat ss)) c) m o1)"
proof (induction ss arbitrary: off f c)
  case Nil
  then show ?case by (simp add: map_upd_triv)
next
  case (Cons s ss)
  have "map_of (write_at q off s f) = (map_of f)(q \<mapsto> Reg (take off c @ s @ drop (off + length s) c) m o1)"
    using Cons.prems by (simp add: write_at_def update_conv')
  moreover define d where "d = take off c @ s @ drop (off + length s) c"
  moreover have "take (off + length s) d = take off c @ s" "off + length s \<le> length d"
    "drop (off + length s + n) d = drop (off + length s + n) c" for n
    using Cons.prems(2) by (simp_all add: d_def add.commute)
  ultimately show ?case
    using Cons.IH [of "write_at q off s f" d "off + length s"] by (auto simp: add.assoc fun_eq_iff)
qed

text \<open>A path that holds a regular file or nothing.\<close>

definition plain :: "files \<Rightarrow> string \<Rightarrow> bool" where
  "plain f p \<longleftrightarrow> \<not> is_dir f p \<and> (case map_of f p of None \<Rightarrow> True | Some (Reg _ _ _) \<Rightarrow> True | _ \<Rightarrow> False)"

definition text_of :: "files \<Rightarrow> string \<Rightarrow> string" where
  "text_of f p = (case map_of f p of Some (Reg c _ _) \<Rightarrow> c | _ \<Rightarrow> [])"

lemma plain_cases:
  assumes "plain f p"
  obtains "map_of f p = None" "lookup f p = Inl ENOENT" "resolve f p = Some p" "text_of f p = []"
        | c m o1 where "map_of f p = Some (Reg c m o1)" "lookup f p = Inr (p, Reg c m o1)" "text_of f p = c"
proof (cases "map_of f p")
  case None
  then have "resolve f p = Some p" by (simp add: resolve_no_link)
  with None assms that(1) show thesis by (simp add: lookup_def plain_def text_of_def)
next
  case (Some n)
  with assms obtain c m o1 where "n = Reg c m o1" by (auto simp: plain_def split: node.splits)
  with Some have "resolve f p = Some p" by (simp add: resolve_no_link)
  with Some \<open>n = _\<close> that(2) show thesis by (simp add: lookup_def text_of_def)
qed

lemma run_ReadFile_plain:
  assumes "fault w = (\<lambda>_. None)" and "plain (fs w) p"
  shows "run_state (os_ReadFile p) w =
    (if map_of (fs w) p = None then Inl (Sys ENOENT) else Inr (text_of (fs w) p), w\<lparr>tick := Suc (tick w)\<rparr>)"
  using assms(2) by (rule plain_cases) (simp_all add: os_ReadFile_def syscall_def assms(1))

lemma run_Open_plain:
  assumes "fault w = (\<lambda>_. None)" and "plain (fs w) p" and "is_dir (fs w) (path_Dir p)"
  shows "\<exists>f m o1. run_state (os_Open True False False pm p) w = (Inr p, w\<lparr>tick := Suc (tick w), fs := f\<rparr>) \<and>
           map_of f = (map_of (fs w))(p \<mapsto> Reg (text_of (fs w) p) m o1)"
  using assms(2)
proof (rule plain_cases)
  assume "map_of (fs w) p = None" "lookup (fs w) p = Inl ENOENT" "resolve (fs w) p = Some p" "text_of (fs w) p = []"
  then show ?thesis
    using assms(1,3)
    by (intro exI [of _ "AList.update p (Reg [] (effective (umask w) pm) (0, 0)) (fs w)"])
       (auto simp: os_Open_def syscall_def update_conv')
next
  fix c m o1
  assume "map_of (fs w) p = Some (Reg c m o1)" "lookup (fs w) p = Inr (p, Reg c m o1)" "text_of (fs w) p = c"
  then show ?thesis
    using assms(1)
    by (intro exI [of _ "fs w"] exI [of _ m] exI [of _ o1]) (simp add: os_Open_def syscall_def map_upd_triv)
qed

lemma lookup_Reg: "map_of f p = Some (Reg c m o1) \<Longrightarrow> lookup f p = Inr (p, Reg c m o1)"
  by (simp add: lookup_def resolve_no_link)

lemma lookup_Dir: "map_of f p = Some (Dir m o1) \<Longrightarrow> lookup f p = Inr (p, Dir m o1)"
  by (simp add: lookup_def resolve_no_link)

lemma run_Open_trunc:
  assumes "fault w = (\<lambda>_. None)" and "plain (fs w) p" and "is_dir (fs w) (path_Dir p)"
  shows "\<exists>f m o1. run_state (os_Open True False True pm p) w = (Inr p, w\<lparr>tick := Suc (tick w), fs := f\<rparr>) \<and>
           map_of f = (map_of (fs w))(p \<mapsto> Reg [] m o1)"
  using assms(2)
proof (rule plain_cases)
  assume "map_of (fs w) p = None" "lookup (fs w) p = Inl ENOENT" "resolve (fs w) p = Some p" "text_of (fs w) p = []"
  then show ?thesis
    using assms(1,3)
    by (intro exI [of _ "AList.update p (Reg [] (effective (umask w) pm) (0, 0)) (fs w)"])
       (auto simp: os_Open_def syscall_def update_conv')
next
  fix c m o1
  assume "map_of (fs w) p = Some (Reg c m o1)" "lookup (fs w) p = Inr (p, Reg c m o1)" "text_of (fs w) p = c"
  then show ?thesis
    using assms(1)
    by (intro exI [of _ "AList.update p (Reg [] m o1) (fs w)"] exI [of _ m] exI [of _ o1])
       (simp add: os_Open_def syscall_def update_conv')
qed

lemma run_Stat_dir:
  assumes "fault w = (\<lambda>_. None)" and "map_of (fs w) p = Some (Dir m o1)"
  shows "run_state (os_Stat p) w = (Inr (Dir m o1), w\<lparr>tick := Suc (tick w)\<rparr>)"
  using assms by (simp add: os_Stat_def syscall_def lookup_Dir)

lemma distinct_permute: "distinct (permute p xs) = distinct xs"
  by (metis mset_permute mset_eq_imp_distinct_iff)

text \<open>Writing a whole file, and reading it back.\<close>

lemma run_WriteFile_plain:
  assumes "fault w = (\<lambda>_. None)" and "plain (fs w) p" and "is_dir (fs w) (path_Dir p)"
  shows "\<exists>w' m o1. run_state (os_WriteFile p s pm) w = (None, w') \<and> fault w' = fault w \<and>
           map_of (fs w') = (map_of (fs w))(p \<mapsto> Reg s m o1)"
proof -
  obtain f m o1 where op: "run_state (os_Open True False True pm p) w = (Inr p, w\<lparr>tick := Suc (tick w), fs := f\<rparr>)"
    and f: "map_of f = (map_of (fs w))(p \<mapsto> Reg [] m o1)"
    using run_Open_trunc [OF assms] by blast
  then show ?thesis
    using assms(1)
    by (intro exI [of _ "w\<lparr>tick := Suc (Suc (tick w)), fs := AList.update p (Reg s m o1) f\<rparr>"] exI [of _ m] exI [of _ o1])
       (simp add: os_WriteFile_def os_Write_def os_WriteAt_def syscall_def update_conv')
qed

text \<open>Directories that are there are not created.\<close>

lemma mkdirs_present:
  "(\<And>p. p \<in> set ps \<Longrightarrow> \<exists>m o1. map_of f p = Some (Dir m o1)) \<Longrightarrow> mkdirs k ps f = Inr f"
proof (induction ps)
  case (Cons p ps)
  then obtain m o1 where "map_of f p = Some (Dir m o1)" by fastforce
  with Cons show ?case by (simp add: lookup_Dir)
qed simp

lemma run_MkdirAll_present:
  assumes "fault w = (\<lambda>_. None)" and "\<And>d. d \<in> set (dir_prefixes p) \<Longrightarrow> \<exists>m o1. map_of (fs w) d = Some (Dir m o1)"
  shows "run_state (os_MkdirAll p k) w = (None, w\<lparr>tick := Suc (tick w)\<rparr>)"
  using mkdirs_present [OF assms(2)] assms(1) by (simp add: os_MkdirAll_def syscall_def)

end
