(* ===== verification/Run.thy ===== *)
theory Run
  imports Calm
begin

text \<open>
  Package \<^verbatim>\<open>run\<close> (\<^verbatim>\<open>google_guest_agent/run/run.go\<close>): running external commands, and command sets
  given as templates. A template is text with fields \<^verbatim>\<open>{{.Name}}\<close>, the only action the sources use;
  its data is a map from field names to their text.
\<close>

subsection \<open>Commands\<close>

definition execCommand :: "string list \<Rightarrow> ('z, result) io" where
  "execCommand cmd = do {
     e \<leftarrow> spawn cmd;
     State_Monad.return (case e of
       NotRun msg \<Rightarrow> \<lparr>ExitCode = -1, StdErr = msg, StdOut = [], Combined = []\<rparr>
     | Exited c out err both \<Rightarrow>
         if c \<noteq> 0 then \<lparr>ExitCode = c, StdErr = err, StdOut = out, Combined = []\<rparr>
         else \<lparr>ExitCode = 0, StdErr = [], StdOut = out, Combined = []\<rparr>) }"

definition Quiet :: "string list \<Rightarrow> ('z, goerr option) io" where
  "Quiet cmd = do {
     res \<leftarrow> execCommand cmd;
     State_Monad.return (if ExitCode res \<noteq> 0 then Some (ResultErr res) else None) }"

definition WithOutput :: "string list \<Rightarrow> ('z, result) io" where
  "WithOutput cmd = execCommand cmd"

text \<open>The child context's error tells whether the deadline passed while the command ran.\<close>

definition WithOutputTimeout :: "string list \<Rightarrow> ('z, result) io" where
  "WithOutputTimeout cmd = do {
     res \<leftarrow> execCommand cmd;
     e \<leftarrow> ctx_Err;
     State_Monad.return (if e = Some CtxDeadline then res\<lparr>ExitCode := 124\<rparr> else res) }"

definition WithCombinedOutput :: "string list \<Rightarrow> ('z, result) io" where
  "WithCombinedOutput cmd = do {
     e \<leftarrow> spawn cmd;
     State_Monad.return (case e of
       NotRun msg \<Rightarrow> \<lparr>ExitCode = -1, StdErr = msg, StdOut = [], Combined = []\<rparr>
     | Exited c out err both \<Rightarrow>
         if c \<noteq> 0
         then \<lparr>ExitCode = c, StdErr = ''exit status '' @ show_int c, StdOut = [], Combined = []\<rparr>
         else \<lparr>ExitCode = 0, StdErr = [], StdOut = [], Combined = both\<rparr>) }"

definition result_Error :: "result \<Rightarrow> string" where
  "result_Error e = TrimSuffix (StdErr e) ''\<newline>''"

subsection \<open>Command templates\<close>

record CommandSpec =
  Command :: string
  Error :: string

type_synonym CommandSet = "CommandSpec list"

text \<open>
  \<^verbatim>\<open>template.Parse\<close> and \<^verbatim>\<open>Execute\<close> for templates with field actions: \<^const>\<open>None\<close> when an action is not
  closed or names a field the data does not have.
\<close>

function template_exec :: "string \<Rightarrow> (string \<Rightarrow> string option) \<Rightarrow> string option" where
  "template_exec [] d = Some []"
| "template_exec (c # s) d =
     (case strip_prefix ''{{.'' (c # s) of
        None \<Rightarrow> map_option (Cons c) (template_exec s d)
      | Some r \<Rightarrow>
          (case Index r ''}}'' of
             None \<Rightarrow> None
           | Some i \<Rightarrow>
               (case d (take i r) of
                  None \<Rightarrow> None
                | Some v \<Rightarrow> map_option (append v) (template_exec (drop (i + 2) r) d))))"
  by pat_completeness auto

termination
proof (relation "measure (\<lambda>(s, d). length s)")
  show "wf (measure (\<lambda>(s, d). length s))" by simp
next
  fix c :: char and s :: string and d :: "string \<Rightarrow> string option" and r i v
  assume "strip_prefix ''{{.'' (c # s) = Some r"
  then have "c # s = ''{{.'' @ r" by (simp only: strip_prefix_Some)
  then show "((drop (i + 2) r, d), c # s, d) \<in> measure (\<lambda>(s, d). length s)"
    by (auto simp: less_Suc_eq_le dest: arg_cong [where f = length])
qed simp

definition commandFormat :: "CommandSpec \<Rightarrow> (string \<Rightarrow> string option) \<Rightarrow> string list res" where
  "commandFormat c data =
     (if Trim (Command c) '' '' = [] then Inl (Msg ''invalid command format template'')
      else case template_exec (Command c) data of
             None \<Rightarrow> Inl (Msg ''invalid command format template'')
           | Some s \<Rightarrow> Inr (Split s (CHR '' '')))"

definition errorFormat :: "CommandSpec \<Rightarrow> (string \<Rightarrow> string option) \<Rightarrow> string res" where
  "errorFormat c data =
     (case template_exec (Error c) data of
        None \<Rightarrow> Inl (Msg ''invalid error format template'')
      | Some s \<Rightarrow> Inr s)"

definition spec_RunQuiet :: "CommandSpec \<Rightarrow> (string \<Rightarrow> string option) \<Rightarrow> ('z, goerr option) io" where
  "spec_RunQuiet c data =
     (case commandFormat c data of
        Inl e \<Rightarrow> State_Monad.return (Some e)
      | Inr tokens \<Rightarrow>
          (case errorFormat c data of
             Inl e \<Rightarrow> State_Monad.return (Some e)
           | Inr errorMsg \<Rightarrow> do {
               r \<leftarrow> Quiet tokens;
               State_Monad.return (case r of Some e \<Rightarrow> Some (Flat errorMsg e) | None \<Rightarrow> None) }))"

definition set_RunQuiet :: "CommandSet \<Rightarrow> (string \<Rightarrow> string option) \<Rightarrow> ('z, goerr option) io" where
  "set_RunQuiet s data = for_err (\<lambda>curr. spec_RunQuiet curr data) s"

subsection \<open>Frame rules\<close>

lemma within_run [frame_intros]:
  "keeps (confined S) (execCommand cmd)"
  "keeps (confined S) (Quiet cmd)"
  "keeps (confined S) (WithOutput cmd)"
  "keeps (confined S) (WithOutputTimeout cmd)"
  "keeps (confined S) (WithCombinedOutput cmd)"
  "keeps (confined S) (spec_RunQuiet c data)"
  "keeps (confined S) (set_RunQuiet cs data)"
  unfolding set_RunQuiet_def spec_RunQuiet_def WithOutput_def WithOutputTimeout_def
    WithCombinedOutput_def Quiet_def execCommand_def
  by (intro frame_intros)+

text \<open>A command that ran and exited with zero is the only one without an error.\<close>

lemma Quiet_None_iff:
  "fst (run_state (Quiet cmd) w) = None \<longleftrightarrow>
     (\<exists>out err both. fst (exec w (tick w) cmd (fs w)) = Exited 0 out err both)"
  by (cases "exec w (tick w) cmd (fs w)"; cases "fst (exec w (tick w) cmd (fs w))")
     (auto simp: Quiet_def execCommand_def spawn_def)

lemma run_Quiet_state:
  "snd (run_state (Quiet cmd) w) =
     w\<lparr>tick := Suc (tick w), trace := trace w @ [cmd], fs := snd (exec w (tick w) cmd (fs w))\<rparr>"
  by (cases "exec w (tick w) cmd (fs w)") (simp add: Quiet_def execCommand_def spawn_def)

end
