(* ===== verification/Retry.thy ===== *)
theory Retry
  imports Run
begin

text \<open>
  Package \<^verbatim>\<open>retry\<close> (\<^verbatim>\<open>retry/retry.go\<close>). The float factor of a policy is a rational number, so
  \<^verbatim>\<open>backoff\<close> is exact; the policies of the sources all use the factor 1. The function to retry is an
  operation on the world that returns a value together with an error, or nil.
\<close>

record Policy =
  MaxAttempts :: int
  BackoffFactor :: rat
  Jitter :: int
  ShouldRetry :: "(goerr \<Rightarrow> bool) option"

definition truncate_rat :: "rat \<Rightarrow> int" where
  "truncate_rat x = (if 0 \<le> x then floor x else ceiling x)"

definition backoff :: "nat \<Rightarrow> Policy \<Rightarrow> int" where
  "backoff attempt policy = truncate_rat (of_int (Jitter policy) * BackoffFactor policy ^ attempt)"

definition isRetriable :: "Policy \<Rightarrow> goerr \<Rightarrow> bool" where
  "isRetriable policy err = (case ShouldRetry policy of None \<Rightarrow> True | Some f \<Rightarrow> f err)"

definition giving_up :: "goerr \<Rightarrow> goerr" where
  "giving_up err = Flat ''giving up, retry policy returned false on error'' err"

definition exhausted :: "goerr \<Rightarrow> goerr" where
  "exhausted err = Flat ''exhausted all retries, last error'' err"

text \<open>The loop of \<^verbatim>\<open>RunWithResponse\<close>, from a given attempt on.\<close>

function retry_from ::
  "Policy \<Rightarrow> ('z, 'a \<times> goerr option) io \<Rightarrow> 'a \<Rightarrow> nat \<Rightarrow> ('z, 'a \<times> goerr option) io" where
  "retry_from policy f res attempt =
     (if int attempt < MaxAttempts policy then do {
        v \<leftarrow> f;
        (case v of
           (res, None) \<Rightarrow> State_Monad.return (res, None)
         | (res, Some err) \<Rightarrow>
             if \<not> isRetriable policy err then State_Monad.return (res, Some (giving_up err))
             else if MaxAttempts policy \<le> int attempt + 1 then State_Monad.return (res, Some (exhausted err))
             else do {
               d \<leftarrow> done_or_after (backoff attempt policy);
               (case d of
                  Some e \<Rightarrow> State_Monad.return (res, Some e)
                | None \<Rightarrow> retry_from policy f res (Suc attempt)) }) }
      else State_Monad.return (res, Some (Msg ''num of retries set to 0, made no attempts to run'')))"
  by pat_completeness auto

termination
  by (relation "measure (\<lambda>(policy, f, res, attempt). nat (MaxAttempts policy - int attempt))") auto

declare retry_from.simps [simp del]

text \<open>\<^verbatim>\<open>zero\<close> is the zero value of the result type; a nil function is \<^const>\<open>None\<close>.\<close>

definition RunWithResponse ::
  "Policy \<Rightarrow> 'a \<Rightarrow> ('z, 'a \<times> goerr option) io option \<Rightarrow> ('z, 'a \<times> goerr option) io" where
  "RunWithResponse policy zero f =
     (case f of
        None \<Rightarrow> State_Monad.return (zero, Some (Msg ''retry function cannot be nil''))
      | Some g \<Rightarrow> retry_from policy g zero 0)"

definition retry_Run :: "Policy \<Rightarrow> ('z, goerr option) io option \<Rightarrow> ('z, goerr option) io" where
  "retry_Run policy f =
     (case f of
        None \<Rightarrow> State_Monad.return (Some (Msg ''retry function cannot be nil''))
      | Some g \<Rightarrow> do {
          v \<leftarrow> RunWithResponse policy () (Some (do { e \<leftarrow> g; State_Monad.return ((), e) }));
          State_Monad.return (snd v) })"

subsection \<open>Frame rules\<close>

context wait_frame
begin

lemma keeps_retry_from:
  assumes "keeps R f"
  shows "keeps R (retry_from policy f res n)"
  using assms
proof (induction policy f res n rule: retry_from.induct)
  case (1 policy f res n)
  then show ?case
    by (subst retry_from.simps)
       (auto intro!: keeps_rules keeps_done_or_after split: prod.splits option.splits)
qed

lemma keeps_RunWithResponse: "keeps R f \<Longrightarrow> keeps R (RunWithResponse policy zero (Some f))"
  by (simp add: RunWithResponse_def keeps_retry_from)

text \<open>A value that comes without an error is one that an attempt returned.\<close>

lemma retry_from_value:
  assumes "keeps R f" and "run_state (retry_from policy f res n) w = ((x, None), w')"
  shows "\<exists>w1 w2. R w w1 \<and> run_state f w1 = ((x, None), w2)"
  using assms
proof (induction policy f res n arbitrary: w rule: retry_from.induct)
  case (1 policy f res n)
  note IH = 1(1) and f = 1(2) and run = 1(3)
  obtain y e w1 where v: "run_state f w = ((y, e), w1)"
    by (metis surj_pair)
  with keepsD [OF f, of w] have w1: "R w w1"
    by simp
  show ?case
  proof (cases e)
    case None
    with v run have "run_state f w = ((x, None), w1)"
      by (subst (asm) retry_from.simps) (auto split: if_splits)
    then show ?thesis
      using frame_refl by blast
  next
    case (Some er)
    obtain d w2 where d: "run_state (done_or_after (backoff n policy)) w1 = (d, w2)"
      by fastforce
    with keepsD [OF keeps_done_or_after, of w1 "backoff n policy"] have w2: "R w1 w2"
      by simp
    from Some v d run have "int n < MaxAttempts policy" "isRetriable policy er" "\<not> MaxAttempts policy \<le> int n + 1"
      and next_run: "run_state (retry_from policy f y (Suc n)) w2 = ((x, None), w')"
      by (subst (asm) retry_from.simps, auto split: if_splits option.splits)+
    from IH [OF this(1) _ this(3) f next_run] this(2) obtain w3 w4
      where "R w2 w3" "run_state f w3 = ((x, None), w4)"
      by blast
    with w1 w2 show ?thesis
      using frame_trans by blast
  qed
qed

lemma keeps_retry_Run: "keeps R f \<Longrightarrow> keeps R (retry_Run policy (Some f))"
  unfolding retry_Run_def option.case
  by (intro keeps_rules keeps_RunWithResponse)

end

lemmas within_retry [frame_intros] = confined.keeps_RunWithResponse confined.keeps_retry_Run

subsection \<open>Reference semantics\<close>

text \<open>
  The world in which attempt \<^verbatim>\<open>k\<close> starts when every earlier one failed and was waited out, the
  outcome of that attempt, and whether the loop goes on after it.
\<close>

fun at_attempt :: "Policy \<Rightarrow> ('z, 'a \<times> goerr option) io \<Rightarrow> 'z world_scheme \<Rightarrow> nat \<Rightarrow> 'z world_scheme" where
  "at_attempt policy f w 0 = w"
| "at_attempt policy f w (Suc k) =
     snd (run_state (done_or_after (backoff k policy)) (snd (run_state f (at_attempt policy f w k))))"

definition attempt_value :: "Policy \<Rightarrow> ('z, 'a \<times> goerr option) io \<Rightarrow> 'z world_scheme \<Rightarrow> nat \<Rightarrow> 'a \<times> goerr option" where
  "attempt_value policy f w k = fst (run_state f (at_attempt policy f w k))"

definition attempt_wait :: "Policy \<Rightarrow> ('z, 'a \<times> goerr option) io \<Rightarrow> 'z world_scheme \<Rightarrow> nat \<Rightarrow> goerr option" where
  "attempt_wait policy f w k =
     fst (run_state (done_or_after (backoff k policy)) (snd (run_state f (at_attempt policy f w k))))"

definition tries_again :: "Policy \<Rightarrow> ('z, 'a \<times> goerr option) io \<Rightarrow> 'z world_scheme \<Rightarrow> nat \<Rightarrow> bool" where
  "tries_again policy f w k \<longleftrightarrow>
     (case snd (attempt_value policy f w k) of
        None \<Rightarrow> False
      | Some e \<Rightarrow> isRetriable policy e \<and> int k + 1 < MaxAttempts policy \<and> attempt_wait policy f w k = None)"

definition last_attempt :: "Policy \<Rightarrow> ('z, 'a \<times> goerr option) io \<Rightarrow> 'z world_scheme \<Rightarrow> nat \<Rightarrow> bool" where
  "last_attempt policy f w k \<longleftrightarrow> \<not> tries_again policy f w k \<and> (\<forall>j < k. tries_again policy f w j)"

text \<open>The error the caller sees when attempt \<^verbatim>\<open>k\<close> is the last one.\<close>

definition final_error :: "Policy \<Rightarrow> ('z, 'a \<times> goerr option) io \<Rightarrow> 'z world_scheme \<Rightarrow> nat \<Rightarrow> goerr option" where
  "final_error policy f w k =
     (case snd (attempt_value policy f w k) of
        None \<Rightarrow> None
      | Some e \<Rightarrow>
          if \<not> isRetriable policy e then Some (giving_up e)
          else if MaxAttempts policy \<le> int k + 1 then Some (exhausted e)
          else attempt_wait policy f w k)"

lemma retry_from_step:
  assumes "tries_again policy f w k" and "int k < MaxAttempts policy"
  shows "run_state (retry_from policy f res k) (at_attempt policy f w k) =
         run_state (retry_from policy f (fst (attempt_value policy f w k)) (Suc k)) (at_attempt policy f w (Suc k))"
  using assms
  by (subst retry_from.simps)
     (auto simp: tries_again_def attempt_value_def attempt_wait_def split: option.splits prod.splits)

lemma retry_from_last:
  assumes "\<not> tries_again policy f w k" and "int k < MaxAttempts policy"
  shows "fst (run_state (retry_from policy f res k) (at_attempt policy f w k)) =
         (fst (attempt_value policy f w k), final_error policy f w k)"
  using assms
  by (subst retry_from.simps)
     (auto simp: tries_again_def attempt_value_def attempt_wait_def final_error_def
       split: option.splits prod.splits)

lemma retry_from_spec:
  assumes "last_attempt policy f w k" and "int k < MaxAttempts policy" and "j \<le> k"
  shows "fst (run_state (retry_from policy f res j) (at_attempt policy f w j)) =
         (fst (attempt_value policy f w k), final_error policy f w k)"
  using \<open>j \<le> k\<close>
proof (induction "k - j" arbitrary: j res)
  case 0
  with assms show ?case
    by (simp add: last_attempt_def retry_from_last)
next
  case (Suc n)
  then have "j < k" by simp
  with assms(1,2) have "tries_again policy f w j" "int j < MaxAttempts policy"
    by (auto simp: last_attempt_def)
  with Suc.hyps(1) [of "Suc j"] Suc.hyps(2) \<open>j < k\<close> show ?case
    by (simp add: retry_from_step)
qed

text \<open>There is a last attempt, and its number is below the maximum.\<close>

lemma last_attempt_exists:
  assumes "0 < MaxAttempts policy"
  shows "\<exists>k. last_attempt policy f w k \<and> int k < MaxAttempts policy"
proof -
  define m where "m = nat (MaxAttempts policy - 1)"
  have "\<not> tries_again policy f w m"
    using assms by (auto simp: tries_again_def m_def split: option.splits)
  then obtain k where k: "\<not> tries_again policy f w k" "\<forall>j < k. tries_again policy f w j"
    using exists_least_iff [of "\<lambda>k. \<not> tries_again policy f w k"] by blast
  have "k \<le> m"
    using k(2) \<open>\<not> tries_again policy f w m\<close> by (meson not_le_imp_less)
  with k assms show ?thesis
    by (auto simp: last_attempt_def m_def intro!: exI [of _ k])
qed

lemma RunWithResponse_at_last:
  assumes "last_attempt policy f w k" and "int k < MaxAttempts policy"
  shows "fst (run_state (RunWithResponse policy zero (Some f)) w) =
         (fst (attempt_value policy f w k), final_error policy f w k)"
  using retry_from_spec [OF assms, of 0 zero] by (simp add: RunWithResponse_def)

text \<open>The intervals waited are the back-offs of the attempts before the last.\<close>

lemma sleeps_at_attempt:
  assumes "\<And>w. sleeps (snd (run_state f w)) = sleeps w" and "\<forall>j < k. tries_again policy f w j"
  shows "sleeps (at_attempt policy f w k) = sleeps w @ map (\<lambda>i. backoff i policy) [0..<k]"
  using assms(2)
proof (induction k)
  case 0
  then show ?case by simp
next
  case (Suc k)
  then have "attempt_wait policy f w k = None"
    by (auto simp: tries_again_def split: option.splits)
  with Suc assms(1) show ?case
    by (auto simp: attempt_wait_def done_or_after_def Let_def split: option.splits)
qed

lemma retry_from_final_sleeps:
  assumes f: "\<And>w. sleeps (snd (run_state f w)) = sleeps w"
    and last: "last_attempt policy f w k" and "int k < MaxAttempts policy" and "j \<le> k"
  shows "sleeps (snd (run_state (retry_from policy f res j) (at_attempt policy f w j))) =
         sleeps (at_attempt policy f w k)"
  using \<open>j \<le> k\<close>
proof (induction "k - j" arbitrary: j res)
  case 0
  then have "j = k" by simp
  moreover have "\<not> tries_again policy f w k" using last by (simp add: last_attempt_def)
  ultimately show ?case
    using \<open>int k < MaxAttempts policy\<close> f [of "at_attempt policy f w k"]
    by (subst retry_from.simps)
       (auto simp: tries_again_def attempt_value_def attempt_wait_def done_or_after_def Let_def
         split: option.splits prod.splits)
next
  case (Suc n)
  then have "j < k" by simp
  with last assms(3) have "tries_again policy f w j" "int j < MaxAttempts policy"
    by (auto simp: last_attempt_def)
  with Suc.hyps(1) [of "Suc j"] Suc.hyps(2) \<open>j < k\<close> show ?case
    by (simp add: retry_from_step)
qed

subsection \<open>Properties\<close>

text \<open>
  C4: with at least one attempt allowed, \<^verbatim>\<open>RunWithResponse\<close> stops at an attempt below
  \<^verbatim>\<open>MaxAttempts\<close>, the first one after which it does not try again; it returns that attempt's value,
  with no error if the attempt succeeded, and otherwise the error for why it stopped: the policy
  refused the error, the attempts are used up, or the context is done.
\<close>

theorem RunWithResponse_spec:
  assumes "0 < MaxAttempts policy"
  shows "\<exists>k. int k < MaxAttempts policy \<and> last_attempt policy f w k \<and>
           fst (run_state (RunWithResponse policy zero (Some f)) w) =
             (fst (attempt_value policy f w k), final_error policy f w k)"
proof -
  from last_attempt_exists [OF assms] obtain k
    where "last_attempt policy f w k" "int k < MaxAttempts policy"
    by auto
  with RunWithResponse_at_last [OF this] show ?thesis by auto
qed

theorem RunWithResponse_spec_witness:
  "fst (run_state (RunWithResponse \<lparr>MaxAttempts = 3, BackoffFactor = 1, Jitter = 5, ShouldRetry = None\<rparr>
     0 (Some (State_Monad.return (7::nat, None)))) (calm [])) = (7, None)"
  using RunWithResponse_spec [of "\<lparr>MaxAttempts = 3, BackoffFactor = 1, Jitter = 5, ShouldRetry = None\<rparr>"
      "State_Monad.return (7::nat, None)" "calm []" 0]
  by (auto simp: attempt_value_def final_error_def)

text \<open>
  a call that itself does not wait makes \<^verbatim>\<open>RunWithResponse\<close> wait exactly the back-off interval
  of every attempt before the last one, in order, and not after the last one.
\<close>

theorem RunWithResponse_waits:
  assumes "\<And>w. sleeps (snd (run_state f w)) = sleeps w"
    and "last_attempt policy f w k" and "int k < MaxAttempts policy"
  shows "sleeps (snd (run_state (RunWithResponse policy zero (Some f)) w)) =
         sleeps w @ map (\<lambda>i. backoff i policy) [0..<k]"
proof -
  from assms(2) have "\<forall>j < k. tries_again policy f w j"
    by (simp add: last_attempt_def)
  then show ?thesis
    using retry_from_final_sleeps [OF assms, of 0 zero] sleeps_at_attempt [OF assms(1)]
    by (simp add: RunWithResponse_def)
qed

theorem RunWithResponse_waits_witness:
  "sleeps (snd (run_state (RunWithResponse \<lparr>MaxAttempts = 3, BackoffFactor = 2, Jitter = 5, ShouldRetry = None\<rparr>
     0 (Some (State_Monad.return (7::nat, Some (Msg ''down''))))) (calm []))) = [5, 10]"
proof -
  let ?p = "\<lparr>MaxAttempts = 3, BackoffFactor = 2, Jitter = 5, ShouldRetry = None\<rparr>"
  let ?f = "State_Monad.return (7::nat, Some (Msg ''down'')) :: (unit, nat \<times> goerr option) io"
  have ctx: "ctx (at_attempt ?p ?f (calm []) k) n = None" for k n
    by (induction k) (auto simp: calm_def done_or_after_def Let_def split: option.splits)
  have tries: "tries_again ?p ?f (calm []) j \<longleftrightarrow> j < 2" for j
    by (auto simp: tries_again_def attempt_value_def attempt_wait_def isRetriable_def
        done_or_after_def Let_def ctx)
  then have "last_attempt ?p ?f (calm []) 2"
    by (simp add: last_attempt_def)
  from RunWithResponse_waits [OF _ this, of 0] show ?thesis
    by (simp add: calm_def backoff_def truncate_rat_def upt_rec)
qed

end
