(* ===== verification/GoTime.thy ===== *)
theory GoTime
  imports Prelude
begin

text \<open>
  The parts of package \<^verbatim>\<open>time\<close> the sources use: \<^verbatim>\<open>time.Parse\<close> with the layout \<^verbatim>\<open>time.RFC3339\<close> and
  with \<^verbatim>\<open>2006-01-02T15:04:05-0700\<close>. An instant is its number of nanoseconds since the Unix epoch.
  As in Go, the hour may have one digit, a fraction of a second is accepted after the seconds, and
  zone offsets of 24 hours and 60 minutes are accepted.
\<close>

definition is_leap :: "nat \<Rightarrow> bool" where
  "is_leap y \<longleftrightarrow> y mod 4 = 0 \<and> (y mod 100 \<noteq> 0 \<or> y mod 400 = 0)"

definition daysIn :: "nat \<Rightarrow> nat \<Rightarrow> nat" where
  "daysIn m y =
     (if m = 2 then (if is_leap y then 29 else 28) else if m \<in> {4, 6, 9, 11} then 30 else 31)"

fun days_before_month :: "nat \<Rightarrow> nat \<Rightarrow> nat" where
  "days_before_month y 0 = 0"
| "days_before_month y (Suc m) = days_before_month y m + (if m = 0 then 0 else daysIn m y)"

definition days_before_year :: "nat \<Rightarrow> int" where
  "days_before_year y =
     (if y = 0 then 0
      else (let z = int y - 1 in 366 + 365 * z + z div 4 - z div 100 + z div 400))"

text \<open>Days from 1970-01-01; the constant is the number of days before 1970.\<close>

definition days_civil :: "nat \<Rightarrow> nat \<Rightarrow> nat \<Rightarrow> int" where
  "days_civil y m d = days_before_year y + int (days_before_month y m) + int d - 1 - 719528"

definition instant :: "nat \<Rightarrow> nat \<Rightarrow> nat \<Rightarrow> nat \<Rightarrow> nat \<Rightarrow> nat \<Rightarrow> nat \<Rightarrow> int \<Rightarrow> int" where
  "instant y mo d h mi s ns off =
     (((days_civil y mo d * 24 + int h) * 60 + int mi) * 60 + int s - off) * 1000000000 + int ns"

subsection \<open>Scanning\<close>

definition expect :: "char \<Rightarrow> string \<Rightarrow> string option" where
  "expect c s = (case s of x # r \<Rightarrow> if x = c then Some r else None | [] \<Rightarrow> None)"

text \<open>Exactly \<^verbatim>\<open>n\<close> digits; and \<^verbatim>\<open>getnum\<close> with \<^verbatim>\<open>fixed\<close> false: one or two digits.\<close>

definition digits :: "nat \<Rightarrow> string \<Rightarrow> (nat \<times> string) option" where
  "digits n s =
     (if n \<le> length s then map_option (\<lambda>v. (v, drop n s)) (read_nat (take n s)) else None)"

definition digits12 :: "string \<Rightarrow> (nat \<times> string) option" where
  "digits12 s = (case digits 2 s of Some r \<Rightarrow> Some r | None \<Rightarrow> digits 1 s)"

definition fraction :: "string \<Rightarrow> nat \<times> string" where
  "fraction s =
     (case s of
        p # r \<Rightarrow>
          if (p = CHR ''.'' \<or> p = CHR '','') \<and> r \<noteq> [] \<and> is_digit (hd r)
          then (case read_nat (take 9 (takeWhile is_digit r @ replicate 9 (CHR ''0''))) of
                  Some v \<Rightarrow> (v, dropWhile is_digit r) | None \<Rightarrow> (0, s))
          else (0, s)
      | [] \<Rightarrow> (0, s))"

definition zone :: "bool \<Rightarrow> string \<Rightarrow> int option" where
  "zone colon s =
     (case s of
        [] \<Rightarrow> None
      | c # r \<Rightarrow>
          if colon \<and> c = CHR ''Z'' then (if r = [] then Some 0 else None)
          else if c \<noteq> CHR ''+'' \<and> c \<noteq> CHR ''-'' then None
          else do {
            (h, r) \<leftarrow> digits 2 r;
            r \<leftarrow> (if colon then expect (CHR '':'') r else Some r);
            (m, r) \<leftarrow> digits 2 r;
            if h \<le> 24 \<and> m \<le> 60 \<and> r = []
            then Some ((if c = CHR ''-'' then - 1 else 1) * (int h * 3600 + int m * 60))
            else None })"

definition parse_layout :: "bool \<Rightarrow> string \<Rightarrow> int option" where
  "parse_layout colon s = do {
     (y, s) \<leftarrow> digits 4 s;
     s \<leftarrow> expect (CHR ''-'') s;
     (mo, s) \<leftarrow> digits 2 s;
     s \<leftarrow> expect (CHR ''-'') s;
     (d, s) \<leftarrow> digits 2 s;
     s \<leftarrow> expect (CHR ''T'') s;
     (h, s) \<leftarrow> digits12 s;
     s \<leftarrow> expect (CHR '':'') s;
     (mi, s) \<leftarrow> digits 2 s;
     s \<leftarrow> expect (CHR '':'') s;
     (sec, s) \<leftarrow> digits 2 s;
     let (ns, s) = fraction s;
     off \<leftarrow> zone colon s;
     if 1 \<le> mo \<and> mo \<le> 12 \<and> 1 \<le> d \<and> d \<le> daysIn mo y \<and> h < 24 \<and> mi < 60 \<and> sec < 60
     then Some (instant y mo d h mi sec ns off) else None }"

definition parse_RFC3339 :: "string \<Rightarrow> int option" where
  "parse_RFC3339 s = parse_layout True s"

definition parse_numeric_zone :: "string \<Rightarrow> int option" where
  "parse_numeric_zone s = parse_layout False s"

subsection \<open>Printing an instant in RFC 3339\<close>

definition pad :: "nat \<Rightarrow> nat \<Rightarrow> string" where
  "pad n v = replicate (n - length (show_nat v)) (CHR ''0'') @ show_nat v"

definition show_RFC3339 :: "nat \<Rightarrow> nat \<Rightarrow> nat \<Rightarrow> nat \<Rightarrow> nat \<Rightarrow> nat \<Rightarrow> string" where
  "show_RFC3339 y mo d h mi s =
     pad 4 y @ ''-'' @ pad 2 mo @ ''-'' @ pad 2 d @ ''T'' @ pad 2 h @ '':'' @ pad 2 mi @ '':'' @ pad 2 s @ ''Z''"

subsection \<open>Round trip\<close>

lemma foldl_digits_zeros:
  "foldl (\<lambda>n c. 10 * n + digit_val c) 0 (replicate k (CHR ''0'')) = 0"
  by (induction k) (auto simp: digit_val_def)

lemma read_nat_pad [simp]: "read_nat (pad n v) = Some v"
  by (auto simp: read_nat_def pad_def foldl_digits_zeros show_nat_value list_all_iff is_digit_def
      show_nat_digits [unfolded list_all_iff is_digit_def])

lemma length_show_nat: "v < 10 ^ n \<Longrightarrow> 0 < n \<Longrightarrow> length (show_nat v) \<le> n"
proof (induction v arbitrary: n rule: show_nat.induct)
  case (1 v)
  show ?case
  proof (cases "v < 10")
    case True
    with 1 show ?thesis by (subst show_nat.simps) simp
  next
    case False
    with "1.prems" obtain m where n: "n = Suc m" "0 < m"
      by (cases n; cases "n - 1") auto
    with "1.prems" have "v div 10 < 10 ^ m"
      by (simp add: less_mult_imp_div_less mult.commute)
    with "1.IH" [of m] False n show ?thesis
      by (subst show_nat.simps) simp
  qed
qed

lemma length_pad: "v < 10 ^ n \<Longrightarrow> 0 < n \<Longrightarrow> length (pad n v) = n"
  using length_show_nat [of v n] by (simp add: pad_def)

lemma digits_pad: "v < 10 ^ n \<Longrightarrow> 0 < n \<Longrightarrow> digits n (pad n v @ s) = Some (v, s)"
  using length_pad [of v n] by (simp add: digits_def)

lemma parse_show_RFC3339:
  assumes "y < 10000" and "1 \<le> mo" and "mo \<le> 12" and "1 \<le> d" and "d \<le> daysIn mo y"
    and "h < 24" and "mi < 60" and "s < 60"
  shows "parse_RFC3339 (show_RFC3339 y mo d h mi s) = Some (instant y mo d h mi s 0 0)"
proof -
  have "d < 100"
    using assms(5) by (simp add: daysIn_def split: if_splits)
  with assms show ?thesis
    using digits_pad [of y 4] digits_pad [of _ 2]
    by (simp add: parse_RFC3339_def parse_layout_def show_RFC3339_def digits12_def expect_def
        fraction_def zone_def)
qed

end
