(* ===== verification/Json.thy ===== *)
theory Json
  imports Prelude
begin

text \<open>
  Package \<^verbatim>\<open>encoding/json\<close> as the sources use it: a parser for JSON texts and the decoding of an
  object into a Go struct. Keys select struct fields without regard to case, a later key overrides
  an earlier one, \<^verbatim>\<open>null\<close> leaves a field alone and a value of the wrong type is an error. The parser
  recurses with the length of the text as fuel. Texts are valid UTF-8.
\<close>

datatype json =
    JNull
  | JBool bool
  | JNum string
  | JStr string
  | JArr "json list"
  | JObj "(string \<times> json) list"

subsection \<open>Parser\<close>

definition json_ws :: "string \<Rightarrow> string" where
  "json_ws s = dropWhile (\<lambda>c. c \<in> set [CHR '' '', CHR 0x09, CHR 0x0A, CHR 0x0D]) s"

definition hex_val :: "char \<Rightarrow> nat option" where
  "hex_val c =
     (let n = (of_char c :: nat) in
      if 48 \<le> n \<and> n \<le> 57 then Some (n - 48)
      else if 97 \<le> n \<and> n \<le> 102 then Some (n - 87)
      else if 65 \<le> n \<and> n \<le> 70 then Some (n - 55) else None)"

fun hex4 :: "string \<Rightarrow> (nat \<times> string) option" where
  "hex4 (a # b # c # d # r) =
     (case (hex_val a, hex_val b, hex_val c, hex_val d) of
        (Some w, Some x, Some y, Some z) \<Rightarrow> Some (((w * 16 + x) * 16 + y) * 16 + z, r)
      | _ \<Rightarrow> None)"
| "hex4 _ = None"

definition utf8 :: "nat \<Rightarrow> string" where
  "utf8 n =
     (if n < 128 then [char_of n]
      else if n < 2048 then [char_of (192 + n div 64), char_of (128 + n mod 64)]
      else if n < 65536 then
        [char_of (224 + n div 4096), char_of (128 + n div 64 mod 64), char_of (128 + n mod 64)]
      else [char_of (240 + n div 262144), char_of (128 + n div 4096 mod 64),
            char_of (128 + n div 64 mod 64), char_of (128 + n mod 64)])"

text \<open>A \<^verbatim>\<open>\u\<close> escape, with its second half when it starts a surrogate pair.\<close>

definition unicode_escape :: "string \<Rightarrow> (string \<times> string) option" where
  "unicode_escape s =
     (case hex4 s of
        None \<Rightarrow> None
      | Some (n, r) \<Rightarrow>
          if 55296 \<le> n \<and> n < 57344 then
            (case strip_prefix [CHR 0x5C, CHR ''u''] r of
               None \<Rightarrow> Some (utf8 65533, r)
             | Some r' \<Rightarrow>
                 (case hex4 r' of
                    Some (m, r'') \<Rightarrow>
                      if n < 56320 \<and> 56320 \<le> m \<and> m < 57344
                      then Some (utf8 (65536 + (n - 55296) * 1024 + (m - 56320)), r'')
                      else Some (utf8 65533, r)
                  | None \<Rightarrow> Some (utf8 65533, r)))
          else Some (utf8 n, r))"

definition simple_escape :: "char \<Rightarrow> char option" where
  "simple_escape c =
     (if c = CHR 0x22 \<or> c = CHR 0x5C \<or> c = CHR ''/'' then Some c
      else if c = CHR ''b'' then Some (CHR 0x08)
      else if c = CHR ''f'' then Some (CHR 0x0C)
      else if c = CHR ''n'' then Some (CHR 0x0A)
      else if c = CHR ''r'' then Some (CHR 0x0D)
      else if c = CHR ''t'' then Some (CHR 0x09)
      else None)"

text \<open>The characters of a string literal after its opening quote.\<close>

fun json_chars :: "nat \<Rightarrow> string \<Rightarrow> (string \<times> string) option" where
  "json_chars 0 s = None"
| "json_chars (Suc n) [] = None"
| "json_chars (Suc n) (c # s) =
     (if c = CHR 0x22 then Some ([], s)
      else if (of_char c :: nat) < 32 then None
      else if c = CHR 0x5C then
        (case s of
           [] \<Rightarrow> None
         | e # r \<Rightarrow>
             if e = CHR ''u''
             then (case unicode_escape r of
                     None \<Rightarrow> None
                   | Some (t, r') \<Rightarrow> map_option (\<lambda>(u, q). (t @ u, q)) (json_chars n r'))
             else (case simple_escape e of
                     None \<Rightarrow> None
                   | Some t \<Rightarrow> map_option (\<lambda>(u, q). (t # u, q)) (json_chars n r)))
      else map_option (\<lambda>(u, q). (c # u, q)) (json_chars n s))"

definition json_string :: "string \<Rightarrow> (string \<times> string) option" where
  "json_string s =
     (case s of c # r \<Rightarrow> if c = CHR 0x22 then json_chars (Suc (length r)) r else None | [] \<Rightarrow> None)"

text \<open>The grammar of numbers: the literal is kept as text.\<close>

definition number_int :: "string \<Rightarrow> (string \<times> string) option" where
  "number_int s =
     (let d = takeWhile is_digit s in
      if d = [] then None
      else if hd d = CHR ''0'' then Some (''0'', tl s)
      else Some (d, drop (length d) s))"

definition number_frac :: "string \<Rightarrow> (string \<times> string) option" where
  "number_frac s =
     (case s of
        c # r \<Rightarrow>
          if c = CHR ''.'' then
            (let d = takeWhile is_digit r in
             if d = [] then None else Some (c # d, drop (length d) r))
          else Some ([], s)
      | [] \<Rightarrow> Some ([], s))"

definition number_exp :: "string \<Rightarrow> (string \<times> string) option" where
  "number_exp s =
     (case s of
        c # r \<Rightarrow>
          if c = CHR ''e'' \<or> c = CHR ''E'' then
            (let sg = (case r of x # _ \<Rightarrow> if x = CHR ''+'' \<or> x = CHR ''-'' then [x] else [] | [] \<Rightarrow> []);
                 r' = drop (length sg) r; d = takeWhile is_digit r' in
             if d = [] then None else Some (c # sg @ d, drop (length d) r'))
          else Some ([], s)
      | [] \<Rightarrow> Some ([], s))"

definition json_number :: "string \<Rightarrow> (string \<times> string) option" where
  "json_number s =
     (let sg = (case s of c # _ \<Rightarrow> if c = CHR ''-'' then ''-'' else [] | [] \<Rightarrow> []) in do {
        (i, s) \<leftarrow> number_int (drop (length sg) s);
        (f, s) \<leftarrow> number_frac s;
        (e, s) \<leftarrow> number_exp s;
        Some (sg @ i @ f @ e, s) })"

text \<open>Values, the rest of an array and the rest of an object after an opening bracket.\<close>

fun json_value :: "nat \<Rightarrow> string \<Rightarrow> (json \<times> string) option"
  and json_elems :: "nat \<Rightarrow> string \<Rightarrow> (json list \<times> string) option"
  and json_pairs :: "nat \<Rightarrow> string \<Rightarrow> ((string \<times> json) list \<times> string) option" where
  "json_value 0 s = None"
| "json_value (Suc n) s =
     (case json_ws s of
        [] \<Rightarrow> None
      | c # r \<Rightarrow>
          if c = CHR ''{'' then
            (case strip_prefix ''}'' (json_ws r) of
               Some q \<Rightarrow> Some (JObj [], q)
             | None \<Rightarrow> map_option (\<lambda>(ps, q). (JObj ps, q)) (json_pairs n r))
          else if c = CHR ''['' then
            (case strip_prefix '']'' (json_ws r) of
               Some q \<Rightarrow> Some (JArr [], q)
             | None \<Rightarrow> map_option (\<lambda>(vs, q). (JArr vs, q)) (json_elems n r))
          else if c = CHR 0x22 then map_option (\<lambda>(t, q). (JStr t, q)) (json_string (c # r))
          else (case strip_prefix ''true'' (c # r) of
                  Some q \<Rightarrow> Some (JBool True, q)
                | None \<Rightarrow> (case strip_prefix ''false'' (c # r) of
                    Some q \<Rightarrow> Some (JBool False, q)
                  | None \<Rightarrow> (case strip_prefix ''null'' (c # r) of
                      Some q \<Rightarrow> Some (JNull, q)
                    | None \<Rightarrow> map_option (\<lambda>(t, q). (JNum t, q)) (json_number (c # r))))))"
| "json_elems 0 s = None"
| "json_elems (Suc n) s =
     (case json_value n s of
        None \<Rightarrow> None
      | Some (v, r) \<Rightarrow>
          (case json_ws r of
             c # q \<Rightarrow>
               if c = CHR '']'' then Some ([v], q)
               else if c = CHR '','' then map_option (\<lambda>(vs, q). (v # vs, q)) (json_elems n q)
               else None
           | [] \<Rightarrow> None))"
| "json_pairs 0 s = None"
| "json_pairs (Suc n) s =
     (case json_string (json_ws s) of
        None \<Rightarrow> None
      | Some (k, r) \<Rightarrow>
          (case strip_prefix '':'' (json_ws r) of
             None \<Rightarrow> None
           | Some r \<Rightarrow>
               (case json_value n r of
                  None \<Rightarrow> None
                | Some (v, r) \<Rightarrow>
                    (case json_ws r of
                       c # q \<Rightarrow>
                         if c = CHR ''}'' then Some ([(k, v)], q)
                         else if c = CHR '','' then
                           map_option (\<lambda>(ps, q). ((k, v) # ps, q)) (json_pairs n q)
                         else None
                     | [] \<Rightarrow> None))))"

definition json_parse :: "string \<Rightarrow> json option" where
  "json_parse s =
     (case json_value (2 * length s + 2) s of
        Some (v, r) \<Rightarrow> if json_ws r = [] then Some v else None
      | None \<Rightarrow> None)"

subsection \<open>Decoding into a struct\<close>

definition lower :: "char \<Rightarrow> char" where
  "lower c = (let n = (of_char c :: nat) in if 65 \<le> n \<and> n \<le> 90 then char_of (n + 32) else c)"

definition ToLower :: "string \<Rightarrow> string" where
  "ToLower s = map lower s"

definition EqualFold :: "string \<Rightarrow> string \<Rightarrow> bool" where
  "EqualFold s t \<longleftrightarrow> ToLower s = ToLower t"

text \<open>The value that a field named \<^verbatim>\<open>k\<close> receives: the last one in the text.\<close>

definition json_field :: "(string \<times> json) list \<Rightarrow> string \<Rightarrow> json option" where
  "json_field ps k =
     map_option snd (find (\<lambda>(k', v). EqualFold k' k \<and> v \<noteq> JNull) (rev ps))"

text \<open>A string field of a struct; \<^const>\<open>None\<close> is an error of type \<^verbatim>\<open>*json.UnmarshalTypeError\<close>.\<close>

definition str_or_null :: "json \<Rightarrow> bool" where
  "str_or_null v = (case v of JNull \<Rightarrow> True | JStr _ \<Rightarrow> True | _ \<Rightarrow> False)"

definition json_str_field :: "(string \<times> json) list \<Rightarrow> string \<Rightarrow> string option" where
  "json_str_field ps k =
     (if list_all (\<lambda>(k', v). EqualFold k' k \<longrightarrow> str_or_null v) ps
      then Some (case json_field ps k of Some (JStr s) \<Rightarrow> s | _ \<Rightarrow> []) else None)"

text \<open>The members of the object that is decoded into a struct; \<^verbatim>\<open>null\<close> decodes to the zero struct.\<close>

definition json_members :: "json \<Rightarrow> (string \<times> json) list option" where
  "json_members v = (case v of JObj ps \<Rightarrow> Some ps | JNull \<Rightarrow> Some [] | _ \<Rightarrow> None)"

end
