(* ===== verification/SshKeys.thy ===== *)
theory SshKeys
  imports Retry GoTime Json
begin

text \<open>
  SSH keys in metadata: the helpers of \<^verbatim>\<open>utils/ssh.go\<close> and the program \<^verbatim>\<open>google_authorized_keys\<close>
  that \<^verbatim>\<open>sshd\<close> runs as its \<^verbatim>\<open>AuthorizedKeysCommand\<close>. The third-party function
  \<^verbatim>\<open>ssh.ParseAuthorizedKey\<close> is the parameter \<^verbatim>\<open>parse_key\<close>, which returns the comment of a key line or
  an error.
\<close>

type_synonym key_parser = "string \<Rightarrow> string res"

subsection \<open>\<^verbatim>\<open>utils/ssh.go\<close>\<close>

definition parse_time :: "string \<Rightarrow> int option" where
  "parse_time s = (case parse_RFC3339 s of Some t \<Rightarrow> Some t | None \<Rightarrow> parse_numeric_zone s)"

definition CheckExpired :: "string \<Rightarrow> ('z, bool \<times> goerr option) io" where
  "CheckExpired expireOn =
     (case parse_time expireOn of
        None \<Rightarrow> State_Monad.return (True, Some (Msg ''parsing time''))
      | Some t \<Rightarrow> do { n \<leftarrow> time_Now; State_Monad.return (t < n, None) })"

text \<open>The expiration in the comment of a \<^verbatim>\<open>google-ssh\<close> key: a JSON object.\<close>

definition sshExpiration :: "string \<Rightarrow> string res" where
  "sshExpiration js =
     (case json_parse js of
        None \<Rightarrow> Inl (Msg ''invalid character'')
      | Some v \<Rightarrow>
          (case json_members v of
             None \<Rightarrow> Inl (Msg ''json: cannot unmarshal into Go value'')
           | Some ps \<Rightarrow>
               (case (json_str_field ps ''ExpireOn'', json_str_field ps ''UserName'') of
                  (Some e, Some u) \<Rightarrow> Inr e
                | _ \<Rightarrow> Inl (Msg ''json: cannot unmarshal into Go struct field''))))"

definition CheckExpiredKey :: "key_parser \<Rightarrow> string \<Rightarrow> ('z, goerr option) io" where
  "CheckExpiredKey parse_key key =
     (let trimmedKey = Trim key '' '' in
      if trimmedKey = [] then State_Monad.return (Some (Msg ''invalid ssh key entry - empty key''))
      else case parse_key trimmedKey of
        Inl e \<Rightarrow> State_Monad.return (Some e)
      | Inr comment \<Rightarrow>
          if \<not> HasPrefix comment ''google-ssh'' then State_Monad.return None
          else (case SplitN comment (CHR '' '') 2 of
            [_, js] \<Rightarrow>
              (case sshExpiration js of
                 Inl e \<Rightarrow> State_Monad.return (Some e)
               | Inr expireOn \<Rightarrow> do {
                   (expired, err) \<leftarrow> CheckExpired expireOn;
                   State_Monad.return
                     (case err of
                        Some e \<Rightarrow> Some e
                      | None \<Rightarrow> if expired then Some (Msg ''invalid ssh key entry - expired key'') else None) })
          | _ \<Rightarrow> State_Monad.return (Some (Msg ''invalid ssh key entry - expiration missing''))))"

text \<open>The regular expression \<^verbatim>\<open>\s\<close> of Go matches five characters.\<close>

definition regex_space :: string where
  "regex_space = [CHR 0x09, CHR 0x0A, CHR 0x0C, CHR 0x0D, CHR '' '']"

definition ValidateUser :: "string \<Rightarrow> goerr option" where
  "ValidateUser user =
     (if user = [] then Some (Msg ''invalid username - it is empty'')
      else if \<exists>c \<in> set user. c \<in> set regex_space then Some (Msg ''invalid username - whitespace detected'')
      else None)"

definition GetUserKey :: "string \<Rightarrow> (string \<times> string) res" where
  "GetUserKey rawKey =
     (let key = Trim rawKey '' '' in
      if key = [] then Inl (Msg ''invalid ssh key entry - empty key'')
      else case Index key '':'' of
        None \<Rightarrow> Inl (Msg ''invalid ssh key entry - unrecognized format. Expecting user:ssh-key'')
      | Some idx \<Rightarrow>
          if take idx key = [] then Inl (Msg ''invalid ssh key entry - user missing'')
          else if drop (idx + 1) key = [] then Inl (Msg ''invalid ssh key entry - key missing'')
          else Inr (take idx key, drop (idx + 1) key))"

definition ValidateUserKey :: "key_parser \<Rightarrow> string \<Rightarrow> string \<Rightarrow> ('z, goerr option) io" where
  "ValidateUserKey parse_key user key =
     (case ValidateUser user of
        Some e \<Rightarrow> State_Monad.return (Some e)
      | None \<Rightarrow> CheckExpiredKey parse_key key)"

subsection \<open>\<^verbatim>\<open>google_authorized_keys/main.go\<close>\<close>

record attributes =
  ak_EnableWindowsSSH :: "bool option"
  ak_BlockProjectSSHKeys :: bool
  ak_SSHKeys :: "string list"

definition parseSSHKeys_step ::
  "key_parser \<Rightarrow> string \<Rightarrow> string \<Rightarrow> string list \<Rightarrow> ('z, unit + string list) io" where
  "parseSSHKeys_step parse_key username key keyList =
     (if length (SplitN key (CHR '':'') 2) \<noteq> 2 then State_Monad.return (Inr keyList)
      else case GetUserKey key of
        Inl e \<Rightarrow> State_Monad.return (Inr keyList)
      | Inr (user, keyVal) \<Rightarrow> do {
          err \<leftarrow> ValidateUserKey parse_key user keyVal;
          State_Monad.return
            (Inr (if err \<noteq> None then keyList
                  else if user = username then keyList @ [keyVal] else keyList)) })"

definition parseSSHKeys :: "key_parser \<Rightarrow> string \<Rightarrow> string list \<Rightarrow> ('z, string list) io" where
  "parseSSHKeys parse_key username keys = do {
     r \<leftarrow> for_range (parseSSHKeys_step parse_key username) keys [];
     State_Monad.return (case r of Inr ks \<Rightarrow> ks | Inl _ \<Rightarrow> []) }"

definition ak_getUserKeys :: "key_parser \<Rightarrow> string \<Rightarrow> attributes \<Rightarrow> attributes \<Rightarrow> ('z, string list) io" where
  "ak_getUserKeys parse_key username instanceAttributes projectAttributes = do {
     instanceKeyList \<leftarrow> parseSSHKeys parse_key username (ak_SSHKeys instanceAttributes);
     (if \<not> ak_BlockProjectSSHKeys instanceAttributes then do {
        projectKeyList \<leftarrow> parseSSHKeys parse_key username (ak_SSHKeys projectAttributes);
        State_Monad.return (instanceKeyList @ projectKeyList) }
      else State_Monad.return instanceKeyList) }"

definition checkWinSSHEnabled :: "attributes \<Rightarrow> attributes \<Rightarrow> bool" where
  "checkWinSSHEnabled instanceAttributes projectAttributes =
     (case ak_EnableWindowsSSH instanceAttributes of
        Some b \<Rightarrow> b
      | None \<Rightarrow> (case ak_EnableWindowsSSH projectAttributes of Some b \<Rightarrow> b | None \<Rightarrow> False))"

text \<open>Decoding of the attributes, from the text of the metadata server's answer.\<close>

definition decode_attributes :: "string \<Rightarrow> attributes res" where
  "decode_attributes md =
     (case json_parse md of
        None \<Rightarrow> Inl (Msg ''invalid character'')
      | Some v \<Rightarrow>
          (case json_members v of
             None \<Rightarrow> Inl (Msg ''json: cannot unmarshal into Go value'')
           | Some ps \<Rightarrow>
               (case (json_str_field ps ''enable-windows-ssh'', json_str_field ps ''block-project-ssh-keys'',
                      json_str_field ps ''ssh-keys'') of
                  (Some w, Some b, Some k) \<Rightarrow>
                    Inr \<lparr>ak_EnableWindowsSSH = ParseBool w,
                      ak_BlockProjectSSHKeys = deref_or False (ParseBool b),
                      ak_SSHKeys = (if k \<noteq> [] then Split k (CHR 0x0A) else [])\<rparr>
                | _ \<Rightarrow> Inl (Msg ''json: cannot unmarshal into Go struct field''))))"

text \<open>\<^verbatim>\<open>GetKeyRecursive\<close> of the metadata client is the argument \<^verbatim>\<open>fetch\<close>.\<close>

definition getMetadataAttributes :: "(string \<Rightarrow> ('z, string res) io) \<Rightarrow> string \<Rightarrow> ('z, attributes res) io" where
  "getMetadataAttributes fetch metadataKey = do {
     r \<leftarrow> fetch metadataKey;
     State_Monad.return (case r of Inl e \<Rightarrow> Inl e | Inr md \<Rightarrow> decode_attributes md) }"

text \<open>
  The program: what it prints, or \<^const>\<open>None\<close> when it exits with status 1. \<^verbatim>\<open>windows\<close> is
  \<^verbatim>\<open>runtime.GOOS == "windows"\<close>.
\<close>

definition ak_main :: "key_parser \<Rightarrow> bool \<Rightarrow> (string \<Rightarrow> ('z, string res) io) \<Rightarrow> string \<Rightarrow> ('z, string option) io" where
  "ak_main parse_key windows fetch username = do {
     ia \<leftarrow> getMetadataAttributes fetch ''instance/attributes/'';
     (case ia of
        Inl e \<Rightarrow> State_Monad.return None
      | Inr instanceAttributes \<Rightarrow> do {
          pa \<leftarrow> getMetadataAttributes fetch ''project/attributes/'';
          (case pa of
             Inl e \<Rightarrow> State_Monad.return None
           | Inr projectAttributes \<Rightarrow>
               if windows \<and> \<not> checkWinSSHEnabled instanceAttributes projectAttributes
               then State_Monad.return None
               else do {
                 ks \<leftarrow> ak_getUserKeys parse_key username instanceAttributes projectAttributes;
                 State_Monad.return (Some (Join ks [CHR 0x0A])) }) }) }"

subsection \<open>The keys that are accepted at an instant\<close>

text \<open>\<^verbatim>\<open>key_live parse_key n key\<close>: the key does not expire, or expires at or after the instant \<^verbatim>\<open>n\<close>.\<close>

definition key_live :: "key_parser \<Rightarrow> int \<Rightarrow> string \<Rightarrow> bool" where
  "key_live parse_key n key \<longleftrightarrow>
     (case parse_key (Trim key '' '') of
        Inl e \<Rightarrow> False
      | Inr comment \<Rightarrow>
          Trim key '' '' \<noteq> [] \<and>
          (HasPrefix comment ''google-ssh'' \<longrightarrow>
             (case SplitN comment (CHR '' '') 2 of
                [_, js] \<Rightarrow>
                  (case sshExpiration js of
                     Inl e \<Rightarrow> False
                   | Inr expireOn \<Rightarrow> (case parse_time expireOn of None \<Rightarrow> False | Some t \<Rightarrow> n \<le> t))
              | _ \<Rightarrow> False)))"

definition accepted :: "key_parser \<Rightarrow> int \<Rightarrow> string \<Rightarrow> (string \<times> string) option" where
  "accepted parse_key n raw =
     (case GetUserKey raw of
        Inl e \<Rightarrow> None
      | Inr (u, k) \<Rightarrow> if ValidateUser u = None \<and> key_live parse_key n k then Some (u, k) else None)"

text \<open>A clock that stands still, and operations that only advance the tick.\<close>

definition frozen :: "int \<Rightarrow> 'z world_scheme \<Rightarrow> bool" where
  "frozen n w \<longleftrightarrow> (\<forall>t. now w t = n)"

definition ticks_only :: "'z world_scheme \<Rightarrow> 'z world_scheme \<Rightarrow> bool" where
  "ticks_only w w' \<longleftrightarrow> (\<exists>k. w' = w\<lparr>tick := k\<rparr>)"

lemma ticks_onlyI [intro]: "ticks_only w (w\<lparr>tick := k\<rparr>)"
  by (auto simp: ticks_only_def)

interpretation ticks: clock_frame ticks_only
proof
  show "ticks_only s s" for s :: "'a world_scheme"
    unfolding ticks_only_def by (rule exI [of _ "tick s"]) simp
  show "ticks_only s t \<Longrightarrow> ticks_only t u \<Longrightarrow> ticks_only s u" for s t u :: "'a world_scheme"
    by (auto simp: ticks_only_def)
  show "keeps ticks_only (time_Now :: ('a, int) io)"
    by (auto simp: keeps_def time_Now_def)
qed

context clock_frame
begin

lemma keeps_CheckExpired: "keeps R (CheckExpired s)"
  unfolding CheckExpired_def
  by (intro keeps_rules keeps_cases keeps_time_Now)

lemma keeps_CheckExpiredKey: "keeps R (CheckExpiredKey parse_key key)"
  unfolding CheckExpiredKey_def Let_def
  by (intro keeps_rules keeps_cases keeps_CheckExpired)

lemma keeps_ValidateUserKey: "keeps R (ValidateUserKey parse_key user key)"
  unfolding ValidateUserKey_def by (intro keeps_rules keeps_cases keeps_CheckExpiredKey)

end

lemma frozen_ticks: "ticks_only w w' \<Longrightarrow> frozen n w' \<longleftrightarrow> frozen n w"
  by (auto simp: ticks_only_def frozen_def)

text \<open>With the clock at \<^verbatim>\<open>n\<close>, the check accepts exactly the live keys.\<close>

lemma CheckExpiredKey_frozen:
  assumes "frozen n w"
  shows "fst (run_state (CheckExpiredKey parse_key key) w) = None \<longleftrightarrow> key_live parse_key n key"
  using assms
  by (auto simp: CheckExpiredKey_def CheckExpired_def key_live_def time_Now_def frozen_def Let_def
      split: sum.splits list.splits option.splits)

lemma ValidateUserKey_frozen:
  assumes "frozen n w"
  shows "fst (run_state (ValidateUserKey parse_key user key) w) = None \<longleftrightarrow>
         ValidateUser user = None \<and> key_live parse_key n key"
  using CheckExpiredKey_frozen [OF assms]
  by (auto simp: ValidateUserKey_def split: option.splits)

lemma Index_single: "Index s [c] = (if c \<in> set s then Some (length (takeWhile (\<lambda>x. x \<noteq> c) s)) else None)"
  by (induction s) auto

lemma GetUserKey_colon: "GetUserKey key = Inr p \<Longrightarrow> CHR '':'' \<in> set key"
  using set_Trim [of key "'' ''"]
  by (auto simp: GetUserKey_def Let_def Index_single split: if_splits option.splits)

lemma length_SplitN_2: "length (SplitN s c 2) = (if c \<in> set s then 2 else 1)"
  by (simp add: eval_nat_numeral)

text \<open>The keys of \<^verbatim>\<open>username\<close> among those accepted at \<^verbatim>\<open>n\<close>, in order.\<close>

definition keys_of :: "key_parser \<Rightarrow> int \<Rightarrow> string \<Rightarrow> string list \<Rightarrow> string list" where
  "keys_of parse_key n username raws =
     map snd (filter (\<lambda>(u, k). u = username) (List.map_filter (accepted parse_key n) raws))"

lemma keys_of_simps [simp]:
  "keys_of parse_key n username [] = []"
  "keys_of parse_key n username (r # rs) =
     (case accepted parse_key n r of
        Some (u, k) \<Rightarrow> (if u = username then [k] else []) | None \<Rightarrow> []) @ keys_of parse_key n username rs"
  by (auto simp: keys_of_def List.map_filter_simps split: option.splits)

lemma keys_of_append [simp]:
  "keys_of parse_key n u (xs @ ys) = keys_of parse_key n u xs @ keys_of parse_key n u ys"
  by (induction xs) auto

lemma parseSSHKeys_step_frozen:
  assumes "frozen n w"
  shows "\<exists>w'. run_state (parseSSHKeys_step parse_key u key acc) w = (Inr (acc @ keys_of parse_key n u [key]), w') \<and>
              ticks_only w w'"
proof (cases "GetUserKey key")
  case (Inl e)
  then show ?thesis
    by (auto simp: parseSSHKeys_step_def accepted_def ticks.frame_refl)
next
  case (Inr p)
  obtain v k where p: "p = (v, k)" by (cases p)
  obtain r w' where r: "run_state (ValidateUserKey parse_key v k) w = (r, w')"
    by fastforce
  with keepsD [OF ticks.keeps_ValidateUserKey, of w parse_key v k] have "ticks_only w w'"
    by simp
  moreover from r ValidateUserKey_frozen [OF assms, of parse_key v k]
  have "r = None \<longleftrightarrow> ValidateUser v = None \<and> key_live parse_key n k"
    by simp
  ultimately show ?thesis
    using Inr p r GetUserKey_colon [OF Inr]
    by (auto simp: parseSSHKeys_step_def accepted_def length_SplitN_2)
qed

lemma for_range_parseSSHKeys:
  assumes "frozen n w"
  shows "\<exists>w'. run_state (for_range (parseSSHKeys_step parse_key u) keys acc) w =
                (Inr (acc @ keys_of parse_key n u keys), w') \<and> ticks_only w w'"
  using assms
proof (induction keys arbitrary: acc w)
  case Nil
  then show ?case by (auto simp: ticks.frame_refl)
next
  case (Cons key keys)
  obtain w1 where w1: "run_state (parseSSHKeys_step parse_key u key acc) w =
      (Inr (acc @ keys_of parse_key n u [key]), w1)" "ticks_only w w1"
    using parseSSHKeys_step_frozen [OF Cons.prems] by blast
  with Cons.prems have "frozen n w1" by (simp add: frozen_ticks)
  from Cons.IH [OF this, of "acc @ keys_of parse_key n u [key]"] w1 show ?case
    by (auto intro: ticks.frame_trans)
qed

lemma parseSSHKeys_frozen:
  assumes "frozen n w"
  shows "\<exists>w'. run_state (parseSSHKeys parse_key u keys) w = (keys_of parse_key n u keys, w') \<and> ticks_only w w'"
  using for_range_parseSSHKeys [OF assms, of parse_key u keys "[]"]
  by (auto simp: parseSSHKeys_def)

end
