(* ===== verification/Metadata.thy ===== *)
theory Metadata
  imports SshKeys
begin

text \<open>
  Package \<^verbatim>\<open>metadata\<close> (\<^verbatim>\<open>metadata/metadata.go\<close>, \<^verbatim>\<open>metadata/windows.go\<close>): the descriptor the metadata
  server returns, its decoding from JSON, and the client with its etag and retries. The HTTP round
  trip is the field \<^verbatim>\<open>http\<close> of the world; every request is recorded in \<^verbatim>\<open>requests\<close>. The URLs are the
  constant base with literal keys, so they always parse.
\<close>

subsection \<open>The descriptor\<close>

record NetworkInterfaces =
  ForwardedIps :: "string list"
  ForwardedIpv6s :: "string list"
  TargetInstanceIps :: "string list"
  IPAliases :: "string list"
  Mac :: string
  DHCPv6Refresh :: string
  MTU :: int

record VlanInterface =
  vlan_Mac :: string
  ParentInterface :: string
  Vlan :: int
  vlan_MTU :: int
  IP :: string
  IPv6 :: "string list"
  Gateway :: string
  GatewayIPv6 :: string
  vlan_DHCPv6Refresh :: string

record WindowsKey =
  Email :: string
  ExpireOn :: string
  Exponent :: string
  Modulus :: string
  UserName :: string
  HashFunction :: string
  AddToAdministrators :: "bool option"
  PasswordLength :: int

record Attributes =
  CreatedBy :: string
  BlockProjectKeys :: bool
  HTTPSMDSEnableNativeStore :: "bool option"
  DisableHTTPSMdsSetup :: "bool option"
  EnableOSLogin :: "bool option"
  EnableWindowsSSH :: "bool option"
  TwoFactor :: "bool option"
  SecurityKey :: "bool option"
  RequireCerts :: "bool option"
  SSHKeys :: "string list"
  WindowsKeys :: "WindowsKey list"
  Diagnostics :: string
  DisableAddressManager :: "bool option"
  DisableAccountManager :: "bool option"
  EnableDiagnostics :: "bool option"
  EnableWSFC :: "bool option"
  WSFCAddresses :: string
  WSFCAgentPort :: string
  DisableTelemetry :: bool

definition no_attributes :: Attributes where
  "no_attributes = \<lparr>CreatedBy = [], BlockProjectKeys = False, HTTPSMDSEnableNativeStore = None,
     DisableHTTPSMdsSetup = None, EnableOSLogin = None, EnableWindowsSSH = None, TwoFactor = None,
     SecurityKey = None, RequireCerts = None, SSHKeys = [], WindowsKeys = [], Diagnostics = [],
     DisableAddressManager = None, DisableAccountManager = None, EnableDiagnostics = None,
     EnableWSFC = None, WSFCAddresses = [], WSFCAgentPort = [], DisableTelemetry = False\<rparr>"

text \<open>A Go map from integers to maps from integers is a list of pairs with distinct keys.\<close>

record Instance =
  ID :: string
  MachineType :: string
  InstanceAttributes :: Attributes
  InstanceNetworkInterfaces :: "NetworkInterfaces list"
  VlanNetworkInterfaces :: "(int \<times> (int \<times> VlanInterface) list) list"
  DriftToken :: int

record Project =
  ProjectAttributes :: Attributes
  ProjectID :: string
  NumericProjectID :: string

record Descriptor =
  Inst :: Instance
  Proj :: Project

definition empty_instance :: Instance where
  "empty_instance = \<lparr>ID = [], MachineType = [], InstanceAttributes = no_attributes,
     InstanceNetworkInterfaces = [], VlanNetworkInterfaces = [], DriftToken = 0\<rparr>"

definition empty_project :: Project where
  "empty_project = \<lparr>ProjectAttributes = no_attributes, ProjectID = [], NumericProjectID = []\<rparr>"

definition empty_descriptor :: Descriptor where
  "empty_descriptor = \<lparr>Inst = empty_instance, Proj = empty_project\<rparr>"

abbreviation inst_attr :: "Descriptor \<Rightarrow> Attributes" where
  "inst_attr md \<equiv> InstanceAttributes (Inst md)"

abbreviation proj_attr :: "Descriptor \<Rightarrow> Attributes" where
  "proj_attr md \<equiv> ProjectAttributes (Proj md)"

subsection \<open>Decoding\<close>

definition json_int_field :: "(string \<times> json) list \<Rightarrow> string \<Rightarrow> int option" where
  "json_int_field ps k =
     (case json_field ps k of None \<Rightarrow> Some 0 | Some (JNum t) \<Rightarrow> Atoi t | Some _ \<Rightarrow> None)"

definition json_bool_field :: "(string \<times> json) list \<Rightarrow> string \<Rightarrow> bool option option" where
  "json_bool_field ps k =
     (case json_field ps k of None \<Rightarrow> Some None | Some (JBool b) \<Rightarrow> Some (Some b) | Some _ \<Rightarrow> None)"

definition json_number_field :: "(string \<times> json) list \<Rightarrow> string \<Rightarrow> string option" where
  "json_number_field ps k =
     (case json_field ps k of
        None \<Rightarrow> Some []
      | Some (JNum t) \<Rightarrow> Some t
      | Some (JStr t) \<Rightarrow> (if t = [] \<or> map_option snd (json_number t) = Some [] then Some t else None)
      | Some _ \<Rightarrow> None)"

fun json_strs :: "json list \<Rightarrow> string list option" where
  "json_strs [] = Some []"
| "json_strs (JStr s # vs) = map_option (Cons s) (json_strs vs)"
| "json_strs (JNull # vs) = map_option (Cons []) (json_strs vs)"
| "json_strs (_ # vs) = None"

definition json_strs_field :: "(string \<times> json) list \<Rightarrow> string \<Rightarrow> string list option" where
  "json_strs_field ps k =
     (case json_field ps k of None \<Rightarrow> Some [] | Some (JArr vs) \<Rightarrow> json_strs vs | Some _ \<Rightarrow> None)"

definition decode_nic :: "json \<Rightarrow> NetworkInterfaces option" where
  "decode_nic v = do {
     ps \<leftarrow> json_members v;
     f4 \<leftarrow> json_strs_field ps ''ForwardedIps'';
     f6 \<leftarrow> json_strs_field ps ''ForwardedIpv6s'';
     ti \<leftarrow> json_strs_field ps ''TargetInstanceIps'';
     al \<leftarrow> json_strs_field ps ''IPAliases'';
     mac \<leftarrow> json_str_field ps ''Mac'';
     d6 \<leftarrow> json_str_field ps ''DHCPv6Refresh'';
     mtu \<leftarrow> json_int_field ps ''MTU'';
     Some \<lparr>ForwardedIps = f4, ForwardedIpv6s = f6, TargetInstanceIps = ti, IPAliases = al,
       Mac = mac, DHCPv6Refresh = d6, MTU = mtu\<rparr> }"

definition decode_vlan :: "json \<Rightarrow> VlanInterface option" where
  "decode_vlan v = do {
     ps \<leftarrow> json_members v;
     mac \<leftarrow> json_str_field ps ''Mac'';
     par \<leftarrow> json_str_field ps ''ParentInterface'';
     vl \<leftarrow> json_int_field ps ''Vlan'';
     mtu \<leftarrow> json_int_field ps ''MTU'';
     ip \<leftarrow> json_str_field ps ''IP'';
     ip6 \<leftarrow> json_strs_field ps ''IPv6'';
     gw \<leftarrow> json_str_field ps ''Gateway'';
     gw6 \<leftarrow> json_str_field ps ''GatewayIPv6'';
     d6 \<leftarrow> json_str_field ps ''DHCPv6Refresh'';
     Some \<lparr>vlan_Mac = mac, ParentInterface = par, Vlan = vl, vlan_MTU = mtu, IP = ip, IPv6 = ip6,
       Gateway = gw, GatewayIPv6 = gw6, vlan_DHCPv6Refresh = d6\<rparr> }"

fun option_list :: "'a option list \<Rightarrow> 'a list option" where
  "option_list [] = Some []"
| "option_list (None # xs) = None"
| "option_list (Some x # xs) = map_option (Cons x) (option_list xs)"

text \<open>A JSON object as a Go map with integer keys.\<close>

definition decode_int_map :: "(json \<Rightarrow> 'v option) \<Rightarrow> json \<Rightarrow> (int \<times> 'v) list option" where
  "decode_int_map dec v =
     (case json_members v of
        None \<Rightarrow> None
      | Some ps \<Rightarrow>
          map_option (\<lambda>kvs. fold (\<lambda>(k, x) m. AList.update k x m) kvs [])
            (option_list (map (\<lambda>(k, x). case (Atoi k, dec x) of (Some i, Some y) \<Rightarrow> Some (i, y) | _ \<Rightarrow> None) ps)))"

definition decode_nics_field :: "(string \<times> json) list \<Rightarrow> NetworkInterfaces list option" where
  "decode_nics_field ps =
     (case json_field ps ''NetworkInterfaces'' of
        None \<Rightarrow> Some []
      | Some (JArr vs) \<Rightarrow> option_list (map decode_nic vs)
      | Some _ \<Rightarrow> None)"

definition decode_vlans_field ::
  "(string \<times> json) list \<Rightarrow> (int \<times> (int \<times> VlanInterface) list) list option" where
  "decode_vlans_field ps =
     (case json_field ps ''VlanNetworkInterfaces'' of
        None \<Rightarrow> Some [] | Some v \<Rightarrow> decode_int_map (decode_int_map decode_vlan) v)"

definition decode_clock_field :: "(string \<times> json) list \<Rightarrow> int option" where
  "decode_clock_field ps =
     (case json_field ps ''VirtualClock'' of
        None \<Rightarrow> Some 0
      | Some v \<Rightarrow> (case json_members v of None \<Rightarrow> None | Some qs \<Rightarrow> json_int_field qs ''drift-token''))"

definition decode_windows_key :: "string \<Rightarrow> WindowsKey option" where
  "decode_windows_key jskey = do {
     v \<leftarrow> json_parse jskey;
     ps \<leftarrow> json_members v;
     em \<leftarrow> json_str_field ps ''Email'';
     ex \<leftarrow> json_str_field ps ''ExpireOn'';
     xp \<leftarrow> json_str_field ps ''Exponent'';
     mo \<leftarrow> json_str_field ps ''Modulus'';
     us \<leftarrow> json_str_field ps ''UserName'';
     hf \<leftarrow> json_str_field ps ''HashFunction'';
     aa \<leftarrow> json_bool_field ps ''AddToAdministrators'';
     pl \<leftarrow> json_int_field ps ''PasswordLength'';
     Some \<lparr>Email = em, ExpireOn = ex, Exponent = xp, Modulus = mo, UserName = us, HashFunction = hf,
       AddToAdministrators = aa, PasswordLength = pl\<rparr> }"

definition WindowsKeys_step :: "string \<Rightarrow> WindowsKey list \<Rightarrow> ('z, unit + WindowsKey list) io" where
  "WindowsKeys_step jskey k =
     (case decode_windows_key jskey of
        None \<Rightarrow> State_Monad.return (Inr k)
      | Some wk \<Rightarrow> do {
          (expired, _) \<leftarrow> CheckExpired (ExpireOn wk);
          State_Monad.return
            (Inr (if Exponent wk \<noteq> [] \<and> Modulus wk \<noteq> [] \<and> UserName wk \<noteq> [] \<and> \<not> expired
                  then k @ [wk] else k)) })"

definition WindowsKeys_UnmarshalJSON :: "json option \<Rightarrow> ('z, WindowsKey list option) io" where
  "WindowsKeys_UnmarshalJSON b =
     (case b of
        None \<Rightarrow> State_Monad.return (Some [])
      | Some (JStr s) \<Rightarrow> do {
          r \<leftarrow> for_range WindowsKeys_step (Split s (CHR 0x0A)) [];
          State_Monad.return (case r of Inr ks \<Rightarrow> Some ks | Inl _ \<Rightarrow> None) }
      | Some _ \<Rightarrow> State_Monad.return None)"

text \<open>The literal fields of the struct \<^verbatim>\<open>inner\<close>, in the order of the source.\<close>

definition attr_names :: "string list" where
  "attr_names = [''created-by'', ''block-project-ssh-keys'', ''diagnostics'', ''disable-account-manager'',
     ''disable-address-manager'', ''enable-diagnostics'', ''enable-oslogin'', ''enable-windows-ssh'',
     ''enable-wsfc'', ''sshKeys'', ''ssh-keys'', ''enable-oslogin-2fa'', ''enable-oslogin-sk'',
     ''enable-oslogin-certificates'', ''wsfc-addrs'', ''wsfc-agent-port'', ''disable-guest-telemetry'',
     ''disable-https-mds-setup'', ''enable-https-mds-native-cert-store'']"

text \<open>From the literal strings of the struct, \<^verbatim>\<open>temp\<close>, to the attributes.\<close>

definition attributes_of :: "(string \<Rightarrow> string) \<Rightarrow> WindowsKey list \<Rightarrow> Attributes" where
  "attributes_of temp wks =
     (let keys = (if temp ''ssh-keys'' \<noteq> [] then Split (temp ''ssh-keys'') (CHR 0x0A) else []);
          old = temp ''sshKeys'';
          block = deref_or False (ParseBool (temp ''block-project-ssh-keys''))
      in \<lparr>CreatedBy = temp ''created-by'',
          BlockProjectKeys = (if old \<noteq> [] then True else block),
          HTTPSMDSEnableNativeStore = ParseBool (temp ''enable-https-mds-native-cert-store''),
          DisableHTTPSMdsSetup = ParseBool (temp ''disable-https-mds-setup''),
          EnableOSLogin = ParseBool (temp ''enable-oslogin''),
          EnableWindowsSSH = ParseBool (temp ''enable-windows-ssh''),
          TwoFactor = ParseBool (temp ''enable-oslogin-2fa''),
          SecurityKey = ParseBool (temp ''enable-oslogin-sk''),
          RequireCerts = ParseBool (temp ''enable-oslogin-certificates''),
          SSHKeys = (if old \<noteq> [] then keys @ Split old (CHR 0x0A) else keys),
          WindowsKeys = wks,
          Diagnostics = temp ''diagnostics'',
          DisableAddressManager = ParseBool (temp ''disable-address-manager''),
          DisableAccountManager = ParseBool (temp ''disable-account-manager''),
          EnableDiagnostics = ParseBool (temp ''enable-diagnostics''),
          EnableWSFC = ParseBool (temp ''enable-wsfc''),
          WSFCAddresses = temp ''wsfc-addrs'',
          WSFCAgentPort = temp ''wsfc-agent-port'',
          DisableTelemetry = deref_or False (ParseBool (temp ''disable-guest-telemetry''))\<rparr>)"

definition Attributes_UnmarshalJSON :: "json \<Rightarrow> ('z, Attributes option) io" where
  "Attributes_UnmarshalJSON b =
     (case json_members b of
        None \<Rightarrow> State_Monad.return None
      | Some ps \<Rightarrow> do {
          wks \<leftarrow> WindowsKeys_UnmarshalJSON (json_field ps ''windows-keys'');
          State_Monad.return
            (case wks of
               None \<Rightarrow> None
             | Some ks \<Rightarrow>
                 if list_all (\<lambda>k. json_str_field ps k \<noteq> None) attr_names
                 then Some (attributes_of (\<lambda>k. the (json_str_field ps k)) ks)
                 else None) })"

definition decode_attr_field :: "(string \<times> json) list \<Rightarrow> ('z, Attributes option) io" where
  "decode_attr_field ps =
     (case json_field ps ''Attributes'' of
        None \<Rightarrow> State_Monad.return (Some no_attributes)
      | Some v \<Rightarrow> Attributes_UnmarshalJSON v)"

definition decode_instance :: "json option \<Rightarrow> ('z, Instance option) io" where
  "decode_instance v =
     (case v of
        None \<Rightarrow> State_Monad.return (Some empty_instance)
      | Some v \<Rightarrow>
          (case json_members v of
             None \<Rightarrow> State_Monad.return None
           | Some ps \<Rightarrow> do {
               a \<leftarrow> decode_attr_field ps;
               State_Monad.return (do {
                 attrs \<leftarrow> a;
                 i \<leftarrow> json_number_field ps ''ID'';
                 mt \<leftarrow> json_str_field ps ''MachineType'';
                 nics \<leftarrow> decode_nics_field ps;
                 vls \<leftarrow> decode_vlans_field ps;
                 dt \<leftarrow> decode_clock_field ps;
                 Some \<lparr>ID = i, MachineType = mt, InstanceAttributes = attrs,
                   InstanceNetworkInterfaces = nics, VlanNetworkInterfaces = vls, DriftToken = dt\<rparr> }) }))"

definition decode_project :: "json option \<Rightarrow> ('z, Project option) io" where
  "decode_project v =
     (case v of
        None \<Rightarrow> State_Monad.return (Some empty_project)
      | Some v \<Rightarrow>
          (case json_members v of
             None \<Rightarrow> State_Monad.return None
           | Some ps \<Rightarrow> do {
               a \<leftarrow> decode_attr_field ps;
               State_Monad.return (do {
                 attrs \<leftarrow> a;
                 p \<leftarrow> json_str_field ps ''ProjectID'';
                 n \<leftarrow> json_number_field ps ''NumericProjectID'';
                 Some \<lparr>ProjectAttributes = attrs, ProjectID = p, NumericProjectID = n\<rparr> }) }))"

text \<open>
  The text of a syntax error, for a text \<^verbatim>\<open>b\<close> and the offset of the error in it: the line with the
  error and a caret below it.
\<close>

definition last_newline_before :: "string \<Rightarrow> nat \<Rightarrow> nat" where
  "last_newline_before b off = off - length (takeWhile (\<lambda>c. c \<noteq> CHR 0x0A) (rev (take off b)))"

definition error_line :: "string \<Rightarrow> nat \<Rightarrow> string \<times> nat" where
  "error_line b off =
     (let start = last_newline_before b off;
          end = (case Index (drop start b) [CHR 0x0A] of Some i \<Rightarrow> start + i | None \<Rightarrow> length b);
          pos = off - start
      in (take (end - start) (drop start b), if pos \<noteq> 0 then pos - 1 else pos))"

definition syntax_error_text :: "string \<Rightarrow> nat \<Rightarrow> string" where
  "syntax_error_text b off =
     (case error_line b off of
        (line, pos) \<Rightarrow> ''JSON syntax error: '' @ [CHR 0x0A] @ line @ [CHR 0x0A] @ replicate pos (CHR '' '') @ ''^'')"

definition Descriptor_UnmarshalJSON :: "string \<Rightarrow> ('z, Descriptor res) io" where
  "Descriptor_UnmarshalJSON b =
     (case json_parse b of
        None \<Rightarrow> State_Monad.return (Inl (Msg ''JSON syntax error''))
      | Some v \<Rightarrow>
          (case json_members v of
             None \<Rightarrow> State_Monad.return (Inl (Msg ''json: cannot unmarshal''))
           | Some ps \<Rightarrow> do {
               i \<leftarrow> decode_instance (json_field ps ''Instance'');
               p \<leftarrow> decode_project (json_field ps ''Project'');
               State_Monad.return
                 (case (i, p) of
                    (Some inst, Some proj) \<Rightarrow> Inr \<lparr>Inst = inst, Proj = proj\<rparr>
                  | _ \<Rightarrow> Inl (Msg ''json: cannot unmarshal'')) }))"

subsection \<open>Decoding only reads the clock\<close>

lemma keeps_json_str:
  "(\<And>s. keeps R (f s)) \<Longrightarrow> keeps R g \<Longrightarrow> keeps R (case v of JStr s \<Rightarrow> f s | _ \<Rightarrow> g)"
  by (cases v) auto

context clock_frame
begin

lemma keeps_WindowsKeys: "keeps R (WindowsKeys_UnmarshalJSON b)"
  unfolding WindowsKeys_UnmarshalJSON_def WindowsKeys_step_def
  by (intro keeps_rules keeps_cases keeps_json_str keeps_CheckExpired)

lemma keeps_Attributes: "keeps R (decode_attr_field ps)"
  unfolding decode_attr_field_def Attributes_UnmarshalJSON_def
  by (intro keeps_rules keeps_cases keeps_WindowsKeys)

lemma keeps_Descriptor: "keeps R (Descriptor_UnmarshalJSON b)"
  unfolding Descriptor_UnmarshalJSON_def decode_instance_def decode_project_def
  by (intro keeps_rules keeps_cases keeps_Attributes)

end

end
