(* ===== verification/Triple.thy ===== *)
theory Triple
  imports Retry
begin

text \<open>
  Hoare triples for the state monad, for the operations whose steps depend on each other:
  \<^verbatim>\<open>triple P m Q\<close> says that from a state of \<^verbatim>\<open>P\<close> the operation \<^verbatim>\<open>m\<close> ends with a value and a state of
  \<^verbatim>\<open>Q\<close>. The rules follow the two idioms of Go, \<^verbatim>\<open>if err := f(); err != nil { return ... }\<close> and
  \<^verbatim>\<open>v, err := f(); if err != nil { return ... }\<close>, and the system calls, each with everything it can do to
  the files whether it fails or not.
\<close>

definition if_ok :: "('s, goerr option) state \<Rightarrow> (goerr \<Rightarrow> 'b) \<Rightarrow> ('s, 'b) state \<Rightarrow> ('s, 'b) state" where
  "if_ok m h k = do { e \<leftarrow> m; (case e of Some e \<Rightarrow> State_Monad.return (h e) | None \<Rightarrow> k) }"

definition bind_ok :: "('s, 'a res) state \<Rightarrow> (goerr \<Rightarrow> 'b) \<Rightarrow> ('a \<Rightarrow> ('s, 'b) state) \<Rightarrow> ('s, 'b) state" where
  "bind_ok m h k = do { r \<leftarrow> m; (case r of Inl e \<Rightarrow> State_Monad.return (h e) | Inr x \<Rightarrow> k x) }"

lemma run_if_ok [simp]:
  "run_state (if_ok m h k) w =
     (case run_state m w of (Some e, w1) \<Rightarrow> (h e, w1) | (None, w1) \<Rightarrow> run_state k w1)"
  by (simp add: if_ok_def split: prod.splits option.splits)

lemma run_bind_ok [simp]:
  "run_state (bind_ok m h k) w =
     (case run_state m w of (Inl e, w1) \<Rightarrow> (h e, w1) | (Inr x, w1) \<Rightarrow> run_state (k x) w1)"
  by (simp add: bind_ok_def split: prod.splits sum.splits)

lemma within_if_ok [frame_intros]:
  "keeps (confined S) m \<Longrightarrow> keeps (confined S) k \<Longrightarrow> keeps (confined S) (if_ok m h k)"
  unfolding if_ok_def by (intro frame_intros)

lemma within_bind_ok [frame_intros]:
  "keeps (confined S) m \<Longrightarrow> (\<And>x. keeps (confined S) (k x)) \<Longrightarrow> keeps (confined S) (bind_ok m h k)"
  unfolding bind_ok_def by (intro frame_intros)

definition triple :: "('s \<Rightarrow> bool) \<Rightarrow> ('s, 'a) state \<Rightarrow> ('a \<Rightarrow> 's \<Rightarrow> bool) \<Rightarrow> bool" where
  "triple P m Q \<longleftrightarrow> (\<forall>w. P w \<longrightarrow> (case run_state m w of (r, w') \<Rightarrow> Q r w'))"

lemma tripleI: "(\<And>w r w'. P w \<Longrightarrow> run_state m w = (r, w') \<Longrightarrow> Q r w') \<Longrightarrow> triple P m Q"
  by (auto simp: triple_def)

lemma tripleD: "triple P m Q \<Longrightarrow> P w \<Longrightarrow> run_state m w = (r, w') \<Longrightarrow> Q r w'"
  by (auto simp: triple_def)

lemma triple_return: "(\<And>w. P w \<Longrightarrow> Q x w) \<Longrightarrow> triple P (State_Monad.return x) Q"
  by (simp add: triple_def)

lemma triple_bind: "triple P m R \<Longrightarrow> (\<And>x. triple (R x) (k x) Q) \<Longrightarrow> triple P (State_Monad.bind m k) Q"
  by (fastforce simp: triple_def split: prod.splits)

lemma triple_pre: "triple P' m Q \<Longrightarrow> (\<And>w. P w \<Longrightarrow> P' w) \<Longrightarrow> triple P m Q"
  by (auto simp: triple_def)

lemma triple_post: "triple P m Q' \<Longrightarrow> (\<And>x w. Q' x w \<Longrightarrow> Q x w) \<Longrightarrow> triple P m Q"
  by (fastforce simp: triple_def)

lemma triple_if_ok:
  assumes "triple P m (\<lambda>e w. case e of Some _ \<Rightarrow> E w | None \<Rightarrow> R w)" and "\<And>e w. E w \<Longrightarrow> Q (h e) w" and "triple R k Q"
  shows "triple P (if_ok m h k) Q"
proof (rule tripleI)
  fix w r w'
  assume P: "P w" and run: "run_state (if_ok m h k) w = (r, w')"
  obtain e w1 where m: "run_state m w = (e, w1)"
    by fastforce
  from tripleD [OF assms(1) P m] run m assms(2) tripleD [OF assms(3), of w1] show "Q r w'"
    by (cases e) auto
qed

lemma triple_bind_ok:
  assumes "triple P m (\<lambda>r w. case r of Inl _ \<Rightarrow> E w | Inr x \<Rightarrow> R x w)" and "\<And>e w. E w \<Longrightarrow> Q (h e) w"
    and "\<And>x. triple (R x) (k x) Q"
  shows "triple P (bind_ok m h k) Q"
proof (rule tripleI)
  fix w r w'
  assume P: "P w" and run: "run_state (bind_ok m h k) w = (r, w')"
  obtain x w1 where m: "run_state m w = (x, w1)"
    by fastforce
  from tripleD [OF assms(1) P m] run m assms(2) tripleD [OF assms(3), of _ w1] show "Q r w'"
    by (cases x) auto
qed

lemma triple_if: "(b \<Longrightarrow> triple P m Q) \<Longrightarrow> (\<not> b \<Longrightarrow> triple P n Q) \<Longrightarrow> triple P (if b then m else n) Q"
  by simp

lemma triple_pure: "triple (\<lambda>w. B \<and> P w) m Q \<longleftrightarrow> (B \<longrightarrow> triple P m Q)"
  by (auto simp: triple_def)

text \<open>An assertion that an operation's frame respects holds beside whatever else it establishes.\<close>

lemma triple_frame:
  assumes "keeps R m" and "\<And>w w'. R w w' \<Longrightarrow> I w \<Longrightarrow> I w'" and "triple P m Q"
  shows "triple (\<lambda>w. P w \<and> I w) m (\<lambda>r w. Q r w \<and> I w)"
proof (rule tripleI)
  fix w r w'
  assume w: "P w \<and> I w" and run: "run_state m w = (r, w')"
  from keepsD [OF assms(1), of w] assms(2) [of w w'] tripleD [OF assms(3) _ run] w run show "Q r w' \<and> I w'"
    by simp
qed

subsection \<open>Assertions about the files\<close>

text \<open>An operation that leaves the files alone keeps every assertion about them.\<close>

definition same_files :: "'z world_scheme \<Rightarrow> 'z world_scheme \<Rightarrow> bool" where
  "same_files w w' \<longleftrightarrow> map_of (fs w') = map_of (fs w)"

lemma triple_files:
  assumes "keeps same_files m"
  shows "triple (\<lambda>w. P (map_of (fs w))) m (\<lambda>_ w. P (map_of (fs w)))"
proof (rule tripleI)
  fix w r w'
  assume "P (map_of (fs w))" and "run_state m w = (r, w')"
  with keepsD [OF assms, of w] show "P (map_of (fs w'))"
    by (simp add: same_files_def)
qed

interpretation same_files: wait_frame same_files
  by unfold_locales
     (auto simp: same_files_def keeps_def time_Now_def ctx_Err_def done_or_after_def Let_def split: option.splits)

text \<open>The system calls as they act on the map of files.\<close>

lemma triple_syscall:
  assumes "\<And>um f. P (map_of f) \<Longrightarrow> (\<forall>e. Q (Inl (Sys e)) (map_of f)) \<and>
     (\<forall>a f'. F um f = Inr (a, f') \<longrightarrow> Q (Inr a) (map_of f'))"
  shows "triple (\<lambda>w. P (map_of (fs w))) (syscall F) (\<lambda>r w. Q r (map_of (fs w)))"
  using assms by (fastforce simp: triple_def syscall_def Let_def split: option.splits sum.splits)

lemma triple_errs:
  assumes "triple P m (\<lambda>r w. case r of Inl e \<Rightarrow> Q (Some e) w | Inr _ \<Rightarrow> Q None w)"
  shows "triple P (errs m) Q"
proof (rule tripleI)
  fix w r w'
  assume "P w" and "run_state (errs m) w = (r, w')"
  then obtain x where "run_state m w = (x, w')" and "r = err_of x"
    by (auto split: prod.splits)
  with tripleD [OF assms \<open>P w\<close>] show "Q r w'"
    by (cases x) fastforce+
qed

lemma triple_Stat:
  "triple (\<lambda>w. P (map_of (fs w))) (os_Stat p) (\<lambda>_ w. P (map_of (fs w)))"
  unfolding os_Stat_def by (rule triple_syscall) (auto split: sum.splits prod.splits)

lemma triple_Close:
  "triple (\<lambda>w. P (map_of (fs w))) os_Close (\<lambda>e w. case e of Some _ \<Rightarrow> P (map_of (fs w)) | None \<Rightarrow> P (map_of (fs w)))"
  by (auto simp: triple_def os_Close_def syscall_def errs_def Let_def split: option.splits)

lemma triple_Readlink:
  "triple (\<lambda>w. P (map_of (fs w))) (os_Readlink p)
     (\<lambda>r w. P (map_of (fs w)) \<and> (\<forall>t. r = Inr t \<longrightarrow> map_of (fs w) p = Some (Link t)))"
  unfolding os_Readlink_def
  by (rule triple_syscall [where Q = "\<lambda>r f. P f \<and> (\<forall>t. r = Inr t \<longrightarrow> f p = Some (Link t))"])
     (auto split: option.splits node.splits)

lemma triple_Symlink:
  assumes "\<And>f. P f \<Longrightarrow> Q f" and "\<And>f. P f \<Longrightarrow> f p = None \<Longrightarrow> R (f(p \<mapsto> Link t))"
  shows "triple (\<lambda>w. P (map_of (fs w))) (os_Symlink t p)
     (\<lambda>e w. case e of Some _ \<Rightarrow> Q (map_of (fs w)) | None \<Rightarrow> R (map_of (fs w)))"
  unfolding os_Symlink_def
  by (rule triple_errs, rule triple_syscall [where Q = "\<lambda>r f. case r of Inl e \<Rightarrow> Q f | Inr _ \<Rightarrow> R f", THEN triple_post])
     (auto simp: assms update_conv' split: if_splits sum.splits)

lemma triple_Rename:
  assumes "\<And>f. P f \<Longrightarrow> Q f"
    and "\<And>f n. P f \<Longrightarrow> f a = Some n \<Longrightarrow> R ((f(a := None))(b \<mapsto> n))"
  shows "triple (\<lambda>w. P (map_of (fs w))) (os_Rename a b)
     (\<lambda>e w. case e of Some _ \<Rightarrow> Q (map_of (fs w)) | None \<Rightarrow> R (map_of (fs w)))"
  unfolding os_Rename_def
  by (rule triple_errs, rule triple_syscall [where Q = "\<lambda>r f. case r of Inl e \<Rightarrow> Q f | Inr _ \<Rightarrow> R f", THEN triple_post])
     (auto simp: assms update_conv' delete_conv' split: if_splits sum.splits option.splits node.splits)

lemma triple_RemoveAll:
  assumes "\<And>f. P f \<Longrightarrow> Q f" and "\<And>f. P f \<Longrightarrow> p \<noteq> [] \<Longrightarrow> Q (\<lambda>q. if below p q then None else f q)"
  shows "triple (\<lambda>w. P (map_of (fs w))) (os_RemoveAll p) (\<lambda>_ w. Q (map_of (fs w)))"
proof (cases "p = []")
  case True
  with assms(1) show ?thesis
    by (auto simp: os_RemoveAll_def intro: triple_return)
next
  case False
  have eq: "map_of (filter (\<lambda>(q, n). \<not> below p q) f) = (\<lambda>q. if below p q then None else map_of f q)" for f :: files
    by (rule ext) (rule map_of_remove_below)
  from False show ?thesis
    unfolding os_RemoveAll_def
    by simp (rule triple_errs, rule triple_syscall [where Q = "\<lambda>_. Q", THEN triple_post];
        auto simp: assms eq split: sum.splits)
qed

text \<open>Directories are only added, at prefixes of the path that held nothing.\<close>

definition dirs_added :: "string list \<Rightarrow> (string \<rightharpoonup> node) \<Rightarrow> (string \<rightharpoonup> node) \<Rightarrow> bool" where
  "dirs_added ps f g \<longleftrightarrow>
     (\<forall>q. g q = f q \<or> (f q = None \<and> q \<in> set ps \<and> (\<exists>m o1. g q = Some (Dir m o1))))"

text \<open>No prefix is longer than an absolute path.\<close>

lemma length_dir_prefixes:
  assumes "HasPrefix p ''/''" and "q \<in> set (dir_prefixes p)"
  shows "length q \<le> length p"
proof -
  from assms(1) obtain r where p: "p = CHR ''/'' # r"
    by (auto simp: HasPrefix_iff)
  let ?cs = "filter (\<lambda>c. c \<noteq> []) (Split p (CHR ''/''))"
  from assms obtain i where q: "q = ''/'' @ Join (take (Suc i) ?cs) ''/''"
    by (auto simp: dir_prefixes_def Let_def)
  have "length (Join (take (Suc i) ?cs) ''/'') \<le> length (Join ?cs ''/'')"
    by (rule length_Join_take)
  also have "\<dots> \<le> length (Join (Split r (CHR ''/'')) ''/'')"
    unfolding p by (simp del: Join_Split) (rule length_Join_filter)
  finally show ?thesis
    by (simp add: q p)
qed

lemma dirs_added_mkdirs: "mkdirs m ps f = Inr g \<Longrightarrow> dirs_added ps (map_of f) (map_of g)"
proof (induction ps arbitrary: f)
  case (Cons p ps)
  then consider "mkdirs m ps f = Inr g"
    | "map_of f p = None" "mkdirs m ps (AList.update p (Dir m (0, 0)) f) = Inr g"
    by (auto split: sum.splits prod.splits node.splits errno.splits if_splits)
  then show ?case
  proof cases
    case 1
    from Cons.IH [OF this] show ?thesis
      by (auto simp: dirs_added_def)
  next
    case 2
    from Cons.IH [OF this(2)] have "\<And>q. map_of g q = ((map_of f)(p \<mapsto> Dir m (0, 0))) q \<or>
        (((map_of f)(p \<mapsto> Dir m (0, 0))) q = None \<and> q \<in> set ps \<and> (\<exists>m o1. map_of g q = Some (Dir m o1)))"
      by (simp add: dirs_added_def update_conv')
    with 2(1) show ?thesis
      unfolding dirs_added_def by (metis fun_upd_apply list.set_intros(1,2) option.distinct(1))
  qed
qed (simp add: dirs_added_def)

lemma triple_MkdirAll:
  assumes "\<And>f g. P f \<Longrightarrow> dirs_added (dir_prefixes p) f g \<Longrightarrow> P g"
  shows "triple (\<lambda>w. P (map_of (fs w))) (os_MkdirAll p m) (\<lambda>_ w. P (map_of (fs w)))"
  unfolding os_MkdirAll_def
  by (rule triple_errs, rule triple_syscall [where Q = "\<lambda>_. P", THEN triple_post])
     (auto split: sum.splits dest: dirs_added_mkdirs intro: assms)

text \<open>A path that holds a regular file or nothing.\<close>

definition file_or_none :: "(string \<rightharpoonup> node) \<Rightarrow> string \<Rightarrow> bool" where
  "file_or_none f p \<longleftrightarrow> (case f p of None \<Rightarrow> True | Some (Reg _ _ _) \<Rightarrow> True | _ \<Rightarrow> False)"

lemma Open_trunc_effect:
  assumes "run_state (os_Open True False True pm p) w = (r, w')" and "file_or_none (map_of (fs w)) p"
  shows "case r of Inl _ \<Rightarrow> map_of (fs w') = map_of (fs w)
     | Inr q \<Rightarrow> q = p \<and> (\<exists>m o1. map_of (fs w') = (map_of (fs w))(p \<mapsto> Reg [] m o1))"
proof -
  from assms(2) have "resolve (fs w) p = Some p"
    by (intro resolve_no_link) (auto simp: file_or_none_def)
  with assms show ?thesis
    by (auto simp: os_Open_def syscall_def lookup_def file_or_none_def update_conv' Let_def
        split: option.splits node.splits if_splits) blast+
qed

lemma triple_WriteFile:
  assumes "\<And>f. P f \<Longrightarrow> file_or_none f p" and "\<And>f. P f \<Longrightarrow> Q f" and "\<And>f m o1. P f \<Longrightarrow> Q (f(p \<mapsto> Reg [] m o1))"
    and "\<And>f m o1. P f \<Longrightarrow> R (f(p \<mapsto> Reg s m o1))"
  shows "triple (\<lambda>w. P (map_of (fs w))) (os_WriteFile p s pm)
     (\<lambda>e w. case e of Some _ \<Rightarrow> Q (map_of (fs w)) | None \<Rightarrow> R (map_of (fs w)))"
proof (rule tripleI)
  fix w r w'
  assume P: "P (map_of (fs w))" and run: "run_state (os_WriteFile p s pm) w = (r, w')"
  obtain r1 w1 where o1: "run_state (os_Open True False True pm p) w = (r1, w1)"
    by fastforce
  note eff = Open_trunc_effect [OF o1 assms(1) [OF P]]
  show "case r of Some _ \<Rightarrow> Q (map_of (fs w')) | None \<Rightarrow> R (map_of (fs w'))"
  proof (cases r1)
    case (Inl e)
    with o1 run eff P show ?thesis
      by (auto simp: os_WriteFile_def assms(2))
  next
    case (Inr q)
    with eff obtain m o2 where q: "q = p" and f1: "map_of (fs w1) = (map_of (fs w))(p \<mapsto> Reg [] m o2)"
      by auto
    from o1 run Inr have "run_state (os_Write p s) w1 = (r, w')"
      by (simp add: os_WriteFile_def q)
    with f1 P show ?thesis
      by (auto simp: os_Write_def os_WriteAt_def syscall_def update_conv' assms Let_def split: option.splits)
  qed
qed

end
