(* ===== verification/IoFrame.thy ===== *)
theory IoFrame
  imports Triple
begin

text \<open>
  Frames that say nothing about what system calls and commands change: the files, the trace, the waits
  and the clock. A relation of this kind between states is kept by whatever is made of such calls; a
  component that adds fields to the state of the world gets its frame property by one interpretation.
\<close>

locale io_frame = frame_rel R for R :: "'z world_scheme \<Rightarrow> 'z world_scheme \<Rightarrow> bool" +
  assumes keeps_io: "R w (w\<lparr>tick := t, trace := tr, fs := f, sleeps := sl\<rparr>)"
begin

lemma keeps_tick: "R w (w\<lparr>tick := t\<rparr>)"
  using keeps_io [where w = w and t = t and f = "fs w" and tr = "trace w" and sl = "sleeps w"] by simp

lemma keeps_sleeps: "R w (w\<lparr>tick := t, sleeps := sl\<rparr>)"
  using keeps_io [where w = w and t = t and f = "fs w" and tr = "trace w" and sl = sl] by simp

lemma keeps_fs: "R w (w\<lparr>tick := t, fs := f\<rparr>)"
  using keeps_io [where w = w and t = t and f = f and tr = "trace w" and sl = "sleeps w"] by simp

lemma keeps_trace: "R w (w\<lparr>tick := t, trace := tr, fs := f\<rparr>)"
  using keeps_io [where w = w and t = t and f = f and tr = tr and sl = "sleeps w"] by simp

lemma keeps_clock: "keeps R time_Now" "keeps R (time_Sleep d)" "keeps R ctx_Err" "keeps R (done_or_after d)"
  by (auto simp: keeps_def time_Now_def time_Sleep_def ctx_Err_def done_or_after_def Let_def keeps_tick keeps_sleeps
      split: option.splits)

end

sublocale io_frame \<subseteq> wait_frame R
  by unfold_locales (rule keeps_clock)+

context io_frame begin

lemma keeps_syscall: "keeps R (syscall F)"
  by (auto simp: keeps_def syscall_def Let_def keeps_tick keeps_fs split: option.splits sum.splits)

lemma keeps_asks: "keeps R (exec_LookPath n)" "keeps R (is_goos n)" "keeps R (range_map xs)"
  by (auto simp: keeps_def exec_LookPath_def is_goos_def range_map_def keeps_tick frame_refl)

lemma keeps_spawn: "keeps R (spawn args)"
  by (auto simp: keeps_def spawn_def keeps_trace split: prod.splits)

lemma keeps_if_ok: "keeps R m \<Longrightarrow> keeps R k \<Longrightarrow> keeps R (if_ok m h k)"
  unfolding if_ok_def by (intro keeps_rules keeps_cases)

lemma keeps_bind_ok: "keeps R m \<Longrightarrow> (\<And>x. keeps R (k x)) \<Longrightarrow> keeps R (bind_ok m h k)"
  unfolding bind_ok_def by (intro keeps_rules keeps_cases)

lemma keeps_files:
  "keeps R (os_Stat p)" "keeps R (os_Lstat p)" "keeps R (os_ReadFile p)" "keeps R (os_ReadDir p)" "keeps R (os_Readlink p)"
  "keeps R (os_Open c e t m p)" "keeps R (os_WriteAt p off s)" "keeps R (os_Write p s)" "keeps R (os_WriteFile p s m)"
  "keeps R (os_Create p)" "keeps R (os_Remove p)" "keeps R (os_RemoveAll p)" "keeps R (os_Rename p q)" "keeps R (os_Mkdir p m)"
  "keeps R (os_MkdirAll p m)" "keeps R (os_Chmod p m)" "keeps R (os_Chown p u g)" "keeps R (os_Symlink p q)" "keeps R (os_Mkfifo p m)"
  "keeps R (os_CreateTemp p q)" "keeps R os_Close"
  unfolding os_Stat_def os_Lstat_def os_ReadFile_def os_ReadDir_def os_Readlink_def os_Open_def os_WriteAt_def os_Write_def
    os_WriteFile_def os_Create_def os_Remove_def os_RemoveAll_def os_Rename_def os_Mkdir_def os_MkdirAll_def os_Chmod_def
    os_Chown_def os_Symlink_def os_Mkfifo_def os_CreateTemp_def os_Close_def
  by (intro keeps_rules keeps_cases keeps_syscall)+

lemma keeps_fprints: "keeps R (fprints q off ss)"
  by (induction ss arbitrary: off) (auto intro!: keeps_rules keeps_files)

lemmas keeps_os = keeps_if_ok keeps_bind_ok keeps_rules keeps_cases keeps_files keeps_fprints keeps_asks keeps_clock keeps_syscall

lemma keeps_run:
  "keeps R (execCommand args)" "keeps R (Quiet args)" "keeps R (WithOutput args)" "keeps R (WithCombinedOutput args)"
  "keeps R (WithOutputTimeout args)"
  unfolding execCommand_def Quiet_def WithOutput_def WithCombinedOutput_def WithOutputTimeout_def Let_def
  by (intro keeps_os keeps_spawn)+

end

end
