(* ===== verification/MdsClient.thy ===== *)
theory MdsClient
  imports Metadata IoFrame
begin

text \<open>
  The metadata client (\<^verbatim>\<open>Client\<close> of \<^verbatim>\<open>metadata/metadata.go\<close>): requests with their query and headers, the
  etag of the long poll, the retries and the errors the callers see.
\<close>

record request =
  req_method :: string
  req_url :: string
  req_query :: "(string \<times> string) list"
  req_headers :: "(string \<times> string) list"
  req_body :: string

text \<open>An answer of the server: its status, its \<^verbatim>\<open>etag\<close> header and the outcome of reading its body.\<close>

record response =
  StatusCode :: int
  etag_header :: string
  body :: "string res"

text \<open>The outcome of \<^verbatim>\<open>httpClient.Do\<close>: an answer, or the error of the transport.\<close>

datatype reply = Failed string | Got response

record mds_world = world +
  etag :: string
  http :: "nat \<Rightarrow> request \<Rightarrow> reply"
  requests :: "request list"

type_synonym ('z, 'a) mds_io = "('z mds_world_scheme, 'a) state"

record requestConfig =
  baseURL :: string
  hang :: bool
  recursive :: bool
  jsonOutput :: bool
  timeout :: int
  headers :: "(string \<times> string) list"

definition defaultMetadataURL :: string where
  "defaultMetadataURL = ''http://169.254.169.254/computeMetadata/v1/''"

definition defaultEtag :: string where
  "defaultEtag = ''NONE''"

definition defaultHangTimeout :: int where
  "defaultHangTimeout = 60"

definition url_JoinPath :: "string \<Rightarrow> string \<Rightarrow> string" where
  "url_JoinPath base key =
     TrimRight base ''/'' @ Clean (''/'' @ key) @ (if HasSuffix key ''/'' \<and> Clean (''/'' @ key) \<noteq> ''/'' then ''/'' else [])"

definition http_Do :: "request \<Rightarrow> ('z, reply) mds_io" where
  "http_Do r = State (\<lambda>w. (http w (tick w) r, w\<lparr>tick := Suc (tick w), requests := requests w @ [r]\<rparr>))"

definition updateEtag :: "response \<Rightarrow> ('z, bool) mds_io" where
  "updateEtag resp = State (\<lambda>w.
     let e = (if etag_header resp = [] then defaultEtag else etag_header resp)
     in (e \<noteq> etag w, w\<lparr>etag := e\<rparr>))"

text \<open>\<^verbatim>\<open>values.Encode()\<close> lists the parameters by name.\<close>

definition query_of :: "requestConfig \<Rightarrow> string \<Rightarrow> (string \<times> string) list" where
  "query_of cfg et =
     sort_key fst
       ((if hang cfg then [(''wait_for_change'', ''true''), (''last_etag'', et)] else []) @
        (if timeout cfg > 0 then [(''timeout_sec'', show_int (timeout cfg))] else []) @
        (if recursive cfg then [(''recursive'', ''true'')] else []) @
        (if jsonOutput cfg then [(''alt'', ''json'')] else []))"

definition request_of :: "requestConfig \<Rightarrow> string \<Rightarrow> request" where
  "request_of cfg et = \<lparr>req_method = ''GET'', req_url = baseURL cfg, req_query = query_of cfg et,
     req_headers = (''Metadata-Flavor'', ''Google'') # headers cfg, req_body = []\<rparr>"

definition mds_do :: "requestConfig \<Rightarrow> ('z, response option \<times> goerr option) mds_io" where
  "mds_do cfg = do {
     w \<leftarrow> State_Monad.get;
     r \<leftarrow> http_Do (request_of cfg (etag w));
     let resp = (case r of Got a \<Rightarrow> Some a | Failed _ \<Rightarrow> None);
     c \<leftarrow> ctx_Err;
     (case c of
        Some e \<Rightarrow> State_Monad.return (resp, Some e)
      | None \<Rightarrow>
          (case r of
             Failed m \<Rightarrow> State_Monad.return (None, Some (Flat ''error connecting to metadata server'' (Msg m)))
           | Got a \<Rightarrow>
               if StatusCode a \<noteq> 200
               then State_Monad.return (Some a, Some (Msg ''invalid response from metadata server''))
               else if hang cfg then do { _ \<leftarrow> updateEtag a; State_Monad.return (Some a, None) }
               else State_Monad.return (Some a, None))) }"

definition shouldRetry :: "goerr \<Rightarrow> bool" where
  "shouldRetry err = (case err of Status s _ \<Rightarrow> \<not> slice_contains [404] s | _ \<Rightarrow> True)"

definition mds_policy :: Policy where
  "mds_policy = \<lparr>MaxAttempts = 100, BackoffFactor = 1, Jitter = 100000000, ShouldRetry = Some shouldRetry\<rparr>"

definition mds_attempt :: "requestConfig \<Rightarrow> ('z, string \<times> goerr option) mds_io" where
  "mds_attempt cfg = do {
     (resp, err) \<leftarrow> mds_do cfg;
     State_Monad.return
       (case err of
          Some e \<Rightarrow> ([], Some (Status (case resp of Some a \<Rightarrow> StatusCode a | None \<Rightarrow> - 1) (Some e)))
        | None \<Rightarrow>
            (case resp of
               Some a \<Rightarrow> (case body a of
                   Inl e \<Rightarrow> ([], Some (Flat ''failed to read metadata server response bytes'' e))
                 | Inr md \<Rightarrow> (md, None))
             | None \<Rightarrow> ([], Some (Msg ''got nil response from metadata server'')))) }"

definition to_res :: "'a \<times> goerr option \<Rightarrow> 'a res" where
  "to_res v = (case snd v of Some e \<Rightarrow> Inl e | None \<Rightarrow> Inr (fst v))"

definition mds_retry :: "requestConfig \<Rightarrow> ('z, string res) mds_io" where
  "mds_retry cfg = do {
     v \<leftarrow> RunWithResponse mds_policy [] (Some (mds_attempt cfg));
     State_Monad.return (to_res v) }"

definition GetKey :: "string \<Rightarrow> (string \<times> string) list \<Rightarrow> ('z, string res) mds_io" where
  "GetKey key hs = mds_retry \<lparr>baseURL = url_JoinPath defaultMetadataURL key, hang = False,
     recursive = False, jsonOutput = False, timeout = 0, headers = hs\<rparr>"

definition GetKeyRecursive :: "string \<Rightarrow> ('z, string res) mds_io" where
  "GetKeyRecursive key = mds_retry \<lparr>baseURL = url_JoinPath defaultMetadataURL key, hang = False,
     recursive = True, jsonOutput = True, timeout = 0, headers = []\<rparr>"

definition WatchKey :: "string \<Rightarrow> ('z, string res) mds_io" where
  "WatchKey key = mds_retry \<lparr>baseURL = url_JoinPath defaultMetadataURL key, hang = True,
     recursive = False, jsonOutput = False, timeout = defaultHangTimeout, headers = []\<rparr>"

definition mds_get :: "bool \<Rightarrow> ('z, Descriptor res) mds_io" where
  "mds_get hanging = do {
     resp \<leftarrow> mds_retry \<lparr>baseURL = defaultMetadataURL, hang = hanging, recursive = True,
       jsonOutput = True, timeout = defaultHangTimeout, headers = []\<rparr>;
     (case resp of
        Inl e \<Rightarrow> State_Monad.return (Inl e)
      | Inr md \<Rightarrow> Descriptor_UnmarshalJSON md) }"

definition Watch :: "('z, Descriptor res) mds_io" where
  "Watch = mds_get True"

definition Get :: "('z, Descriptor res) mds_io" where
  "Get = mds_get False"

definition put_call :: "string \<Rightarrow> string \<Rightarrow> ('z, goerr option) mds_io" where
  "put_call url value = do {
     r \<leftarrow> http_Do \<lparr>req_method = ''PUT'', req_url = url, req_query = [],
       req_headers = [(''Metadata-Flavor'', ''Google'')], req_body = value\<rparr>;
     State_Monad.return (case r of Failed m \<Rightarrow> Some (Msg m) | Got a \<Rightarrow> None) }"

definition WriteGuestAttributes :: "string \<Rightarrow> string \<Rightarrow> ('z, goerr option) mds_io" where
  "WriteGuestAttributes key value =
     retry_Run \<lparr>MaxAttempts = 10, BackoffFactor = 1, Jitter = 100000000, ShouldRetry = None\<rparr>
       (Some (put_call (url_JoinPath defaultMetadataURL (''instance/guest-attributes/'' @ key)) value))"

text \<open>A quiet world whose metadata server always gives the same answer.\<close>

definition calm_mds :: "reply \<Rightarrow> mds_world" where
  "calm_mds r = world.extend (calm []) \<lparr>etag = ''NONE'', http = (\<lambda>_ _. r), requests = []\<rparr>"

subsection \<open>Lemmas\<close>

lemma run_mds_attempt_404:
  assumes "http w (tick w) (request_of cfg (etag w)) = Got a" and "StatusCode a = 404"
  shows "\<exists>e. run_state (mds_attempt cfg) w =
    (([], Some (Status 404 (Some e))),
     w\<lparr>tick := Suc (Suc (tick w)), requests := requests w @ [request_of cfg (etag w)]\<rparr>)"
  using assms
  by (cases "ctx w (Suc (tick w))") (auto simp: mds_attempt_def mds_do_def http_Do_def ctx_Err_def Let_def)

lemma mds_policy_simps [simp]:
  "MaxAttempts mds_policy = 100" "isRetriable mds_policy e = shouldRetry e"
  by (simp_all add: mds_policy_def isRetriable_def)

lemma shouldRetry_404 [simp]: "\<not> shouldRetry (Status 404 c)"
  by (simp add: shouldRetry_def)

lemma mds_retry_404:
  assumes "http w (tick w) (request_of cfg (etag w)) = Got a" and "StatusCode a = 404"
  shows "\<exists>e. run_state (mds_retry cfg) w =
    (Inl (giving_up (Status 404 (Some e))),
     w\<lparr>tick := Suc (Suc (tick w)), requests := requests w @ [request_of cfg (etag w)]\<rparr>)"
proof -
  from run_mds_attempt_404 [OF assms] obtain e where e: "run_state (mds_attempt cfg) w =
    (([], Some (Status 404 (Some e))),
     w\<lparr>tick := Suc (Suc (tick w)), requests := requests w @ [request_of cfg (etag w)]\<rparr>)"
    by blast
  show ?thesis
    by (rule exI [of _ e])
       (simp add: mds_retry_def RunWithResponse_def retry_from.simps [of mds_policy _ _ 0] e to_res_def)
qed

text \<open>Requests that do not hang leave the etag alone.\<close>

definition same_etag :: "'z mds_world_scheme \<Rightarrow> 'z mds_world_scheme \<Rightarrow> bool" where
  "same_etag w w' \<longleftrightarrow> etag w' = etag w"

interpretation same_etag: wait_frame same_etag
  by unfold_locales
     (auto simp: same_etag_def keeps_def time_Now_def ctx_Err_def done_or_after_def Let_def split: option.splits)

lemmas same_etag_rules = same_etag.keeps_rules keeps_cases

lemma same_etag_http_Do: "keeps same_etag (http_Do r)"
  by (simp add: keeps_def same_etag_def http_Do_def)

lemma keeps_reply:
  "(\<And>m. keeps R (f m)) \<Longrightarrow> (\<And>a. keeps R (g a)) \<Longrightarrow> keeps R (case r of Failed m \<Rightarrow> f m | Got a \<Rightarrow> g a)"
  by (cases r) auto

lemma same_etag_mds_do: "\<not> hang cfg \<Longrightarrow> keeps same_etag (mds_do cfg)"
  unfolding mds_do_def Let_def
  by (intro same_etag_rules same_etag_http_Do same_etag.keeps_ctx_Err keeps_reply) auto

lemma same_etag_mds_retry: "\<not> hang cfg \<Longrightarrow> keeps same_etag (mds_retry cfg)"
  unfolding mds_retry_def mds_attempt_def
  by (intro same_etag_rules same_etag.keeps_RunWithResponse same_etag_mds_do)

text \<open>A frame that says nothing about the requests either, and so is kept by every request.\<close>

locale http_frame = io_frame R for R :: "'z mds_world_scheme \<Rightarrow> 'z mds_world_scheme \<Rightarrow> bool" +
  assumes keeps_requests: "R w (w\<lparr>requests := rs, etag := e\<rparr>)"
begin

lemma keeps_http: "keeps R (http_Do r)" "keeps R (updateEtag a)"
proof -
  have "R w (w\<lparr>requests := rs\<rparr>)" for w rs
    using keeps_requests [where w = w and rs = rs and e = "etag w"] by simp
  with keeps_tick have "R w (w\<lparr>tick := t, requests := rs\<rparr>)" for w t rs
    by (blast intro: frame_trans)
  then show "keeps R (http_Do r)"
    by (simp add: keeps_def http_Do_def)
  show "keeps R (updateEtag a)"
    using keeps_requests [where w = w and rs = "requests w" for w] by (simp add: keeps_def updateEtag_def Let_def)
qed

lemma keeps_mds_attempt: "keeps R (mds_attempt cfg)"
  unfolding mds_attempt_def mds_do_def Let_def by (intro keeps_os keeps_http keeps_reply)

lemma keeps_mds:
  "keeps R (mds_retry cfg)" "keeps R (GetKey k hs)" "keeps R (GetKeyRecursive k)" "keeps R (WatchKey k)"
  unfolding mds_retry_def GetKey_def GetKeyRecursive_def WatchKey_def
  by (intro keeps_rules keeps_RunWithResponse keeps_mds_attempt)+

lemma keeps_mds_get: "keeps R (mds_get h)" "keeps R Watch" "keeps R Get"
  unfolding mds_get_def Watch_def Get_def Let_def
  by (intro keeps_rules keeps_cases keeps_mds keeps_Descriptor)+

lemma keeps_WriteGuestAttributes: "keeps R (WriteGuestAttributes k v)"
  unfolding WriteGuestAttributes_def put_call_def Let_def
  by (intro keeps_rules keeps_retry_Run keeps_http)

end

text \<open>No request touches a file.\<close>

lemma within_http [frame_intros]:
  "keeps (confined S) (http_Do r)" "keeps (confined S) (updateEtag a)"
  by (simp_all add: keeps_def http_Do_def updateEtag_def confined_def Let_def)

lemma within_mds [frame_intros]:
  "keeps (confined S) (mds_do cfg)"
  "keeps (confined S) (mds_retry cfg)"
  "keeps (confined S) (WriteGuestAttributes key v)"
  unfolding mds_retry_def mds_attempt_def mds_do_def WriteGuestAttributes_def put_call_def Let_def
  by (intro frame_intros keeps_reply)+

lemma same_files_mds_retry: "keeps same_files (mds_retry cfg)"
proof -
  have "keeps same_files (http_Do r)" "keeps same_files (updateEtag a)" for r a
    by (simp_all add: keeps_def same_files_def http_Do_def updateEtag_def Let_def)
  then show ?thesis
    unfolding mds_retry_def mds_attempt_def mds_do_def Let_def
    by (intro same_files.keeps_rules keeps_cases same_files.keeps_ctx_Err same_files.keeps_RunWithResponse keeps_reply)
qed

text \<open>A first answer with status 200 ends the retries, and a hanging request adopts its etag.\<close>

lemma mds_retry_200:
  assumes "http w (tick w) (request_of cfg (etag w)) = Got a" and "StatusCode a = 200"
    and "body a = Inr md" and "ctx w (Suc (tick w)) = None"
  shows "run_state (mds_retry cfg) w =
    (Inr md,
     w\<lparr>tick := Suc (Suc (tick w)), requests := requests w @ [request_of cfg (etag w)],
       etag := (if hang cfg then (if etag_header a = [] then defaultEtag else etag_header a) else etag w)\<rparr>)"
proof -
  have "run_state (mds_attempt cfg) w =
    ((md, None),
     w\<lparr>tick := Suc (Suc (tick w)), requests := requests w @ [request_of cfg (etag w)],
       etag := (if hang cfg then (if etag_header a = [] then defaultEtag else etag_header a) else etag w)\<rparr>)"
    using assms by (auto simp: mds_attempt_def mds_do_def http_Do_def ctx_Err_def updateEtag_def Let_def)
  then show ?thesis
    by (simp add: mds_retry_def RunWithResponse_def retry_from.simps [of mds_policy _ _ 0] to_res_def)
qed

text \<open>What a request returns is the text of an answer of the server to that request.\<close>

definition served :: "(nat \<Rightarrow> request \<Rightarrow> reply) \<Rightarrow> requestConfig \<Rightarrow> string \<Rightarrow> bool" where
  "served h cfg md \<longleftrightarrow> (\<exists>t et a. h t (request_of cfg et) = Got a \<and> StatusCode a = 200 \<and> body a = Inr md)"

definition same_http :: "'z mds_world_scheme \<Rightarrow> 'z mds_world_scheme \<Rightarrow> bool" where
  "same_http w w' \<longleftrightarrow> http w' = http w"

interpretation same_http: http_frame same_http
  by unfold_locales (simp_all add: same_http_def)

lemma served_mds_retry:
  fixes w :: "'z mds_world_scheme"
  assumes "run_state (mds_retry cfg) w = (Inr md, w')"
  shows "served (http w) cfg md"
proof -
  from assms obtain v where "run_state (retry_from mds_policy (mds_attempt cfg) [] 0) w = (v, w')" "to_res v = Inr md"
    by (auto simp: mds_retry_def RunWithResponse_def split: prod.splits)
  then have "run_state (retry_from mds_policy (mds_attempt cfg) [] 0) w = ((md, None), w')"
    by (cases v) (auto simp: to_res_def split: option.splits)
  from same_http.retry_from_value [OF same_http.keeps_mds_attempt this] obtain w1 w2 :: "'z mds_world_scheme"
    where "http w1 = http w" and "run_state (mds_attempt cfg) w1 = ((md, None), w2)"
    by (auto simp: same_http_def)
  then show ?thesis
    by (auto simp: served_def mds_attempt_def mds_do_def http_Do_def Let_def
        split: prod.splits option.splits sum.splits reply.splits if_splits)
qed

subsection \<open>Properties\<close>

abbreviation watch_cfg :: "string \<Rightarrow> requestConfig" where
  "watch_cfg key \<equiv> \<lparr>baseURL = url_JoinPath defaultMetadataURL key, hang = True, recursive = False,
     jsonOutput = False, timeout = defaultHangTimeout, headers = []\<rparr>"

text \<open>
  when the server answers a watched key with status 404, \<^verbatim>\<open>WatchKey\<close> makes that one request and
  no other, keeps its etag, and fails with an error in which \<^verbatim>\<open>errors.As\<close> finds no \<^verbatim>\<open>MDSReqError\<close>:
  the retry package flattens its cause, so no caller can tell a missing key from another failure.
\<close>

theorem WatchKey_404:
  assumes "http w (tick w) (request_of (watch_cfg key) (etag w)) = Got a" and "StatusCode a = 404"
  shows "\<exists>e w'. run_state (WatchKey key) w = (Inl e, w') \<and> errors_As_MDS e = None \<and>
           requests w' = requests w @ [request_of (watch_cfg key) (etag w)] \<and> etag w' = etag w"
  using mds_retry_404 [OF assms] by (auto simp: WatchKey_def giving_up_def)

theorem WatchKey_404_witness:
  "\<exists>e w'. run_state (WatchKey ''instance/shutdown'')
             (calm_mds (Got \<lparr>StatusCode = 404, etag_header = [], body = Inr []\<rparr>)) = (Inl e, w') \<and>
           errors_As_MDS e = None \<and> length (requests w') = 1"
  using WatchKey_404 [of "calm_mds (Got \<lparr>StatusCode = 404, etag_header = [], body = Inr []\<rparr>)" "''instance/shutdown''"]
  by (auto simp: calm_mds_def world.defs)



text \<open>
  only the hanging requests move the etag: reading a key, a subtree or the whole descriptor
  leaves the etag of the long poll as it was, on success and on every failure.
\<close>

theorem plain_requests_keep_etag:
  fixes w :: "'z mds_world_scheme"
  shows "etag (snd (run_state (GetKey key hs) w)) = etag w \<and>
   etag (snd (run_state (GetKeyRecursive key) w)) = etag w \<and>
   etag (snd (run_state Get w)) = etag w"
proof -
  have "keeps same_etag (GetKey key hs :: ('z, string res) mds_io)"
    "keeps same_etag (GetKeyRecursive key :: ('z, string res) mds_io)"
    "keeps same_etag (Get :: ('z, Descriptor res) mds_io)"
    unfolding GetKey_def GetKeyRecursive_def Get_def mds_get_def
    by (intro same_etag_rules same_etag_mds_retry same_etag.keeps_Descriptor; simp)+
  then show ?thesis
    by (simp add: keeps_def same_etag_def)
qed

end
