(* ===== verification/Cfg.thy ===== *)
theory Cfg
  imports Frame
begin

text \<open>
  Package \<^verbatim>\<open>cfg\<close> (\<^verbatim>\<open>google_guest_agent/cfg/cfg.go\<close>): the sections of the configuration and how they are
  loaded. The third-party ini reader is the parameter \<^verbatim>\<open>load_ini\<close>: from the sources in order to the
  sections, or an error. Sections without a default are options (nil pointers in the source).
\<close>

record CoreCfg =
  CloudLoggingEnabled :: bool

record AccountManagerCfg =
  account_Disable :: bool

record AccountsCfg =
  DeprovisionRemove :: bool
  GPasswdAddCmd :: string
  GPasswdRemoveCmd :: string
  GroupAddCmd :: string
  Groups :: string
  ReuseHomedir :: bool
  UserAddCmd :: string
  UserDelCmd :: string

record AddressManagerCfg =
  address_Disable :: bool

record DaemonsCfg =
  AccountsDaemon :: bool
  ClockSkewDaemon :: bool
  NetworkDaemon :: bool

record DiagnosticsCfg =
  diagnostics_Enable :: bool

record IPForwardingCfg =
  EthernetProtoID :: string
  cfg_IPAliases :: bool
  TargetInstanceIPs :: bool

record InstanceCfg =
  InstanceID :: string
  InstanceIDDir :: string

record InstanceSetupCfg =
  HostKeyDir :: string
  HostKeyTypes :: string
  NetworkEnabled :: bool
  OptimizeLocalSSD :: bool
  SetBotoConfig :: bool
  SetHostKeys :: bool
  SetMultiqueue :: bool

record MetadataScriptsCfg =
  DefaultShell :: string
  RunDir :: string
  Shutdown :: bool
  ShutdownWindows :: bool
  Startup :: bool
  StartupWindows :: bool
  SysprepSpecialize :: bool

record OSLoginCfg =
  CertAuthentication :: bool

record MDSCfg =
  cfg_DisableHTTPSMdsSetup :: bool
  cfg_HTTPSMDSEnableNativeStore :: bool

record NetworkInterfacesCfg =
  DHCPCommand :: string
  cfg_IPForwarding :: bool
  Setup :: bool
  ManagePrimaryNIC :: bool
  RestoreDebian12NetplanConfig :: bool
  VlanSetupEnabled :: bool

record SnapshotsCfg =
  snapshots_Enabled :: bool
  SnapshotServiceIP :: string
  SnapshotServicePort :: int
  TimeoutInSeconds :: int

record UnstableCfg =
  CommandMonitorEnabled :: bool
  CommandPipePath :: string
  CommandRequestTimeout :: string
  CommandPipeMode :: string
  CommandPipeGroup :: string
  SystemdConfigDir :: string

record WSFCCfg =
  wsfc_Addresses :: string
  wsfc_Enable :: bool
  wsfc_Port :: string

record Sections =
  Core :: CoreCfg
  AccountManager :: "AccountManagerCfg option"
  Accounts :: AccountsCfg
  AddressManager :: "AddressManagerCfg option"
  Daemons :: DaemonsCfg
  DiagnosticsSection :: "DiagnosticsCfg option"
  IPForwarding :: IPForwardingCfg
  InstanceSection :: InstanceCfg
  InstanceSetup :: InstanceSetupCfg
  MetadataScripts :: MetadataScriptsCfg
  NetworkSection :: NetworkInterfacesCfg
  OSLogin :: OSLoginCfg
  MDS :: MDSCfg
  Snapshots :: SnapshotsCfg
  Unstable :: UnstableCfg
  WSFC :: "WSFCCfg option"

text \<open>
  The values of \<^verbatim>\<open>defaultConfig\<close>. Its key \<^verbatim>\<open>sysprep-specialize\<close> names no field of the struct (the tag
  is \<^verbatim>\<open>sysprep_specialize\<close>), so that field keeps its zero value.
\<close>

definition defaultConfig :: Sections where
  "defaultConfig = \<lparr>
     Core = \<lparr>CloudLoggingEnabled = True\<rparr>,
     AccountManager = None,
     Accounts = \<lparr>DeprovisionRemove = False,
       GPasswdAddCmd = ''gpasswd -a {user} {group}'',
       GPasswdRemoveCmd = ''gpasswd -d {user} {group}'',
       GroupAddCmd = ''groupadd {group}'',
       Groups = ''adm,dip,docker,lxd,plugdev,video'',
       ReuseHomedir = False,
       UserAddCmd = ''useradd -m -s /bin/bash -p * {user}'',
       UserDelCmd = ''userdel -r {user}''\<rparr>,
     AddressManager = None,
     Daemons = \<lparr>AccountsDaemon = True, ClockSkewDaemon = True, NetworkDaemon = True\<rparr>,
     DiagnosticsSection = None,
     IPForwarding = \<lparr>EthernetProtoID = ''66'', cfg_IPAliases = True, TargetInstanceIPs = True\<rparr>,
     InstanceSection = \<lparr>InstanceID = [], InstanceIDDir = ''/etc/google_instance_id''\<rparr>,
     InstanceSetup = \<lparr>HostKeyDir = ''/etc/ssh'', HostKeyTypes = ''ecdsa,ed25519,rsa'',
       NetworkEnabled = True, OptimizeLocalSSD = True, SetBotoConfig = True, SetHostKeys = True,
       SetMultiqueue = True\<rparr>,
     MetadataScripts = \<lparr>DefaultShell = ''/bin/bash'', RunDir = [], Shutdown = True,
       ShutdownWindows = True, Startup = True, StartupWindows = True, SysprepSpecialize = False\<rparr>,
     NetworkSection = \<lparr>DHCPCommand = [], cfg_IPForwarding = True, Setup = True,
       ManagePrimaryNIC = False, RestoreDebian12NetplanConfig = True, VlanSetupEnabled = False\<rparr>,
     OSLogin = \<lparr>CertAuthentication = True\<rparr>,
     MDS = \<lparr>cfg_DisableHTTPSMdsSetup = True, cfg_HTTPSMDSEnableNativeStore = False\<rparr>,
     Snapshots = \<lparr>snapshots_Enabled = False, SnapshotServiceIP = ''169.254.169.254'',
       SnapshotServicePort = 8081, TimeoutInSeconds = 60\<rparr>,
     Unstable = \<lparr>CommandMonitorEnabled = False, CommandPipePath = [], CommandRequestTimeout = ''10s'',
       CommandPipeMode = ''0770'', CommandPipeGroup = [],
       SystemdConfigDir = ''/usr/lib/systemd/network''\<rparr>,
     WSFC = None\<rparr>"

datatype source = DefaultText | ExtraText string | ConfigFile string

definition defaultConfigFile :: "string \<Rightarrow> string" where
  "defaultConfigFile osName =
     (if osName = ''windows''
      then ''C:'' @ [CHR 0x5C] @ ''Program Files'' @ [CHR 0x5C] @ ''Google'' @ [CHR 0x5C] @
           ''Compute Engine'' @ [CHR 0x5C] @ ''instance_configs.cfg''
      else ''/etc/default/instance_configs.cfg'')"

definition defaultDataSources :: "string \<Rightarrow> string \<Rightarrow> source list" where
  "defaultDataSources osName extraDefaults =
     (let config = defaultConfigFile osName in
      [DefaultText] @ (if length extraDefaults > 0 then [ExtraText extraDefaults] else []) @
      [ConfigFile config, ConfigFile (config @ ''.distro''), ConfigFile (config @ ''.template'')])"

text \<open>\<^verbatim>\<open>Load\<close>: the new value of the package variable \<^verbatim>\<open>instance\<close> and the error.\<close>

definition Load ::
  "(source list \<Rightarrow> Sections res) \<Rightarrow> string \<Rightarrow> string \<Rightarrow> Sections option \<Rightarrow> Sections option \<times> goerr option" where
  "Load load_ini osName extraDefaults cfg_instance =
     (case load_ini (defaultDataSources osName extraDefaults) of
        Inl e \<Rightarrow> (cfg_instance, Some (Flat ''failed to load configuration'' e))
      | Inr sections \<Rightarrow> (Some sections, None))"

definition cfg_Get :: "Sections option \<Rightarrow> Sections outcome" where
  "cfg_Get cfg_instance =
     (case cfg_instance of
        None \<Rightarrow> Panic ''cfg package was not initialized''
      | Some s \<Rightarrow> Ret s)"

end
