(* ===== verification/OsInfo.thy ===== *)
theory OsInfo
  imports Frame
begin

text \<open>
  Package \<^verbatim>\<open>osinfo\<close> (\<^verbatim>\<open>osinfo.go\<close>, \<^verbatim>\<open>osinfo_unix.go\<close>): the operating system's name and version from the
  release files. The kernel's \<^verbatim>\<open>uname\<close> is an argument of \<^verbatim>\<open>osinfo_Get\<close>.
\<close>

record Ver =
  Major :: int
  Minor :: int
  Patch :: int
  Length :: nat

record OSInfo =
  OS :: string
  VersionID :: string
  PrettyName :: string
  KernelRelease :: string
  KernelVersion :: string
  Version :: Ver

definition no_ver :: Ver where
  "no_ver = \<lparr>Major = 0, Minor = 0, Patch = 0, Length = 0\<rparr>"

definition no_osinfo :: OSInfo where
  "no_osinfo = \<lparr>OS = [], VersionID = [], PrettyName = [], KernelRelease = [], KernelVersion = [],
     Version = no_ver\<rparr>"

definition Ver_String :: "Ver \<Rightarrow> string" where
  "Ver_String v =
     (if Major v = 0 then []
      else show_int (Major v) @
           (if Length v > 1 then ''.'' @ show_int (Minor v) else []) @
           (if Length v > 2 then ''.'' @ show_int (Patch v) else []))"

text \<open>The version, or \<^const>\<open>None\<close> for an error of \<^verbatim>\<open>strconv.Atoi\<close>.\<close>

definition parseVersion :: "string \<Rightarrow> Ver option" where
  "parseVersion version =
     (let versionparts = Split version (CHR ''.''); n = length versionparts in do {
        major \<leftarrow> Atoi (versionparts ! 0);
        minor \<leftarrow> (if n > 1 then Atoi (versionparts ! 1) else Some 0);
        patch \<leftarrow> (if n > 2 then Atoi (versionparts ! 2) else Some 0);
        Some \<lparr>Major = major, Minor = minor, Patch = patch, Length = n\<rparr> })"

definition parseID :: "string \<Rightarrow> string" where
  "parseID i =
     (if i = ''Red Hat Enterprise Linux Server'' then ''rhel''
      else if i = ''CentOS'' \<or> i = ''CentOS Linux'' then ''centos''
      else i)"

definition quote :: string where
  "quote = [CHR 0x22]"

text \<open>One line of \<^verbatim>\<open>/etc/os-release\<close>; \<^verbatim>\<open>Inl\<close> is the early return with the error.\<close>

definition parseOSRelease_line :: "string \<Rightarrow> OSInfo \<Rightarrow> OSInfo + OSInfo" where
  "parseOSRelease_line line ret =
     (let ret1 = (let i = TrimPrefix line ''ID='' in
                  if i \<noteq> line then ret\<lparr>OS := parseID (Trim i quote)\<rparr> else ret);
          v = TrimPrefix line ''VERSION_ID='';
          ret2 = (if v \<noteq> line then ret1\<lparr>VersionID := Trim v quote\<rparr> else ret1);
          name = TrimPrefix line ''PRETTY_NAME='';
          finish = (\<lambda>r. if name \<noteq> line then r\<lparr>PrettyName := Trim name quote\<rparr> else r)
      in if v \<noteq> line
         then (case parseVersion (Trim v quote) of
                 None \<Rightarrow> Inl ret2
               | Some version \<Rightarrow> Inr (finish (ret2\<lparr>Version := version\<rparr>)))
         else Inr (finish ret2))"

fun parseOSRelease_lines :: "string list \<Rightarrow> OSInfo \<Rightarrow> OSInfo \<times> goerr option" where
  "parseOSRelease_lines [] ret = (ret, None)"
| "parseOSRelease_lines (l # ls) ret =
     (case parseOSRelease_line l ret of
        Inl r \<Rightarrow> (r, Some (Msg ''couldn't parse version id''))
      | Inr r \<Rightarrow> parseOSRelease_lines ls r)"

definition parseOSRelease :: "string \<Rightarrow> OSInfo \<times> goerr option" where
  "parseOSRelease osRelease = parseOSRelease_lines (Split osRelease (CHR 0x0A)) no_osinfo"

definition parseSystemRelease :: "string \<Rightarrow> OSInfo \<times> goerr option" where
  "parseSystemRelease systemRelease =
     (case Index systemRelease '' release '' of
        None \<Rightarrow> (no_osinfo, Some (Msg ''SystemRelease does not match expected format''))
      | Some idx \<Rightarrow>
          (let ret = no_osinfo\<lparr>OS := parseID (take idx systemRelease)\<rparr> in
           case parseVersion (Split (drop (idx + 9) systemRelease) (CHR '' '') ! 0) of
             None \<Rightarrow> (ret, Some (Msg ''couldn't parse version''))
           | Some version \<Rightarrow> (ret\<lparr>Version := version\<rparr>, None)))"

definition parseRelease :: "('z, OSInfo \<times> goerr option) io" where
  "parseRelease = do {
     r \<leftarrow> os_ReadFile ''/etc/os-release'';
     (case r of
        Inr releaseFile \<Rightarrow> State_Monad.return (parseOSRelease releaseFile)
      | Inl _ \<Rightarrow> do {
          r \<leftarrow> os_ReadFile ''/etc/system-release'';
          State_Monad.return (case r of
            Inr releaseFile \<Rightarrow> parseSystemRelease releaseFile
          | Inl _ \<Rightarrow> (no_osinfo, Some (Msg ''no known release file found''))) }) }"

definition osinfo_Get :: "(string \<times> string) option \<Rightarrow> ('z, OSInfo) io" where
  "osinfo_Get uname = do {
     (osInfo, _) \<leftarrow> parseRelease;
     State_Monad.return (case uname of
       None \<Rightarrow> osInfo
     | Some (version, release) \<Rightarrow>
         osInfo\<lparr>KernelVersion := TrimRight version [CHR 0x00], KernelRelease := TrimRight release [CHR 0x00]\<rparr>) }"

subsection \<open>Lemmas\<close>

lemma dot_not_in_show_int: "CHR ''.'' \<notin> set (show_int i)"
  using not_digit_not_in_show [of "CHR ''.''"] by (auto simp: show_int_def is_digit_def)

lemma Split_show_int [simp]:
  "Split (show_int i) (CHR ''.'') = [show_int i]"
  "Split (show_int i @ CHR ''.'' # s) (CHR ''.'') = show_int i # Split s (CHR ''.'')"
  using Split_no_occ [OF dot_not_in_show_int] Split_append_sep [OF dot_not_in_show_int] by auto

text \<open>
  printing a version and parsing it again gives the version back, for versions of one to three
  64-bit components whose major number is not zero (the zero major prints as the empty string).
\<close>

theorem parseVersion_String:
  assumes "Major v \<noteq> 0" and "Length v \<in> {1, 2, 3}"
    and "Length v < 2 \<longrightarrow> Minor v = 0" and "Length v < 3 \<longrightarrow> Patch v = 0"
    and "\<forall>i \<in> {Major v, Minor v, Patch v}. - (2 ^ 63) \<le> i \<and> i < 2 ^ 63"
  shows "parseVersion (Ver_String v) = Some v"
  using assms
  by (cases v) (auto simp: parseVersion_def Ver_String_def Let_def Atoi_show_int)

theorem parseVersion_String_witness:
  "parseVersion (Ver_String \<lparr>Major = 22, Minor = 4, Patch = 0, Length = 2\<rparr>) =
     Some \<lparr>Major = 22, Minor = 4, Patch = 0, Length = 2\<rparr>"
  by (rule parseVersion_String) simp_all

end
