(* ===== verification/Globals.thy ===== *)
theory Globals
  imports MdsClient Cfg OsInfo
begin

text \<open>
  The package-level variables of \<^verbatim>\<open>google_guest_agent\<close> that several managers share: the loaded
  configuration (what \<^verbatim>\<open>cfg.Get()\<close> returns), the last and the current metadata, the operating
  system, and the caches of the accounts manager.
\<close>

record agent = mds_world +
  config :: Sections
  oldMetadata :: Descriptor
  newMetadata :: Descriptor
  osInfo :: OSInfo
  sshKeys :: "(string \<times> string list) list option"
  badSSHKeys :: "string list"

type_synonym ('z, 'a) agent_io = "('z agent_scheme, 'a) state"

definition calm_agent :: "files \<Rightarrow> agent" where
  "calm_agent f = mds_world.extend
     (world.extend (calm f)
        \<lparr>etag = ''NONE'', http = (\<lambda>_ _. Got \<lparr>StatusCode = 200, etag_header = [], body = Inr []\<rparr>), requests = []\<rparr>)
     \<lparr>config = defaultConfig, oldMetadata = empty_descriptor, newMetadata = empty_descriptor,
      osInfo = no_osinfo, sshKeys = None, badSSHKeys = []\<rparr>"

lemma calm_agent_simps [simp]:
  "fs (calm_agent f) = f" "fault (calm_agent f) = (\<lambda>_. None)" "lookpath (calm_agent f) = (\<lambda>_ p. Inl (ExecNotFound p))"
  "now (calm_agent f) = (\<lambda>_. 0)" "ctx (calm_agent f) = (\<lambda>_. None)" "goos (calm_agent f) = ''linux''"
  "exec (calm_agent f) = (\<lambda>_ _ g. (Exited 0 [] [] [], g))" "config (calm_agent f) = defaultConfig"
  "newMetadata (calm_agent f) = empty_descriptor" "oldMetadata (calm_agent f) = empty_descriptor"
  "sshKeys (calm_agent f) = None" "badSSHKeys (calm_agent f) = []" "osInfo (calm_agent f) = no_osinfo"
  by (simp_all add: calm_agent_def calm_def mds_world.defs world.defs)

text \<open>Reading a package variable.\<close>

definition gets :: "('s \<Rightarrow> 'a) \<Rightarrow> ('s, 'a) state" where
  "gets f = State (\<lambda>w. (f w, w))"

definition modify :: "('s \<Rightarrow> 's) \<Rightarrow> ('s, unit) state" where
  "modify f = State (\<lambda>w. ((), f w))"

lemma run_gets [simp]: "run_state (gets f) w = (f w, w)"
  by (simp add: gets_def)

lemma run_modify [simp]: "run_state (modify f) w = ((), f w)"
  by (simp add: modify_def)

context frame_rel
begin

lemma keeps_gets: "keeps R (gets f)"
  by (simp add: keeps_def frame_refl)

end

lemma within_gets [frame_intros]: "keeps (confined S) (gets f)"
  by (rule confined.keeps_gets)

end
