(* ===== verification/ScriptRunner.thy ===== *)
theory ScriptRunner
  imports Globals Run
begin

text \<open>
  The program that runs the startup, shutdown and sysprep scripts of the metadata,
  \<^verbatim>\<open>google_metadata_script_runner/main.go\<close>: which keys are looked at, where a script comes from (the
  value itself, Cloud Storage or a URL), and how it is run and cleaned up. The storage service, HTTP
  and DNS are read from the world; \<^verbatim>\<open>url.Parse\<close> is an argument that gives the path of a valid URL.
\<close>

text \<open>A body that is copied to a file: its bytes, and the error that ended the transfer, if any.\<close>

type_synonym transfer = "string \<times> goerr option"

record script_agent = agent +
  LookupHost :: "nat \<Rightarrow> string \<Rightarrow> goerr option"
  storage_client :: "nat \<Rightarrow> goerr option"
  storage_reader :: "nat \<Rightarrow> string \<Rightarrow> string \<Rightarrow> transfer res"
  http_Get :: "nat \<Rightarrow> string \<Rightarrow> (int \<times> transfer) res"

type_synonym ('z, 'a) script_io = "('z script_agent_scheme, 'a) state"

definition ask :: "('z world_scheme \<Rightarrow> nat \<Rightarrow> 'a) \<Rightarrow> ('z, 'a) io" where
  "ask f = State (\<lambda>w. (f w (tick w), w\<lparr>tick := Suc (tick w)\<rparr>))"

section \<open>Cloud Storage URLs\<close>

definition storageURL :: string where
  "storageURL = ''storage.googleapis.com''"

definition bucket_first :: "char \<Rightarrow> bool" where
  "bucket_first c \<longleftrightarrow> is_digit c \<or> (97 \<le> (of_char c :: nat) \<and> (of_char c :: nat) \<le> 122)"

definition bucket_char :: "char \<Rightarrow> bool" where
  "bucket_char c \<longleftrightarrow> bucket_first c \<or> c \<in> set ''-_.''"

definition is_bucket :: "string \<Rightarrow> bool" where
  "is_bucket s \<longleftrightarrow> s \<noteq> [] \<and> bucket_first (hd s) \<and> list_all bucket_char s"

text \<open>The object is \<^verbatim>\<open>.+\<close> up to the end of the text: not empty and on one line.\<close>

definition is_object :: "string \<Rightarrow> bool" where
  "is_object s \<longleftrightarrow> s \<noteq> [] \<and> CHR 0x0A \<notin> set s"

text \<open>A bucket, a slash and an object; a bucket has no slash, so the first one ends it.\<close>

definition bucket_object :: "string \<Rightarrow> (string \<times> string) option" where
  "bucket_object s =
     (let b = takeWhile (\<lambda>c. c \<noteq> CHR ''/'') s; r = dropWhile (\<lambda>c. c \<noteq> CHR ''/'') s
      in if r \<noteq> [] \<and> is_bucket b \<and> is_object (tl r) then Some (b, tl r) else None)"

definition after_http :: "string \<Rightarrow> string option" where
  "after_http s = (case strip_prefix ''https://'' s of Some r \<Rightarrow> Some r | None \<Rightarrow> strip_prefix ''http://'' s)"

definition gsRegex :: "string \<Rightarrow> (string \<times> string) option" where
  "gsRegex s = Option.bind (strip_prefix ''gs://'' s) bucket_object"

definition bucket_host :: "string \<Rightarrow> (string \<times> string) option" where
  "bucket_host s =
     (let h = takeWhile (\<lambda>c. c \<noteq> CHR ''/'') s; r = dropWhile (\<lambda>c. c \<noteq> CHR ''/'') s;
          b = TrimSuffix h ''.storage.googleapis.com''
      in if HasSuffix h ''.storage.googleapis.com'' \<and> r \<noteq> [] \<and> is_bucket b \<and> is_object (tl r) then Some (b, tl r) else None)"

definition gsHTTPRegex1 :: "string \<Rightarrow> (string \<times> string) option" where
  "gsHTTPRegex1 s = Option.bind (after_http s) bucket_host"

definition gsHTTPRegex2 :: "string \<Rightarrow> (string \<times> string) option" where
  "gsHTTPRegex2 s = Option.bind (Option.bind (after_http s) (strip_prefix ''storage.cloud.google.com/'')) bucket_object"

definition gsHTTPRegex3 :: "string \<Rightarrow> (string \<times> string) option" where
  "gsHTTPRegex3 s = Option.bind (Option.bind (after_http s) (\<lambda>r.
     case strip_prefix ''commondatastorage.googleapis.com/'' r of
       Some x \<Rightarrow> Some x | None \<Rightarrow> strip_prefix ''storage.googleapis.com/'' r)) bucket_object"

definition parseGCS :: "string \<Rightarrow> (string \<times> string) option" where
  "parseGCS path = (case List.map_filter (\<lambda>re. re path) [gsRegex, gsHTTPRegex1, gsHTTPRegex2, gsHTTPRegex3] of
     [] \<Rightarrow> None | m # _ \<Rightarrow> Some m)"

section \<open>Downloading\<close>

definition defaultRetryPolicy :: Policy where
  "defaultRetryPolicy = \<lparr>MaxAttempts = 3, BackoffFactor = 1, Jitter = 1000000000, ShouldRetry = None\<rparr>"

text \<open>\<^verbatim>\<open>io.Copy\<close> to the file from an offset: the bytes that came are written, then the error is reported.\<close>

definition io_Copy :: "string \<Rightarrow> nat \<Rightarrow> transfer \<Rightarrow> ('z, nat \<times> goerr option) io" where
  "io_Copy file off t = do {
     e \<leftarrow> os_WriteAt file off (fst t);
     State_Monad.return (case e of Some e \<Rightarrow> (off, Some e) | None \<Rightarrow> (off + length (fst t), snd t)) }"

text \<open>The attempt of a retried call, with the zero value for its result on an error.\<close>

definition attempt :: "'a \<Rightarrow> ('z, 'a res) io \<Rightarrow> ('z, 'a \<times> goerr option) io" where
  "attempt zero m = do { r \<leftarrow> m; State_Monad.return (case r of Inl e \<Rightarrow> (zero, Some e) | Inr x \<Rightarrow> (x, None)) }"

definition downloadGSURL :: "string \<Rightarrow> string \<Rightarrow> string \<Rightarrow> ('z, nat \<times> goerr option) script_io" where
  "downloadGSURL bucket object file = do {
     c \<leftarrow> ask storage_client;
     (case c of
        Some e \<Rightarrow> State_Monad.return (0, Some (Flat ''failed to create storage client'' e))
      | None \<Rightarrow> do {
          r \<leftarrow> RunWithResponse defaultRetryPolicy ([], None)
                 (Some (attempt ([], None) (ask (\<lambda>w t. storage_reader w t bucket object))));
          (case r of
             (_, Some e) \<Rightarrow> State_Monad.return (0, Some e)
           | (tr, None) \<Rightarrow> io_Copy file 0 tr) }) }"

definition downloadURL :: "string \<Rightarrow> string \<Rightarrow> nat \<Rightarrow> ('z, goerr option) script_io" where
  "downloadURL url file off = do {
     r \<leftarrow> RunWithResponse defaultRetryPolicy ([], None)
            (Some (attempt ([], None) (do {
               g \<leftarrow> ask (\<lambda>w t. http_Get w t url);
               State_Monad.return (case g of
                 Inl e \<Rightarrow> Inl e
               | Inr (status, tr) \<Rightarrow> if status \<noteq> 200 then Inl (Msg (''GET '' @ url @ '', bad status'')) else Inr tr) })));
     (case r of
        (_, Some e) \<Rightarrow> State_Monad.return (Some e)
      | (tr, None) \<Rightarrow> do { c \<leftarrow> io_Copy file off tr; State_Monad.return (snd c) }) }"

definition downloadScript :: "string \<Rightarrow> string \<Rightarrow> ('z, goerr option) script_io" where
  "downloadScript path file = do {
     e \<leftarrow> retry_Run \<lparr>MaxAttempts = 20, BackoffFactor = 1, Jitter = 5000000000, ShouldRetry = None\<rparr>
            (Some (ask (\<lambda>w t. LookupHost w t storageURL)));
     (case e of
        Some e \<Rightarrow> State_Monad.return (Some (Flat (storageURL @ '' lookup failed'') e))
      | None \<Rightarrow> (case parseGCS path of
          None \<Rightarrow> downloadURL path file 0
        | Some (bucket, object) \<Rightarrow> do {
            d \<leftarrow> downloadGSURL bucket object file;
            (case d of
               (_, None) \<Rightarrow> State_Monad.return None
             | (off, Some _) \<Rightarrow> downloadURL (''https://'' @ storageURL @ ''/'' @ bucket @ ''/'' @ object) file off) })) }"

section \<open>Keys\<close>

definition errUsage :: goerr where
  "errUsage = Msg ''no valid arguments specified. Specify one of startup, shutdown, specialize or graceful-shutdown''"

definition key_prefix :: "MetadataScriptsCfg \<Rightarrow> bool \<Rightarrow> string \<Rightarrow> string res" where
  "key_prefix cfg windows arg =
     (if arg = ''specialize'' then Inr ''sysprep-specialize''
      else if arg = ''startup'' then
        (if windows then if StartupWindows cfg then Inr ''windows-startup'' else Inl (Msg ''windows startup scripts disabled in instance config'')
         else if Startup cfg then Inr ''startup'' else Inl (Msg ''startup scripts disabled in instance config''))
      else if arg = ''shutdown'' then
        (if windows then if ShutdownWindows cfg then Inr ''windows-shutdown'' else Inl (Msg ''windows shutdown scripts disabled in instance config'')
         else if Shutdown cfg then Inr ''shutdown'' else Inl (Msg ''shutdown scripts disabled in instance config''))
      else if arg = ''graceful-shutdown'' then Inr (if windows then ''windows-graceful-shutdown'' else ''graceful-shutdown'')
      else Inl errUsage)"

definition getWantedKeys :: "MetadataScriptsCfg \<Rightarrow> string list \<Rightarrow> string \<Rightarrow> string list res" where
  "getWantedKeys cfg args os =
     (if length args \<noteq> 2 then Inl errUsage
      else case key_prefix cfg (os = ''windows'') (args ! 1) of
          Inl e \<Rightarrow> Inl e
        | Inr prefix \<Rightarrow> Inr (
            (if os = ''windows'' then [] else [prefix @ ''-script'']) @
            map (\<lambda>suffix. prefix @ ''-script-'' @ suffix)
              (if os = ''windows'' then [''ps1'', ''cmd'', ''bat'', ''url''] else [''url''])))"

definition parseMetadata :: "(string \<times> string) list \<Rightarrow> string list \<Rightarrow> (string \<times> string) list" where
  "parseMetadata md wanted =
     fold (\<lambda>key found. case map_of md key of
         None \<Rightarrow> found
       | Some val \<Rightarrow> if val = [] then found else AList.update key val found) wanted []"

definition getMetadata :: "string \<Rightarrow> bool \<Rightarrow> ('z, string res) mds_io" where
  "getMetadata key recurse = do {
     r \<leftarrow> (if recurse then GetKeyRecursive key else GetKey key []);
     State_Monad.return (case r of Inl e \<Rightarrow> Inl (Wrap (''unable to get '' @ key @ '' from MDS'') e) | Inr b \<Rightarrow> Inr b) }"

text \<open>\<^verbatim>\<open>json.Unmarshal\<close> into a map from strings to strings: a later member replaces an earlier one.\<close>

definition Unmarshal_strings :: "string \<Rightarrow> (string \<times> string) list option" where
  "Unmarshal_strings b = (case Option.bind (json_parse b) json_members of
     None \<Rightarrow> None
   | Some ps \<Rightarrow> if list_all (\<lambda>(k, v). str_or_null v) ps
       then Some (fold (\<lambda>(k, v) m. AList.update k (case v of JStr s \<Rightarrow> s | _ \<Rightarrow> []) m) ps []) else None)"

definition getMetadataAttributes :: "string \<Rightarrow> ('z, (string \<times> string) list res) mds_io" where
  "getMetadataAttributes key = do {
     r \<leftarrow> getMetadata key True;
     State_Monad.return (case r of
       Inl e \<Rightarrow> Inl e
     | Inr b \<Rightarrow> (case Unmarshal_strings b of None \<Rightarrow> Inl (Msg ''json: cannot unmarshal'') | Some m \<Rightarrow> Inr m)) }"

fun existing_keys :: "string list \<Rightarrow> string list \<Rightarrow> ('z, (string \<times> string) list res) mds_io" where
  "existing_keys wanted [] = State_Monad.return (Inr [])"
| "existing_keys wanted (attrs # rest) = do {
     r \<leftarrow> getMetadataAttributes attrs;
     (case r of
        Inl e \<Rightarrow> State_Monad.return (Inl e)
      | Inr md \<Rightarrow> if parseMetadata md wanted \<noteq> [] then State_Monad.return (Inr (parseMetadata md wanted))
          else existing_keys wanted rest) }"

definition getExistingKeys :: "string list \<Rightarrow> ('z, (string \<times> string) list res) mds_io" where
  "getExistingKeys wanted = existing_keys wanted [''/instance/attributes'', ''/project/attributes'']"

section \<open>Running a script\<close>

fun normalize_ext :: "string \<Rightarrow> string \<Rightarrow> string option \<Rightarrow> string list \<Rightarrow> string" where
  "normalize_ext filePath metadataKey url_path [] = filePath"
| "normalize_ext filePath metadataKey url_path (ext # exts) =
     (if HasSuffix metadataKey (''-'' @ ext) \<or> (case url_path of Some p \<Rightarrow> HasSuffix p (''.'' @ ext) | None \<Rightarrow> False)
      then filePath @ ''.'' @ ext else normalize_ext filePath metadataKey url_path exts)"

definition normalizeFilePathForWindows :: "string \<Rightarrow> string \<Rightarrow> string option \<Rightarrow> string" where
  "normalizeFilePathForWindows filePath metadataKey url_path =
     normalize_ext filePath metadataKey url_path [''bat'', ''cmd'', ''ps1'', ''exe'']"

definition script_space :: string where
  "script_space = [CHR '' '', CHR 0x0A, CHR 0x0B, CHR 0x0C, CHR 0x09, CHR 0x0D]"

definition writeScriptToFile :: "string \<Rightarrow> string \<Rightarrow> bool \<Rightarrow> ('z, goerr option) script_io" where
  "writeScriptToFile value filePath from_url =
     (if from_url then do {
        r \<leftarrow> os_Open True False True 493 filePath;
        (case r of
           Inl e \<Rightarrow> State_Monad.return (Some (Flat ''error opening temp file'' e))
         | Inr file \<Rightarrow> downloadScript value file) }
      else do {
        e \<leftarrow> os_WriteFile filePath (TrimLeft value script_space) 493;
        State_Monad.return (map_option (Flat ''error writing temp file'') e) })"

definition powerShellArgs :: "string list" where
  "powerShellArgs = [''-NoProfile'', ''-NoLogo'', ''-ExecutionPolicy'', ''Unrestricted'', ''-File'']"

definition runCmd :: "string list \<Rightarrow> ('z, goerr option) io" where
  "runCmd c = do {
     e \<leftarrow> errs (syscall (\<lambda>um f. Inr ((), f)));
     (case e of
        Some e \<Rightarrow> State_Monad.return (Some e)
      | None \<Rightarrow> do {
          r \<leftarrow> spawn c;
          State_Monad.return (case r of
            NotRun m \<Rightarrow> Some (Msg m)
          | Exited code _ _ _ \<Rightarrow> if code = 0 then None else Some (Msg (''exit status '' @ show_int code))) }) }"

definition script_command :: "string \<Rightarrow> bool \<Rightarrow> string \<Rightarrow> string list" where
  "script_command shell windows filePath =
     (if HasSuffix filePath ''.ps1'' then ''powershell.exe'' # powerShellArgs @ [filePath]
      else if windows then [filePath] else [shell, ''-c'', filePath])"

definition runScript :: "string \<Rightarrow> ('z, goerr option) agent_io" where
  "runScript filePath = do {
     windows \<leftarrow> is_goos ''windows'';
     shell \<leftarrow> gets (\<lambda>w. DefaultShell (MetadataScripts (config w)));
     runCmd (script_command shell windows filePath) }"

definition os_MkdirTemp :: "string \<Rightarrow> string \<Rightarrow> ('z, string res) io" where
  "os_MkdirTemp dir pattern = do {
     w \<leftarrow> State_Monad.get;
     let p = path_Join [if dir = [] then ''/tmp'' else dir, pattern @ rand w (tick w)];
     e \<leftarrow> os_Mkdir p 448;
     State_Monad.return (case e of Some e \<Rightarrow> Inl e | None \<Rightarrow> Inr p) }"

definition script_file :: "bool \<Rightarrow> string \<Rightarrow> string \<Rightarrow> string option \<Rightarrow> string" where
  "script_file windows tmpDir metadataKey url_path =
     (let f = path_Join [tmpDir, metadataKey] in if windows then normalizeFilePathForWindows f metadataKey url_path else f)"

text \<open>The work in the temporary directory, which is removed at the end in any case.\<close>

definition run_in_dir :: "string \<Rightarrow> string \<Rightarrow> string option \<Rightarrow> string \<Rightarrow> ('z, goerr option) script_io" where
  "run_in_dir metadataKey value url_path tmpDir = do {
     windows \<leftarrow> is_goos ''windows'';
     w \<leftarrow> writeScriptToFile value (script_file windows tmpDir metadataKey url_path) (url_path \<noteq> None);
     e \<leftarrow> (case w of
         Some e \<Rightarrow> State_Monad.return (Some (Flat ''unable to write script to file'' e))
       | None \<Rightarrow> runScript (script_file windows tmpDir metadataKey url_path));
     _ \<leftarrow> os_RemoveAll tmpDir;
     State_Monad.return e }"

definition setupAndRunScript :: "(string \<Rightarrow> string res) \<Rightarrow> string \<Rightarrow> string \<Rightarrow> ('z, goerr option) script_io" where
  "setupAndRunScript url_Parse metadataKey value =
     (case (if HasSuffix metadataKey ''-url'' then map_sum id Some (url_Parse (TrimSpace value)) else Inr None) of
        Inl e \<Rightarrow> State_Monad.return (Some e)
      | Inr url_path \<Rightarrow> do {
          dir \<leftarrow> gets (\<lambda>w. RunDir (MetadataScripts (config w)));
          t \<leftarrow> os_MkdirTemp dir ''metadata-scripts'';
          (case t of
             Inl e \<Rightarrow> State_Monad.return (Some e)
           | Inr tmpDir \<Rightarrow> run_in_dir metadataKey value url_path tmpDir) })"

fun run_scripts :: "(string \<Rightarrow> string res) \<Rightarrow> (string \<times> string) list \<Rightarrow> string list \<Rightarrow> ('z, unit) script_io" where
  "run_scripts url_Parse scripts [] = State_Monad.return ()"
| "run_scripts url_Parse scripts (key # wanted) = (case map_of scripts key of
     None \<Rightarrow> run_scripts url_Parse scripts wanted
   | Some value \<Rightarrow> do { _ \<leftarrow> setupAndRunScript url_Parse key value; run_scripts url_Parse scripts wanted })"

text \<open>The program after the configuration is loaded; the value is its exit status. The logger always starts.\<close>

definition script_main :: "(string \<Rightarrow> string res) \<Rightarrow> string list \<Rightarrow> ('z, int) script_io" where
  "script_main url_Parse args = do {
     cfg \<leftarrow> gets config;
     os \<leftarrow> gets goos;
     (case getWantedKeys (MetadataScripts cfg) args os of
        Inl e \<Rightarrow> State_Monad.return 2
      | Inr wanted \<Rightarrow> do {
          _ \<leftarrow> getMetadata ''/project/project-id'' False;
          _ \<leftarrow> getMetadata ''/instance/attributes/created-by'' False;
          r \<leftarrow> getExistingKeys wanted;
          (case r of
             Inl e \<Rightarrow> State_Monad.return 1
           | Inr scripts \<Rightarrow> do { run_scripts url_Parse scripts wanted; State_Monad.return 0 }) }) }"

section \<open>Properties\<close>

lemma is_bucket_no_slash: "is_bucket b \<Longrightarrow> c \<in> set b \<Longrightarrow> c \<noteq> CHR ''/''"
  by (auto simp: is_bucket_def list_all_iff bucket_char_def bucket_first_def is_digit_def)

lemma upto_slash:
  assumes "\<forall>c \<in> set h. c \<noteq> CHR ''/''"
  shows "takeWhile (\<lambda>c. c \<noteq> CHR ''/'') (h @ CHR ''/'' # r) = h" "dropWhile (\<lambda>c. c \<noteq> CHR ''/'') (h @ CHR ''/'' # r) = CHR ''/'' # r"
  using assms by (induction h) auto

lemma bucket_object_ok [simp]:
  "is_bucket b \<Longrightarrow> is_object ob \<Longrightarrow> bucket_object (b @ CHR ''/'' # ob) = Some (b, ob)"
  using is_bucket_no_slash by (simp add: bucket_object_def takeWhile_append2 dropWhile_append2)

lemma bucket_host_ok [simp]:
  assumes "is_bucket b" and "is_object ob"
  shows "bucket_host (b @ ''.storage.googleapis.com'' @ CHR ''/'' # ob) = Some (b, ob)"
proof -
  let ?h = "b @ ''.storage.googleapis.com''"
  have n: "\<forall>c \<in> set ?h. c \<noteq> CHR ''/''"
    using is_bucket_no_slash [OF assms(1)] by auto
  have "strip_prefix (rev ''.storage.googleapis.com'') (rev ?h) = Some (rev b)"
    by (subst rev_append) (rule strip_prefix_append)
  then have "HasSuffix ?h ''.storage.googleapis.com'' \<and> TrimSuffix ?h ''.storage.googleapis.com'' = b"
    by (simp only: HasSuffix_def TrimSuffix_def) simp
  with assms show ?thesis
    unfolding bucket_host_def append_assoc [symmetric] upto_slash [OF n] Let_def by simp
qed

text \<open>
  every form of Cloud Storage URL the program supports names its bucket and object: for a valid
  bucket and an object on one line, each of them is taken apart into the two it was made of.
\<close>

theorem parseGCS_forms:
  assumes "is_bucket b" and "is_object ob"
  shows "parseGCS (''gs://'' @ b @ ''/'' @ ob) = Some (b, ob) \<and>
     (\<forall>scheme \<in> {''http://'', ''https://''}.
        parseGCS (scheme @ b @ ''.storage.googleapis.com'' @ ''/'' @ ob) = Some (b, ob) \<and>
        parseGCS (scheme @ ''storage.cloud.google.com/'' @ b @ ''/'' @ ob) = Some (b, ob) \<and>
        parseGCS (scheme @ ''storage.googleapis.com/'' @ b @ ''/'' @ ob) = Some (b, ob) \<and>
        parseGCS (scheme @ ''commondatastorage.googleapis.com/'' @ b @ ''/'' @ ob) = Some (b, ob))"
  using assms bucket_host_ok [OF assms]
  by (simp add: parseGCS_def gsRegex_def gsHTTPRegex1_def gsHTTPRegex2_def gsHTTPRegex3_def after_http_def map_filter_def
      bucket_host_def HasSuffix_def)

theorem parseGCS_forms_witness:
  "parseGCS ''gs://my-bucket/a/b.sh'' = Some (''my-bucket'', ''a/b.sh'')"
proof -
  have eval: "is_bucket ''my-bucket''" "is_object ''a/b.sh''"
    by code_simp+
  from parseGCS_forms [OF eval, THEN conjunct1] show ?thesis
    by simp
qed

lemma within_ask [frame_intros]: "keeps (confined S) (ask f)"
  by (simp add: keeps_def ask_def confined_def)

lemma within_attempt [frame_intros]: "keeps (confined S) m \<Longrightarrow> keeps (confined S) (attempt z m)"
  unfolding attempt_def by (intro frame_intros)

lemma within_io_Copy [frame_intros]: "p \<in> S \<Longrightarrow> keeps (confined S) (io_Copy p off t)"
  unfolding io_Copy_def by (intro frame_intros)

lemma within_downloads [frame_intros]:
  "p \<in> S \<Longrightarrow> keeps (confined S) (downloadURL u p off)" "p \<in> S \<Longrightarrow> keeps (confined S) (downloadGSURL b ob p)"
  unfolding downloadURL_def downloadGSURL_def by (intro frame_intros; assumption)+

lemma within_downloadScript [frame_intros]: "p \<in> S \<Longrightarrow> keeps (confined S) (downloadScript u p)"
  unfolding downloadScript_def by (intro frame_intros; assumption)

lemma within_writeScript [frame_intros]:
  assumes "p \<in> S"
  shows "keeps (confined S) (writeScriptToFile v p from_url)"
  unfolding writeScriptToFile_def
proof (rule keeps_if)
  show "keeps (confined S) (do {
      e \<leftarrow> os_WriteFile p (TrimLeft v script_space) 493;
      State_Monad.return (map_option (Flat ''error writing temp file'') e) })"
    by (intro frame_intros assms)
qed (rule within_open [OF assms refl]; intro frame_intros; simp add: assms)

lemma within_runScript [frame_intros]: "keeps (confined S) (runScript p)"
  unfolding runScript_def runCmd_def by (intro frame_intros within_syscall) simp

lemma within_run_in_dir:
  "(\<And>q. below tmp q \<Longrightarrow> q \<in> S) \<Longrightarrow> (\<And>windows u. script_file windows tmp key u \<in> S) \<Longrightarrow>
     keeps (confined S) (run_in_dir key value url_path tmp)"
  unfolding run_in_dir_def by (intro frame_intros; assumption)

text \<open>
  C14: setting a script up and running it changes no file but its own temporary directory, what is
  below it and the script's file in it, whatever fails and wherever the script comes from, as far as
  the script itself stays within them.
\<close>

theorem setupAndRunScript_frame:
  assumes "tmp = path_Join [if RunDir (MetadataScripts (config w)) = [] then ''/tmp'' else RunDir (MetadataScripts (config w)),
       ''metadata-scripts'' @ rand w (tick w)]"
    and "S = {q. below tmp q \<or> (\<exists>windows u. q = script_file windows tmp key u)}"
    and "cmds_within S (exec w)" and "no_links S (fs w)" and "p \<notin> S"
  shows "map_of (fs (snd (run_state (setupAndRunScript url_Parse key value) w))) p = map_of (fs w) p"
proof -
  have tmp: "tmp \<in> S" "\<And>q. below tmp q \<Longrightarrow> q \<in> S" "\<And>windows u. script_file windows tmp key u \<in> S"
    by (auto simp: assms(2) below_def)
  let ?m = "case (if HasSuffix key ''-url'' then map_sum id Some (url_Parse (TrimSpace value)) else Inr None) of
      Inl e \<Rightarrow> State_Monad.return (Some e)
    | Inr url_path \<Rightarrow> do {
        e \<leftarrow> os_Mkdir tmp 448;
        (case e of Some e \<Rightarrow> State_Monad.return (Some e) | None \<Rightarrow> run_in_dir key value url_path tmp) }"
  have eq: "run_state (setupAndRunScript url_Parse key value) w = run_state ?m w"
    by (simp add: setupAndRunScript_def os_MkdirTemp_def assms(1) Let_def split: sum.split prod.split option.split)
  have "keeps (confined S) ?m"
    by (intro frame_intros within_run_in_dir tmp)
  then show ?thesis
    unfolding eq by (rule withinD [OF _ assms(3-5)])
qed

definition calm_script :: "files \<Rightarrow> script_agent" where
  "calm_script f = agent.extend (calm_agent f) \<lparr>LookupHost = (\<lambda>_ _. None), storage_client = (\<lambda>_. None),
     storage_reader = (\<lambda>_ _ _. Inr (''half'', Some (Msg ''connection reset''))),
     http_Get = (\<lambda>_ _. Inr (200, (''whole'', None)))\<rparr>"

lemma calm_script_simps [simp]:
  "fs (calm_script f) = f" "fault (calm_script f) = (\<lambda>_. None)" "exec (calm_script f) = (\<lambda>_ _ g. (Exited 0 [] [] [], g))"
  "config (calm_script f) = defaultConfig" "LookupHost (calm_script f) = (\<lambda>_ _. None)" "storage_client (calm_script f) = (\<lambda>_. None)"
  "storage_reader (calm_script f) = (\<lambda>_ _ _. Inr (''half'', Some (Msg ''connection reset'')))"
  "http_Get (calm_script f) = (\<lambda>_ _. Inr (200, (''whole'', None)))"
  by (simp_all add: calm_script_def calm_agent_def calm_def agent.defs mds_world.defs world.defs)

lemma normalize_ext_extends: "\<exists>r. normalize_ext f key u exts = f @ r"
  by (induction exts) auto

lemma script_file_extends: "\<exists>r. script_file windows tmp key u = path_Join [tmp, key] @ r"
  by (simp add: script_file_def normalizeFilePathForWindows_def normalize_ext_extends Let_def del: normalize_ext.simps)

theorem setupAndRunScript_frame_witness:
  "map_of (fs (snd (run_state (setupAndRunScript Inr ''startup-script'' ''true'') (calm_script [(''/etc/hosts'', Reg [] 420 (0, 0))])))) ''/etc/hosts'' =
     Some (Reg [] 420 (0, 0))"
proof -
  let ?w = "calm_script [(''/etc/hosts'', Reg [] 420 (0, 0))]"
  let ?tmp = "path_Join [if RunDir (MetadataScripts (config ?w)) = [] then ''/tmp'' else RunDir (MetadataScripts (config ?w)),
       ''metadata-scripts'' @ rand ?w (tick ?w)]"
  let ?S = "{q. below ?tmp q \<or> (\<exists>windows u. q = script_file windows ?tmp ''startup-script'' u)}"
  have t: "?tmp = ''/tmp/metadata-scripts1''"
    by code_simp
  have j: "path_Join [''/tmp/metadata-scripts1'', ''startup-script''] = ''/tmp/metadata-scripts1/startup-script''"
    by code_simp
  have "script_file windows ''/tmp/metadata-scripts1'' ''startup-script'' u \<noteq> ''/etc/hosts''" for windows u
    using script_file_extends [of windows "''/tmp/metadata-scripts1''" "''startup-script''" u] by (auto simp: j)
  moreover have "\<not> below ''/tmp/metadata-scripts1'' ''/etc/hosts''"
    by code_simp
  ultimately have "''/etc/hosts'' \<notin> ?S"
    unfolding t mem_Collect_eq by metis
  moreover have "cmds_within ?S (exec ?w)" "no_links ?S (fs ?w)"
    by (auto simp: cmds_within_def no_links_def)
  ultimately show ?thesis
    using setupAndRunScript_frame [OF refl refl, of ?w "''startup-script''" "''/etc/hosts''" Inr "''true''"] by simp
qed

text \<open>
  if the download from Cloud Storage breaks off, the script that is then run is the part that
  came, followed by the whole script from the second attempt: the file is not cut back before the
  unauthenticated download.
\<close>

theorem downloadScript_appends:
  assumes "fault w = (\<lambda>_. None)" and "LookupHost w = (\<lambda>_ _. None)" and "storage_client w = (\<lambda>_. None)"
    and "parseGCS path = Some (bucket, ob)"
    and "storage_reader w = (\<lambda>_ _ _. Inr (part, Some e))" and "http_Get w = (\<lambda>_ _. Inr (200, (whole, None)))"
    and "map_of (fs w) file = Some (Reg [] m o1)"
  shows "\<exists>w'. run_state (downloadScript path file) w = (None, w') \<and> map_of (fs w') file = Some (Reg (part @ whole) m o1)"
  using assms
  by (auto simp: downloadScript_def downloadGSURL_def downloadURL_def retry_Run_def RunWithResponse_def attempt_def ask_def
      retry_from.simps [of _ _ _ 0] defaultRetryPolicy_def io_Copy_def os_WriteAt_def syscall_def update_conv' Let_def)

theorem downloadScript_appends_witness:
  "\<exists>w'. run_state (downloadScript ''gs://bucket/script'' ''/tmp/s'') (calm_script [(''/tmp/s'', Reg [] 493 (0, 0))]) = (None, w') \<and>
     map_of (fs w') ''/tmp/s'' = Some (Reg ''halfwhole'' 493 (0, 0))"
proof -
  have "parseGCS ''gs://bucket/script'' = Some (''bucket'', ''script'')"
    by code_simp
  from downloadScript_appends [of "calm_script [(''/tmp/s'', Reg [] 493 (0, 0))]", OF _ _ _ this, of "''half''" _ "''whole''" "''/tmp/s''"]
  show ?thesis
    by simp
qed

end
