(* ===== verification/CertRefresh.thy ===== *)
theory CertRefresh
  imports MdsClient
begin

text \<open>
  \<^verbatim>\<open>gce_workload_cert_refresh/main.go\<close>: fetching the workload certificates of the instance into a new
  directory and turning the symbolic link the workloads read to it. \<^verbatim>\<open>timeNow\<close>, a variable of the source
  that formats the current time, is an argument. The properties hold whichever system calls and
  requests fail.
\<close>

definition trustAnchorsKey :: string where
  "trustAnchorsKey = ''instance/gce-workload-certificates/trust-anchors''"

definition workloadIdentitiesKey :: string where
  "workloadIdentitiesKey = ''instance/gce-workload-certificates/workload-identities''"

definition configStatusKey :: string where
  "configStatusKey = ''instance/gce-workload-certificates/config-status''"

definition enableWorkloadCertsKey :: string where
  "enableWorkloadCertsKey = ''instance/attributes/enable-workload-certificate''"

definition wc_getMetadata :: "string \<Rightarrow> ('z, string res) mds_io" where
  "wc_getMetadata key = bind_ok (GetKey key [])
     (\<lambda>e. Inl (Wrap (''failed to GET '' @ key @ '' from MDS with error'') e)) (\<lambda>resp. State_Monad.return (Inr resp))"

definition wc_isEnabled :: "('z, bool) mds_io" where
  "wc_isEnabled = bind_ok (wc_getMetadata enableWorkloadCertsKey) (\<lambda>_. False)
     (\<lambda>resp. State_Monad.return (EqualFold resp ''true''))"

record WorkloadCredential =
  CertificatePem :: string
  PrivateKeyPem :: string

record WorkloadIdentities =
  wi_Status :: string
  WorkloadCredentials :: "(string \<times> WorkloadCredential) list"

record TrustAnchor =
  TrustAnchorsPem :: string

record WorkloadTrustedAnchors =
  ta_Status :: string
  TrustAnchors :: "(string \<times> TrustAnchor) list"

record outputOpts =
  contentDirPrefix :: string
  tempSymlinkPrefix :: string
  symlink :: string

definition default_output :: outputOpts where
  "default_output = \<lparr>contentDirPrefix = ''/run/secrets/workload-spiffe-contents'',
     tempSymlinkPrefix = ''/run/secrets/workload-spiffe-symlink'', symlink = ''/run/secrets/workload-spiffe-credentials''\<rparr>"

text \<open>
  Decoding a field that holds a map of structs: an object adds its members to the map, \<^verbatim>\<open>null\<close> empties
  it, and anything else is an error.
\<close>

definition json_map_field ::
  "((string \<times> json) list \<Rightarrow> 'a option) \<Rightarrow> (string \<times> json) list \<Rightarrow> string \<Rightarrow> (string \<times> 'a) list option" where
  "json_map_field dec ps k = fold (\<lambda>(k', v) acc.
     if \<not> EqualFold k' k then acc
     else case v of
       JNull \<Rightarrow> map_option (\<lambda>_. []) acc
     | JObj qs \<Rightarrow> fold (\<lambda>(name, x) acc.
         case (acc, Option.bind (json_members x) dec) of
           (Some m, Some y) \<Rightarrow> Some (AList.update name y m)
         | _ \<Rightarrow> None) qs acc
     | _ \<Rightarrow> None) ps (Some [])"

definition WorkloadCredential_fields :: "(string \<times> json) list \<Rightarrow> WorkloadCredential option" where
  "WorkloadCredential_fields ps = (case (json_str_field ps ''certificatePem'', json_str_field ps ''privateKeyPem'') of
     (Some c, Some k) \<Rightarrow> Some \<lparr>CertificatePem = c, PrivateKeyPem = k\<rparr> | _ \<Rightarrow> None)"

definition Unmarshal_identities :: "string \<Rightarrow> WorkloadIdentities option" where
  "Unmarshal_identities b = Option.bind (Option.bind (json_parse b) json_members) (\<lambda>ps.
     case (json_str_field ps ''status'', json_map_field WorkloadCredential_fields ps ''workloadCredentials'') of
       (Some s, Some m) \<Rightarrow> Some \<lparr>wi_Status = s, WorkloadCredentials = m\<rparr> | _ \<Rightarrow> None)"

definition Unmarshal_anchors :: "string \<Rightarrow> WorkloadTrustedAnchors option" where
  "Unmarshal_anchors b = Option.bind (Option.bind (json_parse b) json_members) (\<lambda>ps.
     case (json_str_field ps ''status'',
           json_map_field (\<lambda>qs. map_option (\<lambda>p. \<lparr>TrustAnchorsPem = p\<rparr>) (json_str_field qs ''trustAnchorsPem'')) ps ''trustAnchors'') of
       (Some s, Some m) \<Rightarrow> Some \<lparr>ta_Status = s, TrustAnchors = m\<rparr> | _ \<Rightarrow> None)"

text \<open>The anchors are looked through in the order of the map.\<close>

definition findDomain :: "(string \<times> TrustAnchor) list \<Rightarrow> string \<Rightarrow> ('z, string res) io" where
  "findDomain anchors spiffeID = do {
     order \<leftarrow> range_map anchors;
     State_Monad.return (case find (\<lambda>(k, _). length anchors = 1 \<or> Contains spiffeID k) order of
       Some (k, _) \<Rightarrow> Inr k
     | None \<Rightarrow> Inl (Msg ''no matching trust anchor found'')) }"

definition writeTrustAnchors :: "string \<Rightarrow> string \<Rightarrow> string \<Rightarrow> ('z, goerr option) io" where
  "writeTrustAnchors wtrcsMd destDir spiffeID = (case Unmarshal_anchors wtrcsMd of
     None \<Rightarrow> State_Monad.return (Some (Flat ''error unmarshaling workload trusted root certs'' (Msg ''json'')))
   | Some wtrcs \<Rightarrow> bind_ok (findDomain (TrustAnchors wtrcs) spiffeID) Some (\<lambda>domain.
       os_WriteFile (destDir @ ''/ca_certificates.pem'')
         (case map_of (TrustAnchors wtrcs) domain of Some a \<Rightarrow> TrustAnchorsPem a | None \<Rightarrow> []) 420))"

text \<open>The credential of an identity; a missing one is the zero value.\<close>

definition credential :: "WorkloadIdentities \<Rightarrow> string \<Rightarrow> WorkloadCredential" where
  "credential wis spiffeID = deref_or \<lparr>CertificatePem = [], PrivateKeyPem = []\<rparr> (map_of (WorkloadCredentials wis) spiffeID)"

definition writeWorkloadIdentities :: "string \<Rightarrow> string \<Rightarrow> ('z, string res) io" where
  "writeWorkloadIdentities destDir wisMd = (case Unmarshal_identities wisMd of
     None \<Rightarrow> State_Monad.return (Inl (Wrap ''error unmarshaling workload identities response'' (Msg ''json'')))
   | Some wis \<Rightarrow> do {
       order \<leftarrow> range_map (WorkloadCredentials wis);
       let spiffeID = (case order of [] \<Rightarrow> [] | (k, _) # _ \<Rightarrow> k);
       if_ok (os_WriteFile (path_Join [destDir, ''certificates.pem'']) (CertificatePem (credential wis spiffeID)) 420)
         (\<lambda>e. Inl (Wrap ''error writing certificates.pem'' e))
         (if_ok (os_WriteFile (path_Join [destDir, ''private_key.pem'']) (PrivateKeyPem (credential wis spiffeID)) 420)
           (\<lambda>e. Inl (Wrap ''error writing private_key.pem'' e))
           (State_Monad.return (Inr spiffeID))) })"

text \<open>The last part of \<^verbatim>\<open>refreshCreds\<close>: turn the link and remove what it pointed to.\<close>

definition rotate :: "outputOpts \<Rightarrow> string \<Rightarrow> ('z, goerr option) io" where
  "rotate opts tempSymlink = do {
     r \<leftarrow> os_Readlink (symlink opts);
     let oldTarget = (case r of Inl _ \<Rightarrow> [] | Inr t \<Rightarrow> t);
     if_ok (os_Rename tempSymlink (symlink opts)) (\<lambda>e. Some (Flat ''error rotating target link'' e))
       (bind_ok (os_Readlink (symlink opts)) (\<lambda>e. Some (Flat ''error reading new symlink'' e)) (\<lambda>newTarget.
          if oldTarget \<noteq> newTarget
          then if_ok (os_RemoveAll oldTarget) (\<lambda>e. Some (Flat ''failed to remove old symlink target'' e)) (State_Monad.return None)
          else State_Monad.return None)) }"

text \<open>The first part: the directory, its status file, and the link if there is none yet.\<close>

definition start_contents :: "outputOpts \<Rightarrow> string \<Rightarrow> string \<Rightarrow> ('z, goerr option) io \<Rightarrow> ('z, goerr option) io" where
  "start_contents opts contentDir status k =
     if_ok (os_MkdirAll contentDir 493) (\<lambda>e. Some (Flat ''error creating contents dir'' e))
       (if_ok (os_WriteFile (path_Join [contentDir, ''config_status'']) status 420)
         (\<lambda>e. Some (Flat ''error writing config_status'' e))
         (do {
           s \<leftarrow> os_Stat (symlink opts);
           if_ok (if (case s of Inl e \<Rightarrow> os_IsNotExist e | Inr _ \<Rightarrow> False)
                  then os_Symlink contentDir (symlink opts) else State_Monad.return None)
             (\<lambda>e. Some (Flat ''error creating symlink'' e)) k }))"

definition refreshCreds :: "(int \<Rightarrow> string) \<Rightarrow> outputOpts \<Rightarrow> ('z, goerr option) mds_io" where
  "refreshCreds timeNow opts = do {
     t \<leftarrow> time_Now;
     let contentDir = contentDirPrefix opts @ ''-'' @ timeNow t;
     let tempSymlink = tempSymlinkPrefix opts @ ''-'' @ timeNow t;
     bind_ok (wc_getMetadata configStatusKey) (\<lambda>_. None) (\<lambda>status.
       start_contents opts contentDir status
         (bind_ok (wc_getMetadata workloadIdentitiesKey) (\<lambda>e. Some (Flat ''error getting workload-identities'' e)) (\<lambda>wisMd.
          bind_ok (writeWorkloadIdentities contentDir wisMd) (\<lambda>e. Some (Wrap ''failed to write workload identities with error'' e)) (\<lambda>spiffeID.
          bind_ok (wc_getMetadata trustAnchorsKey) (\<lambda>e. Some (Flat ''error getting workload-trust-anchors'' e)) (\<lambda>wtrcsMd.
          if_ok (writeTrustAnchors wtrcsMd contentDir spiffeID) (\<lambda>e. Some (Wrap ''failed to write trust anchors'' e))
            (if_ok (os_Symlink contentDir tempSymlink) (\<lambda>e. Some (Flat ''error creating temporary link'' e))
              (rotate opts tempSymlink))))))) }"

text \<open>\<^verbatim>\<open>main\<close>, from the check on: \<^verbatim>\<open>Some\<close> is what \<^verbatim>\<open>logger.Fatalf\<close> ends the program with.\<close>

definition wc_main :: "(int \<Rightarrow> string) \<Rightarrow> ('z, goerr option) mds_io" where
  "wc_main timeNow = do {
     _ \<leftarrow> wc_getMetadata ''/instance/attributes/created-by'';
     on \<leftarrow> wc_isEnabled;
     (if on then refreshCreds timeNow default_output else State_Monad.return None) }"


section \<open>Lemmas\<close>

abbreviation key_cfg :: "string \<Rightarrow> requestConfig" where
  "key_cfg key \<equiv> \<lparr>baseURL = url_JoinPath defaultMetadataURL key, hang = False,
     recursive = False, jsonOutput = False, timeout = 0, headers = []\<rparr>"

text \<open>Assertions about the files in a world whose server is fixed.\<close>

definition serving :: "(nat \<Rightarrow> request \<Rightarrow> reply) \<Rightarrow> ((string \<rightharpoonup> node) \<Rightarrow> bool) \<Rightarrow> 'z mds_world_scheme \<Rightarrow> bool" where
  "serving h P w \<longleftrightarrow> http w = h \<and> P (map_of (fs w))"

lemma same_http_calls:
  "keeps same_http (os_MkdirAll p m)" "keeps same_http (os_WriteFile p s m)" "keeps same_http (os_Stat p)"
  "keeps same_http (os_Symlink t p)" "keeps same_http (findDomain anchors spiffeID)"
  unfolding findDomain_def by (intro same_http.keeps_os)+

lemma triple_serving:
  assumes "keeps same_http m" and "triple (\<lambda>w. P (map_of (fs w))) m (\<lambda>r w. Q r (map_of (fs w)))"
  shows "triple (serving h P) m (\<lambda>r. serving h (Q r))"
proof (rule tripleI)
  fix w r w'
  assume "serving h P w" and "run_state m w = (r, w')"
  with keepsD [OF assms(1), of w] tripleD [OF assms(2), of w r w'] show "serving h (Q r) w'"
    by (simp add: serving_def same_http_def)
qed

lemma triple_request:
  "triple (serving h P) (wc_getMetadata key)
     (\<lambda>r. serving h (\<lambda>f. P f \<and> (\<forall>md. r = Inr md \<longrightarrow> served h (key_cfg key) md)))"
proof (rule tripleI)
  fix w r w'
  assume P: "serving h P w" and run: "run_state (wc_getMetadata key) w = (r, w')"
  then obtain r1 where r1: "run_state (mds_retry (key_cfg key)) w = (r1, w')"
    and r: "\<And>md. r = Inr md \<Longrightarrow> r1 = Inr md"
    by (auto simp: wc_getMetadata_def GetKey_def split: prod.splits sum.splits)
  with P show "serving h (\<lambda>f. P f \<and> (\<forall>md. r = Inr md \<longrightarrow> served h (key_cfg key) md)) w'"
    using keepsD [OF same_files_mds_retry, of w "key_cfg key"] keepsD [OF same_http.keeps_mds(1), of w "key_cfg key"] served_mds_retry [of "key_cfg key" w]
    by (auto simp: serving_def same_files_def same_http_def)
qed

text \<open>
  While the new directory is filled nothing that was there is changed, and every file written so far
  has its text.
\<close>

definition has_text :: "(string \<rightharpoonup> node) \<Rightarrow> string \<Rightarrow> string \<Rightarrow> bool" where
  "has_text f p s \<longleftrightarrow> (\<exists>m o1. f p = Some (Reg s m o1))"

definition slots :: "string \<Rightarrow> string set" where
  "slots C = (\<lambda>n. C @ ''/'' @ n) ` {''config_status'', ''certificates.pem'', ''private_key.pem'', ''ca_certificates.pem''}"

definition stage :: "(string \<rightharpoonup> node) \<Rightarrow> string \<Rightarrow> (string \<times> string) list \<Rightarrow> (string \<rightharpoonup> node) \<Rightarrow> bool" where
  "stage f0 C ws f \<longleftrightarrow> f0 \<subseteq>\<^sub>m f \<and> (\<forall>p \<in> slots C. file_or_none f p) \<and> (\<forall>n s. (n, s) \<in> set ws \<longrightarrow> has_text f (C @ ''/'' @ n) s)"

lemma stage_le: "stage f0 C ws f \<Longrightarrow> f0 \<subseteq>\<^sub>m f"
  by (simp add: stage_def)

lemma map_le_upd_new: "f0 \<subseteq>\<^sub>m f \<Longrightarrow> f0 p = None \<Longrightarrow> f0 \<subseteq>\<^sub>m f(p \<mapsto> n)"
  by (auto simp: map_le_def dom_def)

text \<open>The paths of the new directory are free, and it is a clean absolute path.\<close>

definition new_dir :: "(string \<rightharpoonup> node) \<Rightarrow> string \<Rightarrow> bool" where
  "new_dir f0 C \<longleftrightarrow> Clean C = C \<and> HasPrefix C ''/'' \<and> C \<noteq> ''/'' \<and> (\<forall>q. below C q \<longrightarrow> f0 q = None)"

lemma slot_free: "new_dir f0 C \<Longrightarrow> p \<in> slots C \<Longrightarrow> f0 p = None"
  by (auto simp: new_dir_def slots_def below_def HasPrefix_iff)

lemma slot_path:
  assumes "new_dir f0 C" and "n \<in> {''config_status'', ''certificates.pem'', ''private_key.pem'', ''ca_certificates.pem''}"
  shows "path_Join [C, n] = C @ ''/'' @ n"
  by (rule path_Join_clean) (use assms in \<open>auto simp: new_dir_def\<close>)

lemma stage_start: "new_dir f0 C \<Longrightarrow> stage f0 C [] f0"
  by (auto simp: stage_def file_or_none_def slot_free)

lemma stage_MkdirAll:
  assumes "new_dir f0 C"
  shows "triple (\<lambda>w. stage f0 C [] (map_of (fs w))) (os_MkdirAll C m) (\<lambda>_ w. stage f0 C [] (map_of (fs w)))"
proof (rule triple_MkdirAll)
  fix f g
  assume f: "stage f0 C [] f" and g: "dirs_added (dir_prefixes C) f g"
  have le: "f0 \<subseteq>\<^sub>m g"
    using stage_le [OF f] g by (auto simp: map_le_def dirs_added_def dom_def) (metis option.distinct(1))
  have "q \<notin> set (dir_prefixes C)" if "q \<in> slots C" for q
    using that length_dir_prefixes [of C q] assms by (auto simp: slots_def new_dir_def)
  then have "g q = f q" if "q \<in> slots C" for q
    using that g by (auto simp: dirs_added_def)
  then show "stage f0 C [] g"
    using f le by (simp add: stage_def file_or_none_def)
qed

lemma stage_WriteFile:
  assumes "new_dir f0 C" and "C @ ''/'' @ n \<in> slots C" and "n \<notin> fst ` set ws"
  shows "triple (\<lambda>w. stage f0 C ws (map_of (fs w))) (os_WriteFile (C @ ''/'' @ n) s m)
     (\<lambda>e w. case e of Some _ \<Rightarrow> f0 \<subseteq>\<^sub>m map_of (fs w) | None \<Rightarrow> stage f0 C ((n, s) # ws) (map_of (fs w)))"
proof (rule triple_WriteFile)
  have new: "f0 (C @ ''/'' @ n) = None"
    by (rule slot_free [OF assms(1,2)])
  fix f m' o1
  assume f: "stage f0 C ws f"
  then show "file_or_none f (C @ ''/'' @ n)" "f0 \<subseteq>\<^sub>m f"
    using assms(2) by (simp_all add: stage_def)
  then show "f0 \<subseteq>\<^sub>m f(C @ ''/'' @ n \<mapsto> Reg [] m' o1)"
    using new by (simp add: map_le_upd_new)
  have "f0 \<subseteq>\<^sub>m f(C @ ''/'' @ n \<mapsto> Reg s m' o1)"
    using new f by (simp add: map_le_upd_new stage_def)
  moreover have "(n', s') \<in> set ws \<Longrightarrow> n' \<noteq> n" for n' s'
    using assms(3) by force
  ultimately show "stage f0 C ((n, s) # ws) (f(C @ ''/'' @ n \<mapsto> Reg s m' o1))"
    using f by (fastforce simp: stage_def has_text_def file_or_none_def)
qed

lemma stage_Symlink:
  assumes "p \<notin> slots C"
  shows "triple (\<lambda>w. stage f0 C ws (map_of (fs w))) (os_Symlink t p)
     (\<lambda>e w. case e of Some _ \<Rightarrow> f0 \<subseteq>\<^sub>m map_of (fs w) | None \<Rightarrow> stage f0 C ws (map_of (fs w)) \<and> map_of (fs w) p = Some (Link t))"
proof (rule triple_Symlink [where R = "\<lambda>f. stage f0 C ws f \<and> f p = Some (Link t)"])
  fix f
  assume f: "stage f0 C ws f"
  then show "f0 \<subseteq>\<^sub>m f"
    by (rule stage_le)
  assume "f p = None"
  moreover from this f have "f0 p = None"
    by (auto simp: stage_def map_le_def dom_def)
  ultimately show "stage f0 C ws (f(p \<mapsto> Link t)) \<and> (f(p \<mapsto> Link t)) p = Some (Link t)"
    using f assms by (fastforce simp: stage_def has_text_def file_or_none_def map_le_upd_new)
qed

lemma triple_range_map:
  "triple (\<lambda>w. P (map_of (fs w))) (range_map xs) (\<lambda>r w. set r = set xs \<and> P (map_of (fs w)))"
  by (simp add: triple_def range_map_def)

lemma stage_identities:
  assumes "new_dir f0 C"
  shows "triple (\<lambda>w. stage f0 C [(''config_status'', status)] (map_of (fs w))) (writeWorkloadIdentities C wisMd)
     (\<lambda>r w. case r of Inl _ \<Rightarrow> f0 \<subseteq>\<^sub>m map_of (fs w)
      | Inr spiffeID \<Rightarrow> \<exists>wis. Unmarshal_identities wisMd = Some wis \<and>
          (WorkloadCredentials wis \<noteq> [] \<longrightarrow> spiffeID \<in> fst ` set (WorkloadCredentials wis)) \<and>
          stage f0 C [(''private_key.pem'', PrivateKeyPem (credential wis spiffeID)),
             (''certificates.pem'', CertificatePem (credential wis spiffeID)), (''config_status'', status)] (map_of (fs w)))"
proof (cases "Unmarshal_identities wisMd")
  case None
  then show ?thesis
    by (auto simp: writeWorkloadIdentities_def intro!: triple_return stage_le)
next
  case (Some wis)
  have paths: "path_Join [C, ''certificates.pem''] = C @ ''/'' @ ''certificates.pem''"
    "path_Join [C, ''private_key.pem''] = C @ ''/'' @ ''private_key.pem''"
    by (rule slot_path [OF assms]; simp)+
  let ?id = "\<lambda>order. case order of [] \<Rightarrow> [] | (k, _) # _ \<Rightarrow> k"
  let ?c = "\<lambda>order. (''certificates.pem'', CertificatePem (credential wis (?id order)))"
  let ?k = "\<lambda>order. (''private_key.pem'', PrivateKeyPem (credential wis (?id order)))"
  let ?s = "(''config_status'', status)"
  have slots: "C @ ''/'' @ ''certificates.pem'' \<in> slots C" "C @ ''/'' @ ''private_key.pem'' \<in> slots C"
    by (simp_all add: slots_def)
  note cert = stage_WriteFile [OF assms slots(1), of "[?s]"]
  note key = stage_WriteFile [OF assms slots(2), of "[?c order, ?s]" for order]
  have "triple (\<lambda>w. set order = set (WorkloadCredentials wis) \<and> stage f0 C [?s] (map_of (fs w)))
      (if_ok (os_WriteFile (C @ ''/'' @ ''certificates.pem'') (CertificatePem (credential wis (?id order))) 420)
         (\<lambda>e. Inl (Wrap ''error writing certificates.pem'' e))
         (if_ok (os_WriteFile (C @ ''/'' @ ''private_key.pem'') (PrivateKeyPem (credential wis (?id order))) 420)
           (\<lambda>e. Inl (Wrap ''error writing private_key.pem'' e)) (State_Monad.return (Inr (?id order)))))
      (\<lambda>r w. case r of Inl _ \<Rightarrow> f0 \<subseteq>\<^sub>m map_of (fs w)
        | Inr i \<Rightarrow> i = ?id order \<and> set order = set (WorkloadCredentials wis) \<and>
            stage f0 C [?k order, ?c order, ?s] (map_of (fs w)))" for order
    unfolding triple_pure
    by (intro impI triple_if_ok [OF cert] triple_if_ok [OF key] triple_return) auto
  note inner = this
  have first: "set order = set (WorkloadCredentials wis) \<Longrightarrow> WorkloadCredentials wis \<noteq> [] \<Longrightarrow>
      ?id order \<in> fst ` set (WorkloadCredentials wis)" for order
    by (cases order) force+
  show ?thesis
    unfolding writeWorkloadIdentities_def Some option.case Let_def paths
    by (rule triple_bind [OF triple_range_map], rule triple_post, rule inner)
       (auto simp: first split: sum.splits)
qed

text \<open>The anchor chosen for an identity.\<close>

definition anchor_for :: "WorkloadTrustedAnchors \<Rightarrow> string \<Rightarrow> string \<Rightarrow> bool" where
  "anchor_for wt spiffeID pem \<longleftrightarrow> (\<exists>domain a. map_of (TrustAnchors wt) domain = Some a \<and> pem = TrustAnchorsPem a \<and>
     (length (TrustAnchors wt) = 1 \<or> Contains spiffeID domain))"

lemma find_SomeD: "find P xs = Some x \<Longrightarrow> x \<in> set xs \<and> P x"
  by (induction xs) (auto split: if_splits)

lemma triple_findDomain:
  "triple (\<lambda>w. P (map_of (fs w))) (findDomain anchors spiffeID)
     (\<lambda>r w. case r of Inl _ \<Rightarrow> P (map_of (fs w))
      | Inr k \<Rightarrow> (k \<in> fst ` set anchors \<and> (length anchors = 1 \<or> Contains spiffeID k)) \<and> P (map_of (fs w)))"
proof (rule tripleI)
  fix w r w'
  let ?order = "permute (shuffle w (tick w) (length anchors)) anchors"
  let ?ok = "\<lambda>(k, _). length anchors = 1 \<or> Contains spiffeID k"
  assume P: "P (map_of (fs w))" and run: "run_state (findDomain anchors spiffeID) w = (r, w')"
  show "case r of Inl _ \<Rightarrow> P (map_of (fs w'))
      | Inr k \<Rightarrow> (k \<in> fst ` set anchors \<and> (length anchors = 1 \<or> Contains spiffeID k)) \<and> P (map_of (fs w'))"
  proof (cases "find ?ok ?order")
    case None
    with P run show ?thesis
      by (auto simp: findDomain_def range_map_def)
  next
    case (Some ka)
    from find_SomeD [OF this] have "ka \<in> set ?order" and "?ok ka"
      by blast+
    with P run Some show ?thesis
      by (cases ka) (auto simp: findDomain_def range_map_def, force+)
  qed
qed

lemma stage_anchors:
  assumes "new_dir f0 C" and "''ca_certificates.pem'' \<notin> fst ` set ws"
  shows "triple (\<lambda>w. stage f0 C ws (map_of (fs w))) (writeTrustAnchors wtMd C spiffeID)
     (\<lambda>e w. case e of Some _ \<Rightarrow> f0 \<subseteq>\<^sub>m map_of (fs w)
      | None \<Rightarrow> \<exists>wt pem. Unmarshal_anchors wtMd = Some wt \<and> anchor_for wt spiffeID pem \<and>
          stage f0 C ((''ca_certificates.pem'', pem) # ws) (map_of (fs w)))"
proof (cases "Unmarshal_anchors wtMd")
  case None
  then show ?thesis
    by (auto simp: writeTrustAnchors_def intro!: triple_return stage_le)
next
  case (Some wt)
  have slot: "C @ ''/'' @ ''ca_certificates.pem'' \<in> slots C"
    by (simp add: slots_def)
  let ?pem = "\<lambda>k. case map_of (TrustAnchors wt) k of Some a \<Rightarrow> TrustAnchorsPem a | None \<Rightarrow> []"
  have pem: "anchor_for wt spiffeID (?pem k)"
    if "k \<in> fst ` set (TrustAnchors wt) \<and> (length (TrustAnchors wt) = 1 \<or> Contains spiffeID k)" for k
    using that map_of_eq_None_iff [of "TrustAnchors wt" k] by (auto simp: anchor_for_def split: option.splits)
  show ?thesis
    unfolding writeTrustAnchors_def Some option.case
  proof (rule triple_bind_ok [OF triple_findDomain])
    fix k
    show "triple (\<lambda>w. (k \<in> fst ` set (TrustAnchors wt) \<and> (length (TrustAnchors wt) = 1 \<or> Contains spiffeID k)) \<and>
         stage f0 C ws (map_of (fs w)))
       (os_WriteFile (C @ ''/ca_certificates.pem'') (?pem k) 420)
       (\<lambda>e w. case e of Some _ \<Rightarrow> f0 \<subseteq>\<^sub>m map_of (fs w)
        | None \<Rightarrow> \<exists>wt' pem. Some wt = Some wt' \<and> anchor_for wt' spiffeID pem \<and>
            stage f0 C ((''ca_certificates.pem'', pem) # ws) (map_of (fs w)))"
      unfolding triple_pure using pem [of k]
      by (intro impI triple_post [OF stage_WriteFile [OF assms(1) slot assms(2), of _ 420, simplified append.simps]])
         (auto split: option.splits)
  qed (auto intro: stage_le)
qed

text \<open>
  A directory that holds what the server gave: the status, and the certificate, the key and the
  trust anchor that belong to one identity.
\<close>

definition complete :: "(nat \<Rightarrow> request \<Rightarrow> reply) \<Rightarrow> string \<Rightarrow> (string \<rightharpoonup> node) \<Rightarrow> bool" where
  "complete h C f \<longleftrightarrow> (\<exists>status wisMd wis spiffeID wtMd wt pem.
     served h (key_cfg configStatusKey) status \<and> has_text f (C @ ''/config_status'') status \<and>
     served h (key_cfg workloadIdentitiesKey) wisMd \<and> Unmarshal_identities wisMd = Some wis \<and>
     (WorkloadCredentials wis \<noteq> [] \<longrightarrow> spiffeID \<in> fst ` set (WorkloadCredentials wis)) \<and>
     has_text f (C @ ''/certificates.pem'') (CertificatePem (credential wis spiffeID)) \<and>
     has_text f (C @ ''/private_key.pem'') (PrivateKeyPem (credential wis spiffeID)) \<and>
     served h (key_cfg trustAnchorsKey) wtMd \<and> Unmarshal_anchors wtMd = Some wt \<and> anchor_for wt spiffeID pem \<and>
     has_text f (C @ ''/ca_certificates.pem'') pem)"

lemma complete_cong:
  assumes "complete h C f" and "\<And>p. p \<in> slots C \<Longrightarrow> g p = f p"
  shows "complete h C g"
proof -
  have "g (C @ ''/config_status'') = f (C @ ''/config_status'')" "g (C @ ''/certificates.pem'') = f (C @ ''/certificates.pem'')"
    "g (C @ ''/private_key.pem'') = f (C @ ''/private_key.pem'')" "g (C @ ''/ca_certificates.pem'') = f (C @ ''/ca_certificates.pem'')"
    by (rule assms(2); simp add: slots_def)+
  with assms(1) show ?thesis
    by (simp add: complete_def has_text_def)
qed

text \<open>The link has been turned to a complete directory; of what was there only the old directory may be gone.\<close>

definition turned :: "(nat \<Rightarrow> request \<Rightarrow> reply) \<Rightarrow> (string \<rightharpoonup> node) \<Rightarrow> string \<Rightarrow> string \<Rightarrow> string \<Rightarrow> (string \<rightharpoonup> node) \<Rightarrow> bool" where
  "turned h f0 L D C f \<longleftrightarrow> f L = Some (Link C) \<and> complete h C f \<and>
     (\<forall>q n. f0 q = Some n \<longrightarrow> q \<noteq> L \<longrightarrow> \<not> below D q \<longrightarrow> f q = Some n)"

text \<open>How the paths involved lie to each other: the link points to a directory apart from the new one.\<close>

definition apart :: "(string \<rightharpoonup> node) \<Rightarrow> string \<Rightarrow> string \<Rightarrow> string \<Rightarrow> string \<Rightarrow> bool" where
  "apart f0 L T D C \<longleftrightarrow> f0 L = Some (Link D) \<and> L \<noteq> T \<and> \<not> below D L \<and> \<not> below C L \<and> \<not> below C T \<and>
     (\<forall>q. below C q \<longrightarrow> \<not> below D q)"

lemma slot_below: "p \<in> slots C \<Longrightarrow> below C p"
  by (auto simp: slots_def below_def HasPrefix_iff)

text \<open>After the rename: the old directory is removed, and the new one stays complete.\<close>

lemma turned_remove:
  assumes "apart f0 L T D C" and "turned h f0 L D C f"
  shows "turned h f0 L D C (\<lambda>q. if below D q then None else f q)"
proof -
  have "complete h C (\<lambda>q. if below D q then None else f q)"
    by (rule complete_cong [of h C f]) (use assms slot_below in \<open>auto simp: apart_def turned_def\<close>)
  with assms show ?thesis
    by (auto simp: turned_def apart_def)
qed

lemma triple_cleanup:
  assumes "apart f0 L T D C" and "old = [] \<or> old = D"
  shows "triple (\<lambda>w. turned h f0 L D C (map_of (fs w)))
      (bind_ok (os_Readlink L) g (\<lambda>newTarget.
          if old \<noteq> newTarget then if_ok (os_RemoveAll old) g' (State_Monad.return None) else State_Monad.return None))
      (\<lambda>_ w. turned h f0 L D C (map_of (fs w)))"
proof (rule triple_bind_ok)
  show "triple (\<lambda>w. turned h f0 L D C (map_of (fs w))) (os_Readlink L)
      (\<lambda>r w. case r of Inl _ \<Rightarrow> turned h f0 L D C (map_of (fs w)) | Inr x \<Rightarrow> turned h f0 L D C (map_of (fs w)))"
    by (rule triple_post [OF triple_Readlink]) (auto split: sum.split)
  fix new
  have "triple (\<lambda>w. turned h f0 L D C (map_of (fs w))) (os_RemoveAll old) (\<lambda>_ w. turned h f0 L D C (map_of (fs w)))"
    by (rule triple_RemoveAll) (use assms turned_remove in auto)
  then show "triple (\<lambda>w. turned h f0 L D C (map_of (fs w)))
     (if old \<noteq> new then if_ok (os_RemoveAll old) g' (State_Monad.return None) else State_Monad.return None)
     (\<lambda>_ w. turned h f0 L D C (map_of (fs w)))"
    by (intro triple_if triple_if_ok [where E = "\<lambda>w. turned h f0 L D C (map_of (fs w))" and R = "\<lambda>w. turned h f0 L D C (map_of (fs w))"]
        triple_return) (auto elim: triple_post split: option.split)
qed

lemma turned_rename:
  assumes "apart f0 L T D C" and "f0 \<subseteq>\<^sub>m f" and "complete h C f" and "f T = Some (Link C)" and "f0 T = None"
  shows "turned h f0 L D C ((f(T := None))(L \<mapsto> Link C))"
proof -
  have "complete h C ((f(T := None))(L \<mapsto> Link C))"
    by (rule complete_cong [of h C f]) (use assms slot_below in \<open>auto simp: apart_def\<close>)
  with assms show ?thesis
    by (auto simp: turned_def map_le_def dom_def)
qed

lemma triple_rotate:
  assumes ap: "apart f0 (symlink opts) T D C"
  shows "triple (\<lambda>w. f0 \<subseteq>\<^sub>m map_of (fs w) \<and> complete h C (map_of (fs w)) \<and> map_of (fs w) T = Some (Link C) \<and> f0 T = None) (rotate opts T)
     (\<lambda>_ w. f0 \<subseteq>\<^sub>m map_of (fs w) \<or> turned h f0 (symlink opts) D C (map_of (fs w)))"
  unfolding rotate_def Let_def
proof (rule triple_bind [OF triple_Readlink])
  fix r :: "string res"
  let ?L = "symlink opts"
  let ?P = "\<lambda>f. (f0 \<subseteq>\<^sub>m f \<and> complete h C f \<and> f T = Some (Link C) \<and> f0 T = None) \<and> (\<forall>t. r = Inr t \<longrightarrow> f ?L = Some (Link t))"
  let ?old = "case r of Inl _ \<Rightarrow> [] | Inr t \<Rightarrow> t"
  let ?R = "\<lambda>f. (?old = [] \<or> ?old = D) \<and> turned h f0 ?L D C f"
  have old: "?old = [] \<or> ?old = D" if "?P f" for f
    using that ap by (cases r) (auto simp: apart_def map_le_def dom_def)
  have "triple (\<lambda>w. ?P (map_of (fs w))) (os_Rename T ?L) (\<lambda>e w. case e of Some _ \<Rightarrow> f0 \<subseteq>\<^sub>m map_of (fs w) | None \<Rightarrow> ?R (map_of (fs w)))"
  proof (rule triple_Rename)
    fix f n
    assume f: "?P f" and "f T = Some n"
    then have "turned h f0 ?L D C ((f(T := None))(?L \<mapsto> n))"
      using turned_rename [OF ap, of f h] by simp
    with old [OF f] show "?R ((f(T := None))(?L \<mapsto> n))"
      by blast
  qed blast
  then show "triple (\<lambda>w. ?P (map_of (fs w)))
      (if_ok (os_Rename T ?L) (\<lambda>e. Some (Flat ''error rotating target link'' e))
        (bind_ok (os_Readlink ?L) (\<lambda>e. Some (Flat ''error reading new symlink'' e)) (\<lambda>newTarget.
          if ?old \<noteq> newTarget
          then if_ok (os_RemoveAll ?old) (\<lambda>e. Some (Flat ''failed to remove old symlink target'' e)) (State_Monad.return None)
          else State_Monad.return None)))
      (\<lambda>_ w. f0 \<subseteq>\<^sub>m map_of (fs w) \<or> turned h f0 ?L D C (map_of (fs w)))"
    by (rule triple_if_ok) (simp, unfold triple_pure, rule impI, rule triple_post [OF triple_cleanup [OF ap]], assumption, simp)
qed

text \<open>The rules for the steps, in a world whose server is fixed.\<close>

lemma request_bind:
  assumes "\<And>e w. serving h P w \<Longrightarrow> Q (g e) w" and "\<And>md. served h (key_cfg key) md \<Longrightarrow> triple (serving h P) (k md) Q"
  shows "triple (serving h P) (bind_ok (wc_getMetadata key) g k) Q"
proof (rule triple_bind_ok [where E = "serving h P" and R = "\<lambda>md w. served h (key_cfg key) md \<and> serving h P w"])
  show "triple (serving h P) (wc_getMetadata key)
     (\<lambda>r w. case r of Inl _ \<Rightarrow> serving h P w | Inr md \<Rightarrow> served h (key_cfg key) md \<and> serving h P w)"
    by (rule triple_post [OF triple_request]) (auto simp: serving_def split: sum.split)
qed (use assms in \<open>auto simp: triple_pure\<close>)

lemma serving_if_ok:
  assumes "keeps same_http m"
    and "triple (\<lambda>w. P (map_of (fs w))) m (\<lambda>e w. case e of Some _ \<Rightarrow> E (map_of (fs w)) | None \<Rightarrow> R (map_of (fs w)))"
    and "\<And>e w. serving h E w \<Longrightarrow> Q (g e) w" and "triple (serving h R) k Q"
  shows "triple (serving h P) (if_ok m g k) Q"
proof (rule triple_if_ok [where E = "serving h E" and R = "serving h R"])
  have "triple (serving h P) m (\<lambda>e. serving h (\<lambda>f. case e of Some _ \<Rightarrow> E f | None \<Rightarrow> R f))"
    by (rule triple_serving [OF assms(1)]) (rule triple_post [OF assms(2)], auto split: option.splits)
  then show "triple (serving h P) m (\<lambda>e w. case e of Some _ \<Rightarrow> serving h E w | None \<Rightarrow> serving h R w)"
    by (rule triple_post) (auto split: option.split)
qed (use assms(3,4) in auto)

lemma serving_bind_ok:
  assumes "keeps same_http m"
    and "triple (\<lambda>w. P (map_of (fs w))) m (\<lambda>r w. case r of Inl _ \<Rightarrow> E (map_of (fs w)) | Inr x \<Rightarrow> R x (map_of (fs w)))"
    and "\<And>e w. serving h E w \<Longrightarrow> Q (g e) w" and "\<And>x. triple (serving h (R x)) (k x) Q"
  shows "triple (serving h P) (bind_ok m g k) Q"
proof (rule triple_bind_ok [where E = "serving h E" and R = "\<lambda>x. serving h (R x)"])
  have "triple (serving h P) m (\<lambda>r. serving h (\<lambda>f. case r of Inl _ \<Rightarrow> E f | Inr x \<Rightarrow> R x f))"
    by (rule triple_serving [OF assms(1)]) (rule triple_post [OF assms(2)], auto split: sum.splits)
  then show "triple (serving h P) m (\<lambda>r w. case r of Inl _ \<Rightarrow> serving h E w | Inr x \<Rightarrow> serving h (R x) w)"
    by (rule triple_post) (auto split: sum.split)
qed (use assms(3,4) in auto)

lemma same_http_writes:
  "keeps same_http (writeWorkloadIdentities C wisMd)" "keeps same_http (writeTrustAnchors wtMd C spiffeID)"
  unfolding writeWorkloadIdentities_def writeTrustAnchors_def if_ok_def bind_ok_def Let_def
  by (intro same_http.keeps_os same_http_calls)+

lemma serving_pure: "serving h (\<lambda>f. B \<and> P f) = (\<lambda>w. B \<and> serving h P w)"
  by (auto simp: serving_def)

lemma serving_ex: "serving h (\<lambda>f. \<exists>x. P x f) = (\<lambda>w. \<exists>x. serving h (P x) w)"
  by (rule ext) (simp add: serving_def)

lemma triple_ex: "triple (\<lambda>w. \<exists>x. P x w) m Q \<longleftrightarrow> (\<forall>x. triple (P x) m Q)"
proof (intro iffI allI tripleI)
  fix x w r w'
  assume "triple (\<lambda>w. \<exists>x. P x w) m Q" "P x w" "run_state m w = (r, w')"
  then show "Q r w'"
    by (metis tripleD)
next
  fix w r w'
  assume "\<forall>x. triple (P x) m Q" "\<exists>x. P x w" "run_state m w = (r, w')"
  then show "Q r w'"
    by (metis tripleD)
qed

lemma triple_finish:
  assumes new: "new_dir f0 C" and ap: "apart f0 (symlink opts) T D C"
    and full: "\<And>f. stage f0 C ws f \<Longrightarrow> complete h C f"
  shows "triple (serving h (stage f0 C ws))
     (if_ok (os_Symlink C T) (\<lambda>e. Some (Flat ''error creating temporary link'' e)) (rotate opts T))
     (\<lambda>_ w. f0 \<subseteq>\<^sub>m map_of (fs w) \<or> turned h f0 (symlink opts) D C (map_of (fs w)))"
proof (rule serving_if_ok [where E = "\<lambda>f. f0 \<subseteq>\<^sub>m f" and R = "\<lambda>f. stage f0 C ws f \<and> f T = Some (Link C) \<and> f0 T = None"])
  have "T \<notin> slots C"
    using ap slot_below by (auto simp: apart_def)
  then have keep: "stage f0 C ws (f(T \<mapsto> Link C)) \<and> f0 T = None" if "stage f0 C ws f" "f T = None" for f
    using that by (fastforce simp: stage_def has_text_def file_or_none_def map_le_def dom_def)
  show "triple (\<lambda>w. stage f0 C ws (map_of (fs w))) (os_Symlink C T)
     (\<lambda>e w. case e of Some _ \<Rightarrow> f0 \<subseteq>\<^sub>m map_of (fs w)
      | None \<Rightarrow> stage f0 C ws (map_of (fs w)) \<and> map_of (fs w) T = Some (Link C) \<and> f0 T = None)"
    by (rule triple_Symlink [where R = "\<lambda>f. stage f0 C ws f \<and> f T = Some (Link C) \<and> f0 T = None"])
       (use keep in \<open>auto intro: stage_le\<close>)
  show "triple (serving h (\<lambda>f. stage f0 C ws f \<and> f T = Some (Link C) \<and> f0 T = None)) (rotate opts T)
     (\<lambda>_ w. f0 \<subseteq>\<^sub>m map_of (fs w) \<or> turned h f0 (symlink opts) D C (map_of (fs w)))"
    by (rule triple_pre [OF triple_rotate [OF ap]]) (auto simp: serving_def full intro: stage_le)
qed (auto simp: serving_def same_http_calls)

lemma stage_complete:
  assumes "stage f0 C [(''ca_certificates.pem'', pem), (''private_key.pem'', PrivateKeyPem (credential wis i)),
      (''certificates.pem'', CertificatePem (credential wis i)), (''config_status'', status)] f"
    and "served h (key_cfg configStatusKey) status"
    and "served h (key_cfg workloadIdentitiesKey) wisMd" and "Unmarshal_identities wisMd = Some wis"
    and "WorkloadCredentials wis \<noteq> [] \<longrightarrow> i \<in> fst ` set (WorkloadCredentials wis)"
    and "served h (key_cfg trustAnchorsKey) wtMd" and "Unmarshal_anchors wtMd = Some wt" and "anchor_for wt i pem"
  shows "complete h C f"
  unfolding complete_def
  by (rule exI [of _ status], rule exI [of _ wisMd], rule exI [of _ wis], rule exI [of _ i], rule exI [of _ wtMd],
      rule exI [of _ wt], rule exI [of _ pem], intro conjI)
     (use assms in \<open>simp_all add: stage_def\<close>)

lemma triple_anchors:
  assumes new: "new_dir f0 C" and ap: "apart f0 (symlink opts) T D C"
    and ws: "ws = [(''private_key.pem'', PrivateKeyPem (credential wis i)),
      (''certificates.pem'', CertificatePem (credential wis i)), (''config_status'', status)]"
    and full: "\<And>pem wt f. Unmarshal_anchors wtMd = Some wt \<Longrightarrow> anchor_for wt i pem \<Longrightarrow>
      stage f0 C ((''ca_certificates.pem'', pem) # ws) f \<Longrightarrow> complete h C f"
  shows "triple (serving h (stage f0 C ws))
      (if_ok (writeTrustAnchors wtMd C i) (\<lambda>e. Some (Wrap ''failed to write trust anchors'' e))
        (if_ok (os_Symlink C T) (\<lambda>e. Some (Flat ''error creating temporary link'' e)) (rotate opts T)))
     (\<lambda>_ w. f0 \<subseteq>\<^sub>m map_of (fs w) \<or> turned h f0 (symlink opts) D C (map_of (fs w)))"
proof (rule serving_if_ok [OF same_http_writes(2) stage_anchors [OF new]])
  show "''ca_certificates.pem'' \<notin> fst ` set ws"
    by (simp add: ws)
  show "triple (serving h (\<lambda>f. \<exists>wt pem. Unmarshal_anchors wtMd = Some wt \<and> anchor_for wt i pem \<and>
          stage f0 C ((''ca_certificates.pem'', pem) # ws) f))
      (if_ok (os_Symlink C T) (\<lambda>e. Some (Flat ''error creating temporary link'' e)) (rotate opts T))
     (\<lambda>_ w. f0 \<subseteq>\<^sub>m map_of (fs w) \<or> turned h f0 (symlink opts) D C (map_of (fs w)))"
    unfolding serving_ex triple_ex serving_pure triple_pure
    by (intro allI impI triple_finish [OF new ap]) (rule full)
qed (simp add: serving_def)

abbreviation rotated :: "(nat \<Rightarrow> request \<Rightarrow> reply) \<Rightarrow> (string \<rightharpoonup> node) \<Rightarrow> string \<Rightarrow> string \<Rightarrow> string \<Rightarrow> 'z mds_world_scheme \<Rightarrow> bool" where
  "rotated h f0 L D C w \<equiv> f0 \<subseteq>\<^sub>m map_of (fs w) \<or> turned h f0 L D C (map_of (fs w))"

lemma triple_fetch:
  assumes new: "new_dir f0 C" and ap: "apart f0 (symlink opts) T D C" and status: "served h (key_cfg configStatusKey) status"
  shows "triple (serving h (stage f0 C [(''config_status'', status)]))
     (bind_ok (wc_getMetadata workloadIdentitiesKey) g1 (\<lambda>wisMd.
      bind_ok (writeWorkloadIdentities C wisMd) g2 (\<lambda>spiffeID.
      bind_ok (wc_getMetadata trustAnchorsKey) g3 (\<lambda>wtrcsMd.
      if_ok (writeTrustAnchors wtrcsMd C spiffeID) (\<lambda>e. Some (Wrap ''failed to write trust anchors'' e))
        (if_ok (os_Symlink C T) (\<lambda>e. Some (Flat ''error creating temporary link'' e)) (rotate opts T))))))
     (\<lambda>_. rotated h f0 (symlink opts) D C)"
proof (rule request_bind)
  fix wisMd
  assume wis: "served h (key_cfg workloadIdentitiesKey) wisMd"
  show "triple (serving h (stage f0 C [(''config_status'', status)]))
     (bind_ok (writeWorkloadIdentities C wisMd) g2 (\<lambda>spiffeID.
      bind_ok (wc_getMetadata trustAnchorsKey) g3 (\<lambda>wtrcsMd.
      if_ok (writeTrustAnchors wtrcsMd C spiffeID) (\<lambda>e. Some (Wrap ''failed to write trust anchors'' e))
        (if_ok (os_Symlink C T) (\<lambda>e. Some (Flat ''error creating temporary link'' e)) (rotate opts T)))))
     (\<lambda>_. rotated h f0 (symlink opts) D C)"
  proof (rule serving_bind_ok [OF same_http_writes(1) stage_identities [OF new]])
    fix i
    show "triple (serving h (\<lambda>f. \<exists>wis. Unmarshal_identities wisMd = Some wis \<and>
          (WorkloadCredentials wis \<noteq> [] \<longrightarrow> i \<in> fst ` set (WorkloadCredentials wis)) \<and>
          stage f0 C [(''private_key.pem'', PrivateKeyPem (credential wis i)),
             (''certificates.pem'', CertificatePem (credential wis i)), (''config_status'', status)] f))
       (bind_ok (wc_getMetadata trustAnchorsKey) g3 (\<lambda>wtrcsMd.
        if_ok (writeTrustAnchors wtrcsMd C i) (\<lambda>e. Some (Wrap ''failed to write trust anchors'' e))
          (if_ok (os_Symlink C T) (\<lambda>e. Some (Flat ''error creating temporary link'' e)) (rotate opts T))))
       (\<lambda>_. rotated h f0 (symlink opts) D C)"
      unfolding serving_ex triple_ex serving_pure triple_pure
      by (intro allI impI request_bind triple_anchors [OF new ap refl])
         (auto simp: serving_def intro: stage_le stage_complete [OF _ status wis])
  qed (simp add: serving_def)
qed (auto simp: serving_def intro: stage_le)

lemma triple_start:
  assumes new: "new_dir f0 C" and ap: "apart f0 (symlink opts) T D C"
    and k: "triple (serving h (stage f0 C [(''config_status'', status)])) k (\<lambda>_. rotated h f0 (symlink opts) D C)"
  shows "triple (serving h (stage f0 C [])) (start_contents opts C status k) (\<lambda>_. rotated h f0 (symlink opts) D C)"
proof -
  have path: "path_Join [C, ''config_status''] = C @ ''/'' @ ''config_status''"
    by (rule slot_path [OF new]) simp
  have slot: "C @ ''/'' @ ''config_status'' \<in> slots C"
    by (simp add: slots_def)
  have L: "symlink opts \<notin> slots C"
    using ap slot_below by (auto simp: apart_def)
  let ?S = "stage f0 C [(''config_status'', status)]"
  have link: "triple (serving h ?S)
      (if_ok (if b then os_Symlink C (symlink opts) else State_Monad.return None)
        (\<lambda>e. Some (Flat ''error creating symlink'' e)) k) (\<lambda>_. rotated h f0 (symlink opts) D C)" for b
  proof (rule serving_if_ok [where E = "\<lambda>f. f0 \<subseteq>\<^sub>m f" and R = ?S])
    show "triple (\<lambda>w. ?S (map_of (fs w))) (if b then os_Symlink C (symlink opts) else State_Monad.return None)
       (\<lambda>e w. case e of Some _ \<Rightarrow> f0 \<subseteq>\<^sub>m map_of (fs w) | None \<Rightarrow> ?S (map_of (fs w)))"
      by (intro triple_if triple_post [OF stage_Symlink [OF L]] triple_return) (auto split: option.splits)
    show "keeps same_http (if b then os_Symlink C (symlink opts) else State_Monad.return None)"
      by (intro keeps_if same_http_calls same_http.keeps_return)
  qed (auto simp: serving_def k)
  have stat: "triple (serving h ?S) (os_Stat p) (\<lambda>_. serving h ?S)" for p
    by (rule triple_serving [OF same_http_calls(3) triple_Stat])
  show ?thesis
    unfolding start_contents_def path
  proof (rule serving_if_ok [where E = "stage f0 C []" and R = "stage f0 C []"])
    show "triple (\<lambda>w. stage f0 C [] (map_of (fs w))) (os_MkdirAll C 493)
       (\<lambda>e w. case e of Some _ \<Rightarrow> stage f0 C [] (map_of (fs w)) | None \<Rightarrow> stage f0 C [] (map_of (fs w)))"
      by (rule triple_post [OF stage_MkdirAll [OF new]]) (simp split: option.split)
    show "triple (serving h (stage f0 C []))
       (if_ok (os_WriteFile (C @ ''/'' @ ''config_status'') status 420) (\<lambda>e. Some (Flat ''error writing config_status'' e))
         (do { s \<leftarrow> os_Stat (symlink opts);
               if_ok (if (case s of Inl e \<Rightarrow> os_IsNotExist e | Inr _ \<Rightarrow> False)
                  then os_Symlink C (symlink opts) else State_Monad.return None) (\<lambda>e. Some (Flat ''error creating symlink'' e)) k }))
       (\<lambda>_. rotated h f0 (symlink opts) D C)"
      by (rule serving_if_ok [OF same_http_calls(2) stage_WriteFile [OF new slot]])
         (auto simp: serving_def intro: triple_bind [OF stat link])
  qed (auto simp: serving_def same_http_calls intro: stage_le)
qed

section \<open>Properties\<close>

text \<open>
  C6: a refresh is all or nothing, whichever requests and system calls fail. Either nothing that was
  there is changed, so that the link still leads to the old certificates and they are intact, or the
  link leads to the new directory and that holds everything: the status the server gave, the
  certificate and the private key of one and the same identity the server gave, and a trust anchor
  that goes with it. In the second case nothing outside the old directory is lost. The paths of the
  new directory have to be free, and it must lie apart from the directory the link points to.
\<close>

theorem refreshCreds_atomic:
  fixes w :: "'z mds_world_scheme"
  assumes "C = contentDirPrefix opts @ ''-'' @ timeNow (now w (tick w))"
    and "T = tempSymlinkPrefix opts @ ''-'' @ timeNow (now w (tick w))"
    and "f0 = map_of (fs w)" and "new_dir f0 C" and "apart f0 (symlink opts) T D C"
    and "f' = map_of (fs (snd (run_state (refreshCreds timeNow opts) w)))"
  shows "f0 \<subseteq>\<^sub>m f' \<or>
    (f' (symlink opts) = Some (Link C) \<and> complete (http w) C f' \<and>
     (\<forall>q n. f0 q = Some n \<longrightarrow> q \<noteq> symlink opts \<longrightarrow> \<not> below D q \<longrightarrow> f' q = Some n))"
proof -
  let ?w1 = "w\<lparr>tick := Suc (tick w)\<rparr>"
  let ?k = "\<lambda>status :: string. (start_contents opts C status
         (bind_ok (wc_getMetadata workloadIdentitiesKey) (\<lambda>e. Some (Flat ''error getting workload-identities'' e)) (\<lambda>wisMd.
          bind_ok (writeWorkloadIdentities C wisMd) (\<lambda>e. Some (Wrap ''failed to write workload identities with error'' e)) (\<lambda>spiffeID.
          bind_ok (wc_getMetadata trustAnchorsKey) (\<lambda>e. Some (Flat ''error getting workload-trust-anchors'' e)) (\<lambda>wtrcsMd.
          if_ok (writeTrustAnchors wtrcsMd C spiffeID) (\<lambda>e. Some (Wrap ''failed to write trust anchors'' e))
            (if_ok (os_Symlink C T) (\<lambda>e. Some (Flat ''error creating temporary link'' e)) (rotate opts T)))))) :: ('z, goerr option) mds_io)"
  let ?m = "bind_ok (wc_getMetadata configStatusKey) (\<lambda>_. None) ?k"
  have m: "triple (serving (http w) (stage f0 C [])) ?m (\<lambda>_. rotated (http w) f0 (symlink opts) D C)"
  proof (rule request_bind)
    fix status
    assume "served (http w) (key_cfg configStatusKey) status"
    then show "triple (serving (http w) (stage f0 C [])) (?k status) (\<lambda>_. rotated (http w) f0 (symlink opts) D C)"
      by (rule triple_start [OF assms(4,5) triple_fetch [OF assms(4,5)]])
  qed (auto simp: serving_def dest: stage_le)
  have start: "serving (http w) (stage f0 C []) ?w1"
    using stage_start [OF assms(4)] by (simp add: serving_def assms(3))
  have "run_state (refreshCreds timeNow opts) w = run_state ?m ?w1"
    by (simp add: refreshCreds_def time_Now_def Let_def assms(1,2) del: run_bind_ok)
  with tripleD [OF m start surjective_pairing]
  have "rotated (http w) f0 (symlink opts) D C (snd (run_state (refreshCreds timeNow opts) w))"
    by (simp only:)
  then show ?thesis
    by (simp add: assms(6) turned_def)
qed

theorem refreshCreds_atomic_witness:
  "\<exists>w f'. f' = map_of (fs (snd (run_state (refreshCreds (\<lambda>_. ''now'') default_output) (w :: mds_world)))) \<and>
    (map_of (fs w) \<subseteq>\<^sub>m f' \<or>
     (f' ''/run/secrets/workload-spiffe-credentials'' = Some (Link ''/run/secrets/workload-spiffe-contents-now'') \<and>
      complete (http w) ''/run/secrets/workload-spiffe-contents-now'' f'))"
proof -
  let ?D = "''/run/secrets/workload-spiffe-contents-old''"
  let ?C = "''/run/secrets/workload-spiffe-contents-now''"
  let ?fs = "[(''/run/secrets/workload-spiffe-credentials'', Link ?D), (?D, Dir 493 (0, 0)), (''/run/secrets'', Dir 493 (0, 0))]"
  let ?w = "calm_mds (Failed ''down'')\<lparr>fs := ?fs\<rparr>"
  have "Clean ?C = ?C"
    by code_simp
  then have "new_dir (map_of (fs ?w)) ?C"
    by (auto simp: new_dir_def below_def HasPrefix_iff)
  moreover have "apart (map_of (fs ?w)) (symlink default_output) (''/run/secrets/workload-spiffe-symlink-now'') ?D ?C"
    by (auto simp: apart_def below_def HasPrefix_iff default_output_def)
  ultimately show ?thesis
    using refreshCreds_atomic [of ?C default_output "\<lambda>_. ''now''" ?w, OF _ refl refl _ _ refl, of ?D]
    by (intro exI [of _ ?w] exI) (auto simp: default_output_def)
qed

end
