(* ===== verification/OsLoginConf.thy ===== *)
theory OsLoginConf
  imports Globals
begin

text \<open>
  The configuration files of OS Login (\<^verbatim>\<open>google_guest_agent/oslogin.go\<close>): which lines the agent adds
  to and removes from \<^verbatim>\<open>sshd_config\<close>, \<^verbatim>\<open>nsswitch.conf\<close>, \<^verbatim>\<open>pam.d/sshd\<close> and \<^verbatim>\<open>group.conf\<close>, as functions
  on their texts, the functions that write them, and the \<^verbatim>\<open>systemctl\<close> helpers. The manager itself
  is in the theory \<^verbatim>\<open>OsLogin\<close>.
\<close>

abbreviation nl :: string where
  "nl \<equiv> [CHR 0x0A]"

definition googleComment :: string where
  "googleComment = ''# Added by Google Compute Engine OS Login.''"

definition googleBlockStart :: string where
  "googleBlockStart = ''#### Google OS Login control. Do not edit this section. ####''"

definition googleBlockEnd :: string where
  "googleBlockEnd = ''#### End Google OS Login control section. ####''"

definition getOSLoginEnabled :: "Descriptor \<Rightarrow> bool \<times> bool \<times> bool \<times> bool" where
  "getOSLoginEnabled md =
     (let pick = (\<lambda>f. deref_or (deref_or False (f (proj_attr md))) (f (inst_attr md)))
      in (pick EnableOSLogin, pick TwoFactor, pick SecurityKey, pick RequireCerts))"

definition oslogin_enabled :: "Descriptor \<Rightarrow> bool" where
  "oslogin_enabled md = fst (getOSLoginEnabled md)"

subsection \<open>Removing the agent's lines\<close>

text \<open>The loop of \<^verbatim>\<open>filterGoogleLines\<close> with its two flags.\<close>

fun filter_lines :: "bool \<Rightarrow> bool \<Rightarrow> string list \<Rightarrow> string list" where
  "filter_lines isgoogle isgoogleblock [] = []"
| "filter_lines isgoogle isgoogleblock (line # ls) =
     (if Contains line googleComment \<and> \<not> isgoogleblock then filter_lines True isgoogleblock ls
      else if Contains line googleBlockEnd then filter_lines False False ls
      else if isgoogleblock \<or> Contains line googleBlockStart then filter_lines isgoogle True ls
      else if isgoogle then filter_lines False isgoogleblock ls
      else line # filter_lines isgoogle isgoogleblock ls)"

definition drop_final_empty :: "string list \<Rightarrow> string list" where
  "drop_final_empty ls = (if ls \<noteq> [] \<and> last ls = [] then butlast ls else ls)"

definition filterGoogleLines :: "string \<Rightarrow> string list" where
  "filterGoogleLines contents = drop_final_empty (filter_lines False False (Split contents (CHR 0x0A)))"

subsection \<open>The texts of the files\<close>

definition defaultPipePath :: string where
  "defaultPipePath = ''/etc/ssh/oslogin_trustedca.pub''"

definition ssh_directives :: "string \<Rightarrow> OSInfo \<Rightarrow> bool \<Rightarrow> bool \<Rightarrow> bool \<Rightarrow> bool \<Rightarrow> string list" where
  "ssh_directives os info certAuth twofactor skey reqCerts =
     (let bin = (if os = ''freebsd'' then ''/usr/local/bin/'' else ''/usr/bin/'');
          authorizedKeysCommand = ''AuthorizedKeysCommand '' @ bin @
            (if skey then ''google_authorized_keys_sk'' else ''google_authorized_keys'');
          el6 = ((OS info = ''rhel'' \<or> OS info = ''centos'') \<and> Major (Version info) = 6);
          authorizedKeysUser = (if el6 then ''AuthorizedKeysCommandRunAs root'' else ''AuthorizedKeysCommandUser root'');
          twoFactorAuthMethods = (if el6 then ''RequiredAuthentications2 publickey,keyboard-interactive''
                                  else ''AuthenticationMethods publickey,keyboard-interactive'');
          certs = [''TrustedUserCAKeys '' @ defaultPipePath,
                   ''AuthorizedPrincipalsCommand /usr/bin/google_authorized_principals %u %k'',
                   ''AuthorizedPrincipalsCommandUser root'']
      in (if reqCerts \<and> \<not> skey then certs
          else (if certAuth \<and> \<not> skey then certs else []) @ [authorizedKeysCommand, authorizedKeysUser]) @
         (if twofactor then [twoFactorAuthMethods, ''ChallengeResponseAuthentication yes''] else []))"

definition ssh_header :: "string \<Rightarrow> OSInfo \<Rightarrow> bool \<Rightarrow> bool \<Rightarrow> bool \<Rightarrow> bool \<Rightarrow> string list" where
  "ssh_header os info certAuth twofactor skey reqCerts =
     [googleBlockStart] @ ssh_directives os info certAuth twofactor skey reqCerts @ [googleBlockEnd]"

definition ssh_footer :: "bool \<Rightarrow> string list" where
  "ssh_footer twofactor =
     [googleBlockStart, ''Include /var/google-users.d/*''] @
     (if twofactor then [''Match User sa_*'', ''       AuthenticationMethods publickey''] else []) @
     [googleBlockEnd]"

definition updateSSHConfig ::
  "string \<Rightarrow> OSInfo \<Rightarrow> bool \<Rightarrow> string \<Rightarrow> bool \<Rightarrow> bool \<Rightarrow> bool \<Rightarrow> bool \<Rightarrow> string" where
  "updateSSHConfig os info certAuth sshConfig enable twofactor skey reqCerts =
     (let filtered = filterGoogleLines sshConfig;
          lines = (if enable
                   then ssh_header os info certAuth twofactor skey reqCerts @ filtered @ ssh_footer twofactor
                   else filtered)
      in Join lines nl @ nl)"

definition nss_oslogin :: string where
  "nss_oslogin = '' cache_oslogin oslogin''"

definition nss_line :: "string \<Rightarrow> bool \<Rightarrow> string \<Rightarrow> string" where
  "nss_line os enable line =
     (if HasPrefix line ''passwd:'' \<or> HasPrefix line ''group:'' then
        (let present = Contains line ''oslogin'';
             line1 = (if enable \<and> \<not> present then line @ nss_oslogin
                      else if \<not> enable \<and> present then Replace1 line nss_oslogin [] else line)
         in if os = ''freebsd'' then Replace1 line1 ''compat'' ''files'' else line1)
      else line)"

definition updateNSSwitchConfig :: "string \<Rightarrow> string \<Rightarrow> bool \<Rightarrow> string" where
  "updateNSSwitchConfig os nsswitch enable =
     Join (map (nss_line os enable) (Split nsswitch (CHR 0x0A))) nl"

definition pam_top :: "string \<Rightarrow> bool \<Rightarrow> string list" where
  "pam_top os twofactor =
     [googleBlockStart] @
     (if twofactor
      then [if os = ''freebsd'' then ''auth       optional pam_oslogin_login.so''
            else ''auth       [success=done perm_denied=die default=ignore] pam_oslogin_login.so'']
      else []) @
     [if os = ''freebsd'' then ''auth       optional pam_group.so''
      else ''auth       [default=ignore] pam_group.so'', googleBlockEnd]"

definition pam_bottom :: "string \<Rightarrow> string list" where
  "pam_bottom os =
     [googleBlockStart,
      if os = ''freebsd'' then ''session    optional pam_mkhomedir.so''
      else ''session    [success=ok default=ignore] pam_mkhomedir.so'',
      googleBlockEnd]"

definition updatePAMsshdPamless :: "string \<Rightarrow> string \<Rightarrow> bool \<Rightarrow> bool \<Rightarrow> string" where
  "updatePAMsshdPamless os pamsshd enable twofactor =
     (let filtered = filterGoogleLines pamsshd;
          lines = (if enable then pam_top os twofactor @ filtered @ pam_bottom os else filtered)
      in Join lines nl @ nl)"

definition updateGroupConf :: "string \<Rightarrow> bool \<Rightarrow> string" where
  "updateGroupConf groupconf enable =
     (let filtered = filterGoogleLines groupconf;
          lines = (if enable then filtered @ [googleComment, ''sshd;*;*;Al0000-2400;video''] else filtered)
      in Join lines nl @ nl)"

subsection \<open>Writing the files\<close>

definition writeConfigFile :: "string \<Rightarrow> string \<Rightarrow> ('z, goerr option) io" where
  "writeConfigFile path contents = do {
     r \<leftarrow> os_Open False False True 511 path;
     (case r of
        Inl e \<Rightarrow> State_Monad.return (Some e)
      | Inr f \<Rightarrow> do { _ \<leftarrow> os_Write f contents; State_Monad.return None }) }"

text \<open>Read a file, compute its new text, write it if it changed.\<close>

definition rewrite_file :: "string \<Rightarrow> (string \<Rightarrow> string) \<Rightarrow> ('z, goerr option) io" where
  "rewrite_file path f = do {
     r \<leftarrow> os_ReadFile path;
     (case r of
        Inl e \<Rightarrow> State_Monad.return (Some e)
      | Inr old \<Rightarrow> if f old = old then State_Monad.return None else writeConfigFile path (f old)) }"

definition writeSSHConfig :: "bool \<Rightarrow> bool \<Rightarrow> bool \<Rightarrow> bool \<Rightarrow> ('z, goerr option) agent_io" where
  "writeSSHConfig enable twofactor skey reqCerts = do {
     w \<leftarrow> State_Monad.get;
     rewrite_file ''/etc/ssh/sshd_config''
       (\<lambda>c. updateSSHConfig (goos w) (osInfo w) (CertAuthentication (OSLogin (config w))) c
              enable twofactor skey reqCerts) }"

definition writeNSSwitchConfig :: "bool \<Rightarrow> ('z, goerr option) io" where
  "writeNSSwitchConfig enable = do {
     w \<leftarrow> State_Monad.get;
     rewrite_file ''/etc/nsswitch.conf'' (\<lambda>c. updateNSSwitchConfig (goos w) c enable) }"

definition writePAMConfig :: "bool \<Rightarrow> bool \<Rightarrow> ('z, goerr option) io" where
  "writePAMConfig enable twofactor = do {
     w \<leftarrow> State_Monad.get;
     rewrite_file ''/etc/pam.d/sshd'' (\<lambda>c. updatePAMsshdPamless (goos w) c enable twofactor) }"

definition writeGroupConf :: "bool \<Rightarrow> ('z, goerr option) io" where
  "writeGroupConf enable = rewrite_file ''/etc/security/group.conf'' (\<lambda>c. updateGroupConf c enable)"

definition cleanupDeprecatedLines :: "string \<Rightarrow> string list \<Rightarrow> ('z, goerr option) io" where
  "cleanupDeprecatedLines fpath directives = do {
     s \<leftarrow> os_Stat fpath;
     (case s of
        Inl e \<Rightarrow> State_Monad.return
          (if os_IsNotExist e then None else Some (Flat ''failed to stat config file'' e))
      | Inr stat \<Rightarrow> do {
          r \<leftarrow> os_ReadFile fpath;
          (case r of
             Inl e \<Rightarrow> State_Monad.return (Some (Flat ''failed to read file'' e))
           | Inr data \<Rightarrow>
               (let ls = Split data (CHR 0x0A);
                    updatedLines = filter (\<lambda>line. \<not> slice_contains directives line) ls
                in if length ls = length updatedLines then State_Monad.return None
                   else do {
                     e \<leftarrow> os_WriteFile fpath (Join updatedLines nl @ nl) (perm stat);
                     State_Monad.return
                       (case e of Some e \<Rightarrow> Some (Flat ''failed to update deprecated configuration directives'' e)
                        | None \<Rightarrow> None) })) }) }"

definition deprecatedConfigDirectives :: "(string \<times> string list) list" where
  "deprecatedConfigDirectives =
     [(''/etc/pam.d/su'', [''account    [success=bad ignore=ignore] pam_oslogin_login.so''])]"

definition cleanupDeprecatedDirectives :: "('z, unit) io" where
  "cleanupDeprecatedDirectives = do {
     kvs \<leftarrow> range_map deprecatedConfigDirectives;
     for_all (\<lambda>(k, v). do { _ \<leftarrow> cleanupDeprecatedLines k v; State_Monad.return () }) kvs }"

definition createOSLoginDir :: "string res \<Rightarrow> string \<Rightarrow> ('z, goerr option) io" where
  "createOSLoginDir restorecon dir = do {
     e \<leftarrow> os_Mkdir dir 488;
     r \<leftarrow> (case e of
        None \<Rightarrow> State_Monad.return None
      | Some e \<Rightarrow>
          if os_IsExist e then do {
            s \<leftarrow> os_Stat dir;
            (case s of
               Inl e \<Rightarrow> State_Monad.return (Some e)
             | Inr n \<Rightarrow> if \<not> mode_is n 488 then os_Chmod dir 488 else State_Monad.return None) }
          else State_Monad.return (Some e));
     (case r of
        Some e \<Rightarrow> State_Monad.return (Some e)
      | None \<Rightarrow>
          (case restorecon of
             Inr p \<Rightarrow> do { _ \<leftarrow> Quiet [p, dir]; State_Monad.return None }
           | Inl _ \<Rightarrow> State_Monad.return None)) }"

definition createOSLoginDirs :: "('z, goerr option) io" where
  "createOSLoginDirs = do {
     restorecon \<leftarrow> exec_LookPath ''restorecon'';
     for_err (createOSLoginDir restorecon) [''/var/google-sudoers.d'', ''/var/google-users.d''] }"

definition createOSLoginSudoersFile :: "('z, goerr option) io" where
  "createOSLoginSudoersFile = do {
     bsd \<leftarrow> is_goos ''freebsd'';
     let path = (if bsd then ''/usr/local'' else []) @ ''/etc/sudoers.d/google-oslogin'';
     r \<leftarrow> os_Open True True False 288 path;
     (case r of
        Inl e \<Rightarrow> State_Monad.return (if os_IsExist e then None else Some e)
      | Inr f \<Rightarrow> do { _ \<leftarrow> os_Write f (''#includedir /var/google-sudoers.d'' @ nl); State_Monad.return None }) }"

subsection \<open>\<^verbatim>\<open>systemctl\<close>\<close>

definition systemctlUnitExists :: "string \<Rightarrow> ('z, bool) io" where
  "systemctlUnitExists servicename = do {
     res \<leftarrow> WithOutput [''systemctl'', ''list-units'', ''--all'', servicename @ ''.service''];
     State_Monad.return (\<not> Contains (StdOut res) ''0 loaded units listed'') }"

definition systemctl_if_exists :: "string \<Rightarrow> string \<Rightarrow> ('z, goerr option) io" where
  "systemctl_if_exists verb servicename = do {
     b \<leftarrow> systemctlUnitExists servicename;
     (if \<not> b then State_Monad.return None else Quiet [''systemctl'', verb, servicename @ ''.service'']) }"

definition systemctlTryRestart :: "string \<Rightarrow> ('z, goerr option) io" where
  "systemctlTryRestart servicename = systemctl_if_exists ''try-restart'' servicename"

definition systemctlReloadOrRestart :: "string \<Rightarrow> ('z, goerr option) io" where
  "systemctlReloadOrRestart servicename = systemctl_if_exists ''reload-or-restart'' servicename"

definition systemctlStart :: "string \<Rightarrow> ('z, goerr option) io" where
  "systemctlStart servicename = systemctl_if_exists ''start'' servicename"

subsection \<open>Frame rules\<close>

lemma within_writeConfigFile [frame_intros]: "p \<in> S \<Longrightarrow> keeps (confined S) (writeConfigFile p c)"
  by (rule within_open_write) (auto simp: writeConfigFile_def intro: frame_intros)

lemma within_rewrite_file [frame_intros]: "p \<in> S \<Longrightarrow> keeps (confined S) (rewrite_file p f)"
  unfolding rewrite_file_def by (intro frame_intros)

lemma within_systemctl [frame_intros]:
  "keeps (confined S) (systemctlTryRestart svc)"
  "keeps (confined S) (systemctlReloadOrRestart svc)"
  "keeps (confined S) (systemctlStart svc)"
  unfolding systemctlTryRestart_def systemctlReloadOrRestart_def systemctlStart_def
    systemctl_if_exists_def systemctlUnitExists_def
  by (intro frame_intros)+

lemma within_cleanup [frame_intros]:
  "p \<in> S \<Longrightarrow> keeps (confined S) (cleanupDeprecatedLines p ds)"
  unfolding cleanupDeprecatedLines_def Let_def by (intro frame_intros)

lemma within_createOSLoginDir [frame_intros]: "d \<in> S \<Longrightarrow> keeps (confined S) (createOSLoginDir r d)"
  unfolding createOSLoginDir_def by (intro frame_intros)

subsection \<open>Lemmas on the agent's lines\<close>

definition clean :: "string \<Rightarrow> bool" where
  "clean l \<longleftrightarrow> \<not> Contains l googleComment \<and> \<not> Contains l googleBlockStart \<and> \<not> Contains l googleBlockEnd"

text \<open>Lines that the filter drops whatever follows them.\<close>

definition skipped :: "string list \<Rightarrow> bool" where
  "skipped H \<longleftrightarrow> (\<forall>rest. filter_lines False False (H @ rest) = filter_lines False False rest) \<and>
     (\<forall>l \<in> set H. CHR 0x0A \<notin> set l)"

lemma filter_lines_clean: "x \<in> set (filter_lines a b ls) \<Longrightarrow> clean x"
  by (induction a b ls rule: filter_lines.induct) (auto simp: clean_def split: if_splits)

lemma filter_lines_subset: "set (filter_lines a b ls) \<subseteq> set ls"
  by (induction a b ls rule: filter_lines.induct) auto

lemma filter_lines_keep:
  "\<forall>x \<in> set ls. clean x \<Longrightarrow> filter_lines False False (ls @ rest) = ls @ filter_lines False False rest"
  by (induction ls) (auto simp: clean_def)

lemma set_drop_final_empty: "set (drop_final_empty ls) \<subseteq> set ls"
  by (auto simp: drop_final_empty_def dest: in_set_butlastD)

lemma filterGoogleLines_clean: "x \<in> set (filterGoogleLines c) \<Longrightarrow> clean x"
  using set_drop_final_empty filter_lines_clean unfolding filterGoogleLines_def by blast

lemma filterGoogleLines_no_nl: "x \<in> set (filterGoogleLines c) \<Longrightarrow> CHR 0x0A \<notin> set x"
  using set_drop_final_empty filter_lines_subset Split_no_sep unfolding filterGoogleLines_def by blast

lemma skipped_Nil [simp]: "skipped []"
  by (simp add: skipped_def)

lemma block_line:
  "\<not> Contains l googleBlockEnd \<Longrightarrow> filter_lines False True (l # ls) = filter_lines False True ls"
  by simp

lemma skipped_block:
  assumes "list_all (\<lambda>l. \<not> Contains l googleBlockEnd \<and> CHR 0x0A \<notin> set l) mid"
  shows "skipped ([googleBlockStart] @ mid @ [googleBlockEnd])"
proof -
  have mid: "filter_lines False True (mid @ ls) = filter_lines False True ls" for ls
    using assms by (induction mid) auto
  have "\<not> Contains googleBlockStart googleComment" "\<not> Contains googleBlockStart googleBlockEnd"
    "Contains googleBlockStart googleBlockStart" "Contains googleBlockEnd googleBlockEnd"
    "\<not> Contains googleBlockEnd googleComment"
    "CHR 0x0A \<notin> set googleBlockStart" "CHR 0x0A \<notin> set googleBlockEnd"
    by code_simp+
  with assms mid show ?thesis
    by (auto simp: skipped_def list_all_iff)
qed

lemma clean_Nil: "clean []"
  by code_simp

lemma filterGoogleLines_again:
  assumes "skipped H" and "skipped F" and "H @ filterGoogleLines c @ F \<noteq> []"
  shows "filterGoogleLines (Join (H @ filterGoogleLines c @ F) nl @ nl) = filterGoogleLines c"
proof -
  define L where "L = filterGoogleLines c"
  have L: "\<forall>x \<in> set L. clean x" "\<forall>x \<in> set L. CHR 0x0A \<notin> set x"
    unfolding L_def by (auto dest: filterGoogleLines_clean filterGoogleLines_no_nl)
  have "Join (H @ L @ F) nl @ nl = Join ((H @ L @ F) @ [[]]) nl"
    using assms(3) L_def by (subst (2) Join_append) auto
  moreover have "Split (Join ((H @ L @ F) @ [[]]) nl) (CHR 0x0A) = (H @ L @ F) @ [[]]"
    using assms(1,2) L by (intro Split_Join) (auto simp: skipped_def)
  moreover have "filter_lines False False (H @ L @ F @ [[]]) = L @ [[]]"
    using assms(1,2) filter_lines_keep [of L "F @ [[]]"] L clean_Nil
    by (simp add: skipped_def clean_def)
  ultimately show ?thesis
    unfolding filterGoogleLines_def L_def by (simp add: drop_final_empty_def)
qed

text \<open>A text that holds none of the agent's lines loses nothing.\<close>

lemma filterGoogleLines_user:
  assumes "\<forall>x \<in> set ls. clean x \<and> CHR 0x0A \<notin> set x" and "ls \<noteq> []"
  shows "filterGoogleLines (Join ls nl @ nl) = ls"
proof -
  have "Join ls nl @ nl = Join (ls @ [[]]) nl"
    using assms(2) by (subst Join_append) auto
  moreover have "Split (Join (ls @ [[]]) nl) (CHR 0x0A) = ls @ [[]]"
    using assms by (intro Split_Join) auto
  moreover have "filter_lines False False (ls @ [[]]) = ls @ [[]]"
    using filter_lines_keep [of ls "[[]]"] assms(1) clean_Nil by (simp add: clean_def)
  ultimately show ?thesis
    by (simp add: filterGoogleLines_def drop_final_empty_def)
qed

lemma skipped_ssh_header: "skipped (ssh_header os info certAuth twofactor skey reqCerts)"
  unfolding ssh_header_def
  by (rule skipped_block) (simp add: ssh_directives_def Let_def Contains_def googleBlockEnd_def defaultPipePath_def)

lemma skipped_ssh_footer: "skipped (ssh_footer twofactor)"
proof -
  have "skipped ([googleBlockStart] @ ([''Include /var/google-users.d/*''] @
     (if twofactor then [''Match User sa_*'', ''       AuthenticationMethods publickey''] else [])) @ [googleBlockEnd])"
    by (rule skipped_block) (simp add: Contains_def googleBlockEnd_def)
  then show ?thesis
    by (simp add: ssh_footer_def)
qed

lemma skipped_pam_top: "skipped (pam_top os twofactor)"
proof -
  have "skipped ([googleBlockStart] @ ((if twofactor
      then [if os = ''freebsd'' then ''auth       optional pam_oslogin_login.so''
            else ''auth       [success=done perm_denied=die default=ignore] pam_oslogin_login.so'']
      else []) @
     [if os = ''freebsd'' then ''auth       optional pam_group.so''
      else ''auth       [default=ignore] pam_group.so'']) @ [googleBlockEnd])"
    by (rule skipped_block) (simp add: Contains_def googleBlockEnd_def)
  then show ?thesis
    by (simp add: pam_top_def)
qed

lemma skipped_pam_bottom: "skipped (pam_bottom os)"
proof -
  have "skipped ([googleBlockStart] @ [if os = ''freebsd'' then ''session    optional pam_mkhomedir.so''
      else ''session    [success=ok default=ignore] pam_mkhomedir.so''] @ [googleBlockEnd])"
    by (rule skipped_block) (simp add: Contains_def googleBlockEnd_def)
  then show ?thesis
    by (simp add: pam_bottom_def)
qed

lemma skipped_group: "skipped [googleComment, ''sshd;*;*;Al0000-2400;video'']"
proof -
  have "Contains googleComment googleComment" "\<not> Contains ''sshd;*;*;Al0000-2400;video'' googleComment"
    "\<not> Contains ''sshd;*;*;Al0000-2400;video'' googleBlockStart"
    "\<not> Contains ''sshd;*;*;Al0000-2400;video'' googleBlockEnd" "CHR 0x0A \<notin> set googleComment"
    by code_simp+
  then show ?thesis
    by (simp add: skipped_def)
qed

lemma ssh_header_not_Nil [simp]: "ssh_header os info certAuth twofactor skey reqCerts \<noteq> []"
  by (simp add: ssh_header_def)

lemma pam_top_not_Nil [simp]: "pam_top os twofactor \<noteq> []"
  by (simp add: pam_top_def)

lemma filter_updateSSHConfig:
  assumes "enable \<or> filterGoogleLines c \<noteq> []"
  shows "filterGoogleLines (updateSSHConfig os info certAuth c enable twofactor skey reqCerts) = filterGoogleLines c"
  using assms filterGoogleLines_again [OF skipped_ssh_header skipped_ssh_footer]
    filterGoogleLines_again [OF skipped_Nil skipped_Nil, of c]
  by (cases enable) (simp_all add: updateSSHConfig_def)

lemma filter_updatePAM:
  assumes "enable \<or> filterGoogleLines c \<noteq> []"
  shows "filterGoogleLines (updatePAMsshdPamless os c enable twofactor) = filterGoogleLines c"
  using assms filterGoogleLines_again [OF skipped_pam_top skipped_pam_bottom]
    filterGoogleLines_again [OF skipped_Nil skipped_Nil, of c]
  by (cases enable) (simp_all add: updatePAMsshdPamless_def)

lemma filter_updateGroupConf:
  assumes "enable \<or> filterGoogleLines c \<noteq> []"
  shows "filterGoogleLines (updateGroupConf c enable) = filterGoogleLines c"
  using assms filterGoogleLines_again [OF skipped_Nil skipped_group, of c]
    filterGoogleLines_again [OF skipped_Nil skipped_Nil, of c]
  by (cases enable) (simp_all add: updateGroupConf_def)

subsection \<open>Lemmas on \<^verbatim>\<open>nsswitch.conf\<close>\<close>

lemma Index_append_fresh:
  assumes "\<not> Contains (a @ butlast sub) sub" and "sub \<noteq> []"
  shows "Index (a @ sub @ b) sub = Some (length a)"
  using assms
proof (induction a)
  case Nil
  then show ?case by (cases "sub @ b") (auto simp flip: append.assoc, metis list.exhaust strip_prefix_append)
next
  case (Cons x a)
  have "strip_prefix sub (x # a @ sub @ b) = None"
  proof (rule ccontr)
    assume "strip_prefix sub (x # a @ sub @ b) \<noteq> None"
    then obtain r where r: "x # a @ sub @ b = sub @ r"
      by (auto simp: strip_prefix_Some)
    have "take (length sub) (x # a @ sub @ b) = sub"
      by (simp add: r)
    moreover have "take (length sub) (x # a @ sub @ b) = take (length sub) (x # a @ butlast sub)"
      using Cons.prems(2) by (simp add: take_Cons' butlast_conv_take)
    ultimately have "x # a @ butlast sub = sub @ drop (length sub) (x # a @ butlast sub)"
      by (metis append_take_drop_id)
    with Cons.prems(1) show False
      by (metis Contains_prefix append_Cons)
  qed
  moreover have "\<not> Contains (a @ butlast sub) sub"
    using Cons.prems(1) by (auto simp: Contains_iff) (metis append_Cons)
  ultimately show ?case
    using Cons by simp
qed

lemma Contains_trans: "Contains s t \<Longrightarrow> Contains t u \<Longrightarrow> Contains s u"
  by (auto simp: Contains_iff) (metis append.assoc)

lemma Contains_Join: "x \<in> set xs \<Longrightarrow> Contains (Join xs sep) x"
proof (induction xs)
  case Nil
  then show ?case by simp
next
  case (Cons y xs)
  then consider "x = y" | "x \<in> set xs" by auto
  then show ?case
  proof cases
    case 1
    then show ?thesis by (auto simp: Join_Cons Contains_iff intro: exI [of _ "[]"])
  next
    case 2
    with Cons.IH obtain a b where "Join xs sep = a @ x @ b"
      by (auto simp: Contains_iff)
    with 2 show ?thesis
      using Contains_append [of "y @ sep @ a" x b] by (auto simp: Join_Cons)
  qed
qed

text \<open>The marker overlaps itself nowhere, so its first occurrence is the one that was appended.\<close>

lemma nss_oslogin_no_border:
  assumes "0 < k" and "k < length nss_oslogin"
  shows "drop k nss_oslogin \<noteq> take (length nss_oslogin - k) nss_oslogin"
proof -
  have "list_all (\<lambda>k. drop k nss_oslogin \<noteq> take (length nss_oslogin - k) nss_oslogin) [1..<length nss_oslogin]"
    by code_simp
  with assms show ?thesis
    by (simp add: list_all_iff)
qed

lemma nss_oslogin_fresh:
  assumes "Contains (line @ butlast nss_oslogin) nss_oslogin"
  shows "Contains line nss_oslogin"
proof -
  let ?n = nss_oslogin
  obtain a b where ab: "line @ butlast ?n = a @ ?n @ b"
    using assms by (auto simp: Contains_iff)
  have len: "length ?n = 22" by code_simp
  show ?thesis
  proof (cases "length a + 22 \<le> length line")
    case True
    then have "take (length a + 22) line = a @ ?n"
      using arg_cong [OF ab, of "take (length a + 22)"] len by simp
    then show ?thesis
      by (metis Contains_append append.assoc append_take_drop_id)
  next
    case False
    define k where "k = length line - length a"
    have "length a + 22 \<le> length line + 21"
      using arg_cong [OF ab, of length] len by simp
    then have k: "0 < k" "k < 22" "length line = length a + k"
      using False by (auto simp: k_def)
    have "drop k ?n = take (22 - k) (drop (length line) (a @ ?n @ b))"
      using k len by simp
    also have "\<dots> = take (22 - k) (butlast ?n)"
      by (simp flip: ab)
    also have "\<dots> = take (22 - k) ?n"
      using k len by (auto simp: butlast_conv_take min_def)
    finally show ?thesis
      using nss_oslogin_no_border [of k] k len by simp
  qed
qed

lemma Contains_nss_oslogin: "Contains nss_oslogin ''oslogin''"
  by code_simp

lemma HasPrefix_appendI: "HasPrefix s p \<Longrightarrow> HasPrefix (s @ t) p"
  by (auto simp: HasPrefix_iff)

lemma Contains_appendR: "Contains t u \<Longrightarrow> Contains (s @ t) u"
  by (auto simp: Contains_iff) (metis append.assoc)

lemma nss_line_roundtrip:
  assumes "\<not> Contains line ''oslogin''" and "os \<noteq> ''freebsd''"
  shows "nss_line os False (nss_line os True line) = line"
proof (cases "HasPrefix line ''passwd:'' \<or> HasPrefix line ''group:''")
  case True
  then have pre: "HasPrefix (line @ nss_oslogin) ''passwd:'' \<or> HasPrefix (line @ nss_oslogin) ''group:''"
    by (auto intro: HasPrefix_appendI)
  have "\<not> Contains (line @ butlast nss_oslogin) nss_oslogin"
    using assms(1) nss_oslogin_fresh Contains_trans Contains_nss_oslogin by blast
  then have "Index (line @ nss_oslogin @ []) nss_oslogin = Some (length line)"
    by (rule Index_append_fresh) (simp add: nss_oslogin_def)
  then have "Replace1 (line @ nss_oslogin) nss_oslogin [] = line"
    by (simp add: Replace1_def)
  with True pre assms Contains_appendR [OF Contains_nss_oslogin, of line] show ?thesis
    by (simp add: nss_line_def)
qed (simp add: nss_line_def)

lemma nss_line_enabled:
  assumes "os \<noteq> ''freebsd''"
  shows "nss_line os True (nss_line os True line) = nss_line os True line"
  using assms Contains_appendR [OF Contains_nss_oslogin, of line]
  by (auto simp: nss_line_def Let_def)

lemma nss_line_no_nl:
  assumes "CHR 0x0A \<notin> set line" and "os \<noteq> ''freebsd''"
  shows "CHR 0x0A \<notin> set (nss_line os b line)"
proof -
  have "CHR 0x0A \<notin> set nss_oslogin" by code_simp
  with assms show ?thesis
    by (auto simp: nss_line_def Let_def Replace1_def split: option.splits dest: in_set_takeD in_set_dropD)
qed

lemma Split_updateNSS:
  assumes "os \<noteq> ''freebsd''"
  shows "Split (updateNSSwitchConfig os s b) (CHR 0x0A) = map (nss_line os b) (Split s (CHR 0x0A))"
  unfolding updateNSSwitchConfig_def
  using nss_line_no_nl [OF Split_no_sep assms] by (intro Split_Join) auto

subsection \<open>Properties\<close>

text \<open>
  C29: updating \<^verbatim>\<open>sshd_config\<close> forgets every earlier update: whatever settings it was last written
  with, the result of an update is that of updating the original text. In particular an update with
  the same settings changes nothing, and switching OS Login off removes all it added. (A file with no
  line of the user's that was updated with OS Login off has become one empty line, hence the
  premise.)
\<close>

theorem updateSSHConfig_absorb:
  assumes "enable \<or> filterGoogleLines c \<noteq> []"
  shows "updateSSHConfig os' info' certAuth'
           (updateSSHConfig os info certAuth c enable twofactor skey reqCerts) enable' twofactor' skey' reqCerts' =
         updateSSHConfig os' info' certAuth' c enable' twofactor' skey' reqCerts'"
  unfolding updateSSHConfig_def [of os' info'] filter_updateSSHConfig [OF assms] by (rule refl)

theorem updateSSHConfig_absorb_witness:
  "updateSSHConfig ''linux'' no_osinfo True
     (updateSSHConfig ''linux'' no_osinfo True (''Port 22'' @ nl) True True False False) False False False False =
   updateSSHConfig ''linux'' no_osinfo True (''Port 22'' @ nl) False False False False"
  by (rule updateSSHConfig_absorb) simp



text \<open>
  enabling OS Login in \<^verbatim>\<open>nsswitch.conf\<close> twice is enabling it once, and disabling it after enabling
  restores the file, for files that do not mention \<^verbatim>\<open>oslogin\<close> (on FreeBSD, where \<^verbatim>\<open>compat\<close> is replaced
  for good, neither holds).
\<close>

theorem updateNSSwitchConfig_roundtrip:
  assumes "os \<noteq> ''freebsd''" and "\<not> Contains s ''oslogin''"
  shows "updateNSSwitchConfig os (updateNSSwitchConfig os s True) True = updateNSSwitchConfig os s True \<and>
         updateNSSwitchConfig os (updateNSSwitchConfig os s True) False = s"
proof -
  have "\<not> Contains l ''oslogin''" if "l \<in> set (Split s (CHR 0x0A))" for l
    using assms(2) Contains_Join [OF that, of nl] Contains_trans by auto
  then have "map (nss_line os False \<circ> nss_line os True) (Split s (CHR 0x0A)) = Split s (CHR 0x0A)"
    using nss_line_roundtrip [OF _ assms(1)] by (simp add: map_idI)
  moreover have "nss_line os True \<circ> nss_line os True = nss_line os True"
    using nss_line_enabled [OF assms(1)] by auto
  ultimately show ?thesis
    unfolding updateNSSwitchConfig_def [of os "updateNSSwitchConfig os s True"] Split_updateNSS [OF assms(1)]
    by (simp add: updateNSSwitchConfig_def)
qed

theorem updateNSSwitchConfig_roundtrip_witness:
  "updateNSSwitchConfig ''linux'' (updateNSSwitchConfig ''linux'' (''passwd: files'' @ nl) True) False =
     ''passwd: files'' @ nl"
proof -
  have "\<not> Contains (''passwd: files'' @ nl) ''oslogin''" by code_simp
  with updateNSSwitchConfig_roundtrip [of "''linux''" "''passwd: files'' @ nl"] show ?thesis by simp
qed

end
