(* ===== verification/Accounts.thy ===== *)
theory Accounts
  imports OsLoginConf
begin

text \<open>
  The accounts manager on Unix (\<^verbatim>\<open>non_windows_accounts.go\<close>, \<^verbatim>\<open>accounts_unix.go\<close>): the users and SSH
  keys of the metadata, the \<^verbatim>\<open>passwd\<close> file, the list of users the agent created, the users'
  \<^verbatim>\<open>authorized_keys\<close> files, and the manager's \<^verbatim>\<open>Diff\<close>, \<^verbatim>\<open>Disabled\<close>, \<^verbatim>\<open>Timeout\<close> and \<^verbatim>\<open>Set\<close>. A Go map from
  strings is a list of pairs with distinct keys; a nil map is \<^const>\<open>None\<close>. A call that can panic returns
  an \<^verbatim>\<open>outcome\<close>.
\<close>

definition googleUsersFile :: string where
  "googleUsersFile = ''/var/lib/google/google_users''"

text \<open>The sorting loop of the source sorts copies of the slices, which it drops.\<close>

definition compareStringSlice :: "string list \<Rightarrow> string list \<Rightarrow> bool" where
  "compareStringSlice first second =
     (if length first \<noteq> length second then False
      else list_all (\<lambda>idx. first ! idx = second ! idx) [0..<length first])"

definition removeExpiredKeys :: "key_parser \<Rightarrow> string list \<Rightarrow> ('z, string list) io" where
  "removeExpiredKeys parse_key keys = do {
     r \<leftarrow> for_range (\<lambda>key validKeys. do {
        err \<leftarrow> CheckExpiredKey parse_key key;
        State_Monad.return (Inr (if err = None then validKeys @ [key] else validKeys)) }) keys [];
     State_Monad.return (case r of Inr ks \<Rightarrow> ks | Inl () \<Rightarrow> []) }"

subsection \<open>Keys of the metadata by user\<close>

definition getUserKeys_step ::
  "key_parser \<Rightarrow> string \<Rightarrow> (string \<times> string list) list \<Rightarrow> ('z, unit + (string \<times> string list) list) agent_io" where
  "getUserKeys_step parse_key raw mdKeyMap =
     (let trimmedKey = Trim raw '' ''
      in if trimmedKey = [] then State_Monad.return (Inr mdKeyMap)
         else do {
           r \<leftarrow> (case GetUserKey trimmedKey of
                 Inl e \<Rightarrow> State_Monad.return (Inl e)
               | Inr (user, keyVal) \<Rightarrow> do {
                   err \<leftarrow> ValidateUserKey parse_key user keyVal;
                   State_Monad.return (case err of Some e \<Rightarrow> Inl e | None \<Rightarrow> Inr (user, keyVal)) });
           (case r of
              Inl e \<Rightarrow> do {
                modify (\<lambda>w. if slice_contains (badSSHKeys w) trimmedKey then w
                            else w\<lparr>badSSHKeys := badSSHKeys w @ [trimmedKey]\<rparr>);
                State_Monad.return (Inr mdKeyMap) }
            | Inr (user, keyVal) \<Rightarrow>
                State_Monad.return
                  (Inr (AList.update user (deref_or [] (map_of mdKeyMap user) @ [keyVal]) mdKeyMap))) })"

definition getUserKeys :: "key_parser \<Rightarrow> string list \<Rightarrow> ('z, (string \<times> string list) list) agent_io" where
  "getUserKeys parse_key mdkeys = do {
     r \<leftarrow> for_range (getUserKeys_step parse_key) mdkeys [];
     State_Monad.return (case r of Inr m \<Rightarrow> m | Inl _ \<Rightarrow> []) }"

subsection \<open>The \<^verbatim>\<open>passwd\<close> file\<close>

record passwdEntry =
  Username :: string
  Passwd :: string
  UID :: int
  GID :: int
  Name :: string
  HomeDir :: string
  Shell :: string

definition parse_passwd :: "string \<Rightarrow> string \<Rightarrow> passwdEntry option res" where
  "parse_passwd user line =
     (if \<not> HasPrefix line (user @ '':'') \<or> count_list line (CHR '':'') < 6 then Inr None
      else (let parts = SplitN line (CHR '':'') 7 in
            if length parts < 7 then Inl (Msg ''invalid passwd entry'')
            else case (Atoi (parts ! 2), Atoi (parts ! 3)) of
                   (Some uid, Some gid) \<Rightarrow>
                     Inr (Some \<lparr>Username = parts ! 0, Passwd = parts ! 1, UID = uid, GID = gid,
                       Name = parts ! 4, HomeDir = parts ! 5, Shell = parts ! 6\<rparr>)
                 | _ \<Rightarrow> Inl (Msg ''invalid passwd entry'')))"

fun scan_passwd :: "string \<Rightarrow> string list \<Rightarrow> passwdEntry res" where
  "scan_passwd user [] = Inl (Msg ''user not found'')"
| "scan_passwd user (l # ls) =
     (let line = TrimSpace l in
      if line = [] \<or> hd line = CHR ''#'' then scan_passwd user ls
      else case parse_passwd user line of
             Inl e \<Rightarrow> Inl e
           | Inr (Some v) \<Rightarrow> Inr v
           | Inr None \<Rightarrow> scan_passwd user ls)"

definition getPasswd :: "string \<Rightarrow> ('z, passwdEntry res) io" where
  "getPasswd user = do {
     r \<leftarrow> os_ReadFile ''/etc/passwd'';
     State_Monad.return (case r of
       Inl e \<Rightarrow> Inl e
     | Inr c \<Rightarrow> scan_passwd user (Split c (CHR 0x0A))) }"

subsection \<open>The list of users the agent manages\<close>

definition writeGoogleUsersFile :: "('z, goerr option) agent_io" where
  "writeGoogleUsersFile = do {
     let dir = path_Dir googleUsersFile;
     s \<leftarrow> os_Stat dir;
     e \<leftarrow> (case s of Inl _ \<Rightarrow> os_Mkdir dir 493 | Inr _ \<Rightarrow> State_Monad.return None);
     (case e of
        Some e \<Rightarrow> State_Monad.return (Some e)
      | None \<Rightarrow> do {
          g \<leftarrow> os_Open True False True 384 googleUsersFile;
          (case g of
             Inl e \<Rightarrow> State_Monad.return (Some e)
           | Inr gfile \<Rightarrow> do {
               keys \<leftarrow> gets (\<lambda>w. deref_or [] (sshKeys w));
               users \<leftarrow> range_map (map fst keys);
               fprints gfile 0 (map (\<lambda>user. user @ nl) users);
               State_Monad.return None }) }) }"

text \<open>The users of the file, as the keys of a Go map; \<^verbatim>\<open>Inl\<close> is the nil map with the error.\<close>

definition readGoogleUsersFile :: "('z, string list res) io" where
  "readGoogleUsersFile = do {
     r \<leftarrow> os_ReadFile googleUsersFile;
     State_Monad.return (case r of
       Inl e \<Rightarrow> if os_IsNotExist e then Inr [] else Inl e
     | Inr c \<Rightarrow> Inr (remdups (filter (\<lambda>u. u \<noteq> []) (Split c (CHR 0x0A))))) }"

subsection \<open>Commands on users and groups\<close>

definition createUserGroupCmd :: "string \<Rightarrow> string \<Rightarrow> string \<Rightarrow> string list outcome" where
  "createUserGroupCmd cmd user grp =
     (let cmd1 = Replace1 cmd ''{user}'' user;
          cmd2 = Replace1 cmd1 ''{group}'' grp;
          tokens = Fields cmd2
      in if tokens = [] then Panic ''index out of range'' else Ret tokens)"

definition quiet_cmd :: "string list outcome \<Rightarrow> ('z, goerr option outcome) io" where
  "quiet_cmd c =
     (case c of
        Panic m \<Rightarrow> State_Monad.return (Panic m)
      | Ret tokens \<Rightarrow> do { e \<leftarrow> Quiet tokens; State_Monad.return (Ret e) })"

definition getUIDAndGID :: "string \<Rightarrow> ('z, string \<times> string) io" where
  "getUIDAndGID path = do {
     r \<leftarrow> os_Stat path;
     State_Monad.return (case r of
       Inr n \<Rightarrow> (case n of
           Link _ \<Rightarrow> ([], [])
         | _ \<Rightarrow> (show_int (fst (owner n)), show_int (snd (owner n))))
     | Inl _ \<Rightarrow> ([], [])) }"

definition createUser :: "string \<Rightarrow> string \<Rightarrow> string \<Rightarrow> ('z, goerr option outcome) agent_io" where
  "createUser username uid gid = do {
     acc \<leftarrow> gets (\<lambda>w. Accounts (config w));
     let useradd1 = UserAddCmd acc @ (if uid \<noteq> [] then '' -u '' @ uid else []);
     (if gid \<noteq> [] then do {
        r \<leftarrow> quiet_cmd (createUserGroupCmd (GroupAddCmd acc @ '' -g '' @ gid) [] username);
        (case r of
           Panic m \<Rightarrow> State_Monad.return (Panic m)
         | Ret (Some e) \<Rightarrow> State_Monad.return (Ret (Some e))
         | Ret None \<Rightarrow> quiet_cmd (createUserGroupCmd (useradd1 @ '' -g '' @ gid) username [])) }
      else quiet_cmd (createUserGroupCmd useradd1 username [])) }"

definition addUserToGroup :: "string \<Rightarrow> string \<Rightarrow> ('z, goerr option outcome) agent_io" where
  "addUserToGroup user grp = do {
     acc \<leftarrow> gets (\<lambda>w. Accounts (config w));
     quiet_cmd (createUserGroupCmd (GPasswdAddCmd acc) user grp) }"

definition createGoogleUser :: "string \<Rightarrow> ('z, goerr option outcome) agent_io" where
  "createGoogleUser user = do {
     acc \<leftarrow> gets (\<lambda>w. Accounts (config w));
     (uid, gid) \<leftarrow> (if ReuseHomedir acc then getUIDAndGID (''/home/'' @ user) else State_Monad.return ([], []));
     r \<leftarrow> createUser user uid gid;
     (case r of
        Panic m \<Rightarrow> State_Monad.return (Panic m)
      | Ret (Some e) \<Rightarrow> State_Monad.return (Ret (Some e))
      | Ret None \<Rightarrow> do {
          p \<leftarrow> for_range (\<lambda>grp u. do {
                 r \<leftarrow> addUserToGroup user grp;
                 State_Monad.return (case r of Panic m \<Rightarrow> Inl m | Ret _ \<Rightarrow> Inr ()) })
               (Split (Groups acc) (CHR '','')) ();
          (case p of
             Inl m \<Rightarrow> State_Monad.return (Panic m)
           | Inr _ \<Rightarrow> addUserToGroup user ''google-sudoers'') }) }"

definition createSudoersFile :: "('z, goerr option) io" where
  "createSudoersFile = do {
     r \<leftarrow> os_Open True True False 288 ''/etc/sudoers.d/google_sudoers'';
     (case r of
        Inl e \<Rightarrow> State_Monad.return (if os_IsExist e then None else Some e)
      | Inr f \<Rightarrow> do {
          _ \<leftarrow> os_Write f (''%google-sudoers ALL=(ALL:ALL) NOPASSWD:ALL'' @ nl);
          State_Monad.return None }) }"

definition createSudoersGroup :: "('z, goerr option outcome) agent_io" where
  "createSudoersGroup = do {
     acc \<leftarrow> gets (\<lambda>w. Accounts (config w));
     (case createUserGroupCmd (GroupAddCmd acc) [] ''google-sudoers'' of
        Panic m \<Rightarrow> State_Monad.return (Panic m)
      | Ret tokens \<Rightarrow> do {
          ret \<leftarrow> WithOutput tokens;
          State_Monad.return (Ret (if ExitCode ret = 9 then None
                                   else if ExitCode ret \<noteq> 0 then Some (ResultErr ret) else None)) }) }"

subsection \<open>\<^verbatim>\<open>authorized_keys\<close>\<close>

definition gcomment :: string where
  "gcomment = ''# Added by Google''"

text \<open>The lines that are not the agent's: the loop of the source with its flag.\<close>

fun user_lines :: "bool \<Rightarrow> string list \<Rightarrow> string list" where
  "user_lines isgoogle [] = []"
| "user_lines isgoogle (key # ks) =
     (if key = [] then user_lines isgoogle ks
      else if isgoogle then user_lines False ks
      else if key = gcomment then user_lines True ks
      else key # user_lines isgoogle ks)"

text \<open>What the source prints to the new file, one string per call.\<close>

definition key_prints :: "string list \<Rightarrow> string list \<Rightarrow> string list" where
  "key_prints userKeys keys =
     map (\<lambda>key. key @ nl) userKeys @ map (\<lambda>key. gcomment @ nl @ key @ nl) keys"

text \<open>From the read of \<^verbatim>\<open>authorized_keys\<close> on.\<close>

definition replace_keys :: "passwdEntry \<Rightarrow> string \<Rightarrow> string list \<Rightarrow> ('z, goerr option) io" where
  "replace_keys passwd sshpath keys = do {
     let akpath = path_Join [sshpath, ''authorized_keys''];
     let tempPath = akpath @ ''.google'';
     r \<leftarrow> os_ReadFile akpath;
     (case (case r of Inl e \<Rightarrow> if os_IsNotExist e then Inr [] else Inl e | Inr c \<Rightarrow> Inr c) of
        Inl e \<Rightarrow> State_Monad.return (Some e)
      | Inr akcontents \<Rightarrow> do {
          let userKeys = user_lines False (Split akcontents (CHR 0x0A));
          n \<leftarrow> os_Open True False False 384 tempPath;
          (case n of
             Inl e \<Rightarrow> State_Monad.return (Some e)
           | Inr newfile \<Rightarrow> do {
               fprints newfile 0 (key_prints userKeys keys);
               c \<leftarrow> os_Chown tempPath (UID passwd) (GID passwd);
               (case c of
                  Some e \<Rightarrow> do {
                    _ \<leftarrow> os_Remove tempPath;
                    State_Monad.return (Some (Flat ''error setting ownership of new keys file'' e)) }
                | None \<Rightarrow> do {
                    l \<leftarrow> exec_LookPath ''restorecon'';
                    q \<leftarrow> (case l of
                        Inl _ \<Rightarrow> State_Monad.return None
                      | Inr _ \<Rightarrow> Quiet [''restorecon'', tempPath]);
                    (case q of
                       Some e \<Rightarrow> State_Monad.return (Some (Flat ''error setting selinux context'' e))
                     | None \<Rightarrow> os_Rename tempPath akpath) }) }) }) }"

definition make_ssh_dir :: "passwdEntry \<Rightarrow> string \<Rightarrow> ('z, goerr option) io" where
  "make_ssh_dir passwd sshpath = do {
     s \<leftarrow> os_Stat sshpath;
     (case s of
        Inr _ \<Rightarrow> State_Monad.return None
      | Inl e \<Rightarrow>
          if os_IsNotExist e then do {
            m \<leftarrow> os_Mkdir sshpath 448;
            (case m of
               Some e \<Rightarrow> State_Monad.return (Some e)
             | None \<Rightarrow> os_Chown sshpath (UID passwd) (GID passwd)) }
          else State_Monad.return (Some e)) }"

definition updateAuthorizedKeysFile :: "string \<Rightarrow> string list \<Rightarrow> ('z, goerr option) io" where
  "updateAuthorizedKeysFile user keys = do {
     p \<leftarrow> getPasswd user;
     (case p of
        Inl e \<Rightarrow> State_Monad.return (Some e)
      | Inr passwd \<Rightarrow>
          if HomeDir passwd = [] then State_Monad.return (Some (Msg ''user has no homedir set''))
          else if Shell passwd = ''/sbin/nologin'' then State_Monad.return None
          else do {
            let sshpath = path_Join [HomeDir passwd, ''.ssh''];
            d \<leftarrow> make_ssh_dir passwd sshpath;
            (case d of
               Some e \<Rightarrow> State_Monad.return (Some e)
             | None \<Rightarrow> replace_keys passwd sshpath keys) }) }"

definition removeGoogleUser :: "string \<Rightarrow> ('z, goerr option outcome) agent_io" where
  "removeGoogleUser user = do {
     acc \<leftarrow> gets (\<lambda>w. Accounts (config w));
     (if DeprovisionRemove acc then quiet_cmd (createUserGroupCmd (UserDelCmd acc) user [])
      else do {
        e \<leftarrow> updateAuthorizedKeysFile user [];
        (case e of
           Some e \<Rightarrow> State_Monad.return (Ret (Some e))
         | None \<Rightarrow> quiet_cmd (createUserGroupCmd (GPasswdRemoveCmd acc) user ''google-sudoers'')) }) }"

subsection \<open>The manager\<close>

definition accounts_Diff :: "key_parser \<Rightarrow> ('z, bool \<times> goerr option) agent_io" where
  "accounts_Diff parse_key = do {
     n \<leftarrow> gets newMetadata;
     p \<leftarrow> gets oldMetadata;
     (if \<not> compareStringSlice (SSHKeys (inst_attr n)) (SSHKeys (inst_attr p)) then State_Monad.return (True, None)
      else if \<not> compareStringSlice (SSHKeys (proj_attr n)) (SSHKeys (proj_attr p)) then State_Monad.return (True, None)
      else if BlockProjectKeys (inst_attr n) \<noteq> BlockProjectKeys (inst_attr p) then State_Monad.return (True, None)
      else do {
        cached \<leftarrow> gets (\<lambda>w. deref_or [] (sshKeys w));
        lists \<leftarrow> range_map (map snd cached);
        r \<leftarrow> for_range (\<lambda>keys u. do {
               valid \<leftarrow> removeExpiredKeys parse_key keys;
               State_Monad.return (if length keys \<noteq> length valid then Inl () else Inr ()) }) lists ();
        State_Monad.return
          (case r of
             Inl _ \<Rightarrow> (True, None)
           | Inr _ \<Rightarrow> (oslogin_enabled p \<and> \<not> oslogin_enabled n, None)) }) }"

definition accounts_Timeout :: "('z, bool \<times> goerr option) agent_io" where
  "accounts_Timeout = State_Monad.return (False, None)"

definition accounts_Disabled :: "('z, bool \<times> goerr option) agent_io" where
  "accounts_Disabled = do {
     w \<leftarrow> State_Monad.get;
     State_Monad.return
       (goos w = ''windows'' \<or> oslogin_enabled (newMetadata w) \<or> \<not> AccountsDaemon (Daemons (config w)), None) }"

text \<open>
  One user of the metadata in the loop of \<^verbatim>\<open>Set\<close>: the managed users are the local variable, \<^verbatim>\<open>Inl\<close> is a
  panic.
\<close>

definition set_user_step ::
  "string \<times> string list \<Rightarrow> string list option \<Rightarrow> ('z, string + string list option) agent_io" where
  "set_user_step entry gUsers =
     (case entry of (user, userKeys) \<Rightarrow> do {
        p \<leftarrow> getPasswd user;
        r \<leftarrow> (case p of
            Inr _ \<Rightarrow> State_Monad.return (Ret (Some gUsers))
          | Inl _ \<Rightarrow> do {
              c \<leftarrow> createGoogleUser user;
              State_Monad.return (case c of
                Panic m \<Rightarrow> Panic m
              | Ret (Some _) \<Rightarrow> Ret None
              | Ret None \<Rightarrow> (case gUsers of
                    None \<Rightarrow> Panic ''assignment to entry in nil map''
                  | Some g \<Rightarrow> Ret (Some (Some (List.insert user g))))) });
        (case r of
           Panic m \<Rightarrow> State_Monad.return (Inl m)
         | Ret None \<Rightarrow> State_Monad.return (Inr gUsers)
         | Ret (Some gUsers) \<Rightarrow> do {
             a \<leftarrow> (if user \<notin> set (deref_or [] gUsers) then addUserToGroup user ''google-sudoers''
                   else State_Monad.return (Ret None));
             (case a of
                Panic m \<Rightarrow> State_Monad.return (Inl m)
              | Ret _ \<Rightarrow> do {
                  cached \<leftarrow> gets (\<lambda>w. deref_or [] (map_of (deref_or [] (sshKeys w)) user));
                  (if \<not> compareStringSlice userKeys cached then do {
                     e \<leftarrow> updateAuthorizedKeysFile user userKeys;
                     (case e of
                        Some _ \<Rightarrow> State_Monad.return (Inr gUsers)
                      | None \<Rightarrow> do {
                          modify (\<lambda>w. w\<lparr>sshKeys := Some (AList.update user userKeys (deref_or [] (sshKeys w)))\<rparr>);
                          State_Monad.return (Inr gUsers) }) }
                   else State_Monad.return (Inr gUsers)) }) }) })"

definition remove_user_step ::
  "(string \<times> string list) list \<Rightarrow> string \<Rightarrow> unit \<Rightarrow> ('z, string + unit) agent_io" where
  "remove_user_step mdKeyMap user u =
     (if map_of mdKeyMap user = None \<and> user \<noteq> [] then do {
        r \<leftarrow> removeGoogleUser user;
        (case r of
           Panic m \<Rightarrow> State_Monad.return (Inl m)
         | Ret _ \<Rightarrow> do {
             modify (\<lambda>w. w\<lparr>sshKeys := Some (AList.delete user (deref_or [] (sshKeys w)))\<rparr>);
             State_Monad.return (Inr ()) }) }
      else State_Monad.return (Inr ()))"

definition accounts_Set :: "key_parser \<Rightarrow> ('z, goerr option outcome) agent_io" where
  "accounts_Set parse_key = do {
     modify (\<lambda>w. w\<lparr>sshKeys := Some (deref_or [] (sshKeys w))\<rparr>);
     _ \<leftarrow> createSudoersFile;
     g \<leftarrow> createSudoersGroup;
     (case g of
        Panic m \<Rightarrow> State_Monad.return (Panic m)
      | Ret _ \<Rightarrow> do {
          n \<leftarrow> gets newMetadata;
          let mdkeys = SSHKeys (inst_attr n) @ (if \<not> BlockProjectKeys (inst_attr n) then SSHKeys (proj_attr n) else []);
          mdKeyMap \<leftarrow> getUserKeys parse_key mdkeys;
          gu \<leftarrow> readGoogleUsersFile;
          let gUsers = (case gu of Inl _ \<Rightarrow> None | Inr us \<Rightarrow> Some us);
          entries \<leftarrow> range_map mdKeyMap;
          r \<leftarrow> for_range set_user_step entries gUsers;
          (case r of
             Inl m \<Rightarrow> State_Monad.return (Panic m)
           | Inr gUsers \<Rightarrow> do {
               us \<leftarrow> range_map (deref_or [] gUsers);
               q \<leftarrow> for_range (remove_user_step mdKeyMap) us ();
               (case q of
                  Inl m \<Rightarrow> State_Monad.return (Panic m)
                | Inr _ \<Rightarrow> do {
                    _ \<leftarrow> writeGoogleUsersFile;
                    for_all (\<lambda>svc. do { _ \<leftarrow> systemctlStart svc; State_Monad.return () }) [''ssh'', ''sshd''];
                    State_Monad.return (Ret None) }) }) }) }"

subsection \<open>Lemmas\<close>

lemma compareStringSlice_iff [simp]: "compareStringSlice xs ys \<longleftrightarrow> xs = ys"
  by (auto simp: compareStringSlice_def list_all_iff intro: nth_equalityI)

lemma GetUserKey_Trim [simp]: "GetUserKey (Trim raw '' '') = GetUserKey raw"
  by (simp add: GetUserKey_def)

lemma accepted_Trim_Nil: "Trim raw '' '' = [] \<Longrightarrow> accepted parse_key n raw = None"
  by (simp add: accepted_def GetUserKey_def)

text \<open>What the loop over the keys of the metadata does to the map of users.\<close>

definition key_map_of :: "(string \<times> string list) list \<Rightarrow> string \<Rightarrow> string list" where
  "key_map_of m u = deref_or [] (map_of m u)"

definition no_empty :: "(string \<times> string list) list \<Rightarrow> bool" where
  "no_empty m \<longleftrightarrow> (\<forall>u. map_of m u \<noteq> Some [])"

lemma key_map_of_update [simp]: "key_map_of (AList.update v ks m) u = (if u = v then ks else key_map_of m u)"
  by (simp add: key_map_of_def update_conv')

lemma getUserKeys_step_frozen:
  assumes "frozen n w" and "no_empty m"
  shows "\<exists>m' w'. run_state (getUserKeys_step parse_key raw m) w = (Inr m', w') \<and> frozen n w' \<and> no_empty m' \<and>
           (\<forall>u. key_map_of m' u = key_map_of m u @ keys_of parse_key n u [raw])"
proof (cases "Trim raw '' '' = [] \<or> (\<exists>e. GetUserKey raw = Inl e)")
  case True
  then have "accepted parse_key n raw = None"
    using accepted_Trim_Nil by (auto simp: accepted_def)
  with True assms show ?thesis
    by (auto simp: getUserKeys_step_def Let_def frozen_def)
next
  case False
  then obtain v k where p: "Trim raw '' '' \<noteq> []" "GetUserKey raw = Inr (v, k)"
    by (cases "GetUserKey raw") auto
  obtain r w' where r: "run_state (ValidateUserKey parse_key v k) w = (r, w')"
    by fastforce
  have "frozen n w'"
    using keepsD [OF ticks.keeps_ValidateUserKey, of w parse_key v k] r assms(1) by (simp add: frozen_ticks)
  moreover have "r = None \<longleftrightarrow> ValidateUser v = None \<and> key_live parse_key n k"
    using r ValidateUserKey_frozen [OF assms(1), of parse_key v k] by simp
  ultimately show ?thesis
    using p r assms(2)
    by (cases r)
       (auto simp: getUserKeys_step_def Let_def accepted_def frozen_def no_empty_def key_map_of_def update_conv')
qed

lemma for_range_getUserKeys:
  assumes "frozen n w" and "no_empty m"
  shows "\<exists>m' w'. run_state (for_range (getUserKeys_step parse_key) raws m) w = (Inr m', w') \<and> frozen n w' \<and>
           no_empty m' \<and> (\<forall>u. key_map_of m' u = key_map_of m u @ keys_of parse_key n u raws)"
  using assms
proof (induction raws arbitrary: m w)
  case Nil
  then show ?case by simp
next
  case (Cons raw raws)
  obtain m1 w1 where 1: "run_state (getUserKeys_step parse_key raw m) w = (Inr m1, w1)" "frozen n w1" "no_empty m1"
    "\<And>u. key_map_of m1 u = key_map_of m u @ keys_of parse_key n u [raw]"
    using getUserKeys_step_frozen [OF Cons.prems] by blast
  obtain m2 w2 where 2: "run_state (for_range (getUserKeys_step parse_key) raws m1) w1 = (Inr m2, w2)" "frozen n w2"
    "no_empty m2" "\<And>u. key_map_of m2 u = key_map_of m1 u @ keys_of parse_key n u raws"
    using Cons.IH [OF 1(2,3)] by blast
  with 1 show ?case by simp
qed

lemma getUserKeys_frozen:
  assumes "frozen n w"
  shows "\<exists>m w'. run_state (getUserKeys parse_key raws) w = (m, w') \<and> no_empty m \<and>
           (\<forall>u. key_map_of m u = keys_of parse_key n u raws)"
  using for_range_getUserKeys [OF assms, of "[]" parse_key raws]
  by (auto simp: getUserKeys_def no_empty_def key_map_of_def)

text \<open>The lines of \<^verbatim>\<open>authorized_keys\<close> that the agent keeps, after what it writes itself.\<close>

lemma user_lines_append_user:
  "\<forall>l \<in> set us. l \<noteq> [] \<and> l \<noteq> gcomment \<Longrightarrow> user_lines False (us @ ls) = us @ user_lines False ls"
  by (induction us) auto

lemma user_lines_append_keys:
  "\<forall>k \<in> set ks. k \<noteq> [] \<Longrightarrow>
   user_lines False (concat (map (\<lambda>k. [gcomment, k]) ks) @ ls) = user_lines False ls"
proof (induction ks)
  case Nil
  then show ?case by simp
next
  case (Cons k ks)
  have "gcomment \<noteq> []" by (simp add: gcomment_def)
  with Cons show ?case by simp
qed

lemma user_lines_kept: "l \<in> set (user_lines b ls) \<Longrightarrow> l \<noteq> [] \<and> l \<noteq> gcomment \<and> l \<in> set ls"
  by (induction b ls rule: user_lines.induct) (auto split: if_splits)

lemma concat_key_prints:
  "concat (key_prints us ks) = concat (map (\<lambda>l. l @ nl) (us @ concat (map (\<lambda>k. [gcomment, k]) ks)))"
  by (induction ks) (simp_all add: key_prints_def)

lemma concat_lines_Join: "concat (map (\<lambda>l. l @ nl) ls) = Join (ls @ [[]]) nl"
  by (induction ls) (auto simp: Join_Cons)

lemma Split_lines:
  "\<forall>l \<in> set ls. CHR 0x0A \<notin> set l \<Longrightarrow> Split (concat (map (\<lambda>l. l @ nl) ls)) (CHR 0x0A) = ls @ [[]]"
  unfolding concat_lines_Join by (rule Split_Join) auto

text \<open>Of the text the agent prints, exactly the user's own lines are recognised as the user's.\<close>

lemma user_lines_key_prints:
  assumes "\<forall>l \<in> set us. l \<noteq> [] \<and> l \<noteq> gcomment \<and> CHR 0x0A \<notin> set l"
    and "\<forall>k \<in> set ks. k \<noteq> [] \<and> CHR 0x0A \<notin> set k"
  shows "user_lines False (Split (concat (key_prints us ks)) (CHR 0x0A)) = us"
proof -
  have "\<forall>l \<in> set (us @ concat (map (\<lambda>k. [gcomment, k]) ks)). CHR 0x0A \<notin> set l"
    using assms by (auto simp: gcomment_def)
  then have "Split (concat (key_prints us ks)) (CHR 0x0A) = us @ concat (map (\<lambda>k. [gcomment, k]) ks) @ [[]]"
    using Split_lines [of "us @ concat (map (\<lambda>k. [gcomment, k]) ks)"] unfolding concat_key_prints by simp
  then show ?thesis
    using user_lines_append_user [of us "concat (map (\<lambda>k. [gcomment, k]) ks) @ [[]]"]
      user_lines_append_keys [of ks "[[]]"] assms by simp
qed

subsection \<open>Updating a user's keys in a world without faults\<close>

text \<open>The part of the function after the user's entry and directory are known.\<close>

lemma chown_rename:
  assumes "fault w = (\<lambda>_. None)" and "lookpath w = (\<lambda>_ p. Inl (ExecNotFound p))"
    and "map_of (fs w) tmp = Some (Reg c m o1)" and "is_dir (fs w) (path_Dir ak)" and "\<not> is_dir (fs w) ak"
    and "tmp \<noteq> ak" and "tmp \<noteq> path_Dir ak" and "u \<noteq> -1" and "g \<noteq> -1"
  shows "\<exists>w'. run_state (do {
           e \<leftarrow> os_Chown tmp u g;
           (case e of
              Some e \<Rightarrow> do { _ \<leftarrow> os_Remove tmp; State_Monad.return (Some (Flat msg e)) }
            | None \<Rightarrow> do {
                l \<leftarrow> exec_LookPath ''restorecon'';
                q \<leftarrow> (case l of Inl _ \<Rightarrow> State_Monad.return None | Inr _ \<Rightarrow> Quiet [''restorecon'', tmp]);
                (case q of Some e \<Rightarrow> State_Monad.return (Some (Flat msg2 e)) | None \<Rightarrow> os_Rename tmp ak) }) }) w =
         (None, w') \<and> map_of (fs w') ak = Some (Reg c m (u, g)) \<and> map_of (fs w') tmp = None"
proof -
  define f where "f = AList.update tmp (Reg c m (u, g)) (fs w)"
  have "map_of f tmp = Some (Reg c m (u, g))" "is_dir f (path_Dir ak)" "\<not> is_dir f ak"
    using assms(4-7) by (auto simp: f_def is_dir_def update_conv')
  with assms show ?thesis
    by (simp add: os_Chown_def syscall_def lookup_Reg exec_LookPath_def os_Rename_def set_owner_def new_owner_def
        update_conv' delete_conv' flip: f_def)
qed

lemma replace_keys_spec:
  assumes "fault w = (\<lambda>_. None)" and "lookpath w = (\<lambda>_ p. Inl (ExecNotFound p))"
    and ak: "ak = path_Join [ssh, ''authorized_keys'']"
    and "plain (fs w) ak" and "plain (fs w) (ak @ ''.google'')"
    and "is_dir (fs w) (path_Dir ak)" and "is_dir (fs w) (path_Dir (ak @ ''.google''))"
    and new: "new = concat (key_prints (user_lines False (Split (text_of (fs w) ak) (CHR 0x0A))) keys)"
    and "UID pw \<noteq> -1" and "GID pw \<noteq> -1"
  shows "\<exists>w' m. run_state (replace_keys pw ssh keys) w = (None, w') \<and>
           map_of (fs w') ak = Some (Reg (new @ drop (length new) (text_of (fs w) (ak @ ''.google''))) m (UID pw, GID pw)) \<and>
           map_of (fs w') (ak @ ''.google'') = None"
proof -
  let ?tmp = "ak @ ''.google''"
  let ?w1 = "w\<lparr>tick := Suc (tick w)\<rparr>"
  have read: "run_state (os_ReadFile ak) w =
      (if map_of (fs w) ak = None then Inl (Sys ENOENT) else Inr (text_of (fs w) ak), ?w1)"
    using assms by (simp add: run_ReadFile_plain)
  obtain f m o1 where op: "run_state (os_Open True False False 384 ?tmp) ?w1 = (Inr ?tmp, ?w1\<lparr>tick := Suc (tick ?w1), fs := f\<rparr>)"
    and f: "map_of f = (map_of (fs w))(?tmp \<mapsto> Reg (text_of (fs w) ?tmp) m o1)"
    using run_Open_plain [of ?w1 ?tmp 384] assms by auto
  let ?ss = "key_prints (user_lines False (Split (text_of (fs w) ak) (CHR 0x0A))) keys"
  define g where "g = prints ?tmp 0 ?ss f"
  define w2 where "w2 = w\<lparr>tick := Suc (Suc (tick w)) + length ?ss, fs := g\<rparr>"
  have g: "map_of g = (map_of (fs w))(?tmp \<mapsto> Reg (new @ drop (length new) (text_of (fs w) ?tmp)) m o1)"
    using map_of_prints [of f ?tmp "text_of (fs w) ?tmp" m o1 0 ?ss] f new by (auto simp: g_def fun_eq_iff)
  have pr: "run_state (fprints ?tmp 0 ?ss) (?w1\<lparr>tick := Suc (tick ?w1), fs := f\<rparr>) = ((), w2)"
    using assms(1) by (subst run_fprints) (simp_all add: w2_def g_def)
  have dirs: "?tmp \<noteq> path_Dir ak"
  proof
    assume eq: "?tmp = path_Dir ak"
    with assms(5,6) show False by (simp add: plain_def)
  qed
  have rn: "\<exists>w'. run_state (do {
           e \<leftarrow> os_Chown ?tmp (UID pw) (GID pw);
           (case e of
              Some e \<Rightarrow> do { _ \<leftarrow> os_Remove ?tmp; State_Monad.return (Some (Flat ''error setting ownership of new keys file'' e)) }
            | None \<Rightarrow> do {
                l \<leftarrow> exec_LookPath ''restorecon'';
                q \<leftarrow> (case l of Inl _ \<Rightarrow> State_Monad.return None | Inr _ \<Rightarrow> Quiet [''restorecon'', ?tmp]);
                (case q of Some e \<Rightarrow> State_Monad.return (Some (Flat ''error setting selinux context'' e))
                 | None \<Rightarrow> os_Rename ?tmp ak) }) }) w2 =
         (None, w') \<and> map_of (fs w') ak = Some (Reg (new @ drop (length new) (text_of (fs w) ?tmp)) m (UID pw, GID pw)) \<and>
         map_of (fs w') ?tmp = None"
    using assms(1,2,4,6,9,10) g dirs
    by (intro chown_rename) (auto simp: w2_def is_dir_def plain_def)
  from read op pr rn show ?thesis
    unfolding replace_keys_def Let_def ak [symmetric]
    by (cases "map_of (fs w) ak = None") (auto simp: text_of_def)
qed

lemma run_make_ssh_dir:
  assumes "fault w = (\<lambda>_. None)" and "map_of (fs w) ssh = Some (Dir m o1)"
  shows "run_state (make_ssh_dir pw ssh) w = (None, w\<lparr>tick := Suc (tick w)\<rparr>)"
  using assms by (simp add: make_ssh_dir_def os_Stat_def syscall_def lookup_Dir)

lemma run_getPasswd:
  assumes "fault w = (\<lambda>_. None)" and "map_of (fs w) ''/etc/passwd'' = Some (Reg c m o1)"
  shows "run_state (getPasswd user) w = (scan_passwd user (Split c (CHR 0x0A)), w\<lparr>tick := Suc (tick w)\<rparr>)"
  using assms by (simp add: getPasswd_def os_ReadFile_def syscall_def lookup_Reg)

subsection \<open>Properties\<close>







subsection \<open>The list of managed users\<close>

lemma run_readGoogleUsersFile:
  assumes "fault w = (\<lambda>_. None)" and "map_of (fs w) googleUsersFile = Some (Reg c m o1)"
  shows "run_state readGoogleUsersFile w =
    (Inr (remdups (filter (\<lambda>u. u \<noteq> []) (Split c (CHR 0x0A)))), w\<lparr>tick := Suc (tick w)\<rparr>)"
  using assms by (simp add: readGoogleUsersFile_def os_ReadFile_def syscall_def lookup_Reg)

lemma users_of_lines:
  assumes "\<forall>u \<in> set us. u \<noteq> [] \<and> CHR 0x0A \<notin> set u" and "distinct us"
  shows "remdups (filter (\<lambda>u. u \<noteq> []) (Split (concat (map (\<lambda>u. u @ nl) us)) (CHR 0x0A))) = us"
  using assms Split_lines [of us] by (simp add: filter_id_conv distinct_remdups_id)

text \<open>
  what \<^verbatim>\<open>writeGoogleUsersFile\<close> writes, \<^verbatim>\<open>readGoogleUsersFile\<close> reads back: exactly the users in the
  cache of keys, each once, whatever order the map is visited in.
\<close>

theorem google_users_roundtrip:
  assumes "fault w = (\<lambda>_. None)" and "map_of (fs w) ''/var/lib/google'' = Some (Dir dm dow)"
    and "plain (fs w) googleUsersFile" and "sshKeys w = Some m"
    and "\<forall>u \<in> set (map fst m). u \<noteq> [] \<and> CHR 0x0A \<notin> set u" and "distinct (map fst m)"
  shows "\<exists>w1 w2 us. run_state writeGoogleUsersFile w = (None, w1) \<and>
           run_state readGoogleUsersFile w1 = (Inr us, w2) \<and> set us = fst ` set m \<and> distinct us"
proof -
  have dir: "path_Dir googleUsersFile = ''/var/lib/google''" by code_simp
  then have isd: "is_dir (fs w) (path_Dir googleUsersFile)"
    using assms(2) by (simp add: is_dir_def)
  obtain f pm po where op: "run_state (os_Open True False True 384 googleUsersFile) (w\<lparr>tick := Suc (tick w)\<rparr>) =
      (Inr googleUsersFile, w\<lparr>tick := Suc (Suc (tick w)), fs := f\<rparr>)"
    and f: "map_of f googleUsersFile = Some (Reg [] pm po)"
    using run_Open_trunc [of "w\<lparr>tick := Suc (tick w)\<rparr>" googleUsersFile 384] assms(1,3) isd by auto
  define us where "us = permute (shuffle w (Suc (Suc (tick w))) (length (map fst m))) (map fst m)"
  define g where "g = prints googleUsersFile 0 (map (\<lambda>u. u @ nl) us) f"
  define w1 where "w1 = w\<lparr>tick := Suc (Suc (Suc (tick w))) + length us, fs := g\<rparr>"
  have "run_state writeGoogleUsersFile w = (None, w1)"
    using assms(1,2,4) op
    by (simp add: writeGoogleUsersFile_def dir run_Stat_dir range_map_def run_fprints w1_def g_def us_def Let_def)
  moreover have "map_of (fs w1) googleUsersFile = Some (Reg (concat (map (\<lambda>u. u @ nl) us)) pm po)"
    using map_of_prints [OF f, of 0] by (simp add: w1_def g_def)
  moreover have "fault w1 = (\<lambda>_. None)" using assms(1) by (simp add: w1_def)
  moreover have "\<forall>u \<in> set us. u \<noteq> [] \<and> CHR 0x0A \<notin> set u" "distinct us" "set us = fst ` set m"
    using assms(5,6) by (auto simp: us_def distinct_permute)
  ultimately show ?thesis
    by (auto simp: run_readGoogleUsersFile users_of_lines)
qed

theorem google_users_roundtrip_witness:
  "\<exists>w1 w2 us. run_state writeGoogleUsersFile
       ((calm_agent [(''/var/lib/google'', Dir 493 (0, 0))])\<lparr>sshKeys := Some [(''alice'', []), (''bob'', [])]\<rparr>) = (None, w1) \<and>
     run_state readGoogleUsersFile w1 = (Inr us, w2) \<and> set us = {''alice'', ''bob''} \<and> distinct us"
proof -
  have "plain [(''/var/lib/google'', Dir 493 (0, 0))] googleUsersFile" by code_simp
  then show ?thesis
    using google_users_roundtrip [of "(calm_agent [(''/var/lib/google'', Dir 493 (0, 0))])\<lparr>sshKeys := Some [(''alice'', []), (''bob'', [])]\<rparr>"
        493 "(0, 0)" "[(''alice'', []), (''bob'', [])]"] by simp
qed

subsection \<open>A nil map\<close>

text \<open>
  When the list of managed users cannot be read, its map is nil; creating a user then assigns to it
  and the agent panics.
\<close>

lemma set_user_step_nil_panics:
  assumes "run_state (getPasswd user) w = (Inl e, w1)" and "run_state (createGoogleUser user) w1 = (Ret None, w2)"
  shows "\<exists>m. fst (run_state (set_user_step (user, ks) None) w) = Inl m"
  using assms by (simp add: set_user_step_def)

end
