(* ===== verification/JsonPrint.thy ===== *)
theory JsonPrint
  imports Json
begin

text \<open>
  \<^verbatim>\<open>json.Marshal\<close> for the structs the sources encode: objects whose members are strings, numbers, truth values
  or \<^verbatim>\<open>null\<close>. What is printed is read back by the parser of \<^verbatim>\<open>Json\<close>. Texts are valid UTF-8.
\<close>

definition hex_digit :: "nat \<Rightarrow> char" where
  "hex_digit n = (if n < 10 then char_of (48 + n) else char_of (87 + n))"

text \<open>The escapes of one byte.\<close>

definition escape_char :: "char \<Rightarrow> string" where
  "escape_char c =
     (let n = (of_char c :: nat) in
      if c = CHR 0x22 \<or> c = CHR 0x5C then [CHR 0x5C, c]
      else if c = CHR 0x08 then [CHR 0x5C, CHR ''b'']
      else if c = CHR 0x0C then [CHR 0x5C, CHR ''f'']
      else if c = CHR 0x0A then [CHR 0x5C, CHR ''n'']
      else if c = CHR 0x0D then [CHR 0x5C, CHR ''r'']
      else if c = CHR 0x09 then [CHR 0x5C, CHR ''t'']
      else if n < 32 \<or> c = CHR ''<'' \<or> c = CHR ''>'' \<or> c = CHR ''&''
      then [CHR 0x5C, CHR ''u'', CHR ''0'', CHR ''0'', hex_digit (n div 16), hex_digit (n mod 16)]
      else [c])"

text \<open>The line separators U+2028 and U+2029 are escaped as well.\<close>

fun json_escape :: "string \<Rightarrow> string" where
  "json_escape [] = []"
| "json_escape (c # s) =
     (if c = CHR 0xE2 \<and> take 2 s = [CHR 0x80, CHR 0xA8] then CHR 0x5C # ''u2028'' @ json_escape (drop 2 s)
      else if c = CHR 0xE2 \<and> take 2 s = [CHR 0x80, CHR 0xA9] then CHR 0x5C # ''u2029'' @ json_escape (drop 2 s)
      else escape_char c @ json_escape s)"

definition json_quote :: "string \<Rightarrow> string" where
  "json_quote s = CHR 0x22 # json_escape s @ [CHR 0x22]"

fun print_value :: "json \<Rightarrow> string" where
  "print_value JNull = ''null''"
| "print_value (JBool b) = (if b then ''true'' else ''false'')"
| "print_value (JNum s) = s"
| "print_value (JStr s) = json_quote s"
| "print_value _ = []"

definition print_member :: "string \<times> json \<Rightarrow> string" where
  "print_member m = json_quote (fst m) @ '':'' @ print_value (snd m)"

definition print_object :: "(string \<times> json) list \<Rightarrow> string" where
  "print_object ms = ''{'' @ Join (map print_member ms) '','' @ ''}''"

section \<open>Strings\<close>

lemma json_hex_val_digit: "n < 16 \<Longrightarrow> hex_val (hex_digit n) = Some n"
  by (auto simp: hex_val_def hex_digit_def Let_def)

lemma unicode_escape_byte:
  assumes "n < 128"
  shows "unicode_escape (CHR ''0'' # CHR ''0'' # hex_digit (n div 16) # hex_digit (n mod 16) # r) = Some ([char_of n], r)"
proof -
  have "hex_val (CHR ''0'') = Some 0"
    by (simp add: hex_val_def)
  moreover have "n div 16 * 16 + n mod 16 = n"
    by simp
  ultimately have "hex4 (CHR ''0'' # CHR ''0'' # hex_digit (n div 16) # hex_digit (n mod 16) # r) = Some (n, r)"
    using assms by (simp add: json_hex_val_digit)
  with assms show ?thesis
    by (simp add: unicode_escape_def utf8_def)
qed

lemma escape_special:
  "escape_char (CHR 0x22) = [CHR 0x5C, CHR 0x22]" "escape_char (CHR 0x5C) = [CHR 0x5C, CHR 0x5C]"
  "escape_char (CHR 0x08) = [CHR 0x5C, CHR ''b'']" "escape_char (CHR 0x0C) = [CHR 0x5C, CHR ''f'']"
  "escape_char (CHR 0x0A) = [CHR 0x5C, CHR ''n'']" "escape_char (CHR 0x0D) = [CHR 0x5C, CHR ''r'']"
  "escape_char (CHR 0x09) = [CHR 0x5C, CHR ''t'']"
  by code_simp+

lemma simple_escapes:
  "simple_escape (CHR 0x22) = Some (CHR 0x22)" "simple_escape (CHR 0x5C) = Some (CHR 0x5C)"
  "simple_escape (CHR ''b'') = Some (CHR 0x08)" "simple_escape (CHR ''f'') = Some (CHR 0x0C)"
  "simple_escape (CHR ''n'') = Some (CHR 0x0A)" "simple_escape (CHR ''r'') = Some (CHR 0x0D)"
  "simple_escape (CHR ''t'') = Some (CHR 0x09)"
  by code_simp+

lemma json_chars_simple:
  "simple_escape e = Some c \<Longrightarrow> e \<noteq> CHR ''u'' \<Longrightarrow>
   json_chars (Suc n) (CHR 0x5C # e # s) = map_option (\<lambda>(u, q). (c # u, q)) (json_chars n s)"
  by simp

lemma json_chars_escape_char:
  "json_chars (Suc n) (escape_char c @ s) = map_option (\<lambda>(u, q). (c # u, q)) (json_chars n s)"
proof (cases "c \<in> {CHR 0x22, CHR 0x5C, CHR 0x08, CHR 0x0C, CHR 0x0A, CHR 0x0D, CHR 0x09}")
  case True
  then show ?thesis
    by (elim insertE emptyE) (simp_all del: json_chars.simps add: escape_special json_chars_simple simple_escapes)
next
  case special: False
  show ?thesis
  proof (cases "(of_char c :: nat) < 32 \<or> c = CHR ''<'' \<or> c = CHR ''>'' \<or> c = CHR ''&''")
    case True
    with special have "escape_char c = [CHR 0x5C, CHR ''u'', CHR ''0'', CHR ''0'', hex_digit (of_char c div 16), hex_digit (of_char c mod 16)]"
      by (simp add: escape_char_def Let_def)
    moreover from True have "(of_char c :: nat) < 128"
      by auto
    ultimately show ?thesis
      by (simp add: unicode_escape_byte)
  next
    case False
    with special have "escape_char c = [c]" "c \<noteq> CHR 0x22" "c \<noteq> CHR 0x5C" "\<not> (of_char c :: nat) < 32"
      by (simp_all add: escape_char_def Let_def)
    then show ?thesis
      by simp
  qed
qed

lemma unicode_escape_separators:
  "unicode_escape (CHR ''2'' # CHR ''0'' # CHR ''2'' # CHR ''8'' # r) = Some ([CHR 0xE2, CHR 0x80, CHR 0xA8], r)"
  "unicode_escape (CHR ''2'' # CHR ''0'' # CHR ''2'' # CHR ''9'' # r) = Some ([CHR 0xE2, CHR 0x80, CHR 0xA9], r)"
proof -
  have "char_of (226 :: nat) = CHR 0xE2" "char_of (128 :: nat) = CHR 0x80" "char_of (168 :: nat) = CHR 0xA8" "char_of (169 :: nat) = CHR 0xA9"
    by code_simp+
  then show "unicode_escape (CHR ''2'' # CHR ''0'' # CHR ''2'' # CHR ''8'' # r) = Some ([CHR 0xE2, CHR 0x80, CHR 0xA8], r)"
    "unicode_escape (CHR ''2'' # CHR ''0'' # CHR ''2'' # CHR ''9'' # r) = Some ([CHR 0xE2, CHR 0x80, CHR 0xA9], r)"
    by (simp_all add: unicode_escape_def hex_val_def utf8_def)
qed

lemma take_2_eq: "take 2 s = [x, y] \<Longrightarrow> x # y # drop 2 s = s"
  by (metis append_Cons append_Nil append_take_drop_id)

lemma json_chars_escape:
  "length s < n \<Longrightarrow> json_chars n (json_escape s @ CHR 0x22 # r) = Some (s, r)"
proof (induction s arbitrary: n rule: json_escape.induct)
  case 1
  then show ?case
    by (cases n) simp_all
next
  case (2 c s)
  then obtain m where n: "n = Suc m"
    by (cases n) auto
  let ?sep = "\<lambda>x. c = CHR 0xE2 \<and> take 2 s = [CHR 0x80, x]"
  consider (a) "?sep (CHR 0xA8)" | (b) "?sep (CHR 0xA9)" "\<not> ?sep (CHR 0xA8)" | (c) "\<not> ?sep (CHR 0xA8)" "\<not> ?sep (CHR 0xA9)"
    by blast
  then show ?case
  proof cases
    case a
    with 2(1) [of m] 2(4) n have "json_chars m (json_escape (drop 2 s) @ CHR 0x22 # r) = Some (drop 2 s, r)"
      by simp
    moreover have "json_escape (c # s) = CHR 0x5C # CHR ''u'' # CHR ''2'' # CHR ''0'' # CHR ''2'' # CHR ''8'' # json_escape (drop 2 s)"
      using a by simp
    ultimately have "json_chars n (json_escape (c # s) @ CHR 0x22 # r) = Some (CHR 0xE2 # CHR 0x80 # CHR 0xA8 # drop 2 s, r)"
      unfolding n by (simp del: json_escape.simps add: unicode_escape_separators)
    moreover have "CHR 0xE2 # CHR 0x80 # CHR 0xA8 # drop 2 s = c # s"
      using a take_2_eq [of s] by simp
    ultimately show ?thesis
      by (simp only:)
  next
    case b
    with 2(2) [of m] 2(4) n have "json_chars m (json_escape (drop 2 s) @ CHR 0x22 # r) = Some (drop 2 s, r)"
      by simp
    moreover have "json_escape (c # s) = CHR 0x5C # CHR ''u'' # CHR ''2'' # CHR ''0'' # CHR ''2'' # CHR ''9'' # json_escape (drop 2 s)"
      using b by simp
    ultimately have "json_chars n (json_escape (c # s) @ CHR 0x22 # r) = Some (CHR 0xE2 # CHR 0x80 # CHR 0xA9 # drop 2 s, r)"
      unfolding n by (simp del: json_escape.simps add: unicode_escape_separators)
    moreover have "CHR 0xE2 # CHR 0x80 # CHR 0xA9 # drop 2 s = c # s"
      using b(1) take_2_eq [of s] by simp
    ultimately show ?thesis
      by (simp only:)
  next
    case c
    with 2(3) [of m] 2(4) n have "json_chars m (json_escape s @ CHR 0x22 # r) = Some (s, r)"
      by simp
    moreover from c have "json_escape (c # s) = escape_char c @ json_escape s"
      by auto
    ultimately show ?thesis
      unfolding n by (simp del: json_chars.simps json_escape.simps add: json_chars_escape_char)
  qed
qed

lemma length_json_escape: "length s \<le> length (json_escape s)"
proof (induction s rule: json_escape.induct)
  case (2 c s)
  have "1 \<le> length (escape_char c)"
    by (simp add: escape_char_def Let_def)
  with 2 show ?case
    by auto
qed simp

lemma json_string_quote: "json_string (json_quote s @ r) = Some (s, r)"
  using json_chars_escape [of s _ r] length_json_escape [of s] by (simp add: json_quote_def json_string_def)

section \<open>Objects\<close>

text \<open>The values a member of the encoded structs can have.\<close>

fun flat :: "json \<Rightarrow> bool" where
  "flat JNull \<longleftrightarrow> True"
| "flat (JBool _) \<longleftrightarrow> True"
| "flat (JNum s) \<longleftrightarrow> (\<exists>i. s = show_int i)"
| "flat (JStr _) \<longleftrightarrow> True"
| "flat _ \<longleftrightarrow> False"

lemma show_nat_no_zero: "hd (show_nat n) = CHR ''0'' \<Longrightarrow> show_nat n = ''0''"
proof (induction n rule: show_nat.induct)
  case (1 n)
  show ?case
  proof (cases "n < 10")
    case True
    have one: "show_nat n = [digit n]"
      using True by (subst show_nat.simps) simp
    with 1(2) show ?thesis
      by simp
  next
    case False
    then have more: "show_nat n = show_nat (n div 10) @ [digit (n mod 10)]"
      by (subst show_nat.simps) simp
    then have "hd (show_nat (n div 10)) = CHR ''0''"
      using 1(2) by simp
    moreover have "show_nat 0 = ''0''"
      by code_simp
    ultimately have "show_nat (n div 10) = show_nat 0"
      using 1(1) [OF False] by simp
    with False show ?thesis
      by simp
  qed
qed

lemma takeWhile_show_nat: "\<not> is_digit c \<Longrightarrow> takeWhile is_digit (show_nat n @ c # r) = show_nat n"
  using show_nat_digits [of n] by (subst takeWhile_append2) (auto simp: list_all_iff)

lemma number_int_show:
  assumes "\<not> is_digit c"
  shows "number_int (show_nat n @ c # r) = Some (show_nat n, c # r)"
proof (cases "hd (show_nat n) = CHR ''0''")
  case True
  then have "show_nat n = ''0''"
    by (rule show_nat_no_zero)
  with takeWhile_show_nat [OF assms, of n r] show ?thesis
    by (simp add: number_int_def del: takeWhile.simps)
next
  case False
  with takeWhile_show_nat [OF assms, of n r] show ?thesis
    by (simp add: number_int_def)
qed

lemma json_number_show:
  assumes "c \<in> {CHR '','', CHR ''}''}"
  shows "json_number (show_int i @ c # r) = Some (show_int i, c # r)"
proof -
  have c: "\<not> is_digit c" "c \<noteq> CHR ''.''" "c \<noteq> CHR ''e''" "c \<noteq> CHR ''E''"
    using assms by (auto simp: is_digit_def)
  have rest: "number_frac (c # r) = Some ([], c # r)" "number_exp (c # r) = Some ([], c # r)"
    using c by (simp_all add: number_frac_def number_exp_def)
  have sg: "(case show_nat n @ c # r of x # _ \<Rightarrow> if x = CHR ''-'' then ''-'' else [] | [] \<Rightarrow> []) = []" for n
  proof -
    obtain x xs where x: "show_nat n = x # xs"
      using show_nat_not_Nil [of n] by (cases "show_nat n") auto
    moreover have "\<not> is_digit (CHR ''-'')"
      by (simp add: is_digit_def)
    ultimately have "x \<noteq> CHR ''-''"
      using show_nat_hd [of n] by auto
    with x show ?thesis
      by simp
  qed
  show ?thesis
    using rest number_int_show [OF c(1)] sg by (simp add: json_number_def show_int_def Let_def)
qed

lemma json_ws_id: "c \<notin> {CHR '' '', CHR 0x09, CHR 0x0A, CHR 0x0D} \<Longrightarrow> json_ws (c # s) = c # s"
  by (simp add: json_ws_def)

lemma show_int_first:
  obtains x xs where "show_int i = x # xs" and "x = CHR ''-'' \<or> is_digit x"
proof (cases "i < 0")
  case True
  then show ?thesis
    using that by (simp add: show_int_def)
next
  case False
  then show ?thesis
    using that [of "hd (show_nat (nat i))" "tl (show_nat (nat i))"] show_nat_hd [of "nat i"] by (simp add: show_int_def)
qed

lemma json_value_print:
  assumes "flat v" and "c \<in> {CHR '','', CHR ''}''}"
  shows "json_value (Suc n) (print_value v @ c # r) = Some (v, c # r)"
proof (cases v)
  case (JNum s)
  with assms(1) obtain i where s: "s = show_int i"
    by auto
  obtain x xs where x: "show_int i = x # xs" and first: "x = CHR ''-'' \<or> is_digit x"
    by (rule show_int_first)
  have "\<forall>y \<in> set '' {[tfn'' \<union> {CHR 0x22, CHR 0x09, CHR 0x0A, CHR 0x0D}. \<not> is_digit y \<and> y \<noteq> CHR ''-''"
    by (simp add: is_digit_def)
  with first have other: "x \<notin> set '' {[tfn'' \<union> {CHR 0x22, CHR 0x09, CHR 0x0A, CHR 0x0D}"
    by blast
  moreover from other have "CHR ''t'' \<noteq> x" "CHR ''f'' \<noteq> x" "CHR ''n'' \<noteq> x"
    by auto
  ultimately show ?thesis
    using json_number_show [OF assms(2), of i r] x s JNum by (simp add: json_ws_def)
next
  case (JStr s)
  have "json_ws (json_quote s @ c # r) = json_quote s @ c # r"
    by (simp add: json_quote_def json_ws_def)
  then show ?thesis
    using JStr json_string_quote [of s "c # r"] by (simp add: json_quote_def)
qed (use assms(1) in \<open>auto simp: json_ws_def\<close>)

lemma json_pairs_step:
  assumes "json_value n t = Some (v, c # q)" and "c \<in> {CHR '','', CHR ''}''}"
  shows "json_pairs (Suc n) (json_quote key @ CHR '':'' # t) =
    (if c = CHR ''}'' then Some ([(key, v)], q) else map_option (\<lambda>(ps, q). ((key, v) # ps, q)) (json_pairs n q))"
proof -
  have "json_ws (json_quote key @ CHR '':'' # t) = json_quote key @ CHR '':'' # t"
    unfolding json_quote_def append_Cons by (rule json_ws_id) simp
  moreover have "json_ws (CHR '':'' # t) = CHR '':'' # t" "json_ws (c # q) = c # q"
    using assms(2) by (auto intro: json_ws_id)
  moreover have "strip_prefix '':'' (CHR '':'' # t) = Some t"
    by simp
  ultimately show ?thesis
    using assms(2)
    by (subst json_pairs.simps(2)) (simp only: json_string_quote assms(1) option.case prod.case list.case insert_iff empty_iff simp_thms if_True if_False split: if_split, blast)
qed

lemma json_pairs_print:
  assumes "\<forall>m \<in> set ms. flat (snd m)" and "ms \<noteq> []" and "length ms < n"
  shows "json_pairs n (Join (map print_member ms) '','' @ CHR ''}'' # r) = Some (ms, r)"
  using assms
proof (induction ms arbitrary: n)
  case (Cons m ms)
  then have "n \<noteq> 0" "n \<noteq> 1"
    by auto
  then obtain k where n: "n = Suc (Suc k)"
    by (cases n; cases "n - 1") auto
  obtain key v where m: "m = (key, v)"
    by fastforce
  show ?case
  proof (cases "ms = []")
    case True
    have "json_value (Suc k) (print_value v @ CHR ''}'' # r) = Some (v, CHR ''}'' # r)"
      using Cons.prems(1) m by (intro json_value_print) auto
    moreover have "Join (map print_member (m # ms)) '','' @ CHR ''}'' # r = json_quote key @ CHR '':'' # print_value v @ CHR ''}'' # r"
      using True by (simp add: m print_member_def)
    ultimately show ?thesis
      using json_pairs_step [of "Suc k" "print_value v @ CHR ''}'' # r" v "CHR ''}''" r key] True
      unfolding n m by (simp del: json_value.simps json_pairs.simps list.map)
  next
    case False
    let ?rest = "Join (map print_member ms) '','' @ CHR ''}'' # r"
    have "json_value (Suc k) (print_value v @ CHR '','' # ?rest) = Some (v, CHR '','' # ?rest)"
      using Cons.prems(1) m by (intro json_value_print) auto
    moreover have "json_pairs (Suc k) ?rest = Some (ms, r)"
      using Cons.prems n False by (intro Cons.IH) auto
    moreover have "Join (map print_member (m # ms)) '','' @ CHR ''}'' # r = json_quote key @ CHR '':'' # print_value v @ CHR '','' # ?rest"
      using False by (cases ms) (simp_all add: m print_member_def)
    ultimately show ?thesis
      using json_pairs_step [of "Suc k" "print_value v @ CHR '','' # ?rest" v "CHR '',''" ?rest key]
      unfolding n m by (simp del: json_value.simps json_pairs.simps list.map)
  qed
qed simp

lemma length_print_members: "length ms \<le> length (Join (map print_member ms) '','')"
proof (induction ms)
  case (Cons m ms)
  then show ?case
    by (cases ms) (auto simp: print_member_def)
qed simp

theorem json_parse_print:
  assumes "\<forall>m \<in> set ms. flat (snd m)" and "ms \<noteq> []"
  shows "json_parse (print_object ms) = Some (JObj ms)"
proof -
  let ?t = "Join (map print_member ms) '','' @ ''}''"
  obtain c t where t: "?t = c # t" and c: "c = CHR 0x22"
    using assms(2) by (cases ms; cases "tl ms") (auto simp: print_member_def json_quote_def)
  have "json_pairs (2 * length (print_object ms) + 1) (Join (map print_member ms) '','' @ CHR ''}'' # []) = Some (ms, [])"
    using length_print_members [of ms] by (intro json_pairs_print assms) (simp add: print_object_def)
  moreover have "strip_prefix ''}'' (json_ws ?t) = None"
    using c unfolding t by (simp add: json_ws_def)
  ultimately show ?thesis
    by (simp add: json_parse_def print_object_def json_ws_id) (simp add: json_ws_def)
qed

end
