(* ===== verification/Guard.thy ===== *)
theory Guard
  imports Globals
begin

text \<open>
  Which existing files an operation spares. The network managers remove configuration files, but only
  those that carry the agent's mark. For a set \<^verbatim>\<open>S\<close> of paths and a predicate \<^verbatim>\<open>M\<close> on paths and nodes
  (the nodes the agent calls its own), a path is guarded at the start \<^verbatim>\<open>f0\<close> if it is outside \<^verbatim>\<open>S\<close> or
  holds a node that is not the agent's. \<^verbatim>\<open>safe S M f0\<close> says that every guarded path still holds what it
  held at the start; \<^verbatim>\<open>sparing\<close> says that an operation keeps it, which is a preorder and so interprets
  \<^verbatim>\<open>wait_frame\<close>. \<^verbatim>\<open>learns\<close> is for operations whose result tells that a path is not guarded, such as
  reading a file that has the mark.
\<close>

definition guarded :: "string set \<Rightarrow> (string \<Rightarrow> node \<Rightarrow> bool) \<Rightarrow> files \<Rightarrow> string \<Rightarrow> bool" where
  "guarded S M f0 p \<longleftrightarrow> p \<notin> S \<or> (\<exists>n. map_of f0 p = Some n \<and> \<not> M p n)"

definition spared :: "string set \<Rightarrow> (string \<Rightarrow> node \<Rightarrow> bool) \<Rightarrow> files \<Rightarrow> files \<Rightarrow> bool" where
  "spared S M f0 f \<longleftrightarrow> no_links S f \<and> (\<forall>p. guarded S M f0 p \<longrightarrow> map_of f p = map_of f0 p)"

text \<open>The external commands spare what is guarded when they run.\<close>

definition cmds_spare ::
  "string set \<Rightarrow> (string \<Rightarrow> node \<Rightarrow> bool) \<Rightarrow> (nat \<Rightarrow> string list \<Rightarrow> files \<Rightarrow> proc_end \<times> files) \<Rightarrow> bool" where
  "cmds_spare S M ex \<longleftrightarrow> (\<forall>t a f. no_links S f \<longrightarrow> spared S M f (snd (ex t a f)))"

definition safe :: "string set \<Rightarrow> (string \<Rightarrow> node \<Rightarrow> bool) \<Rightarrow> files \<Rightarrow> 'z world_scheme \<Rightarrow> bool" where
  "safe S M f0 w \<longleftrightarrow> cmds_spare S M (exec w) \<and> spared S M f0 (fs w)"

definition sparing ::
  "string set \<Rightarrow> (string \<Rightarrow> node \<Rightarrow> bool) \<Rightarrow> files \<Rightarrow> 'z world_scheme \<Rightarrow> 'z world_scheme \<Rightarrow> bool" where
  "sparing S M f0 w w' \<longleftrightarrow> (safe S M f0 w \<longrightarrow> safe S M f0 w')"

interpretation sparing: wait_frame "sparing S M f0"
  by unfold_locales
     (auto simp: sparing_def safe_def keeps_def time_Now_def ctx_Err_def done_or_after_def Let_def
       split: option.splits)

lemmas spare_rules [frame_intros] = sparing.keeps_rules sparing.keeps_time_Now sparing.keeps_gets
  sparing.keeps_ctx_Err sparing.keeps_done_or_after

lemma sparedD:
  assumes "keeps (sparing S M (fs w)) m" and "cmds_spare S M (exec w)" and "no_links S (fs w)"
    and "guarded S M (fs w) p"
  shows "map_of (fs (snd (run_state m w))) p = map_of (fs w) p"
  using assms keepsD [of "sparing S M (fs w)" m w] by (auto simp: sparing_def safe_def spared_def)

subsection \<open>Rules for the system calls\<close>

lemma spare_syscall:
  assumes "\<And>um f a f'. spared S M f0 f \<Longrightarrow> F um f = Inr (a, f') \<Longrightarrow> spared S M f0 f'"
  shows "keeps (sparing S M f0) (syscall F)"
  using assms
  by (fastforce simp: keeps_def syscall_def sparing_def safe_def Let_def split: option.splits sum.splits)

lemma spare_reads [frame_intros]:
  "keeps (sparing S M f0) (os_Stat p)"
  "keeps (sparing S M f0) (os_Lstat p)"
  "keeps (sparing S M f0) (os_ReadFile p)"
  "keeps (sparing S M f0) (os_ReadDir p)"
  "keeps (sparing S M f0) (os_Readlink p)"
  unfolding os_Stat_def os_Lstat_def os_ReadFile_def os_ReadDir_def os_Readlink_def
  by (rule spare_syscall; auto split: sum.splits option.splits node.splits prod.splits if_splits)+

lemma spare_env [frame_intros]:
  "keeps (sparing S M f0) (exec_LookPath p)" "keeps (sparing S M f0) (is_goos p)"
  "keeps (sparing S M f0) (range_map xs)" "keeps (sparing S M f0) (time_Sleep d)"
  by (auto simp: keeps_def time_Sleep_def exec_LookPath_def is_goos_def range_map_def sparing_def safe_def)

lemma spare_modify [frame_intros]:
  "(\<And>w. fs (g w) = fs w) \<Longrightarrow> (\<And>w. exec (g w) = exec w) \<Longrightarrow> keeps (sparing S M f0) (modify g)"
  by (simp add: keeps_def sparing_def safe_def)

text \<open>What was guarded at the start and is still there is guarded now.\<close>

lemma guarded_spared: "spared S M f0 f \<Longrightarrow> guarded S M f0 p \<Longrightarrow> guarded S M f p"
  by (auto simp: guarded_def spared_def)

lemma spared_trans: "spared S M f0 f \<Longrightarrow> spared S M f g \<Longrightarrow> spared S M f0 g"
  using guarded_spared [of S M f0 f] by (simp add: spared_def)

lemma spare_spawn [frame_intros]: "keeps (sparing S M f0) (spawn args)"
proof (rule keepsI)
  fix w :: "'z world_scheme"
  have "safe S M f0 w \<Longrightarrow> spared S M (fs w) (snd (exec w (tick w) args (fs w)))"
    by (auto simp: safe_def cmds_spare_def spared_def [of S M f0])
  then have "safe S M f0 w \<Longrightarrow> spared S M f0 (snd (exec w (tick w) args (fs w)))"
    by (auto simp: safe_def intro: spared_trans)
  then show "sparing S M f0 w (snd (run_state (spawn args) w))"
    by (cases "exec w (tick w) args (fs w)") (auto simp: spawn_def sparing_def safe_def)
qed

lemma spare_run [frame_intros]:
  "keeps (sparing S M f0) (execCommand cmd)"
  "keeps (sparing S M f0) (Quiet cmd)"
  "keeps (sparing S M f0) (WithOutput cmd)"
  "keeps (sparing S M f0) (WithOutputTimeout cmd)"
  "keeps (sparing S M f0) (WithCombinedOutput cmd)"
  "keeps (sparing S M f0) (spec_RunQuiet c data)"
  "keeps (sparing S M f0) (set_RunQuiet cs data)"
  unfolding set_RunQuiet_def spec_RunQuiet_def WithOutput_def WithOutputTimeout_def
    WithCombinedOutput_def Quiet_def execCommand_def
  by (intro frame_intros)+

lemma spared_delete: "\<not> guarded S M f0 p \<Longrightarrow> spared S M f0 f \<Longrightarrow> spared S M f0 (AList.delete p f)"
  by (auto simp: spared_def no_links_def delete_conv')

lemma spared_update:
  "\<not> guarded S M f0 p \<Longrightarrow> (\<And>t. n \<noteq> Link t) \<Longrightarrow> spared S M f0 f \<Longrightarrow> spared S M f0 (AList.update p n f)"
  by (auto simp: spared_def no_links_def update_conv')

lemma spare_Remove [frame_intros]: "\<not> guarded S M f0 p \<Longrightarrow> keeps (sparing S M f0) (os_Remove p)"
  unfolding os_Remove_def
  by (rule sparing.keeps_errs, rule spare_syscall)
     (auto split: option.splits node.splits if_splits intro!: spared_delete)

subsection \<open>Operations whose result says what is not guarded\<close>

definition learns ::
  "string set \<Rightarrow> (string \<Rightarrow> node \<Rightarrow> bool) \<Rightarrow> files \<Rightarrow> ('z, 'a) io \<Rightarrow> ('a \<Rightarrow> bool) \<Rightarrow> bool" where
  "learns S M f0 m Q \<longleftrightarrow>
     (\<forall>w. safe S M f0 w \<longrightarrow> safe S M f0 (snd (run_state m w)) \<and> Q (fst (run_state m w)))"

lemma learns_keeps: "learns S M f0 m Q \<Longrightarrow> keeps (sparing S M f0) m"
  by (simp add: learns_def keeps_def sparing_def)

lemma learns_bind_keeps:
  "learns S M f0 m Q \<Longrightarrow> (\<And>x. Q x \<Longrightarrow> keeps (sparing S M f0) (k x)) \<Longrightarrow> keeps (sparing S M f0) (State_Monad.bind m k)"
  unfolding learns_def keeps_def sparing_def by (simp add: split_beta)

lemma learns_bind:
  "learns S M f0 m Q \<Longrightarrow> (\<And>x. Q x \<Longrightarrow> learns S M f0 (k x) Q') \<Longrightarrow> learns S M f0 (State_Monad.bind m k) Q'"
  unfolding learns_def by (simp add: split_beta)

lemma learns_keeps_bind:
  "keeps (sparing S M f0) m \<Longrightarrow> (\<And>x. learns S M f0 (k x) Q) \<Longrightarrow> learns S M f0 (State_Monad.bind m k) Q"
  unfolding learns_def keeps_def sparing_def by (simp add: split_beta)

lemma learns_return: "Q x \<Longrightarrow> learns S M f0 (State_Monad.return x) Q"
  by (simp add: learns_def)

lemma learns_True: "keeps (sparing S M f0) m \<Longrightarrow> (\<And>x. Q x) \<Longrightarrow> learns S M f0 m Q"
  by (simp add: learns_def keeps_def sparing_def)

lemma learns_weaken: "learns S M f0 m Q \<Longrightarrow> (\<And>x. Q x \<Longrightarrow> Q' x) \<Longrightarrow> learns S M f0 m Q'"
  by (auto simp: learns_def)

lemma learns_for_range:
  fixes g :: "'a \<Rightarrow> 'b \<Rightarrow> ('z, 'r + 'b) io"
  assumes "\<And>x b. x \<in> set xs \<Longrightarrow> J b \<Longrightarrow> learns S M f0 (g x b) (\<lambda>r. \<forall>b'. r = Inr b' \<longrightarrow> J b')" and "J b"
  shows "learns S M f0 (for_range g xs b) (\<lambda>r. \<forall>b'. r = Inr b' \<longrightarrow> J b')"
  using assms
proof (induction xs arbitrary: b)
  case Nil
  then show ?case by (simp add: learns_return)
next
  case (Cons x xs)
  show ?case
    unfolding for_range.simps
  proof (rule learns_bind [OF Cons.prems(1)])
    fix r :: "'r + 'b"
    assume "\<forall>b'. r = Inr b' \<longrightarrow> J b'"
    then show "learns S M f0 (case r of Inl v \<Rightarrow> State_Monad.return (Inl v) | Inr b' \<Rightarrow> for_range g xs b')
        (\<lambda>r. \<forall>b'. r = Inr b' \<longrightarrow> J b')"
      using Cons.IH Cons.prems(1) by (cases r) (auto intro: learns_return)
  qed (use Cons.prems in auto)
qed

lemma spared_ReadFile:
  assumes "spared S M f0 f" and "p \<in> S" and "lookup f p = Inr (q, Reg c m u)" and "M p (Reg c m u)"
  shows "\<not> guarded S M f0 p"
proof -
  from assms have "no_links S f" by (simp add: spared_def)
  with assms(2,3) have "map_of f p = Some (Reg c m u)"
    by (auto simp: lookup_def split: option.splits if_splits)
  with assms(1,2,4) show ?thesis
    by (auto simp: spared_def guarded_def)
qed

text \<open>A file of \<^verbatim>\<open>S\<close> whose content has the mark is not guarded.\<close>

lemma learns_ReadFile:
  assumes "p \<in> S" and "\<And>c m u. mark c \<Longrightarrow> M p (Reg c m u)"
  shows "learns S M f0 (os_ReadFile p) (\<lambda>r. \<forall>c. r = Inr c \<longrightarrow> mark c \<longrightarrow> \<not> guarded S M f0 p)"
  unfolding learns_def
proof (intro allI impI conjI)
  fix w :: "'z world_scheme"
  assume w: "safe S M f0 w"
  then show "safe S M f0 (snd (run_state (os_ReadFile p) w))"
    using keepsD [OF spare_reads(3)] unfolding sparing_def by blast
  fix c assume r: "fst (run_state (os_ReadFile p) w) = Inr c" and "mark c"
  from r obtain q m u where "lookup (fs w) p = Inr (q, Reg c m u)"
    by (auto simp: os_ReadFile_def syscall_def Let_def
        split: option.splits sum.splits prod.splits node.splits)
  from spared_ReadFile [OF _ assms(1) this, of M f0] assms(2) w \<open>mark c\<close> show "\<not> guarded S M f0 p"
    by (simp add: safe_def)
qed

subsection \<open>Writing\<close>

lemma spare_WriteFile:
  assumes "p \<in> S" and "\<not> guarded S M f0 p"
  shows "keeps (sparing S M f0) (os_WriteFile p s m)"
proof -
  have op: "keeps (sparing S M f0) (os_Open True False True m p)"
    unfolding os_Open_def
  proof (rule spare_syscall)
    fix um f a f'
    assume f: "spared S M f0 f"
    then have "no_links S f" by (simp add: spared_def)
    then have "resolve f p = Some p" and "\<And>q n. lookup f p = Inr (q, n) \<Longrightarrow> q = p"
      using assms(1) lookup_no_links by simp_all
    moreover assume "(if False \<and> map_of f p \<noteq> None then Inl EEXIST else case lookup f p of
         Inl ENOENT \<Rightarrow> (case resolve f p of
             None \<Rightarrow> Inl ELOOP
           | Some q \<Rightarrow> if True \<and> is_dir f (path_Dir q)
               then Inr (q, AList.update q (Reg [] (effective um m) (0, 0)) f) else Inl ENOENT)
       | Inl e \<Rightarrow> Inl e
       | Inr (q, n) \<Rightarrow>
           if False then Inl EEXIST
           else (case n of
             Reg c m' o1 \<Rightarrow> Inr (q, if True then AList.update q (Reg [] m' o1) f else f)
           | Dir _ _ \<Rightarrow> Inl EISDIR
           | _ \<Rightarrow> Inr (q, f))) = Inr (a, f')"
    ultimately show "spared S M f0 f'"
      using f spared_update [OF assms(2)]
      by (auto split: sum.splits errno.splits option.splits node.splits if_splits prod.splits)
  qed
  have "learns S M f0 (os_Open True False True m p) (\<lambda>r. \<forall>q. r = Inr q \<longrightarrow> q = p)"
    unfolding learns_def
  proof (intro allI impI conjI)
    fix w :: "'z world_scheme" and q
    assume w: "safe S M f0 w"
    then show "safe S M f0 (snd (run_state (os_Open True False True m p) w))"
      using keepsD [OF op] unfolding sparing_def by blast
    assume "fst (run_state (os_Open True False True m p) w) = Inr q"
    with w Open_no_links [of True False True m p w q _ S] assms(1) show "q = p"
      by (cases "run_state (os_Open True False True m p) w") (auto simp: safe_def spared_def)
  qed
  note learn = learns_bind_keeps [OF this]
  have wr: "keeps (sparing S M f0) (os_Write p s)"
    unfolding os_Write_def os_WriteAt_def
    by (intro frame_intros spare_syscall) (auto intro!: spared_update [OF assms(2)] split: option.splits node.splits)
  show ?thesis
    unfolding os_WriteFile_def
    by (rule learn, intro frame_intros) (use wr in auto)
qed

lemma spared_mkdirs:
  "set ps \<subseteq> S \<Longrightarrow> spared S M f0 f \<Longrightarrow> mkdirs m ps f = Inr f' \<Longrightarrow> spared S M f0 f'"
proof (induction ps arbitrary: f)
  case (Cons p ps)
  have "spared S M f0 (AList.update p (Dir m (0, 0)) f)" if "lookup f p = Inl ENOENT"
  proof -
    have "resolve f p = Some p"
      using Cons.prems by (auto simp: spared_def intro: resolve_no_links)
    with that have "map_of f p = None"
      by (auto simp: lookup_def split: option.splits if_splits)
    with Cons.prems have "\<not> guarded S M f0 p"
      by (auto simp: guarded_def spared_def)
    then show ?thesis
      using Cons.prems by (intro spared_update) auto
  qed
  with Cons show ?case
    by (auto split: sum.splits prod.splits node.splits errno.splits if_splits)
qed simp

lemma spare_MkdirAll: "set (dir_prefixes p) \<subseteq> S \<Longrightarrow> keeps (sparing S M f0) (os_MkdirAll p m)"
  unfolding os_MkdirAll_def
  by (intro frame_intros spare_syscall) (auto split: sum.splits dest: spared_mkdirs)

lemma spare_RemoveAll:
  assumes "\<And>q. below p q \<Longrightarrow> \<not> guarded S M f0 q"
  shows "keeps (sparing S M f0) (os_RemoveAll p)"
  unfolding os_RemoveAll_def
  by (intro frame_intros spare_syscall)
     (use assms in \<open>auto simp: map_of_remove_below spared_def no_links_def split: if_splits\<close>)

end
