(* ===== verification/NetCommon.thy ===== *)
theory NetCommon
  imports Guard
begin

text \<open>
  What the network managers share: \<^verbatim>\<open>network/manager/common.go\<close>, the data and the \<^verbatim>\<open>Service\<close> interface of
  \<^verbatim>\<open>network/manager/manager.go\<close>, and \<^verbatim>\<open>utils/file.go\<close>. The system's network interfaces are a field of
  the world, which may differ at every call. The ini and yaml libraries are parameters (a \<^verbatim>\<open>codec\<close>);
  a file that does not exist reads as the empty text, as the option \<^verbatim>\<open>Loose\<close> of the ini library says.
  A manager is a record of its operations, as a value of a Go interface is.
\<close>

subsection \<open>State and data\<close>

record NetIf =
  if_Name :: string
  HardwareAddr :: "nat list"
  if_MTU :: int

record net_agent = agent +
  netifs :: "nat \<Rightarrow> NetIf list res"
  uname :: "(string \<times> string) option"
  badMAC :: "string list"
  seenMetadata :: "Descriptor option"
  wickedCommand :: string
  networkd_configDir :: string
  interfacePrefix :: string

type_synonym ('z, 'a) net_io = "('z net_agent_scheme, 'a) state"

text \<open>The state before the managers have run, on a system with the given interfaces.\<close>

definition calm_net :: "files \<Rightarrow> NetIf list \<Rightarrow> net_agent" where
  "calm_net f ifs = agent.extend (calm_agent f)
     \<lparr>netifs = (\<lambda>_. Inr ifs), uname = None, badMAC = [], seenMetadata = None, wickedCommand = [],
      networkd_configDir = ''/usr/lib/systemd/network'', interfacePrefix = []\<rparr>"

lemma calm_net_simps [simp]:
  "fs (calm_net f ifs) = f" "fault (calm_net f ifs) = (\<lambda>_. None)" "seenMetadata (calm_net f ifs) = None"
  "exec (calm_net f ifs) = (\<lambda>_ _ g. (Exited 0 [] [] [], g))" "netifs (calm_net f ifs) = (\<lambda>_. Inr ifs)"
  "config (calm_net f ifs) = defaultConfig" "interfacePrefix (calm_net f ifs) = []"
  "networkd_configDir (calm_net f ifs) = ''/usr/lib/systemd/network''" "uname (calm_net f ifs) = None"
  by (simp_all add: calm_net_def calm_agent_def calm_def agent.defs mds_world.defs world.defs)

record NetVlan = VlanInterface +
  ParentInterfaceID :: string

record Interfaces =
  EthernetInterfaces :: "NetworkInterfaces list"
  VlanInterfaces :: "(string \<times> NetVlan) list"

text \<open>The section that marks a file as the agent's.\<close>

record guestAgentSection =
  ManagedByGuestAgent :: bool

text \<open>The name every manager gives the interface of a VLAN.\<close>

definition vlanInterfaceName :: "string \<Rightarrow> int \<Rightarrow> string" where
  "vlanInterfaceName parentInterface vlanID = ''gcp.'' @ parentInterface @ ''.'' @ show_int vlanID"

definition vlan_name :: "NetVlan \<Rightarrow> string" where
  "vlan_name v = vlanInterfaceName (ParentInterfaceID v) (Vlan v)"

text \<open>The operations of a manager; any of them may panic.\<close>

record 'z service =
  svc_Name :: string
  svc_Configure :: "Sections \<Rightarrow> ('z, unit) net_io"
  svc_IsManaging :: "string \<Rightarrow> ('z, (bool \<times> goerr option) outcome) net_io"
  svc_SetupEthernetInterface :: "Sections \<Rightarrow> Interfaces \<Rightarrow> ('z, goerr option outcome) net_io"
  svc_SetupVlanInterface :: "Sections \<Rightarrow> Interfaces \<Rightarrow> ('z, goerr option outcome) net_io"
  svc_Rollback :: "Interfaces \<Rightarrow> ('z, goerr option outcome) net_io"
  svc_RollbackNics :: "Interfaces \<Rightarrow> ('z, goerr option outcome) net_io"

definition net_googleComment :: string where
  "net_googleComment = ''# Added by Google Compute Engine Guest Agent.''"

subsection \<open>Hardware addresses\<close>

definition hex_digit :: "nat \<Rightarrow> char" where
  "hex_digit n = ''0123456789abcdef'' ! (n mod 16)"

fun hex_bytes :: "string \<Rightarrow> nat list option" where
  "hex_bytes [] = Some []"
| "hex_bytes [_] = None"
| "hex_bytes (a # b # s) =
     (case (hex_val a, hex_val b, hex_bytes s) of
        (Some x, Some y, Some bs) \<Rightarrow> Some ((16 * x + y) # bs)
      | _ \<Rightarrow> None)"

fun hex_groups :: "nat \<Rightarrow> string list \<Rightarrow> nat list option" where
  "hex_groups n [] = Some []"
| "hex_groups n (g # gs) =
     (if length g \<noteq> n then None
      else case (hex_bytes g, hex_groups n gs) of
        (Some b, Some bs) \<Rightarrow> Some (b @ bs)
      | _ \<Rightarrow> None)"

text \<open>
  \<^verbatim>\<open>net.ParseMAC\<close>: 6, 8 or 20 octets, as pairs of digits with colons or hyphens between them or as
  groups of four digits with points between them.
\<close>

definition ParseMAC :: "string \<Rightarrow> nat list option" where
  "ParseMAC s =
     (case (if 2 < length s \<and> s ! 2 = CHR '':'' then hex_groups 2 (Split s (CHR '':''))
            else if 2 < length s \<and> s ! 2 = CHR ''-'' then hex_groups 2 (Split s (CHR ''-''))
            else if 4 < length s \<and> s ! 4 = CHR ''.'' then hex_groups 4 (Split s (CHR ''.''))
            else None) of
        None \<Rightarrow> None
      | Some bs \<Rightarrow> if length bs \<in> {6, 8, 20} then Some bs else None)"

definition HardwareAddr_String :: "nat list \<Rightarrow> string" where
  "HardwareAddr_String bs = Join (map (\<lambda>b. [hex_digit (b div 16), hex_digit b]) bs) '':''"

subsection \<open>The system's interfaces\<close>

definition net_Interfaces :: "('z, NetIf list res) net_io" where
  "net_Interfaces = State (\<lambda>w. (netifs w (tick w), w\<lparr>tick := Suc (tick w)\<rparr>))"

definition GetInterfaceByMAC :: "string \<Rightarrow> ('z, NetIf res) net_io" where
  "GetInterfaceByMAC mac =
     (case ParseMAC mac of
        None \<Rightarrow> State_Monad.return (Inl (Msg ''invalid MAC address''))
      | Some hwaddr \<Rightarrow> do {
          r \<leftarrow> net_Interfaces;
          State_Monad.return (case r of
            Inl e \<Rightarrow> Inl (Flat ''failed to get interfaces'' e)
          | Inr ifs \<Rightarrow>
              (case find (\<lambda>i. HardwareAddr_String (HardwareAddr i) = HardwareAddr_String hwaddr) ifs of
                 Some i \<Rightarrow> Inr i
               | None \<Rightarrow> Inl (Msg (''no interface found with MAC '' @ mac)))) })"

text \<open>The cache of addresses whose lookup failed and was logged.\<close>

definition note_badMAC :: "string \<Rightarrow> ('z, unit) net_io" where
  "note_badMAC mac = modify (\<lambda>w. w\<lparr>badMAC := if mac \<in> set (badMAC w) then badMAC w else badMAC w @ [mac]\<rparr>)"

text \<open>The name of one interface, or the text that marks it as invalid.\<close>

definition interfaceName :: "NetworkInterfaces \<Rightarrow> ('z, string) net_io" where
  "interfaceName ni = do {
     r \<leftarrow> GetInterfaceByMAC (Mac ni);
     (case r of
        Inr i \<Rightarrow> State_Monad.return (if_Name i)
      | Inl e \<Rightarrow> do { note_badMAC (Mac ni); State_Monad.return (''invalid-'' @ Mac ni) }) }"

text \<open>The source returns an error as well, which is always nil.\<close>

fun interfaceNames :: "NetworkInterfaces list \<Rightarrow> ('z, string list) net_io" where
  "interfaceNames [] = State_Monad.return []"
| "interfaceNames (ni # nics) = do {
     n \<leftarrow> interfaceName ni;
     ns \<leftarrow> interfaceNames nics;
     State_Monad.return (n # ns) }"

definition isInvalid :: "string \<Rightarrow> bool" where
  "isInvalid iface \<longleftrightarrow> Contains iface ''invalid''"

fun interfaceListsIpv4Ipv6 :: "NetworkInterfaces list \<Rightarrow> ('z, string list \<times> string list) net_io" where
  "interfaceListsIpv4Ipv6 [] = State_Monad.return ([], [])"
| "interfaceListsIpv4Ipv6 (ni # nics) = do {
     n \<leftarrow> interfaceName ni;
     r \<leftarrow> interfaceListsIpv4Ipv6 nics;
     State_Monad.return (n # fst r, if DHCPv6Refresh ni \<noteq> [] then n # snd r else snd r) }"

fun mtu_map :: "NetworkInterfaces list \<Rightarrow> (string \<times> int) list \<Rightarrow> ('z, (string \<times> int) list) net_io" where
  "mtu_map [] m = State_Monad.return m"
| "mtu_map (ni # nics) m = do {
     r \<leftarrow> GetInterfaceByMAC (Mac ni);
     (case r of
        Inl e \<Rightarrow> do { note_badMAC (Mac ni); mtu_map nics m }
      | Inr i \<Rightarrow> mtu_map nics (AList.update (if_Name i) (MTU ni) m)) }"

definition interfacesMTUMap :: "NetworkInterfaces list \<Rightarrow> ('z, (string \<times> int) list) net_io" where
  "interfacesMTUMap nics = mtu_map nics []"

definition shouldManageInterface :: "bool \<Rightarrow> ('z, bool) net_io" where
  "shouldManageInterface isPrimary =
     (if isPrimary then gets (\<lambda>w. ManagePrimaryNIC (NetworkSection (config w))) else State_Monad.return True)"

definition net_osinfo :: "('z, OSInfo) net_io" where
  "net_osinfo = do { u \<leftarrow> gets uname; osinfo_Get u }"

definition isUbuntu1804 :: "('z, bool) net_io" where
  "isUbuntu1804 = do {
     info \<leftarrow> net_osinfo;
     State_Monad.return (OS info = ''ubuntu'' \<and> VersionID info = ''18.04'') }"

definition cliExists :: "string \<Rightarrow> ('z, bool \<times> goerr option) io" where
  "cliExists name = do {
     r \<leftarrow> exec_LookPath name;
     State_Monad.return (case r of
       Inr _ \<Rightarrow> (True, None)
     | Inl e \<Rightarrow>
         if errors_Is_ErrNotFound e then (False, None)
         else (False, Some (Flat (''error looking up path for '' @ name) e))) }"

subsection \<open>Files\<close>

datatype ftype = TypeDir | TypeFile

fun node_IsDir :: "node \<Rightarrow> bool" where
  "node_IsDir (Dir _ _) \<longleftrightarrow> True"
| "node_IsDir _ \<longleftrightarrow> False"

definition FileExists :: "string \<Rightarrow> ftype \<Rightarrow> ('z, bool) io" where
  "FileExists p t = do {
     r \<leftarrow> os_Stat p;
     State_Monad.return (case r of
       Inl _ \<Rightarrow> False
     | Inr n \<Rightarrow> (t = TypeDir \<and> node_IsDir n) \<or> (t = TypeFile \<and> \<not> node_IsDir n)) }"

definition utils_WriteFile :: "string \<Rightarrow> string \<Rightarrow> nat \<Rightarrow> ('z, goerr option) io" where
  "utils_WriteFile bytes outputFile m = do {
     e \<leftarrow> os_MkdirAll (path_Dir outputFile) m;
     (case e of
        Some e \<Rightarrow> State_Monad.return (Some (Wrap ''unable to create required directories'' e))
      | None \<Rightarrow> os_WriteFile outputFile bytes m) }"

definition CopyFile :: "string \<Rightarrow> string \<Rightarrow> nat \<Rightarrow> ('z, goerr option) io" where
  "CopyFile src dst m = do {
     r \<leftarrow> os_ReadFile src;
     (case r of
        Inl e \<Rightarrow> State_Monad.return (Some (Wrap ''failed to read'' e))
      | Inr b \<Rightarrow> do {
          e \<leftarrow> utils_WriteFile b dst m;
          (case e of
             Some e \<Rightarrow> State_Monad.return (Some (Wrap ''failed to write'' e))
           | None \<Rightarrow> do {
               e \<leftarrow> os_Chmod dst m;
               State_Monad.return (map_option (Wrap ''unable to set permissions on destination file'') e) }) }) }"

definition SaferWriteFile :: "string \<Rightarrow> string \<Rightarrow> nat \<Rightarrow> ('z, goerr option) io" where
  "SaferWriteFile bytes outputFile m = do {
     e \<leftarrow> os_MkdirAll (path_Dir outputFile) m;
     (case e of
        Some e \<Rightarrow> State_Monad.return (Some (Wrap ''unable to create required directories'' e))
      | None \<Rightarrow> do {
          t \<leftarrow> os_CreateTemp (path_Dir outputFile) (path_Base outputFile);
          (case t of
             Inl e \<Rightarrow> State_Monad.return (Some (Wrap ''unable to create temporary file'' e))
           | Inr tmp \<Rightarrow> do {
               e \<leftarrow> os_Chmod tmp m;
               (case e of
                  Some e \<Rightarrow> State_Monad.return (Some (Wrap ''unable to set permissions on temporary file'' e))
                | None \<Rightarrow> do {
                    e \<leftarrow> os_Close;
                    (case e of
                       Some e \<Rightarrow> State_Monad.return (Some (Wrap ''failed to close temporary file'' e))
                     | None \<Rightarrow> do {
                         e \<leftarrow> utils_WriteFile bytes tmp m;
                         (case e of
                            Some e \<Rightarrow> State_Monad.return (Some (Wrap ''unable to write to a temporary file'' e))
                          | None \<Rightarrow> os_Rename tmp outputFile) }) }) }) }) }"

text \<open>
  Opening a file for reading and reading from its start. The size of a directory is up to the file
  system; the sources compare it with the length of a comment only.
\<close>

definition os_OpenRead :: "string \<Rightarrow> ('z, string res) io" where
  "os_OpenRead p = syscall (\<lambda>um f. case lookup f p of Inl e \<Rightarrow> Inl e | Inr (q, n) \<Rightarrow> Inr (q, f))"

definition file_Read :: "string \<Rightarrow> nat \<Rightarrow> ('z, string res) io" where
  "file_Read q n = do {
     r \<leftarrow> syscall (\<lambda>um f. case map_of f q of
            Some (Reg c _ _) \<Rightarrow> Inr (take n c, f)
          | Some (Dir _ _) \<Rightarrow> Inl EISDIR
          | _ \<Rightarrow> Inl EINVAL);
     State_Monad.return (case r of
       Inl e \<Rightarrow> Inl e
     | Inr b \<Rightarrow> if b = [] \<and> 0 < n then Inl (Msg ''EOF'') else Inr b) }"

fun node_Size :: "node \<Rightarrow> nat" where
  "node_Size (Reg c _ _) = length c"
| "node_Size (Dir _ _) = 4096"
| "node_Size (Link t) = length t"
| "node_Size (Fifo _ _) = 0"

subsection \<open>Configuration files\<close>

text \<open>The marshaller and the parser of a file format for one type of configuration.\<close>

record 'c codec =
  dec :: "string \<Rightarrow> 'c option"
  enc :: "'c \<Rightarrow> string option"

text \<open>What the format promises: what was written reads back.\<close>

definition faithful :: "'c codec \<Rightarrow> bool" where
  "faithful cd \<longleftrightarrow> (\<forall>c s. enc cd c = Some s \<longrightarrow> dec cd s = Some c)"

definition readIniFile :: "'c codec \<Rightarrow> string \<Rightarrow> ('z, 'c res) io" where
  "readIniFile cd p = do {
     r \<leftarrow> os_ReadFile p;
     State_Monad.return
       (case (case r of Inl e \<Rightarrow> if os_IsNotExist e then Inr [] else Inl e | Inr s \<Rightarrow> Inr s) of
          Inl e \<Rightarrow> Inl (Flat ''failed to load ini file file'' e)
        | Inr s \<Rightarrow> (case dec cd s of None \<Rightarrow> Inl (Msg ''error parsing ini'') | Some c \<Rightarrow> Inr c)) }"

definition writeIniFile :: "'c codec \<Rightarrow> string \<Rightarrow> 'c \<Rightarrow> ('z, goerr option) io" where
  "writeIniFile cd p c =
     (case enc cd c of
        None \<Rightarrow> State_Monad.return (Some (Msg ''error creating .netdev config ini''))
      | Some s \<Rightarrow> do {
          e \<leftarrow> os_WriteFile p s 438;
          State_Monad.return (map_option (Flat ''error saving config'') e) })"

definition writeYamlFile :: "'c codec \<Rightarrow> string \<Rightarrow> 'c \<Rightarrow> ('z, goerr option) io" where
  "writeYamlFile cd p c =
     (case enc cd c of
        None \<Rightarrow> State_Monad.return (Some (Msg ''error marshalling yaml file''))
      | Some s \<Rightarrow> do {
          e \<leftarrow> os_WriteFile p s 384;
          State_Monad.return (map_option (Wrap ''error writing yaml file'') e) })"

definition readYamlFile :: "'c codec \<Rightarrow> string \<Rightarrow> ('z, 'c res) io" where
  "readYamlFile cd p = do {
     r \<leftarrow> os_ReadFile p;
     State_Monad.return (case r of
       Inl e \<Rightarrow> Inl (Wrap ''unable to read'' e)
     | Inr s \<Rightarrow> (case dec cd s of None \<Rightarrow> Inl (Msg ''yaml: cannot unmarshal'') | Some c \<Rightarrow> Inr c)) }"

subsection \<open>Lemmas on hardware addresses\<close>

lemma hex_val_digit [simp]: "n < 16 \<Longrightarrow> hex_val (hex_digit n) = Some n"
proof -
  assume "n < 16"
  then have "n \<in> set [0..<16]" by simp
  moreover have "list_all (\<lambda>n. hex_val (hex_digit n) = Some n) [0..<16]"
    by code_simp
  ultimately show ?thesis by (simp only: list_all_iff)
qed

lemma hex_digit_mod [simp]: "hex_digit (n mod 16) = hex_digit n"
  by (simp add: hex_digit_def)

lemma hex_val_digit' [simp]: "hex_val (hex_digit n) = Some (n mod 16)"
  using hex_val_digit [of "n mod 16"] by simp

lemma hex_digit_neq: "hex_val c = None \<Longrightarrow> hex_digit n \<noteq> c"
  by (metis hex_val_digit' option.distinct(1))

lemma hex_digit_colon [simp]: "hex_digit n \<noteq> CHR '':''" "CHR '':'' \<noteq> hex_digit n"
proof -
  have "hex_val (CHR '':'') = None" by code_simp
  then show "hex_digit n \<noteq> CHR '':''" "CHR '':'' \<noteq> hex_digit n"
    using hex_digit_neq by metis+
qed

lemma hex_groups_bytes:
  "\<forall>b \<in> set bs. b < 256 \<Longrightarrow> hex_groups 2 (map (\<lambda>b. [hex_digit (b div 16), hex_digit b]) bs) = Some bs"
  by (induction bs) auto

lemma Split_HardwareAddr:
  "bs \<noteq> [] \<Longrightarrow> Split (HardwareAddr_String bs) (CHR '':'') = map (\<lambda>b. [hex_digit (b div 16), hex_digit b]) bs"
  unfolding HardwareAddr_String_def by (rule Split_Join) auto

text \<open>An address of one of the three lengths parses back from its text.\<close>

lemma ParseMAC_String:
  assumes "length bs \<in> {6, 8, 20}" and "\<forall>b \<in> set bs. b < 256"
  shows "ParseMAC (HardwareAddr_String bs) = Some bs"
proof -
  from assms(1) obtain b c cs where bs: "bs = b # c # cs"
    by (cases bs; cases "tl bs") auto
  then have "2 < length (HardwareAddr_String bs)" "HardwareAddr_String bs ! 2 = CHR '':''"
    by (simp_all add: HardwareAddr_String_def Join_Cons)
  moreover have "hex_groups 2 (Split (HardwareAddr_String bs) (CHR '':'')) = Some bs"
  proof -
    from bs have "bs \<noteq> []" by simp
    from Split_HardwareAddr [OF this] show ?thesis
      by (simp only: hex_groups_bytes [OF assms(2)])
  qed
  ultimately show ?thesis
    using assms(1) by (simp only: ParseMAC_def simp_thms if_True option.case)
qed

lemma HardwareAddr_String_inj:
  assumes "HardwareAddr_String bs = HardwareAddr_String cs" and "length bs \<in> {6, 8, 20}" "length cs \<in> {6, 8, 20}"
    and "\<forall>b \<in> set bs. b < 256" and "\<forall>b \<in> set cs. b < 256"
  shows "bs = cs"
  by (metis ParseMAC_String assms option.inject)

subsection \<open>What the shared operations spare\<close>

lemma spare_net_Interfaces [frame_intros]: "keeps (sparing S M f0) net_Interfaces"
  by (simp add: keeps_def net_Interfaces_def sparing_def safe_def)

lemma spare_interfaceName [frame_intros]:
  "keeps (sparing S M f0) (GetInterfaceByMAC mac)"
  "keeps (sparing S M f0) (note_badMAC mac)"
  "keeps (sparing S M f0) (interfaceName ni)"
  unfolding interfaceName_def GetInterfaceByMAC_def note_badMAC_def
  by (intro frame_intros; simp)+

lemma spare_interfaceNames [frame_intros]:
  "keeps (sparing S M f0) (interfaceNames nics)"
  "keeps (sparing S M f0) (interfaceListsIpv4Ipv6 nics)"
  by (induction nics) (auto intro!: frame_intros)

lemma spare_osinfo [frame_intros]:
  "keeps (sparing S M f0) net_osinfo"
  "keeps (sparing S M f0) isUbuntu1804"
  "keeps (sparing S M f0) (shouldManageInterface b)"
  "keeps (sparing S M f0) (cliExists name)"
  "keeps (sparing S M f0) (FileExists p t)"
  unfolding isUbuntu1804_def net_osinfo_def shouldManageInterface_def cliExists_def FileExists_def
    osinfo_Get_def parseRelease_def
  by (intro frame_intros)+

lemma spare_read_config [frame_intros]:
  "keeps (sparing S M f0) (readIniFile cd p)"
  "keeps (sparing S M f0) (readYamlFile cd p)"
  unfolding readIniFile_def readYamlFile_def by (intro frame_intros)+

lemma spare_open_read [frame_intros]:
  "keeps (sparing S M f0) (os_OpenRead p)"
  "keeps (sparing S M f0) (file_Read q n)"
  unfolding os_OpenRead_def file_Read_def
  by (intro frame_intros spare_syscall; auto split: sum.splits option.splits node.splits prod.splits)+

lemma learns_OpenRead: "p \<in> S \<Longrightarrow> learns S M f0 (os_OpenRead p) (\<lambda>r. \<forall>q. r = Inr q \<longrightarrow> q = p)"
  using keepsD [OF spare_open_read(1), of S M f0] lookup_no_links [of S _ p]
  by (fastforce simp: learns_def sparing_def os_OpenRead_def syscall_def safe_def spared_def Let_def
      split: option.splits sum.splits prod.splits)

lemma learns_file_Read:
  assumes "p \<in> S" and "\<And>c m u. take n c = mark \<Longrightarrow> M p (Reg c m u)"
  shows "learns S M f0 (file_Read p n) (\<lambda>r. r = Inr mark \<longrightarrow> \<not> guarded S M f0 p)"
  unfolding learns_def
proof (intro allI impI conjI)
  fix w :: "'z world_scheme"
  assume w: "safe S M f0 w"
  then show "safe S M f0 (snd (run_state (file_Read p n) w))"
    using keepsD [OF spare_open_read(2)] unfolding sparing_def by blast
  assume "fst (run_state (file_Read p n) w) = Inr mark"
  then obtain c m u where "map_of (fs w) p = Some (Reg c m u)" and "take n c = mark"
    by (auto simp: file_Read_def syscall_def Let_def
        split: option.splits sum.splits prod.splits node.splits if_splits)
  moreover from this w assms(1) have "lookup (fs w) p = Inr (p, Reg c m u)"
    by (simp add: lookup_def resolve_no_link)
  ultimately show "\<not> guarded S M f0 p"
    using w assms spared_ReadFile [of S M f0 "fs w" p p c m u] by (simp add: safe_def)
qed

lemma keeps_unless_panic [frame_intros]:
  "keeps (sparing S M f0) m \<Longrightarrow> (\<And>x. keeps (sparing S M f0) (k x)) \<Longrightarrow> keeps (sparing S M f0) (unless_panic m k)"
  unfolding unless_panic_def by (intro frame_intros) (auto split: outcome.split intro: frame_intros)

text \<open>A configuration read from a file of \<^verbatim>\<open>S\<close> that has the mark: the file is not guarded.\<close>

lemma learns_readIniFile:
  assumes "p \<in> S" and "\<And>c m u. (\<exists>v. dec cd c = Some v \<and> mark v) \<Longrightarrow> M p (Reg c m u)"
    and "\<And>v. dec cd [] = Some v \<Longrightarrow> \<not> mark v"
  shows "learns S M f0 (readIniFile cd p) (\<lambda>r. \<forall>v. r = Inr v \<longrightarrow> mark v \<longrightarrow> \<not> guarded S M f0 p)"
  unfolding readIniFile_def
proof (rule learns_bind [OF learns_ReadFile [where mark = "\<lambda>c. \<exists>v. dec cd c = Some v \<and> mark v"]])
  fix r :: "string res"
  assume "\<forall>c. r = Inr c \<longrightarrow> (\<exists>v. dec cd c = Some v \<and> mark v) \<longrightarrow> \<not> guarded S M f0 p"
  then show "learns S M f0 (State_Monad.return
      (case (case r of Inl e \<Rightarrow> if os_IsNotExist e then Inr [] else Inl e | Inr s \<Rightarrow> Inr s) of
         Inl e \<Rightarrow> Inl (Flat ''failed to load ini file file'' e)
       | Inr s \<Rightarrow> (case dec cd s of None \<Rightarrow> Inl (Msg ''error parsing ini'') | Some c \<Rightarrow> Inr c)))
     (\<lambda>r. \<forall>v. r = Inr v \<longrightarrow> mark v \<longrightarrow> \<not> guarded S M f0 p)"
    using assms(3) by (intro learns_return) (auto split: sum.splits if_splits option.splits)
qed (use assms in auto)

subsection \<open>The contract of a manager\<close>

text \<open>A manager's files: those at some paths whose text it recognises as its own.\<close>

definition covers :: "string set \<Rightarrow> (string \<Rightarrow> node \<Rightarrow> bool) \<Rightarrow> string set \<Rightarrow> (string \<Rightarrow> bool) \<Rightarrow> bool" where
  "covers S M paths owns \<longleftrightarrow> paths \<subseteq> S \<and> (\<forall>p \<in> paths. \<forall>c m u. owns c \<longrightarrow> M p (Reg c m u))"

lemma covers_in: "covers S M paths owns \<Longrightarrow> p \<in> paths \<Longrightarrow> p \<in> S"
  by (auto simp: covers_def)

lemma covers_owns: "covers S M paths owns \<Longrightarrow> p \<in> paths \<Longrightarrow> owns c \<Longrightarrow> M p (Reg c m u)"
  unfolding covers_def by blast

text \<open>Paths whose every node is the agent's.\<close>

definition covers_all :: "string set \<Rightarrow> (string \<Rightarrow> node \<Rightarrow> bool) \<Rightarrow> string set \<Rightarrow> bool" where
  "covers_all S M paths \<longleftrightarrow> paths \<subseteq> S \<and> (\<forall>p \<in> paths. \<forall>n. M p n)"

lemma covers_all_free: "covers_all S M paths \<Longrightarrow> p \<in> paths \<Longrightarrow> \<not> guarded S M f0 p"
  unfolding covers_all_def guarded_def by blast

text \<open>
  What the manager of managers relies on: finding out whether a manager is in charge and rolling it
  back leave alone every file outside \<^verbatim>\<open>S\<close> and every file of \<^verbatim>\<open>S\<close> that is not the agent's.
\<close>

locale sparing_service =
  fixes svc :: "'z service" and S :: "string set" and M :: "string \<Rightarrow> node \<Rightarrow> bool"
  assumes spares_IsManaging: "keeps (sparing S M f0) (svc_IsManaging svc iface)"
    and spares_Rollback: "keeps (sparing S M f0) (svc_Rollback svc nics)"
    and spares_RollbackNics: "keeps (sparing S M f0) (svc_RollbackNics svc nics)"
begin

lemma Rollback_spares_file:
  assumes "cmds_spare S M (exec w)" and "no_links S (fs w)" and "guarded S M (fs w) p"
  shows "map_of (fs (snd (run_state (svc_Rollback svc nics) w))) p = map_of (fs w) p"
  by (rule sparedD [OF spares_Rollback assms])

end

subsection \<open>Properties\<close>

lemma find_first_match:
  assumes "i \<in> set ifs" and "\<And>j. j \<in> set ifs \<Longrightarrow> P j \<longleftrightarrow> j = i"
  shows "find P ifs = Some i"
  using assms by (induction ifs) auto

text \<open>
  an interface is found by the text of its own hardware address, if no other interface has the same
  address and every address is one of 6, 8 or 20 octets.
\<close>

theorem GetInterfaceByMAC_self:
  assumes "netifs w (tick w) = Inr ifs" and "i \<in> set ifs"
    and "\<forall>j \<in> set ifs. length (HardwareAddr j) \<in> {6, 8, 20} \<and> (\<forall>b \<in> set (HardwareAddr j). b < 256)"
    and "\<forall>j \<in> set ifs. HardwareAddr j = HardwareAddr i \<longrightarrow> j = i"
  shows "fst (run_state (GetInterfaceByMAC (HardwareAddr_String (HardwareAddr i))) w) = Inr i"
proof -
  have mac: "ParseMAC (HardwareAddr_String (HardwareAddr i)) = Some (HardwareAddr i)"
    using bspec [OF assms(3,2)] by (intro ParseMAC_String) (rule conjunct1 conjunct2, assumption)+
  have "find (\<lambda>j. HardwareAddr_String (HardwareAddr j) = HardwareAddr_String (HardwareAddr i)) ifs = Some i"
  proof (rule find_first_match [OF assms(2)])
    fix j assume j: "j \<in> set ifs"
    show "HardwareAddr_String (HardwareAddr j) = HardwareAddr_String (HardwareAddr i) \<longleftrightarrow> j = i"
    proof
      assume eq: "HardwareAddr_String (HardwareAddr j) = HardwareAddr_String (HardwareAddr i)"
      have "HardwareAddr j = HardwareAddr i"
        using bspec [OF assms(3,2)] bspec [OF assms(3) j]
        by (intro HardwareAddr_String_inj [OF eq]) (rule conjunct1 conjunct2, assumption)+
      with assms(4) j show "j = i" by blast
    qed simp
  qed
  with mac assms(1) show ?thesis
    by (simp add: GetInterfaceByMAC_def net_Interfaces_def)
qed

theorem GetInterfaceByMAC_self_witness:
  "fst (run_state (GetInterfaceByMAC (HardwareAddr_String [66, 1, 10, 128, 0, 2]))
     (calm_net [] [\<lparr>if_Name = ''lo0'', HardwareAddr = [66, 1, 10, 128, 0, 9], if_MTU = 1460\<rparr>,
                   \<lparr>if_Name = ''ens4'', HardwareAddr = [66, 1, 10, 128, 0, 2], if_MTU = 1460\<rparr>])) =
   Inr \<lparr>if_Name = ''ens4'', HardwareAddr = [66, 1, 10, 128, 0, 2], if_MTU = 1460\<rparr>"
proof -
  let ?i = "\<lparr>if_Name = ''ens4'', HardwareAddr = [66, 1, 10, 128, 0, 2], if_MTU = 1460\<rparr>"
  let ?ifs = "[\<lparr>if_Name = ''lo0'', HardwareAddr = [66, 1, 10, 128, 0, 9], if_MTU = 1460\<rparr>, ?i]"
  have "fst (run_state (GetInterfaceByMAC (HardwareAddr_String (HardwareAddr ?i))) (calm_net [] ?ifs)) = Inr ?i"
    by (rule GetInterfaceByMAC_self [where ifs = ?ifs]) (simp_all only: calm_net_simps, simp_all)
  then show ?thesis by (simp only: NetIf.select_convs)
qed

end
