(* ===== verification/Wicked.thy ===== *)
theory Wicked
  imports NetCommon
begin

text \<open>
  The manager for wicked (\<^verbatim>\<open>network/manager/wicked_linux.go\<close>). Its configuration directory is the one
  \<^verbatim>\<open>manager_linux.go\<close> gives it. The files it may remove are \<^verbatim>\<open>ifcfg-\<close> files of that directory that start
  with the agent's comment.
\<close>

definition wicked_configDir :: string where
  "wicked_configDir = ''/etc/sysconfig/network''"

definition defaultWickedCommand :: string where
  "defaultWickedCommand = ''/usr/sbin/wicked''"

definition wicked_ifcfgFilePath :: "string \<Rightarrow> string" where
  "wicked_ifcfgFilePath iface = path_Join [wicked_configDir, ''ifcfg-'' @ iface]"

definition wicked_Configure :: "Sections \<Rightarrow> ('z, unit) net_io" where
  "wicked_Configure cfg = do {
     r \<leftarrow> exec_LookPath ''wicked'';
     modify (\<lambda>w. w\<lparr>wickedCommand := (case r of Inr p \<Rightarrow> p | Inl _ \<Rightarrow> defaultWickedCommand)\<rparr>) }"

definition wicked_IsManaging :: "string \<Rightarrow> ('z, (bool \<times> goerr option) outcome) net_io" where
  "wicked_IsManaging iface = do {
     res \<leftarrow> WithOutput [''systemctl'', ''status'', ''network.service''];
     (if Contains (StdOut res) ''wicked.service'' then State_Monad.return (Ret (True, None))
      else do {
        res \<leftarrow> WithOutput [''systemctl'', ''is-active'', ''wicked.service''];
        (if ExitCode res \<noteq> 0 then State_Monad.return (Ret (False, None))
         else do {
           cmd \<leftarrow> gets wickedCommand;
           res \<leftarrow> WithOutput [cmd, ''ifstatus'', iface, ''--brief''];
           State_Monad.return
             (if ExitCode res \<noteq> 0
              then Ret (False, Some (Msg (''failed to check status of wicked configuration: '' @ StdErr res)))
              else case Fields (StdOut res) of
                     _ # f1 # _ \<Rightarrow> Ret (f1 = ''up'' \<or> f1 = ''setup-in-progress'', None)
                   | _ \<Rightarrow> Panic ''index out of range'') }) }) }"

definition wicked_ifcfg :: "int \<Rightarrow> string" where
  "wicked_ifcfg priority =
     Join [net_googleComment, ''STARTMODE=hotplug'', ''BOOTPROTO=dhcp'',
           ''DHCLIENT_ROUTE_PRIORITY='' @ show_int priority] ''\<newline>''"

text \<open>One interface; the loop's variables are the next priority and the interfaces changed so far.\<close>

definition wicked_write_step ::
  "nat \<times> string \<Rightarrow> int \<times> string list \<Rightarrow> ('z, goerr + int \<times> string list) net_io" where
  "wicked_write_step x s =
     (case (x, s) of ((i, iface), (priority, changed)) \<Rightarrow> do {
        b \<leftarrow> shouldManageInterface (i = 0);
        (if \<not> b \<or> isInvalid iface then State_Monad.return (Inr s)
         else do {
           e \<leftarrow> FileExists (wicked_ifcfgFilePath iface) TypeFile;
           (if e then State_Monad.return (Inr s)
            else do {
              r \<leftarrow> os_WriteFile (wicked_ifcfgFilePath iface) (wicked_ifcfg priority) 420;
              State_Monad.return (case r of
                Some e \<Rightarrow> Inl (Flat (''error writing config file for '' @ iface) e)
              | None \<Rightarrow> Inr (priority + 100, changed @ [iface])) }) }) })"

definition wicked_writeEthernetConfigs :: "string list \<Rightarrow> ('z, string list res) net_io" where
  "wicked_writeEthernetConfigs ifaces = do {
     r \<leftarrow> for_range wicked_write_step (enumerate 0 ifaces) (10100, []);
     State_Monad.return (case r of Inl e \<Rightarrow> Inl e | Inr (priority, changed) \<Rightarrow> Inr changed) }"

definition wicked_SetupEthernetInterface :: "Sections \<Rightarrow> Interfaces \<Rightarrow> ('z, goerr option outcome) net_io" where
  "wicked_SetupEthernetInterface cfg nics = do {
     ifaces \<leftarrow> interfaceNames (EthernetInterfaces nics);
     r \<leftarrow> wicked_writeEthernetConfigs ifaces;
     (case r of
        Inl e \<Rightarrow> State_Monad.return (Ret (Some (Flat ''error writing wicked configurations'' e)))
      | Inr changed \<Rightarrow>
          if changed = [] then State_Monad.return (Ret None)
          else do {
            cmd \<leftarrow> gets wickedCommand;
            e \<leftarrow> Quiet (cmd # ''ifreload'' # changed);
            State_Monad.return (Ret (map_option (Flat ''error enabling interfaces'') e)) }) }"

text \<open>Reading as many bytes as the comment has.\<close>

definition wicked_read_comment :: "string \<Rightarrow> ('z, string res) net_io" where
  "wicked_read_comment p = do {
     r \<leftarrow> os_OpenRead p;
     (case r of
        Inl e \<Rightarrow> State_Monad.return (Inl (Flat ''failed to open wicked ifcfg file'' e))
      | Inr q \<Rightarrow> do {
          b \<leftarrow> file_Read q (length net_googleComment);
          State_Monad.return (case b of
            Inl e \<Rightarrow> Inl (Flat ''failed to read google comment from wicked ifcfg file'' e)
          | Inr buffer \<Rightarrow>
              if length buffer \<noteq> length net_googleComment
              then Inl (Msg ''failed to read comment section'')
              else Inr buffer) }) }"

definition wicked_removeInterface :: "string \<Rightarrow> ('z, goerr option) net_io" where
  "wicked_removeInterface iface = do {
     let configFilePath = wicked_ifcfgFilePath iface;
     s \<leftarrow> os_Stat configFilePath;
     (case s of
        Inl e \<Rightarrow> State_Monad.return
          (if os_IsNotExist e then None else Some (Flat ''failed to stat wicked ifcfg file'' e))
      | Inr info \<Rightarrow>
          if node_Size info < length net_googleComment then State_Monad.return None
          else do {
            b \<leftarrow> wicked_read_comment configFilePath;
            (case b of
               Inl e \<Rightarrow> State_Monad.return (Some e)
             | Inr buffer \<Rightarrow>
                 if buffer \<noteq> net_googleComment then State_Monad.return None
                 else do {
                   r \<leftarrow> os_Remove configFilePath;
                   (case r of
                      Some e \<Rightarrow> State_Monad.return (Some (Flat (''error deleting config file for '' @ iface) e))
                    | None \<Rightarrow> do {
                        cmd \<leftarrow> gets wickedCommand;
                        q \<leftarrow> Quiet [cmd, ''ifreload'', iface];
                        State_Monad.return (map_option (Flat (''error reloading config for '' @ iface)) q) }) }) }) }"

text \<open>
  The group \<^verbatim>\<open>interface\<close> of the leftmost match of \<^verbatim>\<open>(?P<prefix>ifcfg)-(?P<interface>gcp\..*\..*)\<close>: the rest
  of the line after the first \<^verbatim>\<open>ifcfg-\<close> that \<^verbatim>\<open>gcp.\<close> and another point follow.
\<close>

fun wicked_vlan_match :: "string \<Rightarrow> string option" where
  "wicked_vlan_match [] = None"
| "wicked_vlan_match (c # s) =
     (case strip_prefix ''ifcfg-gcp.'' (c # s) of
        Some r \<Rightarrow>
          let l = takeWhile (\<lambda>x. x \<noteq> CHR 0x0A) r in
          if CHR ''.'' \<in> set l then Some (''gcp.'' @ l) else wicked_vlan_match s
      | None \<Rightarrow> wicked_vlan_match s)"

definition wicked_cleanup_step :: "string list \<Rightarrow> string \<times> node \<Rightarrow> ('z, goerr option) net_io" where
  "wicked_cleanup_step keepMe file =
     (if node_IsDir (snd file) then State_Monad.return None
      else case wicked_vlan_match (fst file) of
        None \<Rightarrow> State_Monad.return None
      | Some iface \<Rightarrow>
          if slice_contains keepMe iface then State_Monad.return None
          else do {
            e \<leftarrow> wicked_removeInterface iface;
            State_Monad.return (map_option (Flat ''failed to remove vlan interface'') e) })"

definition wicked_cleanupVlanInterfaces :: "string list \<Rightarrow> ('z, goerr option) net_io" where
  "wicked_cleanupVlanInterfaces keepMe = do {
     r \<leftarrow> os_ReadDir wicked_configDir;
     (case r of
        Inl e \<Rightarrow> State_Monad.return (Some (Flat (''failed to read content from '' @ wicked_configDir) e))
      | Inr files \<Rightarrow> for_err (wicked_cleanup_step keepMe) files) }"

definition wicked_vlan_ifcfg :: "NetVlan \<Rightarrow> int \<Rightarrow> string" where
  "wicked_vlan_ifcfg v priority =
     Join [net_googleComment, ''BOOTPROTO=dhcp'', ''VLAN=yes'', ''ETHTOOL_OPTIONS=reorder_hdr off'',
           ''DEVICE='' @ vlan_name v, ''MTU='' @ show_int (vlan_MTU v), ''LLADDR='' @ vlan_Mac v,
           ''ETHERDEVICE='' @ ParentInterfaceID v, ''VLAN_ID='' @ show_int (Vlan v),
           ''DHCLIENT_ROUTE_PRIORITY='' @ show_int priority] ''\<newline>''"

definition wicked_vlan_step ::
  "string \<times> NetVlan \<Rightarrow> int \<times> string list \<Rightarrow> ('z, goerr + int \<times> string list) net_io" where
  "wicked_vlan_step x s =
     (case s of (priority, keepMe) \<Rightarrow>
        let v = snd x; iface = vlan_name v in do {
          r \<leftarrow> os_Create (wicked_ifcfgFilePath iface);
          (case r of
             Inl e \<Rightarrow> State_Monad.return (Inl (Flat ''failed to create vlan's ifcfg file'' e))
           | Inr ifcfg \<Rightarrow> do {
               e \<leftarrow> os_Write ifcfg (wicked_vlan_ifcfg v priority);
               (case e of
                  Some e \<Rightarrow> State_Monad.return (Inl (Flat (''error writing vlan's icfg file for '' @ iface) e))
                | None \<Rightarrow> do {
                    cmd \<leftarrow> gets wickedCommand;
                    q \<leftarrow> Quiet [cmd, ''ifup'', iface];
                    State_Monad.return (case q of
                      Some e \<Rightarrow> Inl (Flat ''error enabling vlan's interfaces'' e)
                    | None \<Rightarrow> Inr (priority + 100, keepMe @ [iface])) }) }) })"

definition wicked_SetupVlanInterface :: "Sections \<Rightarrow> Interfaces \<Rightarrow> ('z, goerr option outcome) net_io" where
  "wicked_SetupVlanInterface cfg nics = do {
     vs \<leftarrow> range_map (VlanInterfaces nics);
     r \<leftarrow> for_range wicked_vlan_step vs (20200, []);
     (case r of
        Inl e \<Rightarrow> State_Monad.return (Ret (Some e))
      | Inr (priority, keepMe) \<Rightarrow> do {
          e \<leftarrow> wicked_cleanupVlanInterfaces keepMe;
          State_Monad.return (Ret (map_option (Flat ''failed to cleanup vlan interfaces'') e)) }) }"

text \<open>The slice expression \<^verbatim>\<open>ifaces[1:]\<close> panics on an empty slice.\<close>

definition wicked_RollbackNics :: "Interfaces \<Rightarrow> ('z, goerr option outcome) net_io" where
  "wicked_RollbackNics nics = do {
     ifaces \<leftarrow> interfaceNames (EthernetInterfaces nics);
     (case ifaces of
        [] \<Rightarrow> State_Monad.return (Panic ''slice bounds out of range'')
      | _ # rest \<Rightarrow> do {
          for_all (\<lambda>iface. do { _ \<leftarrow> wicked_removeInterface iface; State_Monad.return () }) rest;
          State_Monad.return (Ret None) }) }"

definition wicked_Rollback :: "Interfaces \<Rightarrow> ('z, goerr option outcome) net_io" where
  "wicked_Rollback nics = unless_panic (wicked_RollbackNics nics) (\<lambda>e.
     case e of
       Some e \<Rightarrow> State_Monad.return (Ret (Some (Wrap ''failed to rollback wicked ethernet interfaces'' e)))
     | None \<Rightarrow> do {
         vs \<leftarrow> range_map (VlanInterfaces nics);
         e \<leftarrow> for_err (\<lambda>x. wicked_removeInterface
                 (ParentInterfaceID (snd x) @ ''.'' @ show_int (Vlan (snd x)))) vs;
         State_Monad.return
           (Ret (map_option (Flat ''failed to rollback wicked vlan ethernet interface'') e)) })"

definition wicked_service :: "'z service" where
  "wicked_service = \<lparr>svc_Name = ''wicked'', svc_Configure = wicked_Configure,
     svc_IsManaging = wicked_IsManaging, svc_SetupEthernetInterface = wicked_SetupEthernetInterface,
     svc_SetupVlanInterface = wicked_SetupVlanInterface, svc_Rollback = wicked_Rollback,
     svc_RollbackNics = wicked_RollbackNics\<rparr>"

subsection \<open>What it may remove\<close>

definition wicked_paths :: "string set" where
  "wicked_paths = range wicked_ifcfgFilePath"

definition wicked_owns :: "string \<Rightarrow> bool" where
  "wicked_owns c \<longleftrightarrow> HasPrefix c net_googleComment"

lemma spare_wicked_removeInterface:
  assumes cov: "covers S M wicked_paths wicked_owns"
  shows "keeps (sparing S M f0) (wicked_removeInterface iface)"
proof -
  let ?p = "wicked_ifcfgFilePath iface"
  have p: "?p \<in> wicked_paths" by (simp add: wicked_paths_def)
  note pS = covers_in [OF cov p]
  have "M ?p (Reg c m u)" if "take (length net_googleComment) c = net_googleComment" for c m u
    using covers_owns [OF cov p] that unfolding wicked_owns_def by (metis HasPrefix_append append_take_drop_id)
  note learn_read = learns_file_Read
    [where M = M and p = ?p and n = "length net_googleComment" and mark = net_googleComment and ?f0.0 = f0, OF pS this]
  have "learns S M f0 (wicked_read_comment ?p) (\<lambda>r. r = Inr net_googleComment \<longrightarrow> \<not> guarded S M f0 ?p)"
    unfolding wicked_read_comment_def
  proof (rule learns_bind [OF learns_OpenRead [OF pS]])
    fix r :: "string res"
    assume r: "\<forall>q. r = Inr q \<longrightarrow> q = ?p"
    show "learns S M f0 (case r of
        Inl e \<Rightarrow> State_Monad.return (Inl (Flat ''failed to open wicked ifcfg file'' e))
      | Inr q \<Rightarrow> do {
          b \<leftarrow> file_Read q (length net_googleComment);
          State_Monad.return (case b of
            Inl e \<Rightarrow> Inl (Flat ''failed to read google comment from wicked ifcfg file'' e)
          | Inr buffer \<Rightarrow>
              if length buffer \<noteq> length net_googleComment
              then Inl (Msg ''failed to read comment section'')
              else Inr buffer) }) (\<lambda>r. r = Inr net_googleComment \<longrightarrow> \<not> guarded S M f0 ?p)"
      using r
      by (cases r) (auto intro!: learns_return learns_bind [OF learn_read] split: sum.splits if_splits)
  qed
  note learn = learns_bind_keeps [OF this]
  show ?thesis
    unfolding wicked_removeInterface_def Let_def
    by (intro learn frame_intros) auto
qed

lemma spare_wicked:
  assumes cov: "covers S M wicked_paths wicked_owns"
  shows "sparing_service wicked_service S M"
proof -
  note remove = spare_wicked_removeInterface [OF assms]
  have nics: "keeps (sparing S M f0) (wicked_RollbackNics nics)" for f0 nics
    unfolding wicked_RollbackNics_def by (intro frame_intros remove)
  show ?thesis
    by unfold_locales
       (simp_all add: wicked_service_def wicked_Rollback_def wicked_IsManaging_def nics,
        (intro frame_intros nics remove)+)
qed

subsection \<open>Properties\<close>

lemma fs_interfaceName [simp]: "fs (snd (run_state (interfaceName ni) w)) = fs w"
  by (auto simp: interfaceName_def GetInterfaceByMAC_def net_Interfaces_def note_badMAC_def
      split: option.splits sum.splits)

text \<open>
  given one interface only, the rollback of regular interfaces succeeds and removes nothing: the
  first interface is always passed over. This is how it is called to clear what is left over for the
  primary interface.
\<close>

theorem wicked_RollbackNics_primary:
  "\<exists>w'. run_state (wicked_RollbackNics \<lparr>EthernetInterfaces = [ni], VlanInterfaces = vs\<rparr>) w = (Ret None, w') \<and> fs w' = fs w"
  using fs_interfaceName [of ni w]
  by (cases "run_state (interfaceName ni) w") (simp add: wicked_RollbackNics_def)

end
