(* ===== verification/NetworkMgr.thy ===== *)
theory NetworkMgr
  imports NetCommon
begin

text \<open>
  The manager for NetworkManager (\<^verbatim>\<open>network/manager/network_manager_linux.go\<close>). The keyfile format is a
  codec parameter. It removes the connection files of its own interfaces that say they are managed by
  the agent.
\<close>

record nmConnectionSection =
  nm_InterfaceName :: string
  nm_ID :: string
  ConnType :: string

record nmIPv4Section =
  nm4_Method :: string

record nmIPv6Section =
  nm6_Method :: string
  nm6_MTU :: int

record nmVlan =
  nmv_Flags :: int
  nmv_ID :: int
  nmv_Parent :: string

record nmEthernet =
  OverrideMacAddress :: string
  nme_MTU :: int

record nmConfig =
  nm_GuestAgent :: guestAgentSection
  nm_Connection :: nmConnectionSection
  nm_Ipv4 :: nmIPv4Section
  nm_Ipv6 :: nmIPv6Section
  nm_Vlan :: "nmVlan option"
  nm_Ethernet :: "nmEthernet option"

definition nm_configDir :: string where
  "nm_configDir = ''/etc/NetworkManager/system-connections''"

definition nm_networkScriptsDir :: string where
  "nm_networkScriptsDir = ''/etc/sysconfig/network-scripts''"

definition networkManagerConfigFilePath :: "string \<Rightarrow> string" where
  "networkManagerConfigFilePath iface =
     path_Join [nm_configDir, ''google-guest-agent-'' @ iface @ ''.nmconnection'']"

definition nm_ifcfgFilePath :: "string \<Rightarrow> string" where
  "nm_ifcfgFilePath iface = path_Join [nm_networkScriptsDir, ''ifcfg-'' @ iface]"

definition nm_Configure :: "Sections \<Rightarrow> ('z, unit) net_io" where
  "nm_Configure cfg = State_Monad.return ()"

text \<open>The first line that starts with the interface's name decides.\<close>

fun nm_device_state :: "string \<Rightarrow> string list \<Rightarrow> bool outcome" where
  "nm_device_state iface [] = Ret False"
| "nm_device_state iface (line # lines) =
     (if HasPrefix line iface then
        (case Split line (CHR '':'') of
           _ # f1 # _ \<Rightarrow> Ret (f1 = ''connected'')
         | _ \<Rightarrow> Panic ''index out of range'')
      else nm_device_state iface lines)"

definition nm_IsManaging :: "string \<Rightarrow> ('z, (bool \<times> goerr option) outcome) net_io" where
  "nm_IsManaging iface = do {
     e \<leftarrow> Quiet [''systemctl'', ''is-active'', ''NetworkManager.service''];
     (if e \<noteq> None then State_Monad.return (Ret (False, None))
      else do {
        x \<leftarrow> cliExists ''nmcli'';
        (if \<not> fst x then State_Monad.return (Ret (False, snd x))
         else do {
           res \<leftarrow> WithOutput [''nmcli'', ''-t'', ''-f'', ''DEVICE,STATE'', ''dev'', ''status''];
           State_Monad.return
             (if ExitCode res \<noteq> 0
              then Ret (False, Some (Msg (''error checking status of devices on NetworkManager: '' @ StdErr res)))
              else case nm_device_state iface (Split (StdOut res) (CHR 0x0A)) of
                     Ret b \<Rightarrow> Ret (b, None)
                   | Panic s \<Rightarrow> Panic s) }) }) }"

definition nm_connID :: "string \<Rightarrow> string" where
  "nm_connID iface = ''google-guest-agent-'' @ iface"

definition nm_ethernet_config :: "string \<Rightarrow> nmConfig" where
  "nm_ethernet_config iface = \<lparr>nm_GuestAgent = \<lparr>ManagedByGuestAgent = True\<rparr>,
     nm_Connection = \<lparr>nm_InterfaceName = iface, nm_ID = nm_connID iface, ConnType = ''ethernet''\<rparr>,
     nm_Ipv4 = \<lparr>nm4_Method = ''auto''\<rparr>, nm_Ipv6 = \<lparr>nm6_Method = ''auto'', nm6_MTU = 0\<rparr>,
     nm_Vlan = None, nm_Ethernet = None\<rparr>"

definition nm_vlan_config :: "NetVlan \<Rightarrow> nmConfig" where
  "nm_vlan_config v = \<lparr>nm_GuestAgent = \<lparr>ManagedByGuestAgent = True\<rparr>,
     nm_Connection = \<lparr>nm_InterfaceName = vlan_name v, nm_ID = nm_connID (vlan_name v), ConnType = ''vlan''\<rparr>,
     nm_Ipv4 = \<lparr>nm4_Method = ''auto''\<rparr>, nm_Ipv6 = \<lparr>nm6_Method = ''auto'', nm6_MTU = vlan_MTU v\<rparr>,
     nm_Vlan = Some \<lparr>nmv_Flags = 1, nmv_ID = Vlan v, nmv_Parent = ParentInterfaceID v\<rparr>,
     nm_Ethernet = Some \<lparr>OverrideMacAddress = vlan_Mac v, nme_MTU = vlan_MTU v\<rparr>\<rparr>"

definition nm_oslogin_comment :: string where
  "nm_oslogin_comment = ''# Added by Google Compute Engine OS Login.''"

text \<open>The file an older agent may have left.\<close>

definition nm_remove_ifcfg :: "string \<Rightarrow> ('z, goerr option) net_io" where
  "nm_remove_ifcfg iface = do {
     r \<leftarrow> os_ReadFile (nm_ifcfgFilePath iface);
     (case (case r of Inl e \<Rightarrow> if os_IsNotExist e then Inr [] else Inl e | Inr c \<Rightarrow> Inr c) of
        Inl e \<Rightarrow> State_Monad.return (Some (Flat ''failed to read ifcfg file'' e))
      | Inr contents \<Rightarrow>
          if Contains contents nm_oslogin_comment then do {
            e \<leftarrow> os_Remove (nm_ifcfgFilePath iface);
            State_Monad.return (map_option (Flat ''failed to remove previously managed ifcfg file'') e) }
          else State_Monad.return None) }"

definition nm_write_step ::
  "nmConfig codec \<Rightarrow> nat \<times> string \<Rightarrow> string list \<Rightarrow> ('z, goerr + string list) net_io" where
  "nm_write_step cd x result =
     (case x of (i, iface) \<Rightarrow> do {
        b \<leftarrow> shouldManageInterface (i = 0);
        (if \<not> b \<or> isInvalid iface then State_Monad.return (Inr result)
         else do {
           e \<leftarrow> writeIniFile cd (networkManagerConfigFilePath iface) (nm_ethernet_config iface);
           (case e of
              Some e \<Rightarrow> State_Monad.return (Inl (Flat (''error saving connection config for '' @ iface) e))
            | None \<Rightarrow> do {
                e \<leftarrow> os_Chmod (networkManagerConfigFilePath iface) 384;
                (case e of
                   Some e \<Rightarrow> State_Monad.return (Inl (Flat (''error updating permissions for '' @ iface) e))
                 | None \<Rightarrow> do {
                     e \<leftarrow> nm_remove_ifcfg iface;
                     State_Monad.return (case e of
                       Some e \<Rightarrow> Inl e
                     | None \<Rightarrow> Inr (result @ [nm_connID iface])) }) }) }) })"

definition writeNetworkManagerConfigs :: "nmConfig codec \<Rightarrow> string list \<Rightarrow> ('z, string list res) net_io" where
  "writeNetworkManagerConfigs cd ifaces = for_range (nm_write_step cd) (enumerate 0 ifaces) []"

definition nm_SetupEthernetInterface ::
  "nmConfig codec \<Rightarrow> Sections \<Rightarrow> Interfaces \<Rightarrow> ('z, goerr option outcome) net_io" where
  "nm_SetupEthernetInterface cd cfg nics = do {
     ifaces \<leftarrow> interfaceNames (EthernetInterfaces nics);
     r \<leftarrow> writeNetworkManagerConfigs cd ifaces;
     (case r of
        Inl e \<Rightarrow> State_Monad.return (Ret (Some (Flat ''error writing NetworkManager connection configs'' e)))
      | Inr interfaces \<Rightarrow> do {
          e \<leftarrow> Quiet [''nmcli'', ''conn'', ''reload''];
          (case e of
             Some e \<Rightarrow> State_Monad.return (Ret (Some (Flat ''error reloading NetworkManager config cache'' e)))
           | None \<Rightarrow> do {
               e \<leftarrow> for_err (\<lambda>ifname. do {
                      e \<leftarrow> Quiet [''nmcli'', ''conn'', ''up'', ''id'', ifname];
                      State_Monad.return (map_option (Flat (''error enabling connection '' @ ifname)) e) }) interfaces;
               State_Monad.return (Ret e) }) }) }"

definition nm_vlan_step :: "nmConfig codec \<Rightarrow> string \<times> NetVlan \<Rightarrow> ('z, goerr option) net_io" where
  "nm_vlan_step cd x = do {
     let cfgFile = networkManagerConfigFilePath (vlan_name (snd x));
     e \<leftarrow> writeIniFile cd cfgFile (nm_vlan_config (snd x));
     (case e of
        Some e \<Rightarrow> State_Monad.return (Some (Flat ''error writing vlan config'' e))
      | None \<Rightarrow> do {
          e \<leftarrow> os_Chmod cfgFile 384;
          State_Monad.return (map_option (Wrap ''error updating permissions'') e) }) }"

definition writeVLANConfigs :: "nmConfig codec \<Rightarrow> Interfaces \<Rightarrow> ('z, goerr option) net_io" where
  "writeVLANConfigs cd nics = do {
     vs \<leftarrow> range_map (VlanInterfaces nics);
     for_err (nm_vlan_step cd) vs }"

definition nm_SetupVlanInterface ::
  "nmConfig codec \<Rightarrow> Sections \<Rightarrow> Interfaces \<Rightarrow> ('z, goerr option outcome) net_io" where
  "nm_SetupVlanInterface cd cfg nics =
     (if VlanInterfaces nics = [] then State_Monad.return (Ret None)
      else do {
        e \<leftarrow> writeVLANConfigs cd nics;
        (case e of
           Some e \<Rightarrow> State_Monad.return (Ret (Some (Wrap ''error writing NetworkManager VLAN configs'' e)))
         | None \<Rightarrow> do {
             e \<leftarrow> Quiet [''nmcli'', ''conn'', ''reload''];
             State_Monad.return (Ret (map_option
               (Flat ''error reloading NetworkManager config cache for VLAN interfaces'') e)) }) })"

definition nm_removeInterface :: "nmConfig codec \<Rightarrow> string \<Rightarrow> ('z, bool \<times> goerr option) net_io" where
  "nm_removeInterface cd iface = do {
     let configFilePath = networkManagerConfigFilePath iface;
     s \<leftarrow> os_Stat configFilePath;
     (case s of
        Inl e \<Rightarrow> State_Monad.return
          (False, if os_IsNotExist e then None else Some (Wrap ''unable to remove interface, stat failed'' e))
      | Inr _ \<Rightarrow> do {
          r \<leftarrow> readIniFile cd configFilePath;
          (case r of
             Inl e \<Rightarrow> State_Monad.return (False, Some (Flat ''failed to load NetworkManager file'' e))
           | Inr cfg \<Rightarrow>
               if ManagedByGuestAgent (nm_GuestAgent cfg) then do {
                 e \<leftarrow> os_Remove configFilePath;
                 State_Monad.return (case e of
                   Some e \<Rightarrow> (False, Some (Flat (''error deleting config file for '' @ iface) e))
                 | None \<Rightarrow> (True, None)) }
               else State_Monad.return (True, None)) }) }"

text \<open>The rollback of the regular interfaces tells whether the first of them was removed.\<close>

fun nm_rollback_nics :: "nmConfig codec \<Rightarrow> (nat \<times> string) list \<Rightarrow> bool \<Rightarrow> ('z, bool) net_io" where
  "nm_rollback_nics cd [] b = State_Monad.return b"
| "nm_rollback_nics cd ((i, iface) # xs) b = do {
     r \<leftarrow> nm_removeInterface cd iface;
     nm_rollback_nics cd xs (b \<or> (i = 0 \<and> fst r)) }"

definition nm_rollbackConfigs :: "nmConfig codec \<Rightarrow> Interfaces \<Rightarrow> bool \<Rightarrow> ('z, goerr option) net_io" where
  "nm_rollbackConfigs cd nics removeVlan = do {
     ifaces \<leftarrow> interfaceNames (EthernetInterfaces nics);
     reconnectPrimaryNic \<leftarrow> nm_rollback_nics cd (enumerate 0 ifaces) False;
     (if removeVlan then do {
        vs \<leftarrow> range_map (VlanInterfaces nics);
        for_all (\<lambda>x. do { _ \<leftarrow> nm_removeInterface cd (vlan_name (snd x)); State_Monad.return () }) vs }
      else State_Monad.return ());
     e \<leftarrow> Quiet [''nmcli'', ''conn'', ''reload''];
     (case e of
        Some e \<Rightarrow> State_Monad.return (Some (Flat ''error reloading NetworkManager config cache'' e))
      | None \<Rightarrow>
          if reconnectPrimaryNic then do {
            e \<leftarrow> Quiet [''nmcli'', ''device'', ''connect'', hd ifaces];
            State_Monad.return (map_option (Flat ''error connecting NetworkManager's managed interface'') e) }
          else State_Monad.return None) }"

definition nm_Rollback :: "nmConfig codec \<Rightarrow> Interfaces \<Rightarrow> ('z, goerr option outcome) net_io" where
  "nm_Rollback cd nics = do { e \<leftarrow> nm_rollbackConfigs cd nics True; State_Monad.return (Ret e) }"

definition nm_RollbackNics :: "nmConfig codec \<Rightarrow> Interfaces \<Rightarrow> ('z, goerr option outcome) net_io" where
  "nm_RollbackNics cd nics = do { e \<leftarrow> nm_rollbackConfigs cd nics False; State_Monad.return (Ret e) }"

definition nm_service :: "nmConfig codec \<Rightarrow> 'z service" where
  "nm_service cd = \<lparr>svc_Name = ''NetworkManager'', svc_Configure = nm_Configure,
     svc_IsManaging = nm_IsManaging, svc_SetupEthernetInterface = nm_SetupEthernetInterface cd,
     svc_SetupVlanInterface = nm_SetupVlanInterface cd, svc_Rollback = nm_Rollback cd,
     svc_RollbackNics = nm_RollbackNics cd\<rparr>"

subsection \<open>What it may remove\<close>

definition nm_paths :: "string set" where
  "nm_paths = range networkManagerConfigFilePath"

definition nm_owns :: "nmConfig codec \<Rightarrow> string \<Rightarrow> bool" where
  "nm_owns cd c \<longleftrightarrow> (\<exists>v. dec cd c = Some v \<and> ManagedByGuestAgent (nm_GuestAgent v))"

lemma spare_nm_removeInterface:
  assumes cov: "covers S M nm_paths (nm_owns cd)" and empty: "\<not> nm_owns cd []"
  shows "keeps (sparing S M f0) (nm_removeInterface cd iface)"
proof -
  let ?p = "networkManagerConfigFilePath iface"
  have p: "?p \<in> nm_paths" by (simp add: nm_paths_def)
  have "learns S M f0 (readIniFile cd ?p)
     (\<lambda>r. \<forall>v. r = Inr v \<longrightarrow> ManagedByGuestAgent (nm_GuestAgent v) \<longrightarrow> \<not> guarded S M f0 ?p)"
    by (rule learns_readIniFile [OF covers_in [OF cov p]])
       (use covers_owns [OF cov p] empty in \<open>auto simp: nm_owns_def\<close>)
  note learn = learns_bind_keeps [OF this]
  show ?thesis
    unfolding nm_removeInterface_def Let_def by (intro learn frame_intros) auto
qed

lemma spare_nm:
  assumes "covers S M nm_paths (nm_owns cd)" and "\<not> nm_owns cd []"
  shows "sparing_service (nm_service cd) S M"
proof -
  note remove = spare_nm_removeInterface [OF assms]
  have nics: "keeps (sparing S M f0) (nm_rollback_nics cd xs b)" for f0 xs b
    by (induction xs arbitrary: b) (auto intro!: frame_intros remove)
  have configs: "keeps (sparing S M f0) (nm_rollbackConfigs cd ns b)" for f0 ns b
    unfolding nm_rollbackConfigs_def by (intro frame_intros remove nics)
  show ?thesis
    by unfold_locales
       (simp_all add: nm_service_def nm_Rollback_def nm_RollbackNics_def nm_IsManaging_def,
        (intro frame_intros configs)+)
qed

end
