(* ===== verification/Networkd.thy ===== *)
theory Networkd
  imports NetCommon
begin

text \<open>
  The manager for systemd-networkd (\<^verbatim>\<open>network/manager/systemd_networkd_linux.go\<close>). Its configuration
  directory is a variable that \<^verbatim>\<open>Configure\<close> sets; the priorities and the keys of \<^verbatim>\<open>networkctl\<close> are the
  constants \<^verbatim>\<open>manager_linux.go\<close> gives it. The formats of its two kinds of files are codec parameters.
\<close>

record systemdMatchConfig =
  match_Name :: string
  match_Type :: string

record systemdLinkConfig =
  MACAddress :: string
  MTUBytes :: int

record systemdNetworkConfig =
  DHCP :: string
  DNSDefaultRoute :: bool
  VLANS :: "string list"

record systemdDHCPConfig =
  RoutesToDNS :: bool
  RoutesToNTP :: bool

record systemdConfig =
  sd_GuestAgent :: guestAgentSection
  sd_Match :: systemdMatchConfig
  sd_Network :: systemdNetworkConfig
  sd_DHCPv4 :: "systemdDHCPConfig option"
  sd_DHCPv6 :: "systemdDHCPConfig option"
  sd_Link :: "systemdLinkConfig option"

record systemdVlan =
  sdv_ID :: int
  ReorderHeader :: bool

record systemdNetdev =
  netdev_Name :: string
  netdev_Kind :: string

record systemdNetdevConfig =
  nd_GuestAgent :: guestAgentSection
  nd_NetDev :: systemdNetdev
  nd_VLAN :: systemdVlan

text \<open>The two file formats.\<close>

record nd_codecs =
  network_codec :: "systemdConfig codec"
  netdev_codec :: "systemdNetdevConfig codec"

definition minSupportedVersion :: int where
  "minSupportedVersion = 252"

definition nd_priority :: int where
  "nd_priority = 20"

definition nd_deprecatedPriority :: int where
  "nd_deprecatedPriority = 1"

definition networkCtlKeys :: "string list" where
  "networkCtlKeys = [''AdministrativeState'', ''SetupState'']"

definition nd_file :: "int \<Rightarrow> string \<Rightarrow> string \<Rightarrow> string" where
  "nd_file priority iface ext = show_int priority @ ''-'' @ iface @ ''-google-guest-agent.'' @ ext"

definition nd_netdevFile :: "string \<Rightarrow> string \<Rightarrow> string" where
  "nd_netdevFile d iface = path_Join [d, nd_file nd_priority iface ''netdev'']"

definition nd_deprecatedNetdevFile :: "string \<Rightarrow> string \<Rightarrow> string" where
  "nd_deprecatedNetdevFile d iface = path_Join [d, nd_file nd_deprecatedPriority iface ''netdev'']"

definition nd_networkFile :: "string \<Rightarrow> string \<Rightarrow> string" where
  "nd_networkFile d iface = path_Join [d, nd_file nd_priority iface ''network'']"

definition nd_deprecatedNetworkFile :: "string \<Rightarrow> string \<Rightarrow> string" where
  "nd_deprecatedNetworkFile d iface = path_Join [d, nd_file nd_deprecatedPriority iface ''network'']"

definition nd_Configure :: "Sections \<Rightarrow> ('z, unit) net_io" where
  "nd_Configure cfg = modify (\<lambda>w. w\<lparr>networkd_configDir := SystemdConfigDir (Unstable cfg)\<rparr>)"

text \<open>The second field of the first line.\<close>

definition nd_version_field :: "string \<Rightarrow> string option" where
  "nd_version_field out =
     (case Split (hd (Split out (CHR 0x0A))) (CHR '' '') of _ # v # _ \<Rightarrow> Some v | _ \<Rightarrow> None)"

text \<open>The state under the first of the keys that the status has.\<close>

fun nd_state :: "(string \<times> json) list \<Rightarrow> string list \<Rightarrow> bool \<times> goerr option" where
  "nd_state ps [] = (False, Some (Msg ''could not determine interface state''))"
| "nd_state ps (k # ks) =
     (case map_of (rev ps) k of
        None \<Rightarrow> nd_state ps ks
      | Some v \<Rightarrow> (v = JStr ''configured'', None))"

definition nd_interface_state :: "string \<Rightarrow> bool \<times> goerr option" where
  "nd_interface_state out =
     (case Option.bind (json_parse out) json_members of
        None \<Rightarrow> (False, Some (Msg ''failed to unmarshal interface status''))
      | Some ps \<Rightarrow> nd_state ps networkCtlKeys)"

definition nd_IsManaging :: "string \<Rightarrow> ('z, (bool \<times> goerr option) outcome) net_io" where
  "nd_IsManaging iface = do {
     x \<leftarrow> cliExists ''networkctl'';
     (if \<not> fst x then State_Monad.return (Ret (False, snd x))
      else do {
        res \<leftarrow> WithOutput [''networkctl'', ''--version''];
        (if ExitCode res \<noteq> 0
         then State_Monad.return (Ret (False, Some (Msg (''error checking networkctl version: '' @ StdErr res))))
         else case nd_version_field (StdOut res) of
           None \<Rightarrow> State_Monad.return (Panic ''index out of range'')
         | Some versionString \<Rightarrow>
             (case Atoi versionString of
                None \<Rightarrow> State_Monad.return (Ret (False, Some (Msg ''error parsing systemd version'')))
              | Some version \<Rightarrow>
                  if version < minSupportedVersion then State_Monad.return (Ret (False, None))
                  else do {
                    res \<leftarrow> WithOutput [''systemctl'', ''is-active'', ''systemd-networkd.service''];
                    (if ExitCode res \<noteq> 0 then State_Monad.return (Ret (False, None))
                     else do {
                       res \<leftarrow> WithOutput [''/bin/sh'', ''-c'', ''networkctl status '' @ iface @ '' --json=short''];
                       State_Monad.return (Ret
                         (if ExitCode res \<noteq> 0
                          then (False, Some (Msg (''failed to check systemd-networkd network status: '' @ StdErr res)))
                          else nd_interface_state (StdOut res))) }) })) }) }"

definition nd_write_network :: "nd_codecs \<Rightarrow> string \<Rightarrow> systemdConfig \<Rightarrow> ('z, goerr option) net_io" where
  "nd_write_network cd iface sc = do {
     d \<leftarrow> gets networkd_configDir;
     e \<leftarrow> writeIniFile (network_codec cd) (nd_networkFile d iface) sc;
     State_Monad.return (map_option (Flat (''error saving .network config for '' @ iface)) e) }"

definition nd_write_netdev :: "nd_codecs \<Rightarrow> string \<Rightarrow> systemdNetdevConfig \<Rightarrow> ('z, goerr option) net_io" where
  "nd_write_netdev cd iface nd = do {
     d \<leftarrow> gets networkd_configDir;
     e \<leftarrow> writeIniFile (netdev_codec cd) (nd_netdevFile d iface) nd;
     State_Monad.return (map_option (Flat (''error saving .netdev config for '' @ iface)) e) }"

definition nd_ethernet_config :: "nat \<Rightarrow> string \<Rightarrow> string list \<Rightarrow> systemdConfig" where
  "nd_ethernet_config i iface ipv6Interfaces = \<lparr>sd_GuestAgent = \<lparr>ManagedByGuestAgent = True\<rparr>,
     sd_Match = \<lparr>match_Name = iface, match_Type = []\<rparr>,
     sd_Network = \<lparr>DHCP = (if slice_contains ipv6Interfaces iface then ''yes'' else ''ipv4''),
       DNSDefaultRoute = (i = 0), VLANS = []\<rparr>,
     sd_DHCPv4 = (if i = 0 then None else Some \<lparr>RoutesToDNS = False, RoutesToNTP = False\<rparr>),
     sd_DHCPv6 = (if i = 0 then None else Some \<lparr>RoutesToDNS = False, RoutesToNTP = False\<rparr>),
     sd_Link = None\<rparr>"

definition nd_ethernet_step :: "nd_codecs \<Rightarrow> string list \<Rightarrow> nat \<times> string \<Rightarrow> ('z, goerr option) net_io" where
  "nd_ethernet_step cd ipv6Interfaces x =
     (case x of (i, iface) \<Rightarrow> do {
        b \<leftarrow> shouldManageInterface (i = 0);
        (if \<not> b \<or> isInvalid iface then State_Monad.return None
         else do {
           e \<leftarrow> nd_write_network cd iface (nd_ethernet_config i iface ipv6Interfaces);
           State_Monad.return (map_option (Flat ''failed to write systemd's ethernet interface config'') e) }) })"

definition nd_writeEthernetConfig ::
  "nd_codecs \<Rightarrow> string list \<Rightarrow> string list \<Rightarrow> ('z, goerr option) net_io" where
  "nd_writeEthernetConfig cd interfaces ipv6Interfaces =
     for_err (nd_ethernet_step cd ipv6Interfaces) (enumerate 0 interfaces)"

text \<open>\<^verbatim>\<open>rollbackNetwork\<close> and \<^verbatim>\<open>rollbackNetdev\<close> differ in the type they read.\<close>

definition nd_rollback_file :: "'c codec \<Rightarrow> ('c \<Rightarrow> guestAgentSection) \<Rightarrow> string \<Rightarrow> ('z, bool \<times> goerr option) net_io" where
  "nd_rollback_file cd section configFile = do {
     s \<leftarrow> os_Stat configFile;
     (case s of
        Inl e \<Rightarrow> State_Monad.return
          (False, if os_IsNotExist e then None else Some (Wrap ''Failed to stat systemd-networkd configuration'' e))
      | Inr _ \<Rightarrow> do {
          r \<leftarrow> readIniFile cd configFile;
          (case r of
             Inl e \<Rightarrow> State_Monad.return (False, Some (Flat ''failed to read systemd's file'' e))
           | Inr sections \<Rightarrow>
               if ManagedByGuestAgent (section sections) then do {
                 e \<leftarrow> os_Remove configFile;
                 State_Monad.return (case e of
                   Some e \<Rightarrow> (False, Some (Wrap ''removing systemd-networkd config'' e))
                 | None \<Rightarrow> (True, None)) }
               else State_Monad.return (False, None)) }) }"

definition rollbackNetwork :: "nd_codecs \<Rightarrow> string \<Rightarrow> ('z, bool \<times> goerr option) net_io" where
  "rollbackNetwork cd configFile = nd_rollback_file (network_codec cd) sd_GuestAgent configFile"

definition rollbackNetdev :: "nd_codecs \<Rightarrow> string \<Rightarrow> ('z, bool \<times> goerr option) net_io" where
  "rollbackNetdev cd configFile = nd_rollback_file (netdev_codec cd) nd_GuestAgent configFile"

definition nd_SetupEthernetInterface ::
  "nd_codecs \<Rightarrow> Sections \<Rightarrow> Interfaces \<Rightarrow> ('z, goerr option outcome) net_io" where
  "nd_SetupEthernetInterface cd cfg nics = do {
     l \<leftarrow> interfaceListsIpv4Ipv6 (EthernetInterfaces nics);
     e \<leftarrow> nd_writeEthernetConfig cd (fst l) (snd l);
     (case e of
        Some e \<Rightarrow> State_Monad.return (Ret (Some (Flat ''error writing network configs'' e)))
      | None \<Rightarrow> do {
          d \<leftarrow> gets networkd_configDir;
          for_all (\<lambda>iface. do {
            _ \<leftarrow> rollbackNetwork cd (nd_deprecatedNetworkFile d iface);
            _ \<leftarrow> rollbackNetwork cd (nd_deprecatedNetdevFile d iface);
            State_Monad.return () }) (fst l);
          e \<leftarrow> Quiet [''networkctl'', ''reload''];
          State_Monad.return (Ret (map_option (Flat ''error reloading systemd-networkd network configs'') e)) }) }"

subsection \<open>VLAN interfaces\<close>

text \<open>
  The groups \<^verbatim>\<open>interface\<close> and \<^verbatim>\<open>extension\<close> of the leftmost match of
  \<^verbatim>\<open>(?P<priority>[0-9]+)-(?P<interface>.*\.[0-9]+)-(?P<suffix>.*)\.(?P<extension>network|netdev)\<close>, which is
  not anchored. The stars are greedy: the last extension counts, and the longest interface.
\<close>

fun last_extension :: "string \<Rightarrow> string option" where
  "last_extension [] = None"
| "last_extension (c # s) =
     (case last_extension s of
        Some e \<Rightarrow> Some e
      | None \<Rightarrow>
          if HasPrefix (c # s) ''.network'' then Some ''network''
          else if HasPrefix (c # s) ''.netdev'' then Some ''netdev'' else None)"

fun nd_longest_interface :: "string \<Rightarrow> string \<Rightarrow> (string \<times> string) option" where
  "nd_longest_interface pre [] = None"
| "nd_longest_interface pre (c # s) =
     (case nd_longest_interface (pre @ [c]) s of
        Some r \<Rightarrow> Some r
      | None \<Rightarrow>
          (let ds = takeWhile is_digit s; r = dropWhile is_digit s in
           if c = CHR ''.'' \<and> ds \<noteq> [] \<and> HasPrefix r ''-''
           then map_option (\<lambda>e. (pre @ ''.'' @ ds, e)) (last_extension (tl r)) else None))"

fun nd_vlan_match :: "string \<Rightarrow> (string \<times> string) option" where
  "nd_vlan_match [] = None"
| "nd_vlan_match (c # s) =
     (let r = dropWhile is_digit (c # s) in
      if is_digit c \<and> HasPrefix r ''-'' then
        (case nd_longest_interface [] (takeWhile (\<lambda>x. x \<noteq> CHR 0x0A) (tl r)) of
           Some m \<Rightarrow> Some m
         | None \<Rightarrow> nd_vlan_match s)
      else nd_vlan_match s)"

text \<open>Whether the agent manages the file, and the interface to delete if it is a \<^verbatim>\<open>.network\<close> file.\<close>

definition nd_read_managed :: "nd_codecs \<Rightarrow> string \<Rightarrow> string \<Rightarrow> ('z, (bool \<times> string option) res) net_io" where
  "nd_read_managed cd extension filePath =
     (if extension = ''network'' then do {
        r \<leftarrow> readIniFile (network_codec cd) filePath;
        State_Monad.return (case r of
          Inl e \<Rightarrow> Inl (Flat ''failed to read .network file before removal'' e)
        | Inr c \<Rightarrow> Inr (ManagedByGuestAgent (sd_GuestAgent c), Some (match_Name (sd_Match c)))) }
      else if extension = ''netdev'' then do {
        r \<leftarrow> readIniFile (netdev_codec cd) filePath;
        State_Monad.return (case r of
          Inl e \<Rightarrow> Inl (Flat ''failed to read .network file before removal'' e)
        | Inr c \<Rightarrow> Inr (ManagedByGuestAgent (nd_GuestAgent c), None)) }
      else State_Monad.return (Inl (Msg ''regex matching failed, invalid extension'')))"

text \<open>One directory entry; the loop's variables are the interfaces and the files to delete.\<close>

definition nd_remove_step ::
  "nd_codecs \<Rightarrow> string \<Rightarrow> string list \<Rightarrow> string \<times> node \<Rightarrow> string list \<times> string list \<Rightarrow>
   ('z, (bool \<times> goerr) + string list \<times> string list) net_io" where
  "nd_remove_step cd d keepMe file s =
     (case s of (ifacesDeleteMe, filesDeleteMe) \<Rightarrow>
        if node_IsDir (snd file) then State_Monad.return (Inr s)
        else case nd_vlan_match (fst file) of
          None \<Rightarrow> State_Monad.return (Inr s)
        | Some (currIface, extension) \<Rightarrow>
            if slice_contains keepMe currIface then State_Monad.return (Inr s)
            else do {
              let filePath = path_Join [d, fst file];
              r \<leftarrow> nd_read_managed cd extension filePath;
              State_Monad.return (case r of
                Inl e \<Rightarrow> Inl (filesDeleteMe \<noteq> [], e)
              | Inr (managed, name) \<Rightarrow>
                  if \<not> managed then Inr s
                  else Inr (case name of None \<Rightarrow> ifacesDeleteMe | Some n \<Rightarrow> ifacesDeleteMe @ [n],
                            filesDeleteMe @ [filePath])) })"

definition nd_removeVlanInterfaces :: "nd_codecs \<Rightarrow> string list \<Rightarrow> ('z, bool \<times> goerr option) net_io" where
  "nd_removeVlanInterfaces cd keepMe = do {
     d \<leftarrow> gets networkd_configDir;
     fl \<leftarrow> os_ReadDir d;
     (case fl of
        Inl e \<Rightarrow> State_Monad.return (False, Some (Flat ''failed to read content'' e))
      | Inr files \<Rightarrow> do {
          r \<leftarrow> for_range (nd_remove_step cd d keepMe) files ([], []);
          (case r of
             Inl (requiresRestart, e) \<Rightarrow> State_Monad.return (requiresRestart, Some e)
           | Inr (ifacesDeleteMe, filesDeleteMe) \<Rightarrow> do {
               e \<leftarrow> (if ifacesDeleteMe = [] then State_Monad.return None
                    else Quiet ([''networkctl'', ''delete''] @ ifacesDeleteMe));
               (case e of
                  Some e \<Rightarrow> State_Monad.return (False, Some (Wrap ''networkctl failed'' e))
                | None \<Rightarrow> do {
                    e \<leftarrow> for_err (\<lambda>filePath. do {
                           e \<leftarrow> os_Remove filePath;
                           State_Monad.return (map_option (Flat ''failed to remove vlan interface config'') e) })
                         filesDeleteMe;
                    State_Monad.return (filesDeleteMe \<noteq> [], e) }) }) }) }"

definition nd_vlan_network :: "NetVlan \<Rightarrow> systemdConfig" where
  "nd_vlan_network v = \<lparr>sd_GuestAgent = \<lparr>ManagedByGuestAgent = True\<rparr>,
     sd_Match = \<lparr>match_Name = vlan_name v, match_Type = ''vlan''\<rparr>,
     sd_Network = \<lparr>DHCP = ''yes'', DNSDefaultRoute = False, VLANS = []\<rparr>,
     sd_DHCPv4 = None, sd_DHCPv6 = None,
     sd_Link = Some \<lparr>MACAddress = vlan_Mac v, MTUBytes = vlan_MTU v\<rparr>\<rparr>"

definition nd_vlan_netdev :: "NetVlan \<Rightarrow> systemdNetdevConfig" where
  "nd_vlan_netdev v = \<lparr>nd_GuestAgent = \<lparr>ManagedByGuestAgent = True\<rparr>,
     nd_NetDev = \<lparr>netdev_Name = vlan_name v, netdev_Kind = ''vlan''\<rparr>,
     nd_VLAN = \<lparr>sdv_ID = Vlan v, ReorderHeader = False\<rparr>\<rparr>"

text \<open>The parent's \<^verbatim>\<open>.network\<close> file lists the VLAN once.\<close>

definition nd_add_to_parent :: "nd_codecs \<Rightarrow> NetVlan \<Rightarrow> ('z, goerr option) net_io" where
  "nd_add_to_parent cd v = do {
     d \<leftarrow> gets networkd_configDir;
     r \<leftarrow> readIniFile (network_codec cd) (nd_networkFile d (ParentInterfaceID v));
     (case r of
        Inl e \<Rightarrow> State_Monad.return (Some (Flat ''failed to read vlan's parent interface .network config'' e))
      | Inr parentConfig \<Rightarrow>
          if slice_contains (VLANS (sd_Network parentConfig)) (vlan_name v) then State_Monad.return None
          else do {
            e \<leftarrow> nd_write_network cd (ParentInterfaceID v)
                  (parentConfig\<lparr>sd_Network := (sd_Network parentConfig)
                     \<lparr>VLANS := VLANS (sd_Network parentConfig) @ [vlan_name v]\<rparr>\<rparr>);
            State_Monad.return (map_option (Flat ''error writing vlan parent's .network config'') e) }) }"

definition nd_vlan_step :: "nd_codecs \<Rightarrow> string \<times> NetVlan \<Rightarrow> string list \<Rightarrow> ('z, goerr + string list) net_io" where
  "nd_vlan_step cd x keepMe = (let v = snd x in do {
     e \<leftarrow> nd_write_network cd (vlan_name v) (nd_vlan_network v);
     (case e of
        Some e \<Rightarrow> State_Monad.return (Inl (Flat ''failed to write systemd's vlan .network config'' e))
      | None \<Rightarrow> do {
          e \<leftarrow> nd_write_netdev cd (vlan_name v) (nd_vlan_netdev v);
          (case e of
             Some e \<Rightarrow> State_Monad.return (Inl (Flat ''failed to write systemd's vlan .netdev config'' e))
           | None \<Rightarrow> do {
               e \<leftarrow> nd_add_to_parent cd v;
               State_Monad.return (case e of
                 Some e \<Rightarrow> Inl e
               | None \<Rightarrow> Inr (keepMe @ [vlan_name v])) }) }) })"

definition nd_SetupVlanInterface ::
  "nd_codecs \<Rightarrow> Sections \<Rightarrow> Interfaces \<Rightarrow> ('z, goerr option outcome) net_io" where
  "nd_SetupVlanInterface cd cfg nics = do {
     vs \<leftarrow> range_map (VlanInterfaces nics);
     r \<leftarrow> for_range (nd_vlan_step cd) vs [];
     (case r of
        Inl e \<Rightarrow> State_Monad.return (Ret (Some e))
      | Inr keepMe \<Rightarrow> do {
          x \<leftarrow> nd_removeVlanInterfaces cd keepMe;
          (case x of
             (_, Some e) \<Rightarrow> State_Monad.return (Ret (Some (Flat ''failed to remove vlan interface configuration'' e)))
           | (requiresRestart, None) \<Rightarrow>
               if \<not> requiresRestart then State_Monad.return (Ret None)
               else do {
                 e \<leftarrow> Quiet [''networkctl'', ''reload''];
                 State_Monad.return
                   (Ret (map_option (Flat ''error reloading systemd-networkd network configs'') e)) }) }) }"

subsection \<open>Rollback\<close>

text \<open>The \<^verbatim>\<open>.network\<close> file is tried twice: the second call names it instead of the \<^verbatim>\<open>.netdev\<close> file.\<close>

definition nd_rollback_nic :: "nd_codecs \<Rightarrow> string \<Rightarrow> string \<Rightarrow> ('z, bool) net_io" where
  "nd_rollback_nic cd d iface = do {
     r1 \<leftarrow> rollbackNetwork cd (nd_networkFile d iface);
     r2 \<leftarrow> rollbackNetdev cd (nd_networkFile d iface);
     r3 \<leftarrow> rollbackNetwork cd (nd_deprecatedNetworkFile d iface);
     r4 \<leftarrow> rollbackNetdev cd (nd_deprecatedNetdevFile d iface);
     State_Monad.return (fst r1 \<or> fst r2 \<or> fst r3 \<or> fst r4) }"

fun nd_rollback_nics :: "nd_codecs \<Rightarrow> string \<Rightarrow> string list \<Rightarrow> bool \<Rightarrow> ('z, bool) net_io" where
  "nd_rollback_nics cd d [] b = State_Monad.return b"
| "nd_rollback_nics cd d (iface # ifaces) b = do {
     r \<leftarrow> nd_rollback_nic cd d iface;
     nd_rollback_nics cd d ifaces (b \<or> r) }"

definition nd_rollbackConfigs :: "nd_codecs \<Rightarrow> Interfaces \<Rightarrow> bool \<Rightarrow> ('z, goerr option) net_io" where
  "nd_rollbackConfigs cd nics removeVlan = do {
     interfaces \<leftarrow> interfaceNames (EthernetInterfaces nics);
     d \<leftarrow> gets networkd_configDir;
     ethernetRequiresRestart \<leftarrow> nd_rollback_nics cd d interfaces False;
     x \<leftarrow> (if removeVlan then nd_removeVlanInterfaces cd [] else State_Monad.return (False, None));
     (if \<not> ethernetRequiresRestart \<and> \<not> fst x then State_Monad.return None
      else do {
        e \<leftarrow> Quiet [''networkctl'', ''reload''];
        State_Monad.return (map_option (Flat ''error reloading systemd-networkd network configs'') e) }) }"

definition nd_Rollback :: "nd_codecs \<Rightarrow> Interfaces \<Rightarrow> ('z, goerr option outcome) net_io" where
  "nd_Rollback cd nics = do { e \<leftarrow> nd_rollbackConfigs cd nics True; State_Monad.return (Ret e) }"

definition nd_RollbackNics :: "nd_codecs \<Rightarrow> Interfaces \<Rightarrow> ('z, goerr option outcome) net_io" where
  "nd_RollbackNics cd nics = do { e \<leftarrow> nd_rollbackConfigs cd nics False; State_Monad.return (Ret e) }"

definition nd_service :: "nd_codecs \<Rightarrow> 'z service" where
  "nd_service cd = \<lparr>svc_Name = ''systemd-networkd'', svc_Configure = nd_Configure,
     svc_IsManaging = nd_IsManaging, svc_SetupEthernetInterface = nd_SetupEthernetInterface cd,
     svc_SetupVlanInterface = nd_SetupVlanInterface cd, svc_Rollback = nd_Rollback cd,
     svc_RollbackNics = nd_RollbackNics cd\<rparr>"

subsection \<open>What it may remove\<close>

definition nd_paths :: "string set" where
  "nd_paths = {path_Join [d, n] | d n. nd_vlan_match n \<noteq> None \<or> (\<exists>pr iface ext. n = nd_file pr iface ext)}"

definition nd_owns :: "nd_codecs \<Rightarrow> string \<Rightarrow> bool" where
  "nd_owns cd c \<longleftrightarrow>
     (\<exists>v. dec (network_codec cd) c = Some v \<and> ManagedByGuestAgent (sd_GuestAgent v)) \<or>
     (\<exists>v. dec (netdev_codec cd) c = Some v \<and> ManagedByGuestAgent (nd_GuestAgent v))"

lemma nd_file_paths: "path_Join [d, nd_file pr iface ext] \<in> nd_paths"
  unfolding nd_paths_def by blast

lemma nd_match_paths: "nd_vlan_match n = Some x \<Longrightarrow> path_Join [d, n] \<in> nd_paths"
  unfolding nd_paths_def by blast

lemma learns_nd_read:
  assumes cov: "covers S M nd_paths (nd_owns cd)" and empty: "\<not> nd_owns cd []" and p: "p \<in> nd_paths"
  shows "learns S M f0 (readIniFile (network_codec cd) p)
      (\<lambda>r. \<forall>v. r = Inr v \<longrightarrow> ManagedByGuestAgent (sd_GuestAgent v) \<longrightarrow> \<not> guarded S M f0 p)"
    and "learns S M f0 (readIniFile (netdev_codec cd) p)
      (\<lambda>r. \<forall>v. r = Inr v \<longrightarrow> ManagedByGuestAgent (nd_GuestAgent v) \<longrightarrow> \<not> guarded S M f0 p)"
  by (rule learns_readIniFile [OF covers_in [OF cov p]];
      use covers_owns [OF cov p] empty in \<open>auto simp: nd_owns_def\<close>)+

lemma spare_rollbackNetwork:
  assumes "covers S M nd_paths (nd_owns cd)" and "\<not> nd_owns cd []" and "p \<in> nd_paths"
  shows "keeps (sparing S M f0) (rollbackNetwork cd p)" and "keeps (sparing S M f0) (rollbackNetdev cd p)"
  unfolding rollbackNetwork_def rollbackNetdev_def nd_rollback_file_def
  by (intro learns_bind_keeps [OF learns_nd_read(1) [OF assms]] frame_intros; auto)
     (intro learns_bind_keeps [OF learns_nd_read(2) [OF assms]] frame_intros; auto)

text \<open>Every file that the scan of the directory picks for removal is one the agent manages.\<close>

lemma learns_nd_read_managed:
  assumes "covers S M nd_paths (nd_owns cd)" and "\<not> nd_owns cd []" and "p \<in> nd_paths"
  shows "learns S M f0 (nd_read_managed cd ext p) (\<lambda>r. \<forall>n. r = Inr (True, n) \<longrightarrow> \<not> guarded S M f0 p)"
  unfolding nd_read_managed_def
  using learns_nd_read [OF assms, of f0]
  by (auto intro!: learns_bind [OF learns_nd_read(1) [OF assms]] learns_bind [OF learns_nd_read(2) [OF assms]]
      learns_return split: sum.splits)

lemma learns_nd_remove_step:
  assumes cov: "covers S M nd_paths (nd_owns cd)" and empty: "\<not> nd_owns cd []"
    and s: "\<forall>p \<in> set (snd s). \<not> guarded S M f0 p"
  shows "learns S M f0 (nd_remove_step cd d keep x s)
     (\<lambda>r. \<forall>s'. r = Inr s' \<longrightarrow> (\<forall>p \<in> set (snd s'). \<not> guarded S M f0 p))"
proof (cases "node_IsDir (snd x)")
  case True
  with s show ?thesis
    by (cases s) (simp add: nd_remove_step_def learns_return)
next
  case False
  show ?thesis
  proof (cases "nd_vlan_match (fst x)")
    case None
    with s False show ?thesis
      by (cases s) (simp add: nd_remove_step_def learns_return)
  next
    case (Some m)
    obtain currIface ext where m: "m = (currIface, ext)" by fastforce
    note learn = learns_nd_read_managed [OF cov empty nd_match_paths [OF Some], of f0 ext d]
    show ?thesis
      using s False Some m
      by (cases s) (auto simp: nd_remove_step_def Let_def intro!: learns_return learns_bind [OF learn]
          split: sum.splits option.splits if_splits)
  qed
qed

lemma spare_nd_removeVlanInterfaces:
  assumes cov: "covers S M nd_paths (nd_owns cd)" and empty: "\<not> nd_owns cd []"
  shows "keeps (sparing S M f0) (nd_removeVlanInterfaces cd keep)"
proof -
  have "learns S M f0 (for_range (nd_remove_step cd d keep) fl ([], []))
     (\<lambda>r. \<forall>s'. r = Inr s' \<longrightarrow> (\<forall>p \<in> set (snd s'). \<not> guarded S M f0 p))" for d fl
    by (rule learns_for_range, rule learns_nd_remove_step [OF cov empty]) simp_all
  note learn = learns_bind_keeps [OF this]
  show ?thesis
    unfolding nd_removeVlanInterfaces_def
    by (intro learn frame_intros) auto
qed

lemma spare_nd:
  assumes cov: "covers S M nd_paths (nd_owns cd)" and empty: "\<not> nd_owns cd []"
  shows "sparing_service (nd_service cd) S M"
proof -
  note remove = spare_nd_removeVlanInterfaces [OF assms]
  note files = spare_rollbackNetwork [OF assms]
  have nic: "keeps (sparing S M f0) (nd_rollback_nic cd d iface)" for f0 d iface
    unfolding nd_rollback_nic_def nd_networkFile_def nd_deprecatedNetworkFile_def nd_deprecatedNetdevFile_def
    by (intro frame_intros files nd_file_paths)
  have nics: "keeps (sparing S M f0) (nd_rollback_nics cd d xs b)" for f0 d xs b
    by (induction xs arbitrary: b) (auto intro!: frame_intros nic)
  have configs: "keeps (sparing S M f0) (nd_rollbackConfigs cd ns b)" for f0 ns b
    unfolding nd_rollbackConfigs_def by (intro frame_intros remove nics)
  show ?thesis
    by unfold_locales
       (simp_all add: nd_service_def nd_Rollback_def nd_RollbackNics_def nd_IsManaging_def,
        (intro frame_intros configs)+)
qed

end
