(* ===== verification/Netplan.thy ===== *)
theory Netplan
  imports Networkd
begin

text \<open>
  The manager for netplan with systemd-networkd (\<^verbatim>\<open>network/manager/netplan_linux.go\<close>). The yaml and ini
  formats are codec parameters. A Go map is an association list, or \<^const>\<open>None\<close> for nil, and two maps are
  deeply equal if they are both nil or both not and have the same entries. The file store names paths
  without a trailing slash, so a directory given with one is cleaned first. Its drop-in files have
  names of their own: it removes them without looking at what they hold.
\<close>

record netplanDHCPOverrides =
  UseDomains :: "bool option"

record netplanEthernet =
  npe_Match :: string
  npe_MTU :: "int option"
  npe_DHCPv4 :: "bool option"
  npe_DHCP4Overrides :: "netplanDHCPOverrides option"
  npe_DHCPv6 :: "bool option"
  npe_DHCP6Overrides :: "netplanDHCPOverrides option"

record netplanVlan =
  npv_ID :: int
  npv_Link :: string
  npv_DHCPv4 :: "bool option"
  npv_DHCPv6 :: "bool option"
  npv_OverrideMacAddress :: string
  npv_MTU :: int
  npv_DHCP4Overrides :: "netplanDHCPOverrides option"
  npv_DHCP6Overrides :: "netplanDHCPOverrides option"

record netplanDropin =
  np_Version :: int
  np_Ethernets :: "(string \<times> netplanEthernet) list option"
  np_Vlans :: "(string \<times> netplanVlan) list option"

record networkdNetplanDropin =
  npd_Match :: systemdMatchConfig
  npd_Network :: systemdNetworkConfig
  npd_DHCPv4 :: "systemdDHCPConfig option"

record np_codecs =
  dropin_codec :: "netplanDropin codec"
  override_codec :: "networkdNetplanDropin codec"

text \<open>The entries of a map, and deep equality of two maps.\<close>

definition map_entries :: "('k \<times> 'v) list option \<Rightarrow> ('k \<times> 'v) list" where
  "map_entries m = (case m of None \<Rightarrow> [] | Some xs \<Rightarrow> xs)"

definition same_map :: "('k \<times> 'v) list option \<Rightarrow> ('k \<times> 'v) list option \<Rightarrow> bool" where
  "same_map a b \<longleftrightarrow> (a = None \<longleftrightarrow> b = None) \<and>
     (\<forall>k \<in> set (map fst (map_entries a) @ map fst (map_entries b)). map_of (map_entries a) k = map_of (map_entries b) k)"

definition dropin_DeepEqual :: "netplanDropin \<Rightarrow> netplanDropin \<Rightarrow> bool" where
  "dropin_DeepEqual a b \<longleftrightarrow> np_Version a = np_Version b \<and> same_map (np_Ethernets a) (np_Ethernets b) \<and>
     same_map (np_Vlans a) (np_Vlans b)"

definition empty_dropin :: netplanDropin where
  "empty_dropin = \<lparr>np_Version = 0, np_Ethernets = None, np_Vlans = None\<rparr>"

definition netplanConfigDir :: string where
  "netplanConfigDir = ''/run/netplan/''"

definition networkdDropinDir :: string where
  "networkdDropinDir = ''/run/systemd/network/''"

definition netplanConfigVersion :: int where
  "netplanConfigVersion = 2"

definition np_Configure :: "Sections \<Rightarrow> ('z, unit) net_io" where
  "np_Configure cfg = do {
     info \<leftarrow> net_osinfo;
     (if OS info = ''debian'' \<and> Major (Version info) = 12
      then modify (\<lambda>w. w\<lparr>interfacePrefix := ''a''\<rparr>) else State_Monad.return ()) }"

definition np_IsManaging :: "string \<Rightarrow> ('z, (bool \<times> goerr option) outcome) net_io" where
  "np_IsManaging iface = do {
     b \<leftarrow> isUbuntu1804;
     (if b then State_Monad.return (Ret (False, None))
      else do { r \<leftarrow> cliExists ''netplan''; State_Monad.return (Ret r) }) }"

definition np_reloadConfigs :: "('z, goerr option) net_io" where
  "np_reloadConfigs = do {
     e \<leftarrow> Quiet [''netplan'', ''generate''];
     (case e of
        Some e \<Rightarrow> State_Monad.return (Some (Wrap ''error generating netplan based config'' e))
      | None \<Rightarrow> do {
          e \<leftarrow> Quiet [''networkctl'', ''reload''];
          State_Monad.return (map_option (Flat ''error reloading systemd-networkd network configs'') e) }) }"

subsection \<open>Names\<close>

definition np_ID :: "string \<Rightarrow> string \<Rightarrow> string" where
  "np_ID prefix iface = (if prefix \<noteq> [] then prefix @ ''-'' @ iface else iface)"

definition np_interfaceFromLink :: "string \<Rightarrow> string \<Rightarrow> string" where
  "np_interfaceFromLink prefix link = (if prefix \<noteq> [] then TrimPrefix link (prefix @ ''-'') else link)"

definition np_dropinFile :: "string \<Rightarrow> string" where
  "np_dropinFile suffix = path_Join [netplanConfigDir, ''20-google-guest-agent-'' @ suffix @ ''.yaml'']"

definition np_dropin_dir :: "string \<Rightarrow> string" where
  "np_dropin_dir key = path_Join [networkdDropinDir, ''10-netplan-'' @ key @ ''.network.d'']"

definition np_networkdDropinFile :: "string \<Rightarrow> string \<Rightarrow> string" where
  "np_networkdDropinFile prefix iface =
     path_Join [networkdDropinDir,
       (if prefix \<noteq> [] then ''10-netplan-'' @ prefix @ ''-'' @ iface @ ''.network.d''
        else ''10-netplan-'' @ iface @ ''.network.d''), ''override.conf'']"

subsection \<open>Writing drop-ins\<close>

definition np_dropin_isSame :: "np_codecs \<Rightarrow> netplanDropin \<Rightarrow> string \<Rightarrow> ('z, bool) net_io" where
  "np_dropin_isSame cd nd cfgFile = do {
     r \<leftarrow> readYamlFile (dropin_codec cd) cfgFile;
     State_Monad.return (case r of Inl _ \<Rightarrow> False | Inr existing \<Rightarrow> dropin_DeepEqual nd existing) }"

definition np_write :: "np_codecs \<Rightarrow> netplanDropin \<Rightarrow> string \<Rightarrow> ('z, bool res) net_io" where
  "np_write cd nd suffix = do {
     let dropinFile = np_dropinFile suffix;
     e \<leftarrow> os_MkdirAll (path_Dir dropinFile) 493;
     (case e of
        Some e \<Rightarrow> State_Monad.return (Inl (Wrap ''failed to create networkd dropin dir'' e))
      | None \<Rightarrow> do {
          b \<leftarrow> np_dropin_isSame cd nd dropinFile;
          (if b then State_Monad.return (Inr False)
           else do {
             e \<leftarrow> writeYamlFile (dropin_codec cd) dropinFile nd;
             State_Monad.return (case e of
               Some e \<Rightarrow> Inl (Wrap ''error saving netplan drop-in file'' e)
             | None \<Rightarrow> Inr True) }) }) }"

definition np_override_isSame :: "np_codecs \<Rightarrow> networkdNetplanDropin \<Rightarrow> string \<Rightarrow> ('z, bool) net_io" where
  "np_override_isSame cd nd cfgFile = do {
     r \<leftarrow> readIniFile (override_codec cd) cfgFile;
     State_Monad.return (case r of Inl _ \<Rightarrow> False | Inr existing \<Rightarrow> nd = existing) }"

definition np_override_write :: "np_codecs \<Rightarrow> networkdNetplanDropin \<Rightarrow> string \<Rightarrow> ('z, bool res) net_io" where
  "np_override_write cd nd iface = do {
     prefix \<leftarrow> gets interfacePrefix;
     let dropinFile = np_networkdDropinFile prefix iface;
     e \<leftarrow> os_MkdirAll (path_Dir dropinFile) 493;
     (case e of
        Some e \<Rightarrow> State_Monad.return (Inl (Wrap ''failed to create networkd dropin dir'' e))
      | None \<Rightarrow> do {
          b \<leftarrow> np_override_isSame cd nd dropinFile;
          (if b then State_Monad.return (Inr False)
           else do {
             e \<leftarrow> writeIniFile (override_codec cd) dropinFile nd;
             State_Monad.return (case e of
               Some e \<Rightarrow> Inl (Flat (''error saving netword drop-in file for '' @ iface) e)
             | None \<Rightarrow> Inr True) }) }) }"

definition np_check_dropin_dir :: "('z, goerr option) net_io" where
  "np_check_dropin_dir = do {
     s \<leftarrow> os_Stat (Clean networkdDropinDir);
     State_Monad.return (case s of
       Inl e \<Rightarrow> Some (Wrap ''failed to stat systemd-networkd's drop-in root dir'' e)
     | Inr n \<Rightarrow> if node_IsDir n then None else Some (Msg ''systemd-networkd drop-in dir is not a dir'')) }"

definition np_override :: "nat \<Rightarrow> string \<Rightarrow> string list \<Rightarrow> networkdNetplanDropin" where
  "np_override i iface ipv6Interfaces =
     \<lparr>npd_Match = \<lparr>match_Name = iface, match_Type = []\<rparr>,
      npd_Network = \<lparr>DHCP = (if slice_contains ipv6Interfaces iface then ''yes'' else ''ipv4''),
        DNSDefaultRoute = (i = 0), VLANS = []\<rparr>,
      npd_DHCPv4 = (if i = 0 then None else Some \<lparr>RoutesToDNS = False, RoutesToNTP = False\<rparr>)\<rparr>"

definition np_override_step ::
  "np_codecs \<Rightarrow> string list \<Rightarrow> nat \<times> string \<Rightarrow> bool \<Rightarrow> ('z, goerr + bool) net_io" where
  "np_override_step cd ipv6Interfaces x requiresReload =
     (case x of (i, iface) \<Rightarrow> do {
        b \<leftarrow> shouldManageInterface (i = 0);
        (if \<not> b \<or> isInvalid iface then State_Monad.return (Inr requiresReload)
         else do {
           r \<leftarrow> np_override_write cd (np_override i iface ipv6Interfaces) iface;
           State_Monad.return (case r of
             Inl e \<Rightarrow> Inl (Wrap ''failed to write systemd drop-in config'' e)
           | Inr wrote \<Rightarrow> Inr (requiresReload \<or> wrote)) }) })"

definition np_writeNetworkdDropin ::
  "np_codecs \<Rightarrow> string list \<Rightarrow> string list \<Rightarrow> ('z, bool res) net_io" where
  "np_writeNetworkdDropin cd interfaces ipv6Interfaces = do {
     e \<leftarrow> np_check_dropin_dir;
     (case e of
        Some e \<Rightarrow> State_Monad.return (Inl e)
      | None \<Rightarrow> for_range (np_override_step cd ipv6Interfaces) (enumerate 0 interfaces) False) }"

definition np_ethernet :: "(string \<times> int) list \<Rightarrow> string list \<Rightarrow> nat \<Rightarrow> string \<Rightarrow> netplanEthernet" where
  "np_ethernet mtuMap ipv6Interfaces i iface =
     (let v6 = slice_contains ipv6Interfaces iface; ov = Some \<lparr>UseDomains = Some (i = 0)\<rparr> in
      \<lparr>npe_Match = iface, npe_MTU = map_of mtuMap iface, npe_DHCPv4 = Some True, npe_DHCP4Overrides = ov,
       npe_DHCPv6 = (if v6 then Some True else None), npe_DHCP6Overrides = (if v6 then ov else None)\<rparr>)"

fun np_ethernets ::
  "(string \<times> int) list \<Rightarrow> string list \<Rightarrow> (nat \<times> string) list \<Rightarrow> (string \<times> netplanEthernet) list \<Rightarrow>
   ('z, (string \<times> netplanEthernet) list) net_io" where
  "np_ethernets mtuMap ipv6Interfaces [] es = State_Monad.return es"
| "np_ethernets mtuMap ipv6Interfaces ((i, iface) # xs) es = do {
     b \<leftarrow> shouldManageInterface (i = 0);
     (if \<not> b \<or> isInvalid iface then np_ethernets mtuMap ipv6Interfaces xs es
      else do {
        prefix \<leftarrow> gets interfacePrefix;
        np_ethernets mtuMap ipv6Interfaces xs
          (AList.update (np_ID prefix iface) (np_ethernet mtuMap ipv6Interfaces i iface) es) }) }"

definition np_writeNetplanEthernetDropin ::
  "np_codecs \<Rightarrow> (string \<times> int) list \<Rightarrow> string list \<Rightarrow> string list \<Rightarrow> ('z, bool res) net_io" where
  "np_writeNetplanEthernetDropin cd mtuMap interfaces ipv6Interfaces = do {
     es \<leftarrow> np_ethernets mtuMap ipv6Interfaces (enumerate 0 interfaces) [];
     (if es = [] then State_Monad.return (Inr False)
      else do {
        r \<leftarrow> np_write cd \<lparr>np_Version = netplanConfigVersion, np_Ethernets = Some es, np_Vlans = None\<rparr> ''ethernet'';
        State_Monad.return (case r of
          Inl e \<Rightarrow> Inl (Flat ''failed to write netplan ethernet drop-in config'' e)
        | Inr wrote \<Rightarrow> Inr wrote) }) }"

definition np_SetupEthernetInterface ::
  "np_codecs \<Rightarrow> Sections \<Rightarrow> Interfaces \<Rightarrow> ('z, goerr option outcome) net_io" where
  "np_SetupEthernetInterface cd cfg nics = do {
     l \<leftarrow> interfaceListsIpv4Ipv6 (EthernetInterfaces nics);
     mtuMap \<leftarrow> interfacesMTUMap (EthernetInterfaces nics);
     r1 \<leftarrow> np_writeNetplanEthernetDropin cd mtuMap (fst l) (snd l);
     (case r1 of
        Inl e \<Rightarrow> State_Monad.return (Ret (Some (Flat ''error writing network configs'' e)))
      | Inr reload1 \<Rightarrow> do {
          r2 \<leftarrow> np_writeNetworkdDropin cd (fst l) (snd l);
          (case r2 of
             Inl e \<Rightarrow> State_Monad.return (Ret (Some (Flat ''error writing systemd-networkd's drop-in'' e)))
           | Inr reload2 \<Rightarrow>
               if reload1 \<or> reload2 then do {
                 e \<leftarrow> np_reloadConfigs;
                 State_Monad.return (Ret (map_option (Wrap ''error applying ethernet interface configs'') e)) }
               else State_Monad.return (Ret None)) }) }"

subsection \<open>VLAN interfaces\<close>

definition empty_vlan :: NetVlan where
  "empty_vlan = \<lparr>vlan_Mac = [], ParentInterface = [], Vlan = 0, vlan_MTU = 0, IP = [], IPv6 = [],
     Gateway = [], GatewayIPv6 = [], vlan_DHCPv6Refresh = [], ParentInterfaceID = []\<rparr>"

text \<open>The VLANs of the drop-in on disk whose key is not expected any more.\<close>

definition np_vlans_to_remove ::
  "string \<Rightarrow> (string \<times> NetVlan) list \<Rightarrow> (string \<times> netplanVlan) list \<Rightarrow> (string \<times> NetVlan) list" where
  "np_vlans_to_remove prefix expected existing =
     (let keepInterfaces = map (\<lambda>x. np_ID prefix (vlan_name (snd x))) expected in
      fold (\<lambda>(vlanKey, vlan) toRemove.
          if vlanKey \<in> set keepInterfaces then toRemove
          else let parentID = np_interfaceFromLink prefix (npv_Link vlan) in
               AList.update (parentID @ ''-'' @ show_int (npv_ID vlan))
                 (empty_vlan\<lparr>ParentInterfaceID := parentID, Vlan := npv_ID vlan\<rparr>) toRemove)
        existing [])"

definition np_findVlanDiff :: "np_codecs \<Rightarrow> Interfaces \<Rightarrow> ('z, Interfaces option res) net_io" where
  "np_findVlanDiff cd expectedNics = do {
     let dropinFile = np_dropinFile ''vlan'';
     ex \<leftarrow> FileExists dropinFile TypeFile;
     (if \<not> ex then State_Monad.return (Inr None)
      else do {
        r \<leftarrow> readYamlFile (dropin_codec cd) dropinFile;
        (case r of
           Inl e \<Rightarrow> State_Monad.return (Inl (Wrap ''unable to read trying rollback configs'' e))
         | Inr existing \<Rightarrow>
             if map_entries (np_Vlans existing) = [] then State_Monad.return (Inr None)
             else do {
               prefix \<leftarrow> gets interfacePrefix;
               vs \<leftarrow> range_map (map_entries (np_Vlans existing));
               State_Monad.return (Inr (Some \<lparr>EthernetInterfaces = [],
                 VlanInterfaces = np_vlans_to_remove prefix (VlanInterfaces expectedNics) vs\<rparr>)) }) }) }"

text \<open>One VLAN: its key, the drop-in's VLANs without it, and its directory if there is one.\<close>

fun np_collect_vlans ::
  "string \<Rightarrow> (string \<times> NetVlan) list \<Rightarrow> string list \<times> string list \<times> (string \<times> netplanVlan) list option \<Rightarrow>
   ('z, string list \<times> string list \<times> (string \<times> netplanVlan) list option) net_io" where
  "np_collect_vlans prefix [] s = State_Monad.return s"
| "np_collect_vlans prefix (x # xs) (deleteNics, deleteDirs, vlans) = do {
     let key = np_ID prefix (vlan_name (snd x));
     b \<leftarrow> FileExists (np_dropin_dir key) TypeDir;
     np_collect_vlans prefix xs
       (deleteNics @ [key], if b then deleteDirs @ [np_dropin_dir key] else deleteDirs,
        map_option (AList.delete key) vlans) }"

definition np_read_vlans :: "np_codecs \<Rightarrow> ('z, netplanDropin res) net_io" where
  "np_read_vlans cd = do {
     ex \<leftarrow> FileExists (np_dropinFile ''vlan'') TypeFile;
     (if ex then do {
        r \<leftarrow> readYamlFile (dropin_codec cd) (np_dropinFile ''vlan'');
        State_Monad.return (case r of
          Inl e \<Rightarrow> Inl (Wrap ''unable to read trying rollback configs'' e)
        | Inr c \<Rightarrow> Inr c) }
      else State_Monad.return (Inr empty_dropin)) }"

definition np_store_vlans :: "np_codecs \<Rightarrow> netplanDropin \<Rightarrow> ('z, goerr option) net_io" where
  "np_store_vlans cd existing =
     (if map_entries (np_Vlans existing) = [] then do {
        e \<leftarrow> os_Remove (np_dropinFile ''vlan'');
        State_Monad.return (map_option (Wrap ''unable to remove netplan vlan dropin'') e) }
      else do {
        r \<leftarrow> np_write cd existing ''vlan'';
        State_Monad.return (map_option (Wrap ''unable to update vlan config'') (err_of r)) })"

definition np_rollbackVlanNics :: "np_codecs \<Rightarrow> Interfaces \<Rightarrow> ('z, bool res) net_io" where
  "np_rollbackVlanNics cd nics =
     (if VlanInterfaces nics = [] then State_Monad.return (Inr False)
      else do {
        r \<leftarrow> np_read_vlans cd;
        (case r of
           Inl e \<Rightarrow> State_Monad.return (Inl e)
         | Inr existing \<Rightarrow> do {
             prefix \<leftarrow> gets interfacePrefix;
             vs \<leftarrow> range_map (VlanInterfaces nics);
             s \<leftarrow> np_collect_vlans prefix vs ([], [], np_Vlans existing);
             (case s of (deleteNics, deleteDirs, vlans) \<Rightarrow> do {
                e \<leftarrow> Quiet ([''networkctl'', ''delete''] @ deleteNics);
                (case e of
                   Some e \<Rightarrow> State_Monad.return (Inl (Wrap ''networkctl failed'' e))
                 | None \<Rightarrow> do {
                     e \<leftarrow> np_store_vlans cd (existing\<lparr>np_Vlans := vlans\<rparr>);
                     (case e of
                        Some e \<Rightarrow> State_Monad.return (Inl e)
                      | None \<Rightarrow> do {
                          e \<leftarrow> for_err (\<lambda>dir. do {
                                 e \<leftarrow> os_RemoveAll dir;
                                 State_Monad.return (map_option (Wrap ''unable to remove directory'') e) }) deleteDirs;
                          State_Monad.return (case e of Some e \<Rightarrow> Inl e | None \<Rightarrow> Inr True) }) }) }) }) })"

definition np_vlan :: "string \<Rightarrow> NetVlan \<Rightarrow> netplanVlan" where
  "np_vlan prefix v =
     \<lparr>npv_ID = Vlan v, npv_Link = np_ID prefix (ParentInterfaceID v), npv_DHCPv4 = Some True,
      npv_DHCPv6 = (if IPv6 v \<noteq> [] then Some True else None), npv_OverrideMacAddress = vlan_Mac v,
      npv_MTU = vlan_MTU v, npv_DHCP4Overrides = Some \<lparr>UseDomains = Some False\<rparr>,
      npv_DHCP6Overrides = Some \<lparr>UseDomains = Some False\<rparr>\<rparr>"

definition np_vlan_map :: "string \<Rightarrow> (string \<times> NetVlan) list \<Rightarrow> (string \<times> netplanVlan) list" where
  "np_vlan_map prefix vs =
     fold (\<lambda>x m. AList.update (np_ID prefix (vlan_name (snd x))) (np_vlan prefix (snd x)) m) vs []"

definition np_writeNetplanVLANDropin :: "np_codecs \<Rightarrow> Interfaces \<Rightarrow> ('z, bool res) net_io" where
  "np_writeNetplanVLANDropin cd nics = do {
     prefix \<leftarrow> gets interfacePrefix;
     vs \<leftarrow> range_map (VlanInterfaces nics);
     (if VlanInterfaces nics = [] then State_Monad.return (Inr False)
      else do {
        r \<leftarrow> np_write cd \<lparr>np_Version = netplanConfigVersion, np_Ethernets = None,
               np_Vlans = Some (np_vlan_map prefix vs)\<rparr> ''vlan'';
        State_Monad.return (case r of
          Inl e \<Rightarrow> Inl (Flat ''failed to write netplan vlan drop-in config'' e)
        | Inr wrote \<Rightarrow> Inr wrote) }) }"

definition np_vlan_override :: "string \<Rightarrow> NetVlan \<Rightarrow> networkdNetplanDropin" where
  "np_vlan_override prefix v =
     \<lparr>npd_Match = \<lparr>match_Name = np_ID prefix (vlan_name v), match_Type = []\<rparr>,
      npd_Network = \<lparr>DHCP = (if vlan_DHCPv6Refresh v \<noteq> [] then ''yes'' else ''ipv4''),
        DNSDefaultRoute = False, VLANS = []\<rparr>,
      npd_DHCPv4 = Some \<lparr>RoutesToDNS = False, RoutesToNTP = False\<rparr>\<rparr>"

definition np_vlan_override_step ::
  "np_codecs \<Rightarrow> string \<times> NetVlan \<Rightarrow> bool \<Rightarrow> ('z, goerr + bool) net_io" where
  "np_vlan_override_step cd x reload = do {
     prefix \<leftarrow> gets interfacePrefix;
     r \<leftarrow> np_override_write cd (np_vlan_override prefix (snd x)) (vlan_name (snd x));
     State_Monad.return (case r of
       Inl e \<Rightarrow> Inl (Wrap ''failed to write systemd drop-in config for VLAN'' e)
     | Inr wrote \<Rightarrow> Inr (reload \<or> wrote)) }"

definition np_writeNetworkdVLANDropin :: "np_codecs \<Rightarrow> Interfaces \<Rightarrow> ('z, bool res) net_io" where
  "np_writeNetworkdVLANDropin cd nics = do {
     e \<leftarrow> np_check_dropin_dir;
     (case e of
        Some e \<Rightarrow> State_Monad.return (Inl e)
      | None \<Rightarrow> do {
          vs \<leftarrow> range_map (VlanInterfaces nics);
          for_range (np_vlan_override_step cd) vs False }) }"

definition np_SetupVlanInterface ::
  "np_codecs \<Rightarrow> Sections \<Rightarrow> Interfaces \<Rightarrow> ('z, goerr option outcome) net_io" where
  "np_SetupVlanInterface cd cfg nics = do {
     d \<leftarrow> np_findVlanDiff cd nics;
     (case d of
        Inl e \<Rightarrow> State_Monad.return (Ret (Some (Wrap ''unable to detect vlan nics to delete'' e)))
      | Inr toRemove \<Rightarrow> do {
          r1 \<leftarrow> (case toRemove of None \<Rightarrow> State_Monad.return (Inr False) | Some t \<Rightarrow> np_rollbackVlanNics cd t);
          (case r1 of
             Inl e \<Rightarrow> State_Monad.return (Ret (Some (Wrap ''unable to remove vlan interfaces'' e)))
           | Inr reload1 \<Rightarrow> do {
               r2 \<leftarrow> np_writeNetplanVLANDropin cd nics;
               (case r2 of
                  Inl e \<Rightarrow> State_Monad.return (Ret (Some (Wrap ''unable to write netplan VLAN dropin'' e)))
                | Inr reload2 \<Rightarrow> do {
                    r3 \<leftarrow> np_writeNetworkdVLANDropin cd nics;
                    (case r3 of
                       Inl e \<Rightarrow> State_Monad.return (Ret (Some (Wrap ''unable to write netplan networkd VLAN dropin'' e)))
                     | Inr reload3 \<Rightarrow>
                         if reload1 \<or> reload2 \<or> reload3 then do {
                           e \<leftarrow> np_reloadConfigs;
                           State_Monad.return (Ret (map_option (Wrap ''error applying vlan interface configs'') e)) }
                         else State_Monad.return (Ret None)) }) }) }) }"

subsection \<open>Rollback\<close>

text \<open>The drop-in's key is the interface's name here, without the prefix that \<^verbatim>\<open>ID\<close> adds.\<close>

definition np_files_to_delete :: "string \<Rightarrow> netplanDropin \<Rightarrow> string list \<Rightarrow> string list" where
  "np_files_to_delete prefix existing interfaces =
     concat (map (\<lambda>iface. np_networkdDropinFile prefix iface #
       (if map_of (map_entries (np_Ethernets existing)) iface \<noteq> None then [np_dropinFile ''ethernet''] else []))
       interfaces)"

fun np_delete_files :: "string list \<Rightarrow> bool \<Rightarrow> ('z, bool) net_io" where
  "np_delete_files [] reload = State_Monad.return reload"
| "np_delete_files (f # fl) reload = do {
     e \<leftarrow> os_Remove f;
     np_delete_files fl (reload \<or> e = None) }"

definition np_rollbackConfigs :: "np_codecs \<Rightarrow> Interfaces \<Rightarrow> bool \<Rightarrow> ('z, goerr option) net_io" where
  "np_rollbackConfigs cd nics removeVlan = do {
     interfaces \<leftarrow> interfaceNames (EthernetInterfaces nics);
     ex \<leftarrow> FileExists (np_dropinFile ''ethernet'') TypeFile;
     r \<leftarrow> (if ex then readYamlFile (dropin_codec cd) (np_dropinFile ''ethernet'')
          else State_Monad.return (Inr empty_dropin));
     (case r of
        Inl e \<Rightarrow> State_Monad.return (Some (Wrap ''unable to read trying rollback configs'' e))
      | Inr existing \<Rightarrow> do {
          prefix \<leftarrow> gets interfacePrefix;
          v \<leftarrow> (if removeVlan then np_rollbackVlanNics cd nics else State_Monad.return (Inr False));
          reload \<leftarrow> np_delete_files (np_files_to_delete prefix existing interfaces)
                     (case v of Inl _ \<Rightarrow> False | Inr b \<Rightarrow> b);
          (if \<not> reload then State_Monad.return None
           else do {
             e \<leftarrow> np_reloadConfigs;
             State_Monad.return (map_option (Flat ''error reloading configs'') e) }) }) }"

definition np_Rollback :: "np_codecs \<Rightarrow> Interfaces \<Rightarrow> ('z, goerr option outcome) net_io" where
  "np_Rollback cd nics = do { e \<leftarrow> np_rollbackConfigs cd nics True; State_Monad.return (Ret e) }"

definition np_RollbackNics :: "np_codecs \<Rightarrow> Interfaces \<Rightarrow> ('z, goerr option outcome) net_io" where
  "np_RollbackNics cd nics = do { e \<leftarrow> np_rollbackConfigs cd nics False; State_Monad.return (Ret e) }"

definition np_service :: "np_codecs \<Rightarrow> 'z service" where
  "np_service cd = \<lparr>svc_Name = ''netplan'', svc_Configure = np_Configure,
     svc_IsManaging = np_IsManaging, svc_SetupEthernetInterface = np_SetupEthernetInterface cd,
     svc_SetupVlanInterface = np_SetupVlanInterface cd, svc_Rollback = np_Rollback cd,
     svc_RollbackNics = np_RollbackNics cd\<rparr>"

subsection \<open>What it may change\<close>

definition np_paths :: "string set" where
  "np_paths = range np_dropinFile \<union> {np_networkdDropinFile prefix iface | prefix iface. True} \<union>
     {q. \<exists>key. below (np_dropin_dir key) q}"

text \<open>The directories that writing the drop-in may have to create.\<close>

definition np_dirs :: "string set" where
  "np_dirs = set (dir_prefixes (path_Dir (np_dropinFile ''vlan'')))"

lemma spare_np_write:
  assumes "covers_all S M np_paths" and "np_dirs \<subseteq> S"
  shows "keeps (sparing S M f0) (np_write cd nd ''vlan'')"
proof -
  have p: "np_dropinFile ''vlan'' \<in> np_paths" by (simp add: np_paths_def)
  then have pS: "np_dropinFile ''vlan'' \<in> S" using assms(1) by (auto simp: covers_all_def)
  have dirs: "set (dir_prefixes (path_Dir (np_dropinFile ''vlan''))) \<subseteq> S"
    using assms(2) by (simp add: np_dirs_def)
  show ?thesis
    unfolding np_write_def np_dropin_isSame_def writeYamlFile_def Let_def
    by (intro frame_intros spare_MkdirAll [OF dirs] spare_WriteFile [OF pS covers_all_free [OF assms(1) p]])
qed

lemma learns_np_collect_vlans:
  assumes "\<forall>d \<in> set (fst (snd s)). \<exists>key. d = np_dropin_dir key"
  shows "learns S M f0 (np_collect_vlans prefix vs s) (\<lambda>r. \<forall>d \<in> set (fst (snd r)). \<exists>key. d = np_dropin_dir key)"
  using assms
proof (induction vs arbitrary: s)
  case Nil
  then show ?case by (simp add: learns_return)
next
  case (Cons v vs)
  obtain a b c where s: "s = (a, b, c)" by (cases s)
  show ?case
    unfolding s np_collect_vlans.simps Let_def
    by (rule learns_keeps_bind [OF spare_osinfo(5)], rule Cons.IH) (use Cons.prems s in auto)
qed

lemma spare_np_rollbackVlanNics:
  assumes cov: "covers_all S M np_paths" and dirs: "np_dirs \<subseteq> S"
  shows "keeps (sparing S M f0) (np_rollbackVlanNics cd nics)"
proof -
  have vlan: "np_dropinFile ''vlan'' \<in> np_paths" by (simp add: np_paths_def)
  have store: "keeps (sparing S M f0) (np_store_vlans cd existing)" for existing
    unfolding np_store_vlans_def
    by (intro frame_intros spare_np_write [OF cov dirs] covers_all_free [OF cov vlan])
  have rm: "keeps (sparing S M f0) (os_RemoveAll d)" if "\<exists>key. d = np_dropin_dir key" for d
    by (rule spare_RemoveAll, rule covers_all_free [OF cov]) (use that in \<open>auto simp: np_paths_def\<close>)
  note learn = learns_bind_keeps [OF learns_np_collect_vlans, of "([], [], v)" for v]
  show ?thesis
    unfolding np_rollbackVlanNics_def np_read_vlans_def
    by (intro learn frame_intros store rm) auto
qed

lemma spare_np:
  assumes cov: "covers_all S M np_paths" and dirs: "np_dirs \<subseteq> S"
  shows "sparing_service (np_service cd) S M"
proof -
  have eth: "np_dropinFile ''ethernet'' \<in> np_paths" by (simp add: np_paths_def)
  have files: "set (np_files_to_delete prefix existing ifs) \<subseteq> np_paths" for prefix existing ifs
    by (auto simp: np_files_to_delete_def np_paths_def)
  have del: "keeps (sparing S M f0) (np_delete_files fl b)" if "set fl \<subseteq> np_paths" for f0 fl b
    using that by (induction fl arbitrary: b) (auto intro!: frame_intros covers_all_free [OF cov])
  have configs: "keeps (sparing S M f0) (np_rollbackConfigs cd ns b)" for f0 ns b
    unfolding np_rollbackConfigs_def np_reloadConfigs_def
    by (intro frame_intros spare_np_rollbackVlanNics [OF assms] del files)
  show ?thesis
    by unfold_locales
       (simp_all add: np_service_def np_Rollback_def np_RollbackNics_def np_IsManaging_def,
        (intro frame_intros configs)+)
qed

subsection \<open>Properties\<close>

lemma same_map_refl [simp]: "same_map m m"
  by (simp add: same_map_def)

lemma dropin_DeepEqual_refl [simp]: "dropin_DeepEqual d d"
  by (simp add: dropin_DeepEqual_def)

lemma run_np_write:
  assumes "fault w = (\<lambda>_. None)" and "\<And>d. d \<in> set (dir_prefixes (path_Dir p)) \<Longrightarrow> \<exists>m u. map_of (fs w) d = Some (Dir m u)"
    and p: "p = np_dropinFile suffix" and "plain (fs w) p"
  shows "run_state (np_write cd nd suffix) w =
    (if map_of (fs w) p \<noteq> None \<and> (\<exists>d. dec (dropin_codec cd) (text_of (fs w) p) = Some d \<and> dropin_DeepEqual nd d)
     then (Inr False, w\<lparr>tick := Suc (Suc (tick w))\<rparr>)
     else run_state (do {
        e \<leftarrow> writeYamlFile (dropin_codec cd) p nd;
        State_Monad.return (case e of Some e \<Rightarrow> Inl (Wrap ''error saving netplan drop-in file'' e) | None \<Rightarrow> Inr True) })
       (w\<lparr>tick := Suc (Suc (tick w))\<rparr>))"
proof -
  have mk: "run_state (os_MkdirAll (path_Dir p) 493) w = (None, w\<lparr>tick := Suc (tick w)\<rparr>)"
    by (rule run_MkdirAll_present [OF assms(1,2)])
  have rd: "run_state (os_ReadFile p) (w\<lparr>tick := Suc (tick w)\<rparr>) =
     (if map_of (fs w) p = None then Inl (Sys ENOENT) else Inr (text_of (fs w) p), w\<lparr>tick := Suc (Suc (tick w))\<rparr>)"
    using run_ReadFile_plain [of "w\<lparr>tick := Suc (tick w)\<rparr>" p] assms(1,4) by simp
  show ?thesis
    using mk rd
    by (cases "dec (dropin_codec cd) (text_of (fs w) p)")
       (simp_all add: np_write_def np_dropin_isSame_def readYamlFile_def p [symmetric] Let_def)
qed


text \<open>A format for one drop-in only.\<close>

definition one_dropin :: netplanDropin where
  "one_dropin = \<lparr>np_Version = 2, np_Ethernets = None, np_Vlans = None\<rparr>"

definition one_codecs :: np_codecs where
  "one_codecs = \<lparr>dropin_codec = \<lparr>dec = (\<lambda>s. if s = ''v2'' then Some one_dropin else None),
       enc = (\<lambda>d. if d = one_dropin then Some ''v2'' else None)\<rparr>,
     override_codec = \<lparr>dec = (\<lambda>_. None), enc = (\<lambda>_. None)\<rparr>\<rparr>"


end
