(* ===== verification/Dhclient.thy ===== *)
theory Dhclient
  imports NetCommon
begin

text \<open>
  The manager for dhclient (\<^verbatim>\<open>network/manager/dhclient_linux.go\<close>) and the search for processes it uses
  (\<^verbatim>\<open>ps/ps_linux.go\<close>), which reads the proc file system. It runs commands and writes no file itself.
\<close>

subsection \<open>Processes\<close>

record Process =
  Pid :: int
  Exe :: string
  CommandLine :: "string list"

text \<open>The tokens of a command line, each of which a zero byte ends.\<close>

fun cmdline_tokens :: "string \<Rightarrow> string \<Rightarrow> string list" where
  "cmdline_tokens token [] = []"
| "cmdline_tokens token (c # s) =
     (if c = CHR 0x00 then token # cmdline_tokens [] s else cmdline_tokens (token @ [c]) s)"

definition linuxProcDir :: string where
  "linuxProcDir = ''/proc/''"

definition ps_step ::
  "(string \<Rightarrow> bool) \<Rightarrow> string \<times> node \<Rightarrow> Process list \<Rightarrow> ('z, goerr + Process list) io" where
  "ps_step exeMatch file result =
     (if \<not> node_IsDir (snd file) \<or> \<not> list_all is_digit (fst file) then State_Monad.return (Inr result)
      else do {
        let processRootDir = path_Join [linuxProcDir, fst file];
        l \<leftarrow> os_Readlink (path_Join [processRootDir, ''exe'']);
        (case l of
           Inl _ \<Rightarrow> State_Monad.return (Inr result)
         | Inr exePath \<Rightarrow>
             if \<not> exeMatch exePath then State_Monad.return (Inr result)
             else do {
               d \<leftarrow> os_ReadFile (path_Join [processRootDir, ''cmdline'']);
               State_Monad.return (case d of
                 Inl e \<Rightarrow> Inl (Flat ''error reading cmdline file'' e)
               | Inr dat \<Rightarrow>
                   (case Atoi (fst file) of
                      None \<Rightarrow> Inl (Msg ''error parsing PID'')
                    | Some pid \<Rightarrow>
                        Inr (result @ [\<lparr>Pid = pid, Exe = exePath, CommandLine = cmdline_tokens [] dat\<rparr>]))) }) })"

definition ps_Find :: "(string \<Rightarrow> bool) \<Rightarrow> ('z, Process list res) io" where
  "ps_Find exeMatch = do {
     r \<leftarrow> os_ReadDir (Clean linuxProcDir);
     (case r of
        Inl e \<Rightarrow> State_Monad.return (Inl (Flat ''failed to read linux proc dir'' e))
      | Inr files \<Rightarrow> for_range (ps_step exeMatch) files []) }"

subsection \<open>Protocols and commands\<close>

record ipVersion =
  Desc :: string
  Flag :: string

definition ipv4 :: ipVersion where
  "ipv4 = \<lparr>Desc = ''ipv4'', Flag = ''-4''\<rparr>"

definition ipv6 :: ipVersion where
  "ipv6 = \<lparr>Desc = ''ipv6'', Flag = ''-6''\<rparr>"

definition baseDhclientDir :: string where
  "baseDhclientDir = ''/run''"

definition vlanIfaceCommonSet :: CommandSet where
  "vlanIfaceCommonSet = [
     \<lparr>Command = ''ip link add link {{.ParentInterface}} name {{.Iface}} type vlan id {{.Vlan}} reorder_hdr off'',
      Error = ''vlan({{.Iface}}): failed to add link''\<rparr>,
     \<lparr>Command = ''ip link set dev {{.Iface}} address {{.MacAddress}}'',
      Error = ''vlan({{.Iface}}): failed to set itnerface's mac address''\<rparr>,
     \<lparr>Command = ''ip link set dev {{.Iface}} mtu {{.MTU}}'',
      Error = ''vlan({{.Iface}}): failed to set interface's MTU''\<rparr>,
     \<lparr>Command = ''ip link set up {{.Iface}}'',
      Error = ''vlan({{.Iface}}): failed to bring interface up''\<rparr>]"

definition ipAddressSet :: CommandSet where
  "ipAddressSet = [
     \<lparr>Command = ''ip {{.IPVersion.Flag}} addr add dev {{.Iface}} {{.Address}}'',
      Error = ''vlan({{.Iface}}): failed to set ip address {{.Address}}''\<rparr>]"

definition commonRouteSet :: CommandSet where
  "commonRouteSet = [
     \<lparr>Command = ''ip {{.IPVersion.Flag}} route add {{.Gateway}} dev {{.Iface}}'',
      Error = ''vlan({{.Iface}}): failed to add {{.IPVersion.Desc}} route to gateway {{.Gateway}}''\<rparr>]"

definition ipv4RouteCommand :: CommandSet where
  "ipv4RouteCommand = [
     \<lparr>Command = ''ip route add {{.Address}} via {{.Gateway}}'',
      Error = ''vlan({{.Iface}}): failed to set gateway route''\<rparr>]"

definition deleteLinkCmd :: CommandSpec where
  "deleteLinkCmd = \<lparr>Command = ''ip link delete {{.Iface}}'', Error = ''vlan({{.Iface}}): failed to delete link''\<rparr>"

record InterfaceConfig =
  ic_Iface :: string
  ic_ParentInterface :: string
  ic_MTU :: int
  ic_MacAddress :: string
  ic_Vlan :: int

record IPConfig = InterfaceConfig +
  ipc_IPVersion :: ipVersion
  ipc_Address :: string
  ipc_Gateway :: string

text \<open>The template fields of the two structures; the second embeds the first.\<close>

definition InterfaceConfig_data :: "'z InterfaceConfig_scheme \<Rightarrow> string \<Rightarrow> string option" where
  "InterfaceConfig_data c = map_of [
     (''Iface'', ic_Iface c), (''ParentInterface'', ic_ParentInterface c), (''MTU'', show_int (ic_MTU c)),
     (''MacAddress'', ic_MacAddress c), (''Vlan'', show_int (ic_Vlan c))]"

definition IPConfig_data :: "IPConfig \<Rightarrow> string \<Rightarrow> string option" where
  "IPConfig_data c = InterfaceConfig_data c ++ map_of [
     (''IPVersion.Desc'', Desc (ipc_IPVersion c)), (''IPVersion.Flag'', Flag (ipc_IPVersion c)),
     (''Address'', ipc_Address c), (''Gateway'', ipc_Gateway c)]"

subsection \<open>Leases\<close>

definition pidFilePath :: "string \<Rightarrow> ipVersion \<Rightarrow> string" where
  "pidFilePath iface v =
     path_Join [baseDhclientDir, ''dhclient.google-guest-agent.'' @ iface @ ''.'' @ Flag v @ ''.pid'']"

definition leaseFilePath :: "string \<Rightarrow> ipVersion \<Rightarrow> string" where
  "leaseFilePath iface v =
     path_Join [baseDhclientDir, ''dhclient.google-guest-agent.'' @ iface @ ''.'' @ Flag v @ ''.lease'']"

definition runDhclient :: "ipVersion \<Rightarrow> string \<Rightarrow> bool \<Rightarrow> ('z, goerr option) io" where
  "runDhclient v nic release = do {
     let dhclientArgs = [''dhclient'', Flag v, ''-pf'', pidFilePath nic v, ''-lf'', leaseFilePath nic v];
     (if release then do {
        e \<leftarrow> Quiet (dhclientArgs @ [''-r'', nic]);
        State_Monad.return (map_option (Flat (''error releasing lease for '' @ nic)) e) }
      else do {
        e \<leftarrow> Quiet (dhclientArgs @ [nic]);
        State_Monad.return (map_option (Flat (''error running dhclient for '' @ nic)) e) }) }"

text \<open>The first process that decides, for one protocol: for IPv6 the first with the interface's name.\<close>

fun process_for :: "string \<Rightarrow> ipVersion \<Rightarrow> Process list \<Rightarrow> bool" where
  "process_for iface v [] \<longleftrightarrow> False"
| "process_for iface v (p # ps) \<longleftrightarrow>
     (if slice_contains (CommandLine p) iface \<and> v = ipv6 then slice_contains (CommandLine p) (Flag v)
      else if slice_contains (CommandLine p) iface \<and> v = ipv4 \<and> \<not> slice_contains (CommandLine p) (Flag ipv6)
      then True
      else process_for iface v ps)"

definition find_dhclient :: "('z, Process list res) io" where
  "find_dhclient = do {
     r \<leftarrow> ps_Find (\<lambda>exe. Contains exe ''dhclient'');
     State_Monad.return (case r of Inl e \<Rightarrow> Inl (Flat ''error finding dhclient process'' e) | Inr ps \<Rightarrow> Inr ps) }"

definition dhclientProcessExists :: "string \<Rightarrow> ipVersion \<Rightarrow> ('z, bool res) io" where
  "dhclientProcessExists iface v = do {
     r \<leftarrow> find_dhclient;
     State_Monad.return (case r of Inl e \<Rightarrow> Inl e | Inr ps \<Rightarrow> Inr (process_for iface v ps)) }"

definition anyDhclientProcessExists :: "Interfaces \<Rightarrow> ('z, bool res) net_io" where
  "anyDhclientProcessExists nics = do {
     r \<leftarrow> find_dhclient;
     (case r of
        Inl e \<Rightarrow> State_Monad.return (Inl e)
      | Inr ps \<Rightarrow>
          if ps = [] then State_Monad.return (Inr False)
          else do {
            interfaces \<leftarrow> interfaceNames (EthernetInterfaces nics);
            State_Monad.return (Inr (\<exists>p \<in> set ps. \<exists>iface \<in> set interfaces. slice_contains (CommandLine p) iface)) }) }"

text \<open>The three lists: obtain IPv4, obtain IPv6, release IPv6.\<close>

type_synonym partition = "string list \<times> string list \<times> string list"

definition partition_step ::
  "string list \<Rightarrow> nat \<times> string \<Rightarrow> partition \<Rightarrow> ('z, goerr + partition) net_io" where
  "partition_step ipv6Interfaces x s =
     (case (x, s) of ((i, iface), (o4, o6, r6)) \<Rightarrow> do {
        b \<leftarrow> shouldManageInterface (i = 0);
        (if \<not> b \<or> isInvalid iface then State_Monad.return (Inr s)
         else do {
           u \<leftarrow> (if i = 0 then isUbuntu1804 else State_Monad.return False);
           (if u then State_Monad.return (Inr s)
            else do {
              p4 \<leftarrow> dhclientProcessExists iface ipv4;
              (case p4 of
                 Inl e \<Rightarrow> State_Monad.return (Inl e)
               | Inr b4 \<Rightarrow> do {
                   p6 \<leftarrow> dhclientProcessExists iface ipv6;
                   State_Monad.return (case p6 of
                     Inl e \<Rightarrow> Inl e
                   | Inr b6 \<Rightarrow>
                       (let v6 = slice_contains ipv6Interfaces iface in
                        Inr (if b4 then o4 else o4 @ [iface],
                             if v6 \<and> \<not> b6 then o6 @ [iface] else o6,
                             if \<not> v6 \<and> b6 then r6 @ [iface] else r6))) }) }) }) })"

definition partitionInterfaces :: "string list \<Rightarrow> string list \<Rightarrow> ('z, partition res) net_io" where
  "partitionInterfaces interfaces ipv6Interfaces =
     for_range (partition_step ipv6Interfaces) (enumerate 0 interfaces) ([], [], [])"

text \<open>At most five looks at the tentative addresses of the first interface, a second apart.\<close>

fun wait_tentative :: "nat \<Rightarrow> string \<Rightarrow> ('z, unit) io" where
  "wait_tentative 0 iface = State_Monad.return ()"
| "wait_tentative (Suc n) iface = do {
     res \<leftarrow> WithOutput [''ip'', ''-6'', ''-o'', ''a'', ''s'', ''dev'', iface, ''scope'', ''link'', ''tentative''];
     (if ExitCode res = 0 \<and> StdOut res = [] then State_Monad.return ()
      else do { time_Sleep 1000000000; wait_tentative n iface }) }"

definition obtain_ipv6 :: "string \<Rightarrow> ('z, goerr option) io" where
  "obtain_ipv6 iface = do {
     e \<leftarrow> Quiet [''sysctl'', ''net.ipv6.conf.'' @ iface @ ''.accept_ra_rt_info_max_plen=128''];
     (case e of
        Some e \<Rightarrow> State_Monad.return (Some e)
      | None \<Rightarrow> do { _ \<leftarrow> runDhclient ipv6 iface False; State_Monad.return None }) }"

definition dh_SetupEthernetInterface :: "Sections \<Rightarrow> Interfaces \<Rightarrow> ('z, goerr option outcome) net_io" where
  "dh_SetupEthernetInterface cfg nics =
     (let dhcpCommand = DHCPCommand (NetworkSection cfg) in
      if dhcpCommand \<noteq> [] then do { e \<leftarrow> Quiet (Split dhcpCommand (CHR '' '')); State_Monad.return (Ret e) }
      else do {
        l \<leftarrow> interfaceListsIpv4Ipv6 (EthernetInterfaces nics);
        r \<leftarrow> partitionInterfaces (fst l) (snd l);
        (case r of
           Inl e \<Rightarrow> State_Monad.return (Ret (Some (Flat ''error partitioning interfaces'' e)))
         | Inr (o4, o6, r6) \<Rightarrow> do {
             for_all (\<lambda>iface. do { _ \<leftarrow> runDhclient ipv6 iface True; State_Monad.return () }) r6;
             for_all (\<lambda>iface. do { _ \<leftarrow> runDhclient ipv4 iface False; State_Monad.return () }) o4;
             (if o6 = [] then State_Monad.return (Ret None)
              else do {
                wait_tentative 5 (hd (fst l));
                e \<leftarrow> for_err obtain_ipv6 o6;
                State_Monad.return (Ret e) }) }) })"

subsection \<open>VLAN interfaces\<close>

text \<open>
  Whether the expression \<^verbatim>\<open>(?P<prefix>gcp).(?P<parent>.*)\.(?P<vlan>[0-9]+)\<close> matches somewhere: its point
  after \<^verbatim>\<open>gcp\<close> stands for any character but a newline.
\<close>

fun point_digit :: "string \<Rightarrow> bool" where
  "point_digit (a # b # s) \<longleftrightarrow> (a = CHR ''.'' \<and> is_digit b) \<or> (a \<noteq> CHR 0x0A \<and> point_digit (b # s))"
| "point_digit _ \<longleftrightarrow> False"

fun dh_vlan_match :: "string \<Rightarrow> bool" where
  "dh_vlan_match [] \<longleftrightarrow> False"
| "dh_vlan_match (c # s) \<longleftrightarrow>
     (case strip_prefix ''gcp'' (c # s) of
        Some (x # r) \<Rightarrow> (x \<noteq> CHR 0x0A \<and> point_digit r) \<or> dh_vlan_match s
      | _ \<Rightarrow> dh_vlan_match s)"

definition dh_remove_step :: "string list \<Rightarrow> NetIf \<Rightarrow> ('z, goerr option) net_io" where
  "dh_remove_step keepMe i =
     (if slice_contains keepMe (if_Name i) \<or> \<not> dh_vlan_match (if_Name i) then State_Monad.return None
      else spec_RunQuiet deleteLinkCmd (InterfaceConfig_data
        \<lparr>ic_Iface = if_Name i, ic_ParentInterface = [], ic_MTU = 0, ic_MacAddress = [], ic_Vlan = 0\<rparr>))"

definition dh_removeVlanInterfaces :: "string list \<Rightarrow> ('z, goerr option) net_io" where
  "dh_removeVlanInterfaces keepMe = do {
     r \<leftarrow> net_Interfaces;
     (case r of
        Inl e \<Rightarrow> State_Monad.return (Some (Flat ''failed to list systems interfaces'' e))
      | Inr ifs \<Rightarrow> for_err (dh_remove_step keepMe) ifs) }"

definition dh_interface_config :: "NetVlan \<Rightarrow> InterfaceConfig" where
  "dh_interface_config v = \<lparr>ic_Iface = vlan_name v, ic_ParentInterface = ParentInterfaceID v,
     ic_MTU = vlan_MTU v, ic_MacAddress = vlan_Mac v, ic_Vlan = Vlan v\<rparr>"

definition dh_ip_config :: "NetVlan \<Rightarrow> ipVersion \<Rightarrow> string \<Rightarrow> string \<Rightarrow> IPConfig" where
  "dh_ip_config v ver address gateway = InterfaceConfig.extend (dh_interface_config v)
     \<lparr>ipc_IPVersion = ver, ipc_Address = address, ipc_Gateway = gateway\<rparr>"

text \<open>The command sets per address: a map, so that a repeated address has the sets of its last occurrence.\<close>

definition dh_batches :: "NetVlan \<Rightarrow> (IPConfig \<times> CommandSet list) list" where
  "dh_batches v = fold (\<lambda>(i, a) m.
       AList.update (dh_ip_config v ipv6 a (GatewayIPv6 v))
         (if i = 0 then [ipAddressSet, commonRouteSet] else [ipAddressSet]) m)
     (enumerate (0 :: nat) (IPv6 v))
     (if IP v \<noteq> []
      then [(dh_ip_config v ipv4 (IP v) (Gateway v), [ipAddressSet, commonRouteSet, ipv4RouteCommand])] else [])"

definition dh_run_batches :: "(IPConfig \<times> CommandSet list) list \<Rightarrow> ('z, goerr option) net_io" where
  "dh_run_batches bs = for_err (\<lambda>(cfg, batch). for_err (\<lambda>cs. set_RunQuiet cs (IPConfig_data cfg)) batch) bs"

definition dh_create_vlan :: "bool \<Rightarrow> NetVlan \<Rightarrow> ('z, goerr option) net_io" where
  "dh_create_vlan found v = do {
     let ifaceDesc = dh_interface_config v;
     e \<leftarrow> (if found then spec_RunQuiet deleteLinkCmd (InterfaceConfig_data ifaceDesc) else State_Monad.return None);
     (case e of
        Some e \<Rightarrow> State_Monad.return (Some e)
      | None \<Rightarrow> do {
          e \<leftarrow> set_RunQuiet vlanIfaceCommonSet (InterfaceConfig_data ifaceDesc);
          (case e of
             Some e \<Rightarrow> State_Monad.return (Some e)
           | None \<Rightarrow> do {
               bs \<leftarrow> range_map (dh_batches v);
               dh_run_batches bs }) }) }"

definition dh_vlan_step ::
  "(string \<times> NetIf) list \<Rightarrow> string \<times> NetVlan \<Rightarrow> string list \<Rightarrow> ('z, goerr + string list) net_io" where
  "dh_vlan_step interfaceMap x keepMe =
     (let v = snd x; existing = map_of interfaceMap (vlan_name v) in
      if (case existing of
            None \<Rightarrow> False
          | Some i \<Rightarrow> HardwareAddr_String (HardwareAddr i) = vlan_Mac v \<and> if_MTU i = vlan_MTU v)
      then State_Monad.return (Inr (keepMe @ [vlan_name v]))
      else do {
        e \<leftarrow> dh_create_vlan (existing \<noteq> None) v;
        State_Monad.return (case e of Some e \<Rightarrow> Inl e | None \<Rightarrow> Inr (keepMe @ [vlan_name v])) })"

definition dh_SetupVlanInterface :: "Sections \<Rightarrow> Interfaces \<Rightarrow> ('z, goerr option outcome) net_io" where
  "dh_SetupVlanInterface cfg nics = do {
     r \<leftarrow> net_Interfaces;
     (case r of
        Inl e \<Rightarrow> State_Monad.return (Ret (Some (Flat ''failed to list systems interfaces'' e)))
      | Inr ifs \<Rightarrow> do {
          vs \<leftarrow> range_map (VlanInterfaces nics);
          k \<leftarrow> for_range (dh_vlan_step (rev (map (\<lambda>i. (if_Name i, i)) ifs))) vs [];
          (case k of
             Inl e \<Rightarrow> State_Monad.return (Ret (Some e))
           | Inr keepMe \<Rightarrow> do {
               e \<leftarrow> dh_removeVlanInterfaces keepMe;
               State_Monad.return (Ret (map_option (Flat ''failed to remove uninstalled vlan interfaces'') e)) }) }) }"

subsection \<open>The service\<close>

definition dh_Configure :: "Sections \<Rightarrow> ('z, unit) net_io" where
  "dh_Configure cfg = State_Monad.return ()"

definition isDhclientInstalled :: "('z, bool \<times> goerr option) io" where
  "isDhclientInstalled = cliExists ''dhclient''"

definition dh_IsManaging :: "string \<Rightarrow> ('z, (bool \<times> goerr option) outcome) net_io" where
  "dh_IsManaging iface = do { r \<leftarrow> isDhclientInstalled; State_Monad.return (Ret r) }"

definition dh_release :: "ipVersion \<Rightarrow> string \<Rightarrow> ('z, goerr option) io" where
  "dh_release v iface = do {
     r \<leftarrow> dhclientProcessExists iface v;
     (case r of
        Inl e \<Rightarrow> State_Monad.return
          (Some (Flat (''error checking if '' @ Desc v @ '' dhclient process exists for '' @ iface) e))
      | Inr b \<Rightarrow> if b then runDhclient v iface True else State_Monad.return None) }"

definition dh_release_nics :: "Interfaces \<Rightarrow> ('z, goerr option) net_io" where
  "dh_release_nics nics = do {
     x \<leftarrow> isDhclientInstalled;
     (if \<not> fst x \<or> snd x \<noteq> None then State_Monad.return None
      else do {
        l \<leftarrow> interfaceListsIpv4Ipv6 (EthernetInterfaces nics);
        e \<leftarrow> for_err (dh_release ipv4) (fst l);
        (case e of
           Some e \<Rightarrow> State_Monad.return (Some e)
         | None \<Rightarrow> for_err (dh_release ipv6) (snd l)) }) }"

definition dh_RollbackNics :: "Interfaces \<Rightarrow> ('z, goerr option outcome) net_io" where
  "dh_RollbackNics nics = do { e \<leftarrow> dh_release_nics nics; State_Monad.return (Ret e) }"

definition dh_Rollback :: "Interfaces \<Rightarrow> ('z, goerr option outcome) net_io" where
  "dh_Rollback nics = do {
     e \<leftarrow> dh_release_nics nics;
     (case e of
        Some e \<Rightarrow> State_Monad.return (Ret (Some (Wrap ''failed to rollback ethernet interfaces'' e)))
      | None \<Rightarrow> do {
          m \<leftarrow> anyDhclientProcessExists nics;
          (case m of
             Inl e \<Rightarrow> State_Monad.return (Ret (Some (Wrap ''unable to detect if nics are dhclient managed'' e)))
           | Inr managed \<Rightarrow>
               if \<not> managed then State_Monad.return (Ret None)
               else do {
                 e \<leftarrow> dh_removeVlanInterfaces [];
                 State_Monad.return (Ret (map_option (Flat ''failed to rollback vlan interfaces'') e)) }) }) }"

definition dh_service :: "'z service" where
  "dh_service = \<lparr>svc_Name = ''dhclient'', svc_Configure = dh_Configure,
     svc_IsManaging = dh_IsManaging, svc_SetupEthernetInterface = dh_SetupEthernetInterface,
     svc_SetupVlanInterface = dh_SetupVlanInterface, svc_Rollback = dh_Rollback,
     svc_RollbackNics = dh_RollbackNics\<rparr>"

subsection \<open>What it may change\<close>

text \<open>Nothing: only the commands it runs may change files.\<close>

lemma spare_find_dhclient [frame_intros]:
  "keeps (sparing S M f0) find_dhclient"
  "keeps (sparing S M f0) (dhclientProcessExists iface v)"
  "keeps (sparing S M f0) (anyDhclientProcessExists nics)"
  "keeps (sparing S M f0) (runDhclient v nic b)"
  unfolding find_dhclient_def dhclientProcessExists_def anyDhclientProcessExists_def ps_Find_def ps_step_def
    runDhclient_def Let_def
  by (intro frame_intros)+

lemma spare_dh: "sparing_service dh_service S M"
proof -
  have release: "keeps (sparing S M f0) (dh_release_nics nics)" for f0 nics
    unfolding dh_release_nics_def dh_release_def isDhclientInstalled_def by (intro frame_intros)
  have vlans: "keeps (sparing S M f0) (dh_removeVlanInterfaces keep)" for f0 keep
    unfolding dh_removeVlanInterfaces_def dh_remove_step_def by (intro frame_intros)
  show ?thesis
    by unfold_locales
       (simp_all add: dh_service_def dh_Rollback_def dh_RollbackNics_def dh_IsManaging_def isDhclientInstalled_def,
        (intro frame_intros release vlans)+)
qed

subsection \<open>Which leases change\<close>

definition sound_partition :: "string list \<Rightarrow> string list \<Rightarrow> partition \<Rightarrow> bool" where
  "sound_partition interfaces ipv6Interfaces p \<longleftrightarrow>
     (case p of (o4, o6, r6) \<Rightarrow>
        (\<forall>i \<in> set o4 \<union> set o6 \<union> set r6. i \<in> set interfaces \<and> \<not> isInvalid i) \<and>
        set o6 \<subseteq> set ipv6Interfaces \<and> set r6 \<inter> set ipv6Interfaces = {})"

lemma partition_step_sound:
  assumes "run_state (partition_step v6 (i, iface) s) w = (Inr s', w')"
    and "iface \<in> set ifs" and "sound_partition ifs v6 s"
  shows "sound_partition ifs v6 s'"
proof (cases s)
  case (fields o4 o6 r6)
  with assms show ?thesis
    by (auto simp: partition_step_def sound_partition_def slice_contains_def Let_def
        split: prod.splits if_splits sum.splits)
qed

lemma partitionInterfaces_sound:
  assumes "run_state (partitionInterfaces ifs v6) w = (Inr p, w')"
  shows "sound_partition ifs v6 p"
  using assms unfolding partitionInterfaces_def
proof (rule for_range_inv)
  fix x b b' and w w' :: "'a net_agent_scheme"
  assume x: "x \<in> set (enumerate 0 ifs)" and b: "sound_partition ifs v6 b"
    and r: "run_state (partition_step v6 x b) w = (Inr b', w')"
  from x have "snd x \<in> set ifs"
    by (metis in_set_conv_nth length_enumerate nth_enumerate_eq snd_conv)
  with r b show "sound_partition ifs v6 b'"
    using partition_step_sound [of v6 "fst x" "snd x"] by simp
qed (simp add: sound_partition_def)

text \<open>
  C30: of the interfaces that have leases to obtain or to release, every one is an interface of the list
  and not marked invalid; an IPv6 lease is obtained only for an interface that has IPv6 and released
  only for one that does not.
\<close>

theorem partitionInterfaces_leases:
  assumes "run_state (partitionInterfaces ifs v6) w = (Inr (o4, o6, r6), w')"
  shows "(\<forall>i \<in> set o4 \<union> set o6 \<union> set r6. i \<in> set ifs \<and> \<not> isInvalid i) \<and>
     set o6 \<subseteq> set v6 \<and> set r6 \<inter> set v6 = {}"
  using partitionInterfaces_sound [OF assms] by (simp add: sound_partition_def)

theorem partitionInterfaces_leases_witness:
  "\<exists>o4 o6 r6 w'. run_state (partitionInterfaces [''eth0'', ''eth1'', ''invalid-x''] [''eth1''])
       (calm_net [(''/proc'', Dir 365 (0, 0))] []) = (Inr (o4, o6, r6), w') \<and>
     o6 = [''eth1''] \<and> set o6 \<subseteq> set [''eth1'']"
proof -
  let ?r = "run_state (partitionInterfaces [''eth0'', ''eth1'', ''invalid-x''] [''eth1''])
       (calm_net [(''/proc'', Dir 365 (0, 0))] [])"
  have "fst ?r = Inr ([''eth1''], [''eth1''], [])"
    by code_simp
  then obtain w' where r: "?r = (Inr ([''eth1''], [''eth1''], []), w')"
    by (metis prod.collapse)
  with partitionInterfaces_leases [OF r] show ?thesis by blast
qed

end
