(* ===== verification/NetManager.thy ===== *)
theory NetManager
  imports Wicked NetworkMgr Networkd Netplan Dhclient
begin

text \<open>
  The choice of a network manager and its set-up (\<^verbatim>\<open>network/manager/manager.go\<close>) over the managers in
  the order of \<^verbatim>\<open>manager_linux.go\<close>. A service is identified by its name. The goroutine that
  \<^verbatim>\<open>SetupInterfaces\<close> starts only logs; its commands are the last of the model's run. The contract
  \<^verbatim>\<open>sparing_service\<close> is interpreted here for every manager, on the paths and marks of all of them.
\<close>

definition logInterfaceState :: "('z, unit) net_io" where
  "logInterfaceState = do {
     _ \<leftarrow> net_Interfaces;
     _ \<leftarrow> WithOutput [''ip'', ''route''];
     State_Monad.return () }"

fun detectNetworkManager :: "'z service list \<Rightarrow> string \<Rightarrow> ('z, 'z service res outcome) net_io" where
  "detectNetworkManager [] iface =
     State_Monad.return (Ret (Inl (Msg (''no network manager impl found for '' @ iface))))"
| "detectNetworkManager (s # known) iface = do {
     r \<leftarrow> svc_IsManaging s iface;
     (case r of
        Panic m \<Rightarrow> State_Monad.return (Panic m)
      | Ret (active, Some e) \<Rightarrow> State_Monad.return (Ret (Inl e))
      | Ret (active, None) \<Rightarrow>
          if active then State_Monad.return (Ret (Inr s)) else detectNetworkManager known iface) }"

text \<open>The VLANs of one parent, and of all of them; an index that is negative panics.\<close>

definition vlan_key :: "int \<Rightarrow> int \<Rightarrow> string" where
  "vlan_key parentID vlanID = show_int parentID @ ''-'' @ show_int vlanID"

definition add_vlans ::
  "int \<Rightarrow> string \<Rightarrow> (int \<times> VlanInterface) list \<Rightarrow> (string \<times> NetVlan) list \<Rightarrow> (string \<times> NetVlan) list" where
  "add_vlans parentID parent vlans m =
     fold (\<lambda>(vlanID, vlan) m.
         AList.update (vlan_key parentID vlanID) (VlanInterface.extend vlan \<lparr>ParentInterfaceID = parent\<rparr>) m)
       vlans m"

definition reformat_step ::
  "string list \<Rightarrow> int \<times> (int \<times> VlanInterface) list \<Rightarrow> (string \<times> NetVlan) list \<Rightarrow>
   ('z, goerr option outcome + (string \<times> NetVlan) list) net_io" where
  "reformat_step ethernetInterfaces x m =
     (case x of (parentID, vlans) \<Rightarrow>
        if parentID \<ge> int (length ethernetInterfaces)
        then State_Monad.return (Inl (Ret (Some (Msg ''invalid parent index''))))
        else do {
          vs \<leftarrow> range_map vlans;
          State_Monad.return
            (if vs \<noteq> [] \<and> parentID < 0 then Inl (Panic ''index out of range'')
             else Inr (add_vlans parentID (ethernetInterfaces ! nat parentID) vs m)) })"

definition reformatVlanNics ::
  "Descriptor \<Rightarrow> Interfaces \<Rightarrow> string list \<Rightarrow> ('z, goerr option outcome + Interfaces) net_io" where
  "reformatVlanNics mds nics ethernetInterfaces = do {
     ps \<leftarrow> range_map (VlanNetworkInterfaces (Inst mds));
     r \<leftarrow> for_range (reformat_step ethernetInterfaces) ps (VlanInterfaces nics);
     State_Monad.return (case r of Inl e \<Rightarrow> Inl e | Inr m \<Rightarrow> Inr (nics\<lparr>VlanInterfaces := m\<rparr>)) }"

definition debian12NetplanFile :: string where
  "debian12NetplanFile = ''/etc/netplan/90-default.yaml''"

definition debian12NetplanConfig :: string where
  "debian12NetplanConfig = concat (map (\<lambda>l. l @ ''\<newline>'')
     [''network:'', ''    version: 2'', ''    ethernets:'', ''        all-en:'', ''            match:'',
      ''                name: en*'', ''            dhcp4: true'', ''            dhcp4-overrides:'',
      ''                use-domains: true'', ''            dhcp6: true'', ''            dhcp6-overrides:'',
      ''                use-domains: true'', ''        all-eth:'', ''            match:'',
      ''                name: eth*'', ''            dhcp4: true'', ''            dhcp4-overrides:'',
      ''                use-domains: true'', ''            dhcp6: true'', ''            dhcp6-overrides:'',
      ''                use-domains: true''])"

definition restoreDebian12NetplanConfig :: "Sections \<Rightarrow> ('z, goerr option) net_io" where
  "restoreDebian12NetplanConfig cfg =
     (if \<not> RestoreDebian12NetplanConfig (NetworkSection cfg) then State_Monad.return None
      else do {
        osDesc \<leftarrow> net_osinfo;
        (if OS osDesc \<noteq> ''debian'' \<or> Major (Version osDesc) \<noteq> 12 then State_Monad.return None
         else do {
           s \<leftarrow> os_Stat debian12NetplanFile;
           (case s of
              Inr _ \<Rightarrow> State_Monad.return None
            | Inl e \<Rightarrow>
                if \<not> os_IsNotExist e then State_Monad.return (Some e)
                else do {
                  e \<leftarrow> utils_WriteFile debian12NetplanConfig debian12NetplanFile 420;
                  State_Monad.return (map_option (Wrap ''Failed to recreate default netplan config'') e) }) }) })"

text \<open>An operation on every manager, whose errors are only logged.\<close>

fun each_service ::
  "('z service \<Rightarrow> ('z, goerr option outcome) net_io) \<Rightarrow> 'z service list \<Rightarrow> ('z, unit outcome) net_io" where
  "each_service act [] = State_Monad.return (Ret ())"
| "each_service act (s # ss) = unless_panic (act s) (\<lambda>_. each_service act ss)"

definition rollbackLeftoverConfigs ::
  "'z service list \<Rightarrow> Sections \<Rightarrow> Descriptor \<Rightarrow> ('z, goerr option outcome) net_io" where
  "rollbackLeftoverConfigs known cfg mds = do {
     e \<leftarrow> restoreDebian12NetplanConfig cfg;
     (case e of
        Some e \<Rightarrow> State_Monad.return (Ret (Some (Flat ''Failed to restore debian-12 netplan configuration'' e)))
      | None \<Rightarrow>
          if ManagePrimaryNIC (NetworkSection cfg) then State_Monad.return (Ret None)
          else case InstanceNetworkInterfaces (Inst mds) of
            [] \<Rightarrow> State_Monad.return (Panic ''index out of range'')
          | primaryInterface # _ \<Rightarrow>
              unless_panic
                (each_service (\<lambda>svc. svc_RollbackNics svc
                   \<lparr>EthernetInterfaces = [primaryInterface], VlanInterfaces = []\<rparr>) known)
                (\<lambda>_. State_Monad.return (Ret None))) }"

text \<open>The set-up by the manager in charge.\<close>

definition setup_active ::
  "'z service \<Rightarrow> Sections \<Rightarrow> Descriptor \<Rightarrow> Interfaces \<Rightarrow> string list \<Rightarrow> ('z, goerr option outcome) net_io" where
  "setup_active svc cfg mds nics interfaces = do {
     svc_Configure svc cfg;
     unless_panic (svc_SetupEthernetInterface svc cfg nics) (\<lambda>e. case e of
       Some e \<Rightarrow> State_Monad.return (Ret (Some (Flat (''manager('' @ svc_Name svc @ ''): error setting up ethernet interfaces'') e)))
     | None \<Rightarrow> unless_panic
         (if VlanSetupEnabled (NetworkSection cfg) then do {
            r \<leftarrow> reformatVlanNics mds nics interfaces;
            (case r of
               Inl (Panic m) \<Rightarrow> State_Monad.return (Panic m)
             | Inl (Ret e) \<Rightarrow> State_Monad.return (Ret (map_option (Wrap ''unable to read vlans, invalid format'') e))
             | Inr nics' \<Rightarrow> unless_panic (svc_SetupVlanInterface svc cfg nics') (\<lambda>e. State_Monad.return
                 (Ret (map_option (Flat (''manager('' @ svc_Name svc @ ''): error setting up vlan interfaces'')) e)))) }
          else State_Monad.return (Ret None))
         (\<lambda>e. case e of
            Some e \<Rightarrow> State_Monad.return (Ret (Some e))
          | None \<Rightarrow> do {
              modify (\<lambda>w. w\<lparr>seenMetadata := Some mds\<rparr>);
              time_Sleep 2000000000;
              logInterfaceState;
              State_Monad.return (Ret None) })) }"

text \<open>
  Deep equality of the interfaces and of the map of maps of VLANs, which does not depend on the order
  of the entries. The descriptor does not tell a nil map or slice from an empty one.
\<close>

definition same_entries :: "('v \<Rightarrow> 'v \<Rightarrow> bool) \<Rightarrow> ('k \<times> 'v) list \<Rightarrow> ('k \<times> 'v) list \<Rightarrow> bool" where
  "same_entries eq a b \<longleftrightarrow> (\<forall>k \<in> set (map fst a @ map fst b).
     (case (map_of a k, map_of b k) of (Some x, Some y) \<Rightarrow> eq x y | _ \<Rightarrow> False))"

definition same_nics :: "Descriptor \<Rightarrow> Descriptor \<Rightarrow> bool" where
  "same_nics a b \<longleftrightarrow> InstanceNetworkInterfaces (Inst a) = InstanceNetworkInterfaces (Inst b) \<and>
     same_entries (same_entries (=)) (VlanNetworkInterfaces (Inst a)) (VlanNetworkInterfaces (Inst b))"

definition setup_detected ::
  "'z service list \<Rightarrow> Sections \<Rightarrow> Descriptor \<Rightarrow> Interfaces \<Rightarrow> string list \<Rightarrow> ('z, goerr option outcome) net_io" where
  "setup_detected known cfg mds nics interfaces =
     (case interfaces of
        [] \<Rightarrow> State_Monad.return (Panic ''index out of range'')
      | primaryInterface # _ \<Rightarrow>
          unless_panic (detectNetworkManager known primaryInterface) (\<lambda>r. case r of
            Inl e \<Rightarrow> State_Monad.return (Ret (Some (Flat ''error detecting network manager service'' e)))
          | Inr active \<Rightarrow>
              unless_panic (rollbackLeftoverConfigs known cfg mds) (\<lambda>_.
              unless_panic (each_service (\<lambda>svc. svc_Rollback svc nics)
                  (filter (\<lambda>svc. svc_Name svc \<noteq> svc_Name active) known)) (\<lambda>_.
              setup_active active cfg mds nics interfaces))))"

definition SetupInterfaces ::
  "'z service list \<Rightarrow> Sections \<Rightarrow> Descriptor \<Rightarrow> ('z, goerr option outcome) net_io" where
  "SetupInterfaces known cfg mds = do {
     seen \<leftarrow> gets seenMetadata;
     (if (case seen of None \<Rightarrow> False | Some s \<Rightarrow> same_nics mds s) \<or> \<not> Setup (NetworkSection cfg)
      then State_Monad.return (Ret None)
      else do {
        let nics = \<lparr>EthernetInterfaces = InstanceNetworkInterfaces (Inst mds), VlanInterfaces = []\<rparr>;
        interfaces \<leftarrow> interfaceNames (EthernetInterfaces nics);
        setup_detected known cfg mds nics interfaces }) }"

definition buildInterfacesFromAllPhysicalNICs :: "('z, Interfaces res) net_io" where
  "buildInterfacesFromAllPhysicalNICs = do {
     r \<leftarrow> net_Interfaces;
     State_Monad.return (case r of
       Inl e \<Rightarrow> Inl (Flat ''failed to get interfaces'' e)
     | Inr ifs \<Rightarrow> Inr \<lparr>EthernetInterfaces = map
           (\<lambda>i. \<lparr>ForwardedIps = [], ForwardedIpv6s = [], TargetInstanceIps = [], IPAliases = [],
              Mac = HardwareAddr_String (HardwareAddr i), DHCPv6Refresh = [], MTU = 0\<rparr>)
           (filter (\<lambda>i. HardwareAddr_String (HardwareAddr i) \<noteq> []) ifs),
         VlanInterfaces = []\<rparr>) }"

definition FallbackToDefault :: "'z service list \<Rightarrow> ('z, goerr option outcome) net_io" where
  "FallbackToDefault known = do {
     r \<leftarrow> buildInterfacesFromAllPhysicalNICs;
     (case r of
        Inl e \<Rightarrow> State_Monad.return (Ret (Some (Flat ''could not build list of NICs for fallback'' e)))
      | Inr nics \<Rightarrow>
          unless_panic (each_service (\<lambda>svc. svc_Rollback svc nics) known) (\<lambda>_. State_Monad.return (Ret None))) }"

text \<open>The formats of all configuration files, and the managers in their order.\<close>

record net_codecs =
  nc_np :: np_codecs
  nc_nm :: "nmConfig codec"
  nc_nd :: nd_codecs

definition knownNetworkManagers :: "net_codecs \<Rightarrow> 'z service list" where
  "knownNetworkManagers cd =
     [np_service (nc_np cd), wicked_service, nm_service (nc_nm cd), nd_service (nc_nd cd), dh_service]"

subsection \<open>The managers keep their contract\<close>

definition net_paths :: "string set" where
  "net_paths = wicked_paths \<union> nm_paths \<union> nd_paths \<union> np_paths \<union> np_dirs"

definition net_owns :: "net_codecs \<Rightarrow> string \<Rightarrow> node \<Rightarrow> bool" where
  "net_owns cd p n \<longleftrightarrow> p \<in> np_paths \<or>
     (\<exists>c m u. n = Reg c m u \<and>
        (p \<in> wicked_paths \<and> wicked_owns c \<or> p \<in> nm_paths \<and> nm_owns (nc_nm cd) c \<or>
         p \<in> nd_paths \<and> nd_owns (nc_nd cd) c))"

text \<open>
  What the formats promise for the contract: an empty text is not marked as managed by the agent.
\<close>

definition unmarked_empty :: "net_codecs \<Rightarrow> bool" where
  "unmarked_empty cd \<longleftrightarrow> \<not> nm_owns (nc_nm cd) [] \<and> \<not> nd_owns (nc_nd cd) []"

lemma covers_net:
  "covers net_paths (net_owns cd) wicked_paths wicked_owns"
  "covers net_paths (net_owns cd) nm_paths (nm_owns (nc_nm cd))"
  "covers net_paths (net_owns cd) nd_paths (nd_owns (nc_nd cd))"
  "covers_all net_paths (net_owns cd) np_paths"
  "np_dirs \<subseteq> net_paths"
  by (auto simp: covers_def covers_all_def net_paths_def net_owns_def)

interpretation wicked_spares: sparing_service wicked_service net_paths "net_owns cd"
  by (rule spare_wicked [OF covers_net(1)])

interpretation netplan_spares: sparing_service "np_service npc" net_paths "net_owns cd"
  by (rule spare_np [OF covers_net(4,5)])

interpretation dhclient_spares: sparing_service dh_service net_paths "net_owns cd"
  by (rule spare_dh)

lemma known_spare:
  assumes "unmarked_empty cd" and "svc \<in> set (knownNetworkManagers cd)"
  shows "sparing_service svc net_paths (net_owns cd)"
  using assms spare_nm [OF covers_net(2)] spare_nd [OF covers_net(3)]
    wicked_spares.sparing_service_axioms netplan_spares.sparing_service_axioms dhclient_spares.sparing_service_axioms
  by (auto simp: knownNetworkManagers_def unmarked_empty_def)

text \<open>The client's side of the contract, for any list of managers that keep it.\<close>

lemma spare_each_service:
  assumes "\<And>s. s \<in> set ss \<Longrightarrow> keeps (sparing S M f0) (act s)"
  shows "keeps (sparing S M f0) (each_service act ss)"
  using assms by (induction ss) (auto intro!: frame_intros)

lemma spare_detect:
  assumes "\<And>s. s \<in> set ss \<Longrightarrow> sparing_service s S M"
  shows "keeps (sparing S M f0) (detectNetworkManager ss iface)"
  using assms
proof (induction ss)
  case (Cons s ss)
  then have "keeps (sparing S M f0) (svc_IsManaging s iface)"
    by (simp add: sparing_service.spares_IsManaging)
  moreover have "keeps (sparing S M f0) (case r of
        Panic m \<Rightarrow> State_Monad.return (Panic m)
      | Ret (active, Some e) \<Rightarrow> State_Monad.return (Ret (Inl e))
      | Ret (active, None) \<Rightarrow>
          if active then State_Monad.return (Ret (Inr s)) else detectNetworkManager ss iface)" for r
    using Cons by (auto intro: frame_intros split: outcome.split option.split)
  ultimately show ?case
    by (auto intro: frame_intros)
qed (auto intro: frame_intros)

lemma spare_FallbackToDefault:
  assumes "\<And>s. s \<in> set ss \<Longrightarrow> sparing_service s S M"
  shows "keeps (sparing S M f0) (FallbackToDefault ss)"
  unfolding FallbackToDefault_def buildInterfacesFromAllPhysicalNICs_def
  by (intro frame_intros spare_each_service) (auto dest: assms intro: sparing_service.spares_Rollback)

subsection \<open>Properties\<close>


text \<open>A path without the substrings that netplan's drop-ins have is not one of them.\<close>

lemma not_np_paths:
  assumes "\<not> Contains p ''.yaml''" and "\<not> Contains p ''override.conf''" and "\<not> Contains p ''.network.d''"
  shows "p \<notin> np_paths"
proof
  assume "p \<in> np_paths"
  then consider suffix where "p = np_dropinFile suffix"
    | pre iface where "p = np_networkdDropinFile pre iface"
    | key where "below (np_dropin_dir key) p"
    by (auto simp: np_paths_def)
  then show False
  proof cases
    case 1
    with path_Join_suffix [of "''.yaml''" "[netplanConfigDir]" "''20-google-guest-agent-'' @ suffix"] assms(1)
    show False by (auto simp: np_dropinFile_def Contains_iff)
  next
    case 2
    obtain k where k: "p = path_Join ([networkdDropinDir, k] @ [[] @ ''override.conf''])"
      using 2 by (simp add: np_networkdDropinFile_def)
    with path_Join_suffix [of "''override.conf''" "[networkdDropinDir, k]" "[]"] assms(2)
    show False by (auto simp: Contains_iff)
  next
    case 3
    obtain r where "np_dropin_dir key = r @ ''.network.d''"
      using path_Join_suffix [of "''.network.d''" "[networkdDropinDir]" "''10-netplan-'' @ key"]
      by (auto simp: np_dropin_dir_def)
    with 3 assms(3) show False
      by (auto simp: below_def HasPrefix_iff Contains_iff)
  qed
qed

definition no_codecs :: net_codecs where
  "no_codecs = \<lparr>nc_np = \<lparr>dropin_codec = \<lparr>dec = (\<lambda>_. None), enc = (\<lambda>_. None)\<rparr>,
       override_codec = \<lparr>dec = (\<lambda>_. None), enc = (\<lambda>_. None)\<rparr>\<rparr>,
     nc_nm = \<lparr>dec = (\<lambda>_. None), enc = (\<lambda>_. None)\<rparr>,
     nc_nd = \<lparr>network_codec = \<lparr>dec = (\<lambda>_. None), enc = (\<lambda>_. None)\<rparr>,
       netdev_codec = \<lparr>dec = (\<lambda>_. None), enc = (\<lambda>_. None)\<rparr>\<rparr>\<rparr>"


lemma same_entries_refl: "(\<And>x. eq x x) \<Longrightarrow> same_entries eq a a"
  by (auto simp: same_entries_def map_of_eq_None_iff split: option.split)

lemma same_nics_refl [simp]: "same_nics a a"
  by (simp add: same_nics_def same_entries_refl)

lemma seen_logInterfaceState:
  "run_state logInterfaceState w = (u, w') \<Longrightarrow> seenMetadata w' = seenMetadata w"
  by (auto simp: logInterfaceState_def net_Interfaces_def WithOutput_def execCommand_def spawn_def split: prod.splits)

lemma unless_panic_Ret:
  assumes "run_state (unless_panic m k) w = (Ret b, w')"
  obtains a w1 where "run_state m w = (Ret a, w1)" and "run_state (k a) w1 = (Ret b, w')"
  using assms by (auto simp: unless_panic_def split: prod.splits outcome.splits)

lemma setup_active_seen:
  assumes "run_state (setup_active svc cfg mds nics ifs) w = (Ret None, w')"
  shows "seenMetadata w' = Some mds"
  using assms unfolding setup_active_def
  by (auto elim!: unless_panic_Ret dest!: seen_logInterfaceState split: option.splits prod.splits simp: time_Sleep_def)

lemma setup_detected_seen:
  assumes "run_state (setup_detected known cfg mds nics ifs) w = (Ret None, w')"
  shows "seenMetadata w' = Some mds"
  using assms unfolding setup_detected_def
  by (auto elim!: unless_panic_Ret dest: setup_active_seen split: list.splits sum.splits)

text \<open>
  C21: setting the interfaces up is idempotent: after a run that succeeded, a run with the same metadata
  and configuration succeeds and does nothing.
\<close>

theorem SetupInterfaces_idem:
  assumes "run_state (SetupInterfaces known cfg mds) w = (Ret None, w')"
  shows "run_state (SetupInterfaces known cfg mds) w' = (Ret None, w')"
  using assms by (auto simp: SetupInterfaces_def Let_def dest: setup_detected_seen split: if_splits prod.splits option.splits)

text \<open>A machine with one interface, on which dhclient is installed.\<close>

definition one_nic :: "NetworkInterfaces list" where
  "one_nic = [\<lparr>ForwardedIps = [], ForwardedIpv6s = [], TargetInstanceIps = [], IPAliases = [],
     Mac = ''01:02:03:04:05:06'', DHCPv6Refresh = [], MTU = 1460\<rparr>]"

definition dhclient_world :: net_agent where
  "dhclient_world = (calm_net [] [\<lparr>if_Name = ''eth0'', HardwareAddr = [1, 2, 3, 4, 5, 6], if_MTU = 1460\<rparr>])
     \<lparr>lookpath := (\<lambda>_ p. Inr (''/sbin/'' @ p))\<rparr>"

definition nic_descriptor :: "NetworkInterfaces list \<Rightarrow> Descriptor" where
  "nic_descriptor nics = empty_descriptor\<lparr>Inst := empty_instance\<lparr>InstanceNetworkInterfaces := nics\<rparr>\<rparr>"

definition dhcp_config :: Sections where
  "dhcp_config = defaultConfig\<lparr>NetworkSection := (NetworkSection defaultConfig)
     \<lparr>ManagePrimaryNIC := True, DHCPCommand := ''dhclient eth0''\<rparr>\<rparr>"

theorem SetupInterfaces_idem_witness:
  "\<exists>w'. run_state (SetupInterfaces [dh_service] dhcp_config (nic_descriptor one_nic)) dhclient_world = (Ret None, w') \<and>
     run_state (SetupInterfaces [dh_service] dhcp_config (nic_descriptor one_nic)) w' = (Ret None, w')"
proof -
  have "fst (run_state (SetupInterfaces [dh_service] dhcp_config (nic_descriptor one_nic)) dhclient_world) = Ret None"
    by code_simp
  then obtain w' where "run_state (SetupInterfaces [dh_service] dhcp_config (nic_descriptor one_nic)) dhclient_world = (Ret None, w')"
    by (metis prod.collapse)
  with SetupInterfaces_idem show ?thesis by blast
qed

text \<open>The managers of the list say, one after the other, that they are not in charge.\<close>

fun declined :: "'z service list \<Rightarrow> string \<Rightarrow> 'z net_agent_scheme \<Rightarrow> 'z net_agent_scheme \<Rightarrow> bool" where
  "declined [] iface w w' \<longleftrightarrow> w' = w"
| "declined (s # ss) iface w w' \<longleftrightarrow>
     (\<exists>w1. run_state (svc_IsManaging s iface) w = (Ret (False, None), w1) \<and> declined ss iface w1 w')"

lemma detect_declined:
  assumes "declined pre iface w w1" and "run_state (svc_IsManaging s iface) w1 = (Ret (True, None), w')"
  shows "run_state (detectNetworkManager (pre @ s # post) iface) w = (Ret (Inr s), w')"
  using assms by (induction pre arbitrary: w) auto

lemma detect_first:
  assumes "run_state (detectNetworkManager known iface) w = (Ret (Inr s), w')"
  shows "\<exists>pre post w1. known = pre @ s # post \<and> declined pre iface w w1 \<and>
     run_state (svc_IsManaging s iface) w1 = (Ret (True, None), w')"
  using assms
proof (induction known arbitrary: w)
  case (Cons t known)
  obtain r w1 where r: "run_state (svc_IsManaging t iface) w = (r, w1)" by fastforce
  consider "r = Ret (True, None)" | "r = Ret (False, None)" | e b where "r = Ret (b, Some e)" | m where "r = Panic m"
    by (metis (full_types) option.exhaust outcome.exhaust surj_pair)
  then show ?case
  proof cases
    case 1
    with Cons.prems r have "t = s" "w1 = w'" by simp_all
    with 1 r show ?thesis by (intro exI [of _ "[]"] exI [of _ known] exI [of _ w]) simp
  next
    case 2
    with Cons.prems r obtain pre post w2 where "known = pre @ s # post" "declined pre iface w1 w2"
      "run_state (svc_IsManaging s iface) w2 = (Ret (True, None), w')"
      using Cons.IH [of w1] by auto
    with 2 r show ?thesis by (intro exI [of _ "t # pre"] exI [of _ post] exI [of _ w2]) auto
  qed (use Cons.prems r in auto)
qed simp

text \<open>
  the manager detected is the first one of the list that says it is in charge, with no error from
  it or from those before it.
\<close>

theorem detectNetworkManager_first:
  "run_state (detectNetworkManager known iface) w = (Ret (Inr s), w') \<longleftrightarrow>
     (\<exists>pre post w1. known = pre @ s # post \<and> declined pre iface w w1 \<and>
        run_state (svc_IsManaging s iface) w1 = (Ret (True, None), w'))"
  using detect_first detect_declined by metis

lemma vlan_key_inj:
  assumes "vlan_key p v = vlan_key q u" and "0 \<le> p" and "0 \<le> q"
  shows "p = q \<and> v = u"
proof -
  have no: "CHR ''-'' \<notin> set (show_nat n)" for n
    by (rule not_digit_not_in_show) code_simp
  have "show_nat (nat p) @ CHR ''-'' # show_int v = show_nat (nat q) @ CHR ''-'' # show_int u"
    using assms by (simp add: vlan_key_def show_int_def [of p] show_int_def [of q])
  from append_sep_inj [OF this no no] assms(2,3) show ?thesis by (auto simp: nat_eq_iff)
qed

lemma add_vlans_Cons:
  "add_vlans p e (x # vs) m = add_vlans p e vs
     (AList.update (vlan_key p (fst x)) (VlanInterface.extend (snd x) \<lparr>ParentInterfaceID = e\<rparr>) m)"
  by (cases x) (simp add: add_vlans_def)

lemma add_vlans_other:
  "(\<And>v. k \<noteq> vlan_key p v) \<Longrightarrow> map_of (add_vlans p e vs m) k = map_of m k"
proof (induction vs arbitrary: m)
  case Nil
  then show ?case by (simp add: add_vlans_def)
next
  case (Cons x vs)
  then show ?case by (simp add: add_vlans_Cons update_conv')
qed

lemma add_vlans_absent:
  assumes "v \<notin> fst ` set vs" and "0 \<le> p"
  shows "map_of (add_vlans p e vs m) (vlan_key p v) = map_of m (vlan_key p v)"
  using assms(1)
proof (induction vs arbitrary: m)
  case Nil
  then show ?case by (simp add: add_vlans_def)
next
  case (Cons x vs)
  then have "vlan_key p v \<noteq> vlan_key p (fst x)"
    using vlan_key_inj assms(2) by fastforce
  with Cons show ?case by (simp add: add_vlans_Cons update_conv')
qed

lemma add_vlans_present:
  assumes "distinct (map fst vs)" and "(v, vl) \<in> set vs" and "0 \<le> p"
  shows "map_of (add_vlans p e vs m) (vlan_key p v) = Some (VlanInterface.extend vl \<lparr>ParentInterfaceID = e\<rparr>)"
  using assms(1,2)
proof (induction vs arbitrary: m)
  case (Cons x vs)
  show ?case
  proof (cases "x = (v, vl)")
    case True
    with Cons.prems(1) assms(3) show ?thesis
      by (simp add: add_vlans_Cons add_vlans_absent update_conv')
  next
    case False
    with Cons show ?thesis by (simp add: add_vlans_Cons)
  qed
qed simp

text \<open>The parents' indices name interfaces, and no index occurs twice.\<close>

definition good_vlans :: "string list \<Rightarrow> (int \<times> (int \<times> VlanInterface) list) list \<Rightarrow> bool" where
  "good_vlans eths ps \<longleftrightarrow> distinct (map fst ps) \<and>
     (\<forall>(p, vs) \<in> set ps. 0 \<le> p \<and> p < int (length eths) \<and> distinct (map fst vs))"

lemma reformat_loop:
  assumes "good_vlans eths ps"
  shows "\<exists>m' w'. run_state (for_range (reformat_step eths) ps m) w = (Inr m', w') \<and>
     (\<forall>(p, vs) \<in> set ps. \<forall>(v, vl) \<in> set vs.
        map_of m' (vlan_key p v) = Some (VlanInterface.extend vl \<lparr>ParentInterfaceID = eths ! nat p\<rparr>)) \<and>
     (\<forall>k. (\<forall>p \<in> fst ` set ps. \<forall>v. k \<noteq> vlan_key p v) \<longrightarrow> map_of m' k = map_of m k)"
  using assms
proof (induction ps arbitrary: m w)
  case Nil
  then show ?case by simp
next
  case (Cons x ps)
  obtain p vs where x: "x = (p, vs)" by fastforce
  let ?vs = "permute (shuffle w (tick w) (length vs)) vs"
  let ?m = "add_vlans p (eths ! nat p) ?vs m"
  from Cons.prems x have p: "0 \<le> p" "p < int (length eths)" and vs: "distinct (map fst vs)"
    and ps: "good_vlans eths ps" and new: "p \<notin> fst ` set ps"
    by (auto simp: good_vlans_def)
  have vs': "distinct (map fst ?vs)" "set ?vs = set vs"
    using vs by (simp_all only: distinct_map_permute set_permute)
  from Cons.IH [OF ps, of ?m "w\<lparr>tick := Suc (tick w)\<rparr>"] obtain m' w' where
    run: "run_state (for_range (reformat_step eths) ps ?m) (w\<lparr>tick := Suc (tick w)\<rparr>) = (Inr m', w')"
    and ih: "\<forall>(p, vs) \<in> set ps. \<forall>(v, vl) \<in> set vs.
        map_of m' (vlan_key p v) = Some (VlanInterface.extend vl \<lparr>ParentInterfaceID = eths ! nat p\<rparr>)"
    and other: "\<And>k. (\<forall>p \<in> fst ` set ps. \<forall>v. k \<noteq> vlan_key p v) \<Longrightarrow> map_of m' k = map_of ?m k"
    by blast
  have all: "run_state (for_range (reformat_step eths) (x # ps) m) w = (Inr m', w')"
    using run p by (simp add: x reformat_step_def range_map_def)
  have here: "map_of m' (vlan_key p v) = Some (VlanInterface.extend vl \<lparr>ParentInterfaceID = eths ! nat p\<rparr>)"
    if "(v, vl) \<in> set vs" for v vl
  proof -
    have "\<forall>q \<in> fst ` set ps. \<forall>u. vlan_key p v \<noteq> vlan_key q u"
    proof (intro ballI allI notI)
      fix q u
      assume q: "q \<in> fst ` set ps" and eq: "vlan_key p v = vlan_key q u"
      from q ps have "0 \<le> q" by (auto simp: good_vlans_def)
      from vlan_key_inj [OF eq p(1) this] q new show False by simp
    qed
    from other [OF this] add_vlans_present [OF vs'(1) _ p(1)] that vs'(2) show ?thesis by simp
  qed
  have there: "map_of m' k = map_of m k" if "\<forall>q \<in> fst ` set (x # ps). \<forall>v. k \<noteq> vlan_key q v" for k
    using other [of k] add_vlans_other [of k p] that x by simp
  have "\<forall>(p, vs) \<in> set (x # ps). \<forall>(v, vl) \<in> set vs.
      map_of m' (vlan_key p v) = Some (VlanInterface.extend vl \<lparr>ParentInterfaceID = eths ! nat p\<rparr>)"
    using ih here x by (simp add: Ball_def split_paired_all)
  with all there show ?case by blast
qed

text \<open>
  C28: if every parent's index names an interface, the VLANs of the metadata are all in the result,
  each under its own key and with the name of its parent, in whatever order the maps are visited.
\<close>

theorem reformatVlanNics_spec:
  assumes "good_vlans eths (VlanNetworkInterfaces (Inst mds))"
    and "(p, vs) \<in> set (VlanNetworkInterfaces (Inst mds))" and "(v, vl) \<in> set vs"
  shows "\<exists>nics' w'. run_state (reformatVlanNics mds nics eths) w = (Inr nics', w') \<and>
     EthernetInterfaces nics' = EthernetInterfaces nics \<and>
     map_of (VlanInterfaces nics') (vlan_key p v) =
       Some (VlanInterface.extend vl \<lparr>ParentInterfaceID = eths ! nat p\<rparr>)"
proof -
  let ?ps = "VlanNetworkInterfaces (Inst mds)"
  let ?qs = "permute (shuffle w (tick w) (length ?ps)) ?ps"
  have "good_vlans eths ?qs"
    using assms(1) unfolding good_vlans_def distinct_map_permute set_permute .
  from reformat_loop [OF this, of "VlanInterfaces nics" "w\<lparr>tick := Suc (tick w)\<rparr>"] assms(2,3) show ?thesis
    by (fastforce simp: reformatVlanNics_def range_map_def)
qed

text \<open>One VLAN with the tag 5 on the first interface.\<close>

definition vlan5 :: VlanInterface where
  "vlan5 = \<lparr>vlan_Mac = ''01:02:03:04:05:06'', ParentInterface = ''/computeMetadata/v1/instance/network-interfaces/0/'',
     Vlan = 5, vlan_MTU = 1460, IP = ''10.0.0.5'', IPv6 = [], Gateway = ''10.0.0.1'', GatewayIPv6 = [],
     vlan_DHCPv6Refresh = []\<rparr>"

definition vlan_descriptor :: Descriptor where
  "vlan_descriptor = empty_descriptor\<lparr>Inst := empty_instance\<lparr>VlanNetworkInterfaces := [(0, [(5, vlan5)])]\<rparr>\<rparr>"

theorem reformatVlanNics_spec_witness:
  "\<exists>nics' w'. run_state (reformatVlanNics vlan_descriptor \<lparr>EthernetInterfaces = [], VlanInterfaces = []\<rparr> [''eth0''])
       (calm_net [] []) = (Inr nics', w') \<and>
     map_of (VlanInterfaces nics') (vlan_key 0 5) = Some (VlanInterface.extend vlan5 \<lparr>ParentInterfaceID = ''eth0''\<rparr>)"
  using reformatVlanNics_spec [of "[''eth0'']" vlan_descriptor 0 "[(5, vlan5)]" 5 vlan5
      "\<lparr>EthernetInterfaces = [], VlanInterfaces = []\<rparr>" "calm_net [] []"]
  by (auto simp: good_vlans_def vlan_descriptor_def)

text \<open>
  with no network interface in the metadata the set-up, if it is enabled and there is something new,
  panics: it takes the first of no names.
\<close>

theorem SetupInterfaces_no_nics_panics:
  assumes "InstanceNetworkInterfaces (Inst mds) = []" and "Setup (NetworkSection cfg)" and "seenMetadata w = None"
  shows "run_state (SetupInterfaces known cfg mds) w = (Panic ''index out of range'', w)"
  using assms by (simp add: SetupInterfaces_def setup_detected_def)

theorem SetupInterfaces_no_nics_panics_witness:
  "run_state (SetupInterfaces [dh_service] defaultConfig empty_descriptor) (calm_net [] []) =
     (Panic ''index out of range'', calm_net [] [])"
  by (rule SetupInterfaces_no_nics_panics) (simp_all add: empty_descriptor_def empty_instance_def defaultConfig_def)

end
