(* ===== verification/NetIP.thy ===== *)
theory NetIP
  imports Json
begin

text \<open>
  The parts of Go's package \<^verbatim>\<open>net\<close> that the address manager and the failover agent use: \<^verbatim>\<open>ParseIP\<close>,
  \<^verbatim>\<open>ParseCIDR\<close>, \<^verbatim>\<open>CIDRMask\<close>, \<^verbatim>\<open>To4\<close>, \<^verbatim>\<open>IsLoopback\<close> and the text of an IPv4 address. An address is
  the list of its 16 octets, an IPv4 address being mapped into IPv6 as Go maps it.
\<close>

type_synonym ip = "nat list"

definition v4_prefix :: "nat list" where
  "v4_prefix = replicate 10 0 @ [255, 255]"

definition octet :: "string \<Rightarrow> nat option" where
  "octet s = (if s \<noteq> [] \<and> list_all is_digit s \<and> (length s = 1 \<or> hd s \<noteq> CHR ''0'')
     then (case read_nat s of Some n \<Rightarrow> if n \<le> 255 then Some n else None | None \<Rightarrow> None) else None)"

definition parseIPv4 :: "string \<Rightarrow> nat list option" where
  "parseIPv4 s = (case map octet (Split s (CHR ''.'')) of
     [Some a, Some b, Some c, Some d] \<Rightarrow> Some [a, b, c, d] | _ \<Rightarrow> None)"

definition is_hex :: "char \<Rightarrow> bool" where
  "is_hex c \<longleftrightarrow> hex_val c \<noteq> None"

definition hex_num :: "string \<Rightarrow> nat" where
  "hex_num s = fold (\<lambda>c n. 16 * n + (case hex_val c of Some v \<Rightarrow> v | None \<Rightarrow> 0)) s 0"

text \<open>
  The loop of the IPv6 parser: the octets so far, where \<^verbatim>\<open>::\<close> stands in them, and the rest of the text.
  The result has the octets and the place of the \<^verbatim>\<open>::\<close>. Every round but the last adds two octets, so
  nine rounds are enough.
\<close>

fun ipv6_fields :: "nat \<Rightarrow> nat list \<Rightarrow> nat option \<Rightarrow> string \<Rightarrow> (nat list \<times> nat option) option" where
  "ipv6_fields 0 acc e s = None"
| "ipv6_fields (Suc k) acc e s =
     (if length acc \<ge> 16 then (if s = [] then Some (acc, e) else None)
      else
        let h = takeWhile is_hex s; r = dropWhile is_hex s in
        if h = [] \<or> length h > 4 then None
        else if HasPrefix r ''.'' then
          (if e = None \<and> length acc \<noteq> 12 \<or> length acc + 4 > 16 then None
           else map_option (\<lambda>v. (acc @ v, e)) (parseIPv4 s))
        else
          let acc' = acc @ [hex_num h div 256, hex_num h mod 256] in
          case r of
            [] \<Rightarrow> Some (acc', e)
          | c # r1 \<Rightarrow>
              if c \<noteq> CHR '':'' \<or> r1 = [] then None
              else if hd r1 = CHR '':'' then
                (if e \<noteq> None then None
                 else if tl r1 = [] then Some (acc', Some (length acc'))
                 else ipv6_fields k acc' (Some (length acc')) (tl r1))
              else ipv6_fields k acc' e r1)"

definition ipv6_expand :: "nat list \<times> nat option \<Rightarrow> ip option" where
  "ipv6_expand x = (case x of
     (acc, None) \<Rightarrow> if length acc = 16 then Some acc else None
   | (acc, Some e) \<Rightarrow> if length acc < 16 then Some (take e acc @ replicate (16 - length acc) 0 @ drop e acc) else None)"

definition parseIPv6 :: "string \<Rightarrow> ip option" where
  "parseIPv6 s =
     (if s = ''::'' then Some (replicate 16 0)
      else Option.bind (if HasPrefix s ''::'' then ipv6_fields 9 [] (Some 0) (drop 2 s) else ipv6_fields 9 [] None s) ipv6_expand)"

text \<open>The first dot or colon decides; a zone makes \<^verbatim>\<open>ParseIP\<close> fail. The second result is the length in bits.\<close>

definition ParseAddr :: "string \<Rightarrow> (ip \<times> nat) option" where
  "ParseAddr s =
     (if CHR ''%'' \<in> set s then None
      else case dropWhile (\<lambda>c. c \<noteq> CHR ''.'' \<and> c \<noteq> CHR '':'') s of
        [] \<Rightarrow> None
      | c # _ \<Rightarrow> if c = CHR ''.'' then map_option (\<lambda>v. (v4_prefix @ v, 32)) (parseIPv4 s)
                 else map_option (\<lambda>v. (v, 128)) (parseIPv6 s))"

definition ParseIP :: "string \<Rightarrow> ip option" where
  "ParseIP s = map_option fst (ParseAddr s)"

definition To4 :: "ip \<Rightarrow> nat list option" where
  "To4 ip = (if length ip = 4 then Some ip
     else if length ip = 16 \<and> take 12 ip = v4_prefix then Some (drop 12 ip) else None)"

definition isIPv6 :: "ip \<Rightarrow> bool" where
  "isIPv6 ip \<longleftrightarrow> To4 ip = None"

definition IsLoopback :: "ip \<Rightarrow> bool" where
  "IsLoopback ip = (case To4 ip of Some v \<Rightarrow> hd v = 127 | None \<Rightarrow> ip = replicate 15 0 @ [1])"

text \<open>\<^verbatim>\<open>ip.To4().String()\<close>; the string of a nil address is \<^verbatim>\<open><nil>\<close>.\<close>

definition dotted :: "nat list \<Rightarrow> string" where
  "dotted v = Join (map show_nat v) ''.''"

definition To4_String :: "ip \<Rightarrow> string" where
  "To4_String ip = (case To4 ip of Some v \<Rightarrow> dotted v | None \<Rightarrow> ''<nil>'')"

fun CIDRMask :: "nat \<Rightarrow> nat \<Rightarrow> nat list" where
  "CIDRMask n 0 = []"
| "CIDRMask n (Suc k) = (if n \<ge> 8 then 255 # CIDRMask (n - 8) k else (255 - (2 ^ (8 - n) - 1)) # CIDRMask 0 k)"

definition ParseCIDR :: "string \<Rightarrow> (ip \<times> nat list) option" where
  "ParseCIDR s =
     (let a = takeWhile (\<lambda>c. c \<noteq> CHR ''/'') s; r = dropWhile (\<lambda>c. c \<noteq> CHR ''/'') s in
      case r of
        [] \<Rightarrow> None
      | _ # m \<Rightarrow> (case (ParseAddr a, if m \<noteq> [] \<and> list_all is_digit m then read_nat m else None) of
            (Some (ip, bits), Some n) \<Rightarrow> if n \<le> bits then Some (ip, CIDRMask n (bits div 8)) else None
          | _ \<Rightarrow> None))"

text \<open>Printing and parsing an IPv4 address agree.\<close>

lemma digit_zero:
  assumes "n < 10" and "digit n = CHR ''0''"
  shows "n = 0"
proof -
  have "(of_char (digit n) :: nat) = 48 + n"
    using assms(1) by (simp add: digit_def)
  then show ?thesis
    using assms(2) by simp
qed

lemma show_nat_leading: "0 < n \<Longrightarrow> hd (show_nat n) \<noteq> CHR ''0''"
proof (induction n rule: show_nat.induct)
  case (1 n)
  show ?case
  proof (cases "n < 10")
    case True
    then show ?thesis
      using "1.prems" digit_zero [of n] by (subst show_nat.simps) auto
  next
    case False
    then show ?thesis
      using "1.IH" by (subst show_nat.simps) (simp add: hd_append)
  qed
qed

lemma octet_show [simp]:
  assumes "n \<le> 255"
  shows "octet (show_nat n) = Some n"
proof -
  have "length (show_nat n) = 1 \<or> hd (show_nat n) \<noteq> CHR ''0''"
    using show_nat_leading [of n] by (cases "n = 0") (simp_all add: show_nat.simps [of 0])
  then show ?thesis
    using assms show_nat_digits [of n] by (simp add: octet_def)
qed

lemma parseIPv4_dotted:
  assumes "length v = 4" and "\<forall>n \<in> set v. n \<le> 255"
  shows "parseIPv4 (dotted v) = Some v"
proof -
  obtain a b c d where v: "v = [a, b, c, d]"
    using assms(1) by (auto simp: numeral_eq_Suc length_Suc_conv)
  have n: "CHR ''.'' \<notin> set (show_nat n)" for n
    by (rule not_digit_not_in_show) (simp add: is_digit_def)
  have "Split (dotted v) (CHR ''.'') = map show_nat v"
    unfolding dotted_def by (rule Split_Join) (auto simp: v n)
  then show ?thesis
    using assms(2) by (simp add: v parseIPv4_def)
qed

end
