(* ===== verification/Addresses.thy ===== *)
theory Addresses
  imports NetManager NetIP
begin

text \<open>
  The address manager, \<^verbatim>\<open>google_guest_agent/addresses.go\<close>: the filter for Windows failover clusters,
  the comparison of routes, and \<^verbatim>\<open>Set\<close>, which sets the interfaces up and then brings the routes (on
  Windows, the addresses) of every interface in line with the metadata. What \<^verbatim>\<open>Set\<close> calls of the
  Windows API and its registry is an argument, the record \<^verbatim>\<open>win_ops\<close>.
\<close>

record address_agent = net_agent +
  address_badMAC :: "string list"

type_synonym ('z, 'a) address_io = "('z address_agent_scheme, 'a) state"

text \<open>
  The calls into Windows: the addresses of an interface, the three registry calls for the forwarded
  addresses of a hardware address (the first fails with \<^const>\<open>None\<close> when the value does not exist),
  and adding and removing an address with its mask.
\<close>

record 'z win_ops =
  win_Addrs :: "NetIf \<Rightarrow> ('z, string list res) address_io"
  readRegMultiString :: "string \<Rightarrow> ('z, goerr option + string list) address_io"
  deleteRegKey :: "string \<Rightarrow> ('z, goerr option) address_io"
  writeRegMultiString :: "string \<Rightarrow> string list \<Rightarrow> ('z, goerr option) address_io"
  addAddress :: "ip \<Rightarrow> nat list \<Rightarrow> NetIf \<Rightarrow> ('z, goerr option) address_io"
  removeAddress :: "ip \<Rightarrow> nat list \<Rightarrow> NetIf \<Rightarrow> ('z, goerr option) address_io"

section \<open>The filter for failover clusters\<close>

definition parseWSFCAddresses :: "Sections \<Rightarrow> Descriptor \<Rightarrow> string" where
  "parseWSFCAddresses cfg md =
     (let i = WSFCAddresses (InstanceAttributes (Inst md)); p = WSFCAddresses (ProjectAttributes (Proj md));
          rest = (if i \<noteq> [] then i else if p \<noteq> [] then p else [])
      in case WSFC cfg of
           Some c \<Rightarrow> if wsfc_Addresses c \<noteq> [] then wsfc_Addresses c else rest
         | None \<Rightarrow> rest)"

definition parseWSFCEnable :: "Sections \<Rightarrow> Descriptor \<Rightarrow> bool" where
  "parseWSFCEnable cfg md = (case WSFC cfg of
     Some c \<Rightarrow> wsfc_Enable c
   | None \<Rightarrow> (case EnableWSFC (InstanceAttributes (Inst md)) of
       Some b \<Rightarrow> b
     | None \<Rightarrow> (case EnableWSFC (ProjectAttributes (Proj md)) of Some b \<Rightarrow> b | None \<Rightarrow> False)))"

definition wsfc_addrs :: "Sections \<Rightarrow> Descriptor \<Rightarrow> string list" where
  "wsfc_addrs cfg md = filter (\<lambda>a. a \<noteq> [] \<and> ParseIP a \<noteq> None) (Split (parseWSFCAddresses cfg md) (CHR '',''))"

definition filter_nic :: "string list \<Rightarrow> NetworkInterfaces \<Rightarrow> NetworkInterfaces" where
  "filter_nic wsfcAddrs ni =
     ni\<lparr>ForwardedIps := filter (\<lambda>ip. \<not> slice_contains wsfcAddrs ip) (ForwardedIps ni),
        TargetInstanceIps := filter (\<lambda>ip. \<not> slice_contains wsfcAddrs ip) (TargetInstanceIps ni)\<rparr>"

definition map_nics :: "(NetworkInterfaces \<Rightarrow> NetworkInterfaces) \<Rightarrow> Descriptor \<Rightarrow> Descriptor" where
  "map_nics f md = md\<lparr>Inst := (Inst md)\<lparr>InstanceNetworkInterfaces := map f (InstanceNetworkInterfaces (Inst md))\<rparr>\<rparr>"

definition applyWSFCFilter :: "Sections \<Rightarrow> Descriptor \<Rightarrow> Descriptor" where
  "applyWSFCFilter cfg md =
     (if wsfc_addrs cfg md \<noteq> [] then map_nics (filter_nic (wsfc_addrs cfg md)) md
      else if parseWSFCEnable cfg md then map_nics (\<lambda>ni. ni\<lparr>ForwardedIps := [], TargetInstanceIps := []\<rparr>) md
      else md)"

section \<open>Routes\<close>

definition compareRoutes :: "string list \<Rightarrow> string list \<Rightarrow> string list \<times> string list" where
  "compareRoutes configuredRoutes desiredRoutes =
     (filter (\<lambda>r. \<not> slice_contains configuredRoutes r) desiredRoutes,
      filter (\<lambda>r. \<not> slice_contains desiredRoutes r) configuredRoutes)"

definition route_words :: "string \<Rightarrow> string list" where
  "route_words args = ''ip'' # Split args (CHR '' '')"

definition route_line4 :: "string \<Rightarrow> string" where
  "route_line4 line = TrimSpace (TrimPrefix line ''local '')"

definition route_line6 :: "string \<Rightarrow> string" where
  "route_line6 line = TrimSpace (hd (Split (TrimPrefix line ''local '') (CHR '' '')))"

definition getLocalRoutes :: "Sections \<Rightarrow> string \<Rightarrow> ('z, string list res) io" where
  "getLocalRoutes cfg ifname = do {
     windows \<leftarrow> is_goos ''windows'';
     (if windows then State_Monad.return (Inl (Msg ''getLocalRoutes unimplemented on Windows''))
      else do {
        let protoID = EthernetProtoID (IPForwarding cfg);
        out \<leftarrow> WithOutput (route_words (''route list table local type local scope host dev '' @ ifname @ '' proto '' @ protoID));
        (if ExitCode out \<noteq> 0 then State_Monad.return (Inl (ResultErr out))
         else do {
           let res4 = filter (\<lambda>l. l \<noteq> []) (map route_line4 (Split (StdOut out) (CHR 0x0A)));
           out \<leftarrow> WithOutput (route_words (''-6 route list table local type local dev '' @ ifname @ '' proto '' @ protoID));
           State_Monad.return
             (if ExitCode out \<noteq> 0 then Inl (ResultErr out)
              else Inr (res4 @ filter (\<lambda>l. l \<noteq> []) (map route_line6 (Split (StdOut out) (CHR 0x0A))))) }) }) }"

definition with_prefix :: "string \<Rightarrow> string" where
  "with_prefix ip = (if Contains ip ''/'' then ip else ip @ ''/32'')"

definition route_cmd :: "string \<Rightarrow> Sections \<Rightarrow> string \<Rightarrow> string \<Rightarrow> string list" where
  "route_cmd verb cfg ip ifname = route_words (''route '' @ verb @ '' to local '' @ with_prefix ip @ '' scope host dev '' @ ifname @
     '' proto '' @ EthernetProtoID (IPForwarding cfg))"

definition addLocalRoute :: "Sections \<Rightarrow> string \<Rightarrow> string \<Rightarrow> ('z, goerr option) io" where
  "addLocalRoute cfg ip ifname = do {
     windows \<leftarrow> is_goos ''windows'';
     (if windows then State_Monad.return (Some (Msg ''addLocalRoute unimplemented on Windows''))
      else Quiet (route_cmd ''add'' cfg ip ifname)) }"

definition removeLocalRoute :: "Sections \<Rightarrow> string \<Rightarrow> string \<Rightarrow> ('z, goerr option) io" where
  "removeLocalRoute cfg ip ifname = do {
     windows \<leftarrow> is_goos ''windows'';
     (if windows then State_Monad.return (Some (Msg ''removeLocalRoute unimplemented on Windows''))
      else Quiet (route_cmd ''delete'' cfg ip ifname)) }"

section \<open>The manager\<close>

definition address_Diff :: "('z, bool) agent_io" where
  "address_Diff = State_Monad.return True"

definition address_Timeout :: "('z, bool) agent_io" where
  "address_Timeout = State_Monad.return False"

definition address_Disabled :: "('z, bool) agent_io" where
  "address_Disabled = do {
     cfg \<leftarrow> gets config;
     md \<leftarrow> gets newMetadata;
     State_Monad.return (case AddressManager cfg of
       Some a \<Rightarrow> address_Disable a
     | None \<Rightarrow> (case DisableAddressManager (InstanceAttributes (Inst md)) of
         Some b \<Rightarrow> b
       | None \<Rightarrow> (case DisableAddressManager (ProjectAttributes (Proj md)) of
           Some b \<Rightarrow> b
         | None \<Rightarrow> \<not> NetworkDaemon (Daemons cfg)))) }"

definition getForwardsFromRegistry :: "'z win_ops \<Rightarrow> string \<Rightarrow> ('z, string list res) address_io" where
  "getForwardsFromRegistry ops mac = do {
     r \<leftarrow> readRegMultiString ops mac;
     (case r of
        Inr ips \<Rightarrow> State_Monad.return (Inr ips)
      | Inl (Some e) \<Rightarrow> State_Monad.return (Inl e)
      | Inl None \<Rightarrow> do {
          let oldName = filter (\<lambda>c. c \<noteq> CHR '':'') mac;
          r \<leftarrow> readRegMultiString ops oldName;
          (case r of
             Inl _ \<Rightarrow> State_Monad.return (Inr [])
           | Inr ips \<Rightarrow> do { _ \<leftarrow> deleteRegKey ops oldName; State_Monad.return (Inr ips) }) }) }"

definition addIpv6Address :: "'z win_ops \<Rightarrow> string \<Rightarrow> NetIf \<Rightarrow> ('z, goerr option) address_io" where
  "addIpv6Address ops s i = (case ParseCIDR s of
     None \<Rightarrow> State_Monad.return (Some (Msg ''invalid CIDR address'')) | Some (a, m) \<Rightarrow> addAddress ops a m i)"

definition removeIpv6Address :: "'z win_ops \<Rightarrow> string \<Rightarrow> NetIf \<Rightarrow> ('z, goerr option) address_io" where
  "removeIpv6Address ops s i = (case ParseCIDR s of
     None \<Rightarrow> State_Monad.return (Some (Msg ''invalid CIDR address'')) | Some (a, m) \<Rightarrow> removeAddress ops a m i)"

definition trim32 :: "string \<Rightarrow> string" where
  "trim32 entry = TrimSuffix entry ''/32''"

definition wanted :: "bool \<Rightarrow> Sections \<Rightarrow> NetworkInterfaces \<Rightarrow> string list" where
  "wanted windows cfg ni = ForwardedIps ni @ ForwardedIpv6s ni @
     (if TargetInstanceIPs (IPForwarding cfg) then TargetInstanceIps ni else []) @
     (if \<not> windows \<and> cfg_IPAliases (IPForwarding cfg) then IPAliases ni else [])"

text \<open>The addresses configured (on Windows only) and the forwarded ones; an error skips the interface.\<close>

definition current_ips :: "'z win_ops \<Rightarrow> Sections \<Rightarrow> bool \<Rightarrow> NetIf \<Rightarrow> NetworkInterfaces \<Rightarrow>
    ('z, (string list \<times> string list) res) address_io" where
  "current_ips ops cfg windows i ni =
     (if windows then do {
        a \<leftarrow> win_Addrs ops i;
        let configuredIPs = (case a of Inl _ \<Rightarrow> [] | Inr addrs \<Rightarrow> map trim32 addrs);
        r \<leftarrow> getForwardsFromRegistry ops (Mac ni);
        State_Monad.return (case r of
          Inl e \<Rightarrow> Inl e
        | Inr regFwdIPs \<Rightarrow> Inr (configuredIPs, filter (slice_contains regFwdIPs) configuredIPs)) }
      else do {
        r \<leftarrow> getLocalRoutes cfg (if_Name i);
        State_Monad.return (case r of Inl e \<Rightarrow> Inl e | Inr routes \<Rightarrow> Inr ([], routes)) })"

definition v4_mask :: "nat list" where
  "v4_mask = [255, 255, 255, 255]"

definition add_ip :: "'z win_ops \<Rightarrow> Sections \<Rightarrow> bool \<Rightarrow> NetIf \<Rightarrow> string list \<Rightarrow> string \<Rightarrow> ('z, goerr option) address_io" where
  "add_ip ops cfg windows i configuredIPs a =
     (if windows then
        (if slice_contains configuredIPs a then State_Monad.return None
         else case ParseIP a of
             Some n \<Rightarrow> if \<not> isIPv6 n then addAddress ops n v4_mask i else addIpv6Address ops a i
           | None \<Rightarrow> addIpv6Address ops a i)
      else addLocalRoute cfg a (if_Name i))"

definition remove_ip :: "'z win_ops \<Rightarrow> Sections \<Rightarrow> bool \<Rightarrow> NetIf \<Rightarrow> string \<Rightarrow> ('z, goerr option) address_io" where
  "remove_ip ops cfg windows i a =
     (if windows then (case ParseIP a of
          Some n \<Rightarrow> if \<not> isIPv6 n then removeAddress ops n v4_mask i else removeIpv6Address ops a i
        | None \<Rightarrow> removeIpv6Address ops a i)
      else removeLocalRoute cfg a (if_Name i))"

fun add_ips :: "'z win_ops \<Rightarrow> Sections \<Rightarrow> bool \<Rightarrow> NetIf \<Rightarrow> string list \<Rightarrow> string list \<Rightarrow> string list \<Rightarrow> string list \<Rightarrow>
    ('z, string list) address_io" where
  "add_ips ops cfg windows i configuredIPs toAdd [] registryEntries = State_Monad.return registryEntries"
| "add_ips ops cfg windows i configuredIPs toAdd (a # wantIPs) registryEntries =
     (if \<not> slice_contains toAdd a then add_ips ops cfg windows i configuredIPs toAdd wantIPs (registryEntries @ [a])
      else do {
        e \<leftarrow> add_ip ops cfg windows i configuredIPs a;
        add_ips ops cfg windows i configuredIPs toAdd wantIPs (if e = None then registryEntries @ [a] else registryEntries) })"

fun remove_ips :: "'z win_ops \<Rightarrow> Sections \<Rightarrow> bool \<Rightarrow> NetIf \<Rightarrow> string list \<Rightarrow> string list \<Rightarrow> string list \<Rightarrow>
    ('z, string list) address_io" where
  "remove_ips ops cfg windows i configuredIPs [] registryEntries = State_Monad.return registryEntries"
| "remove_ips ops cfg windows i configuredIPs (a # toRm) registryEntries =
     (if windows \<and> \<not> slice_contains configuredIPs a then remove_ips ops cfg windows i configuredIPs toRm registryEntries
      else do {
        e \<leftarrow> remove_ip ops cfg windows i a;
        remove_ips ops cfg windows i configuredIPs toRm (if e = None then registryEntries else registryEntries @ [a]) })"

definition set_routes :: "'z win_ops \<Rightarrow> Sections \<Rightarrow> bool \<Rightarrow> NetIf \<Rightarrow> NetworkInterfaces \<Rightarrow> ('z, unit) address_io" where
  "set_routes ops cfg windows i ni = do {
     cur \<leftarrow> current_ips ops cfg windows i ni;
     (case cur of
        Inl _ \<Rightarrow> State_Monad.return ()
      | Inr (configuredIPs, forwardedIPs) \<Rightarrow> do {
          let wantIPs = map trim32 (wanted windows cfg ni);
          let changes = compareRoutes (map trim32 forwardedIPs) wantIPs;
          reg \<leftarrow> add_ips ops cfg windows i configuredIPs (fst changes) wantIPs [];
          reg \<leftarrow> remove_ips ops cfg windows i configuredIPs (snd changes) reg;
          (if windows then do { _ \<leftarrow> writeRegMultiString ops (Mac ni) reg; State_Monad.return () }
           else State_Monad.return ()) }) }"

definition set_nic :: "'z win_ops \<Rightarrow> Sections \<Rightarrow> NetworkInterfaces \<Rightarrow> ('z, unit) address_io" where
  "set_nic ops cfg ni = do {
     r \<leftarrow> GetInterfaceByMAC (Mac ni);
     (case r of
        Inl _ \<Rightarrow> modify (\<lambda>w. if slice_contains (address_badMAC w) (Mac ni) then w
                             else w\<lparr>address_badMAC := address_badMAC w @ [Mac ni]\<rparr>)
      | Inr i \<Rightarrow> do { windows \<leftarrow> is_goos ''windows''; set_routes ops cfg windows i ni }) }"

definition address_Set :: "'z win_ops \<Rightarrow> 'z address_agent_ext service list \<Rightarrow> ('z, goerr option outcome) address_io" where
  "address_Set ops known = do {
     cfg \<leftarrow> gets config;
     windows \<leftarrow> is_goos ''windows'';
     (if windows then modify (\<lambda>w. w\<lparr>newMetadata := applyWSFCFilter cfg (newMetadata w)\<rparr>) else State_Monad.return ());
     md \<leftarrow> gets newMetadata;
     unless_panic (if windows then State_Monad.return (Ret None) else SetupInterfaces known cfg md) (\<lambda>e. case e of
       Some e \<Rightarrow> State_Monad.return (Ret (Some (Flat ''failed to setup network interfaces'' e)))
     | None \<Rightarrow>
         if \<not> cfg_IPForwarding (NetworkSection cfg) then State_Monad.return (Ret None)
         else do {
           for_all (set_nic ops cfg) (InstanceNetworkInterfaces (Inst md));
           State_Monad.return (Ret None) }) }"

section \<open>Lemmas\<close>

lemma Quiet_trace [simp]:
  "trace (snd (run_state (Quiet c) w)) = trace w @ [c]" "goos (snd (run_state (Quiet c) w)) = goos w"
  by (simp_all add: run_Quiet_state)

lemma local_route_linux [simp]:
  "goos w \<noteq> ''windows'' \<Longrightarrow> run_state (addLocalRoute cfg a n) w = run_state (Quiet (route_cmd ''add'' cfg a n)) w"
  "goos w \<noteq> ''windows'' \<Longrightarrow> run_state (removeLocalRoute cfg a n) w = run_state (Quiet (route_cmd ''delete'' cfg a n)) w"
  by (simp_all add: addLocalRoute_def removeLocalRoute_def is_goos_def)

lemma add_ips_trace:
  assumes "goos w \<noteq> ''windows''"
  shows "trace (snd (run_state (add_ips ops cfg False i conf toAdd want reg) w)) =
      trace w @ map (\<lambda>a. route_cmd ''add'' cfg a (if_Name i)) (filter (slice_contains toAdd) want) \<and>
    goos (snd (run_state (add_ips ops cfg False i conf toAdd want reg) w)) = goos w"
  using assms
proof (induction want arbitrary: reg w)
  case (Cons a want)
  obtain e w' where q: "run_state (Quiet (route_cmd ''add'' cfg a (if_Name i))) w = (e, w')"
    by (metis prod.collapse)
  then have "trace w' = trace w @ [route_cmd ''add'' cfg a (if_Name i)]" "goos w' = goos w"
    using Quiet_trace [of "route_cmd ''add'' cfg a (if_Name i)" w] by auto
  with Cons q show ?case
    by (simp add: add_ip_def)
qed simp

lemma remove_ips_trace:
  assumes "goos w \<noteq> ''windows''"
  shows "trace (snd (run_state (remove_ips ops cfg False i conf toRm reg) w)) =
      trace w @ map (\<lambda>a. route_cmd ''delete'' cfg a (if_Name i)) toRm"
  using assms
proof (induction toRm arbitrary: reg w)
  case (Cons a toRm)
  obtain e w' where q: "run_state (Quiet (route_cmd ''delete'' cfg a (if_Name i))) w = (e, w')"
    by (metis prod.collapse)
  then have "trace w' = trace w @ [route_cmd ''delete'' cfg a (if_Name i)]" "goos w' = goos w"
    using Quiet_trace [of "route_cmd ''delete'' cfg a (if_Name i)" w] by auto
  with Cons q show ?case
    by (simp add: remove_ip_def)
qed simp

lemma filter_toAdd: "filter (slice_contains (filter P xs)) xs = filter P xs"
  by (rule filter_cong) (auto simp: slice_contains_def)

section \<open>Properties\<close>

text \<open>What a list of changes makes of a set of routes: the abstract effect of \<^verbatim>\<open>compareRoutes\<close>'s answer.\<close>

definition apply_changes :: "string list \<times> string list \<Rightarrow> string set \<Rightarrow> string set" where
  "apply_changes ch R = (R \<union> set (fst ch)) - set (snd ch)"


text \<open>
  C24: outside Windows, once the routes of an interface are listed, the commands run for it are one
  \<^verbatim>\<open>ip route add\<close> for every wanted address that has no route, in the order of the metadata, then one
  \<^verbatim>\<open>ip route delete\<close> for every route that is not wanted, and no other, whichever of them fail. Addresses
  are compared without a suffix \<^verbatim>\<open>/32\<close>.
\<close>

theorem set_routes_commands:
  assumes "run_state (getLocalRoutes cfg (if_Name i)) w = (Inr routes, w1)" and "goos w1 \<noteq> ''windows''"
    and "have = map trim32 routes" and "want = map trim32 (wanted False cfg ni)"
  shows "trace (snd (run_state (set_routes ops cfg False i ni) w)) = trace w1 @
     map (\<lambda>a. route_cmd ''add'' cfg a (if_Name i)) (filter (\<lambda>a. a \<notin> set have) want) @
     map (\<lambda>a. route_cmd ''delete'' cfg a (if_Name i)) (filter (\<lambda>a. a \<notin> set want) have)"
proof -
  let ?add = "fst (compareRoutes have want)"
  obtain r2 w2 where a: "run_state (add_ips ops cfg False i [] ?add want []) w1 = (r2, w2)"
    by (metis prod.collapse)
  have "trace w2 = trace w1 @ map (\<lambda>a. route_cmd ''add'' cfg a (if_Name i)) ?add" and "goos w2 \<noteq> ''windows''"
    using add_ips_trace [OF assms(2), of ops cfg i "[]" ?add want "[]"] assms(2) a
    by (simp_all add: compareRoutes_def filter_toAdd)
  moreover have "trace (snd (run_state (set_routes ops cfg False i ni) w)) =
      trace (snd (run_state (remove_ips ops cfg False i [] (snd (compareRoutes have want)) r2) w2))"
    using a assms(1) by (simp add: set_routes_def current_ips_def assms(3,4) Let_def split: prod.split)
  ultimately show ?thesis
    by (simp add: remove_ips_trace compareRoutes_def slice_contains_def)
qed

text \<open>An interface with a route to 10.0.0.9, where the metadata wants 10.0.0.7.\<close>

definition no_win :: "unit win_ops" where
  "no_win = \<lparr>win_Addrs = (\<lambda>_. State_Monad.return (Inr [])), readRegMultiString = (\<lambda>_. State_Monad.return (Inl None)),
     deleteRegKey = (\<lambda>_. State_Monad.return None), writeRegMultiString = (\<lambda>_ _. State_Monad.return None),
     addAddress = (\<lambda>_ _ _. State_Monad.return None), removeAddress = (\<lambda>_ _ _. State_Monad.return None)\<rparr>"

definition listing :: "string list \<Rightarrow> string" where
  "listing args = (if args ! 1 = ''route'' \<and> args ! 2 = ''list'' then ''local 10.0.0.9 \<newline>'' else [])"

definition calm_address :: "files \<Rightarrow> NetIf list \<Rightarrow> address_agent" where
  "calm_address f ifs = net_agent.extend (calm_net f ifs) \<lparr>address_badMAC = []\<rparr>"

definition route_world :: address_agent where
  "route_world = (calm_address [] [])\<lparr>exec := (\<lambda>_ args f. (Exited 0 (listing args) [] [], f))\<rparr>"

definition route_nic :: NetworkInterfaces where
  "route_nic = \<lparr>ForwardedIps = [''10.0.0.7''], ForwardedIpv6s = [], TargetInstanceIps = [], IPAliases = [], Mac = [],
     DHCPv6Refresh = [], MTU = 0\<rparr>"

definition route_if :: NetIf where
  "route_if = \<lparr>if_Name = ''eth0'', HardwareAddr = [], if_MTU = 0\<rparr>"

theorem set_routes_commands_witness:
  "drop 2 (trace (snd (run_state (set_routes no_win defaultConfig False route_if route_nic) route_world))) =
     [route_cmd ''add'' defaultConfig ''10.0.0.7'' ''eth0'', route_cmd ''delete'' defaultConfig ''10.0.0.9'' ''eth0'']"
proof -
  let ?r = "run_state (getLocalRoutes defaultConfig (if_Name route_if)) route_world"
  have eval: "fst ?r = Inr [''10.0.0.9'']" "goos (snd ?r) = ''linux''" "length (trace (snd ?r)) = 2"
    "map trim32 [''10.0.0.9''] = [''10.0.0.9'']" "map trim32 (wanted False defaultConfig route_nic) = [''10.0.0.7'']"
    by code_simp+
  have r: "?r = (Inr [''10.0.0.9''], snd ?r)"
    by (metis eval(1) prod.collapse)
  have g: "goos (snd ?r) \<noteq> ''windows''"
    by (simp add: eval(2))
  from set_routes_commands [OF r g eval(4) [symmetric] eval(5) [symmetric], of no_win] show ?thesis
    by (simp add: eval(3) drop_all) (simp add: route_if_def)
qed

end
