(* ===== verification/Wsfc.thy ===== *)
theory Wsfc
  imports Addresses
begin

text \<open>
  The agent for Windows failover clusters, \<^verbatim>\<open>google_guest_agent/wsfc.go\<close>: the manager that decides from
  configuration and metadata whether the agent listens and where, the agent itself, and its answer
  to a health check. Whether the network stack can listen at a port, whether closing a listener
  fails, and the addresses of the host are read from the world.
\<close>

datatype agentState = wsfc_running | wsfc_stopped

text \<open>The singleton \<^verbatim>\<open>agentInstance\<close>: its port, and the port of its listener while it has one.\<close>

record wsfcAgent =
  port :: string
  listener :: "string option"

record wsfc_agent = address_agent +
  agentInstance :: wsfcAgent
  ListenTCP :: "nat \<Rightarrow> string \<Rightarrow> goerr option"
  listener_Close :: "nat \<Rightarrow> goerr option"
  InterfaceAddrs :: "nat \<Rightarrow> ip list res"

type_synonym ('z, 'a) wsfc_io = "('z wsfc_agent_scheme, 'a) state"

record wsfcManager =
  agentNewState :: agentState
  agentNewPort :: string

definition wsfcDefaultAgentPort :: string where
  "wsfcDefaultAgentPort = ''59998''"

definition wsfc_wanted :: "Sections \<Rightarrow> Descriptor \<Rightarrow> bool" where
  "wsfc_wanted cfg md =
     (let i = InstanceAttributes (Inst md); p = ProjectAttributes (Proj md);
          rest = (case EnableWSFC i of
              Some b \<Rightarrow> b
            | None \<Rightarrow> if WSFCAddresses i \<noteq> [] then True
                else case EnableWSFC p of
                    Some b \<Rightarrow> b
                  | None \<Rightarrow> WSFCAddresses p \<noteq> [])
      in case WSFC cfg of
           Some c \<Rightarrow> if wsfc_Enable c \<and> wsfc_Addresses c \<noteq> [] then wsfc_Enable c else rest
         | None \<Rightarrow> rest)"

definition wsfc_port :: "Sections \<Rightarrow> Descriptor \<Rightarrow> string" where
  "wsfc_port cfg md =
     (let i = WSFCAgentPort (InstanceAttributes (Inst md)); p = WSFCAgentPort (ProjectAttributes (Proj md))
      in if (case WSFC cfg of Some c \<Rightarrow> wsfc_Port c \<noteq> [] | None \<Rightarrow> False)
         then (case WSFC cfg of Some c \<Rightarrow> wsfc_Port c | None \<Rightarrow> [])
         else if i \<noteq> [] then i
         else if p \<noteq> [] then i
         else wsfcDefaultAgentPort)"

definition newWsfcManager :: "('z, wsfcManager) wsfc_io" where
  "newWsfcManager = do {
     cfg \<leftarrow> gets config;
     md \<leftarrow> gets newMetadata;
     State_Monad.return \<lparr>agentNewState = (if wsfc_wanted cfg md then wsfc_running else wsfc_stopped),
       agentNewPort = wsfc_port cfg md\<rparr> }"

definition getState :: "wsfcAgent \<Rightarrow> agentState" where
  "getState a = (if listener a \<noteq> None then wsfc_running else wsfc_stopped)"

definition setPort :: "string \<Rightarrow> wsfcAgent \<Rightarrow> wsfcAgent" where
  "setPort newPort a = (if newPort \<noteq> port a then a\<lparr>port := newPort\<rparr> else a)"

definition wsfc_run :: "('z, goerr option) wsfc_io" where
  "wsfc_run = do {
     a \<leftarrow> gets agentInstance;
     (if getState a = wsfc_running then State_Monad.return None
      else State (\<lambda>w. let w' = w\<lparr>tick := Suc (tick w)\<rparr> in
        case ListenTCP w (tick w) (port a) of
          Some e \<Rightarrow> (Some e, w')
        | None \<Rightarrow> (None, w'\<lparr>agentInstance := a\<lparr>listener := Some (port a)\<rparr>\<rparr>))) }"

definition wsfc_stop :: "('z, goerr option) wsfc_io" where
  "wsfc_stop = do {
     a \<leftarrow> gets agentInstance;
     (if getState a = wsfc_stopped then State_Monad.return None
      else State (\<lambda>w. (listener_Close w (tick w), w\<lparr>tick := Suc (tick w), agentInstance := a\<lparr>listener := None\<rparr>\<rparr>))) }"

definition wsfc_Diff :: "wsfcManager \<Rightarrow> ('z, bool) wsfc_io" where
  "wsfc_Diff m = do {
     a \<leftarrow> gets agentInstance;
     State_Monad.return (agentNewState m \<noteq> getState a \<or> agentNewPort m \<noteq> port a) }"

definition wsfc_Disabled :: "wsfcManager \<Rightarrow> ('z, bool) wsfc_io" where
  "wsfc_Disabled m = State_Monad.return False"

definition wsfc_Timeout :: "wsfcManager \<Rightarrow> ('z, bool) wsfc_io" where
  "wsfc_Timeout m = State_Monad.return False"

definition wsfc_Set :: "wsfcManager \<Rightarrow> ('z, goerr option) wsfc_io" where
  "wsfc_Set m = do {
     modify (\<lambda>w. w\<lparr>agentInstance := setPort (agentNewPort m) (agentInstance w)\<rparr>);
     a \<leftarrow> gets agentInstance;
     (if agentNewState m \<noteq> getState a then (if agentNewState m = wsfc_running then wsfc_run else wsfc_stop)
      else if getState a = wsfc_running then do {
        e \<leftarrow> wsfc_stop;
        (case e of Some e \<Rightarrow> State_Monad.return (Some e) | None \<Rightarrow> wsfc_run) }
      else State_Monad.return None) }"

text \<open>The answer to a health check: the error is logged, the answer is sent in any case.\<close>

definition checkIPExist :: "string \<Rightarrow> ('z, string \<times> goerr option) wsfc_io" where
  "checkIPExist a = State (\<lambda>w.
     (case InterfaceAddrs w (tick w) of
        Inl e \<Rightarrow> (''0'', Some e)
      | Inr addrs \<Rightarrow> (if \<exists>x \<in> set addrs. \<not> IsLoopback x \<and> a = To4_String x then ''1'' else ''0'', None),
      w\<lparr>tick := Suc (tick w)\<rparr>))"

definition handleHealthCheckRequest :: "string res \<Rightarrow> ('z, string option) wsfc_io" where
  "handleHealthCheckRequest request = (case request of
     Inl _ \<Rightarrow> State_Monad.return None
   | Inr buf \<Rightarrow> do {
       r \<leftarrow> checkIPExist (TrimSpace (take 1024 buf));
       State_Monad.return (Some (fst r)) })"

section \<open>Properties\<close>

text \<open>
  C27: whatever state the agent was in, a \<^verbatim>\<open>Set\<close> that reports no error leaves nothing for \<^verbatim>\<open>Diff\<close> to find,
  and the agent listens, if it is to run, at the port the manager asked for.
\<close>

theorem wsfc_Set_converges:
  assumes "run_state (wsfc_Set m) w = (None, w')"
  shows "run_state (wsfc_Diff m) w' = (False, w') \<and>
     listener (agentInstance w') = (if agentNewState m = wsfc_running then Some (agentNewPort m) else None)"
  using assms
  by (cases "agentNewState m"; cases "listener (agentInstance w)")
    (auto simp: wsfc_Set_def wsfc_Diff_def wsfc_run_def wsfc_stop_def getState_def setPort_def Let_def
      split: if_splits option.splits)

definition calm_wsfc :: wsfc_agent where
  "calm_wsfc = address_agent.extend (calm_address [] []) \<lparr>agentInstance = \<lparr>port = wsfcDefaultAgentPort, listener = None\<rparr>,
     ListenTCP = (\<lambda>_ _. None), listener_Close = (\<lambda>_. None), InterfaceAddrs = (\<lambda>_. Inr [])\<rparr>"

theorem wsfc_Set_converges_witness:
  "\<exists>w'. run_state (wsfc_Set \<lparr>agentNewState = wsfc_running, agentNewPort = ''80''\<rparr>) calm_wsfc = (None, w') \<and>
     listener (agentInstance w') = Some ''80''"
proof -
  let ?r = "run_state (wsfc_Set \<lparr>agentNewState = wsfc_running, agentNewPort = ''80''\<rparr>) calm_wsfc"
  have "fst ?r = None"
    by code_simp
  then have r: "?r = (None, snd ?r)"
    by (metis prod.collapse)
  from wsfc_Set_converges [OF r] show ?thesis
    by (intro exI [of _ "snd ?r"] conjI r) simp
qed

text \<open>
  a port set for the project only does not reach the agent: the manager takes the port of the
  instance, which is empty there.
\<close>

theorem wsfc_project_port_lost:
  assumes "WSFC cfg = None" and "WSFCAgentPort (InstanceAttributes (Inst md)) = []" and "WSFCAgentPort (ProjectAttributes (Proj md)) \<noteq> []"
  shows "wsfc_port cfg md = []"
  using assms by (simp add: wsfc_port_def)

theorem wsfc_project_port_lost_witness:
  "wsfc_port defaultConfig (empty_descriptor\<lparr>Proj := empty_project\<lparr>ProjectAttributes := no_attributes\<lparr>WSFCAgentPort := ''80''\<rparr>\<rparr>\<rparr>) = []"
  by (rule wsfc_project_port_lost) code_simp+

text \<open>
  A health check for the text of an IPv4 address is answered with 1 if and only if an address of
  the host that is not a loopback address is that one.
\<close>

lemma checkIPExist_v4:
  assumes "InterfaceAddrs w (tick w) = Inr addrs" and "length v = 4" and "\<forall>n \<in> set v. n \<le> 255"
    and "\<forall>x \<in> set addrs. \<forall>u. To4 x = Some u \<longrightarrow> (\<forall>n \<in> set u. n \<le> 255) \<and> length u = 4"
  shows "fst (run_state (checkIPExist (dotted v)) w) =
     ((if \<exists>x \<in> set addrs. \<not> IsLoopback x \<and> To4 x = Some v then ''1'' else ''0''), None)"
proof -
  have "dotted v = To4_String x \<longleftrightarrow> To4 x = Some v" if "x \<in> set addrs" for x
  proof (cases "To4 x")
    case None
    have "parseIPv4 ''<nil>'' = None"
      by code_simp
    then show ?thesis
      using None parseIPv4_dotted [OF assms(2,3)] by (auto simp: To4_String_def)
  next
    case (Some u)
    then have "parseIPv4 (dotted u) = Some u"
      using assms(4) that by (auto intro: parseIPv4_dotted)
    then show ?thesis
      using Some parseIPv4_dotted [OF assms(2,3)] by (auto simp: To4_String_def)
  qed
  then show ?thesis
    using assms(1) by (auto simp: checkIPExist_def)
qed

end
