(* ===== verification/Command.thy ===== *)
theory Command
  imports Wsfc Calm
begin

text \<open>
  The command monitor, \<^verbatim>\<open>google_guest_agent/command\<close>: the registration of handlers, the server's
  treatment of one connection (reading a request by counting braces, decoding it, calling the
  handler, answering), and on Linux the socket, its directory and its permissions. A connection
  delivers runes (decoding UTF-8 is left to \<^verbatim>\<open>bufio\<close>) and then may fail; an answer is kept as the
  structure that is marshalled, or as the bytes the handler returned.
\<close>

section \<open>Handlers\<close>

record Response =
  resp_Status :: int
  StatusMessage :: string

definition CmdNotFoundError :: Response where
  "CmdNotFoundError = \<lparr>resp_Status = 101, StatusMessage = ''Could not find a handler for the requested command''\<rparr>"

definition BadRequestError :: Response where
  "BadRequestError = \<lparr>resp_Status = 102, StatusMessage = ''Could not parse valid JSON from request''\<rparr>"

definition ConnError :: Response where
  "ConnError = \<lparr>resp_Status = 103, StatusMessage = ''Connection error''\<rparr>"

definition TimeoutError :: Response where
  "TimeoutError = \<lparr>resp_Status = 104, StatusMessage = ''Connection timeout before reading valid request''\<rparr>"

definition HandlerError_Status :: int where
  "HandlerError_Status = 105"

text \<open>A handler gets the bytes of the request; it returns bytes or the text of an error.\<close>

type_synonym 'z handler = "string \<Rightarrow> ('z, string + string) io"

type_synonym 'z handlers = "(string \<times> 'z handler) list"

definition RegisterHandler :: "string \<Rightarrow> 'z handler \<Rightarrow> 'z handlers \<Rightarrow> goerr + 'z handlers" where
  "RegisterHandler cmd f hs =
     (case map_of hs cmd of Some _ \<Rightarrow> Inl (Msg (''cmd '' @ cmd @ '' is already handled'')) | None \<Rightarrow> Inr (AList.update cmd f hs))"

definition UnregisterHandler :: "string \<Rightarrow> 'z handlers \<Rightarrow> goerr + 'z handlers" where
  "UnregisterHandler cmd hs =
     (case map_of hs cmd of None \<Rightarrow> Inl (Msg (''cmd '' @ cmd @ '' is not registered'')) | Some _ \<Rightarrow> Inr (AList.delete cmd hs))"

section \<open>One connection\<close>

text \<open>What a read gives: a rune, or an error, which is the deadline's if the flag is set.\<close>

type_synonym reads = "(bool + nat) list"

definition depth_after :: "int \<Rightarrow> nat \<Rightarrow> int" where
  "depth_after depth r = (if r = 123 then depth + 1 else if r = 125 then depth - 1 else depth)"

definition rune_byte :: "nat \<Rightarrow> char" where
  "rune_byte r = char_of (r mod 256)"

fun read_request :: "int \<Rightarrow> int \<Rightarrow> string \<Rightarrow> reads \<Rightarrow> ('z, Response + string) io" where
  "read_request deadline depth b [] = do {
     t \<leftarrow> time_Now;
     State_Monad.return (Inl (if t > deadline then TimeoutError else ConnError)) }"
| "read_request deadline depth b (r # rs) = do {
     t \<leftarrow> time_Now;
     (if t > deadline then State_Monad.return (Inl TimeoutError)
      else case r of
          Inl e \<Rightarrow> State_Monad.return (Inl (if e then TimeoutError else ConnError))
        | Inr c \<Rightarrow>
            if depth_after depth c = 0 then State_Monad.return (Inr (b @ [rune_byte c]))
            else read_request deadline (depth_after depth c) (b @ [rune_byte c]) rs) }"

text \<open>\<^verbatim>\<open>json.Unmarshal\<close> into a \<^verbatim>\<open>Request\<close>: the field \<^verbatim>\<open>Command\<close>, or an error.\<close>

definition Request_Unmarshal :: "string \<Rightarrow> string option" where
  "Request_Unmarshal b = Option.bind (Option.bind (json_parse b) json_members) (\<lambda>ps. json_str_field ps ''Command'')"

datatype reply_data = Marshalled Response | Bytes string

definition dispatch :: "'z handlers \<Rightarrow> string \<Rightarrow> ('z, reply_data) io" where
  "dispatch hs b = (case Request_Unmarshal b of
     None \<Rightarrow> State_Monad.return (Marshalled BadRequestError)
   | Some cmd \<Rightarrow> (case map_of hs cmd of
       None \<Rightarrow> State_Monad.return (Marshalled CmdNotFoundError)
     | Some handler \<Rightarrow> do {
         r \<leftarrow> handler b;
         State_Monad.return (case r of
           Inl e \<Rightarrow> Marshalled \<lparr>resp_Status = HandlerError_Status, StatusMessage = e\<rparr>
         | Inr resp \<Rightarrow> Bytes resp) }))"

text \<open>The flag says that the read deadline could be set; otherwise the connection is closed unanswered.\<close>

definition serve :: "'z handlers \<Rightarrow> int \<Rightarrow> bool \<Rightarrow> reads \<Rightarrow> ('z, reply_data option) io" where
  "serve hs limit deadline_set rs = do {
     t \<leftarrow> time_Now;
     (if \<not> deadline_set then State_Monad.return None
      else do {
        r \<leftarrow> read_request (t + limit) 0 [] rs;
        (case r of
           Inl e \<Rightarrow> State_Monad.return (Some (Marshalled e))
         | Inr b \<Rightarrow> do { a \<leftarrow> dispatch hs b; State_Monad.return (Some a) }) }) }"

section \<open>The socket and its directory on Linux\<close>

definition DefaultPipePath :: string where
  "DefaultPipePath = ''/run/google-guest-agent/commands.sock''"

fun more_permissive_n :: "nat \<Rightarrow> nat \<Rightarrow> nat \<Rightarrow> bool" where
  "more_permissive_n 0 i j \<longleftrightarrow> False"
| "more_permissive_n (Suc k) i j \<longleftrightarrow> i mod 8 > j mod 10 \<or> more_permissive_n k (i div 8) (j div 8)"

definition morePermissive :: "nat \<Rightarrow> nat \<Rightarrow> bool" where
  "morePermissive i j = more_permissive_n 3 i j"

definition node_perm :: "node \<Rightarrow> nat" where
  "node_perm n = (case n of Reg _ m _ \<Rightarrow> m | Dir m _ \<Rightarrow> m | Fifo m _ \<Rightarrow> m | Link _ \<Rightarrow> 511)"

definition node_owner :: "node \<Rightarrow> int \<times> int" where
  "node_owner n = (case n of Reg _ _ u \<Rightarrow> u | Dir _ u \<Rightarrow> u | Fifo _ u \<Rightarrow> u | Link _ \<Rightarrow> (0, 0))"

text \<open>The corrections made to a directory that exists.\<close>

definition correct_dir :: "string \<Rightarrow> node \<Rightarrow> nat \<Rightarrow> int \<Rightarrow> int \<Rightarrow> ('z, goerr option) io" where
  "correct_dir dir n p uid gid =
     (case n of
        Dir m (u, g) \<Rightarrow> do {
          e \<leftarrow> (if morePermissive m p then os_Chmod dir p else State_Monad.return None);
          (case e of
             Some e \<Rightarrow> State_Monad.return (Some (Flat ''could not correct permissions'' e))
           | None \<Rightarrow> do {
               e \<leftarrow> (if u \<noteq> 0 \<and> u \<noteq> uid then os_Chown dir uid (-1) else State_Monad.return None);
               (case e of
                  Some e \<Rightarrow> State_Monad.return (Some (Flat ''could not correct owner'' e))
                | None \<Rightarrow> do {
                    e \<leftarrow> (if g \<noteq> 0 \<and> g \<noteq> gid then os_Chown dir (-1) gid else State_Monad.return None);
                    State_Monad.return (map_option (Flat ''could not correct group'') e) }) }) }
      | _ \<Rightarrow> State_Monad.return (Some (Msg (dir @ '' exists and is not a directory''))))"

definition mkdirp_step :: "string \<Rightarrow> nat \<Rightarrow> int \<Rightarrow> int \<Rightarrow> ('z, goerr option outcome) io \<Rightarrow> ('z, goerr option outcome) io" where
  "mkdirp_step dir p uid gid make_parent = do {
     s \<leftarrow> os_Stat dir;
     (let inner = path_Dir dir \<noteq> ''/'' \<and> path_Dir dir \<noteq> [] in
      case s of
        Inr n \<Rightarrow> if inner then do { e \<leftarrow> correct_dir dir n p uid gid; State_Monad.return (Ret e) } else State_Monad.return (Ret None)
      | Inl _ \<Rightarrow> unless_panic (if inner then make_parent else State_Monad.return (Ret None)) (\<lambda>e. case e of
            Some e \<Rightarrow> State_Monad.return (Ret (Some e))
          | None \<Rightarrow> do { e \<leftarrow> os_Mkdir dir p; State_Monad.return (Ret e) })) }"

text \<open>
  The parent of a path is shorter, but for \<^verbatim>\<open>.\<close> and its like: there the recursion would not end, and Go
  ends the program when the stack is used up.
\<close>

function mkdirpWithPerms :: "string \<Rightarrow> nat \<Rightarrow> int \<Rightarrow> int \<Rightarrow> ('z, goerr option outcome) io" where
  "mkdirpWithPerms dir p uid gid =
     (if length (path_Dir dir) < length dir
      then mkdirp_step dir p uid gid (mkdirpWithPerms (path_Dir dir) p uid gid)
      else mkdirp_step dir p uid gid (State_Monad.return (Panic ''stack overflow'')))"
  by pat_completeness auto

termination
  by (relation "measure (\<lambda>(dir, p, uid, gid). length dir)") auto

declare mkdirpWithPerms.simps [simp del]

text \<open>The mode of the socket: the kernel takes the low nine bits of the argument of \<^verbatim>\<open>Umask\<close>.\<close>

definition listen_umask :: "int \<Rightarrow> int" where
  "listen_umask filemode = 777 - filemode"

definition socket_mode :: "int \<Rightarrow> nat" where
  "socket_mode filemode = effective (nat (listen_umask filemode AND 511)) 511"

section \<open>The server\<close>

record Server =
  srv_pipe :: string
  srv_pipeMode :: int
  srv_pipeGroup :: string
  srv_timeout :: int
  srv_listening :: bool

text \<open>
  The monitor's server, the sockets with their mode and owner, and what the environment decides:
  the group database, the current user, whether listening succeeds, and what a server at the other
  end of a pipe answers to a request (\<^const>\<open>None\<close> if the connection fails).
\<close>

record command_agent = wsfc_agent +
  cmd_srv :: "Server option"
  sockets :: "(string \<times> nat \<times> int \<times> int) list"
  LookupGroup :: "string \<Rightarrow> string option"
  user_Current :: "(string \<times> string) option"
  listen_unix :: "nat \<Rightarrow> string \<Rightarrow> goerr option"
  chown_socket :: "nat \<Rightarrow> string \<Rightarrow> goerr option"
  exchange :: "nat \<Rightarrow> string \<Rightarrow> string \<Rightarrow> string option"

type_synonym ('z, 'a) command_io = "('z command_agent_scheme, 'a) state"

definition group_id :: "('z command_agent_scheme) \<Rightarrow> string \<Rightarrow> int" where
  "group_id w grp = (case Atoi grp of
     Some g \<Rightarrow> g
   | None \<Rightarrow> (case Option.bind (LookupGroup w grp) Atoi of Some g \<Rightarrow> g | None \<Rightarrow> -1))"

definition create_socket :: "string \<Rightarrow> int \<Rightarrow> ('z, goerr option) command_io" where
  "create_socket pipe filemode = State (\<lambda>w. let w' = w\<lparr>tick := Suc (tick w)\<rparr> in
     case listen_unix w (tick w) pipe of
       Some e \<Rightarrow> (Some e, w')
     | None \<Rightarrow> (None, w'\<lparr>sockets := AList.update pipe (socket_mode filemode, 0, 0) (sockets w)\<rparr>))"

definition own_socket :: "string \<Rightarrow> int \<Rightarrow> int \<Rightarrow> ('z, goerr option) command_io" where
  "own_socket pipe uid gid = State (\<lambda>w. let w' = w\<lparr>tick := Suc (tick w)\<rparr> in
     case chown_socket w (tick w) pipe of
       Some e \<Rightarrow> (Some e, w'\<lparr>sockets := AList.delete pipe (sockets w)\<rparr>)
     | None \<Rightarrow> (None, w'\<lparr>sockets := AList.map_entry pipe (\<lambda>(m, o1). (m, new_owner (uid, gid) o1)) (sockets w)\<rparr>))"

definition listen :: "string \<Rightarrow> int \<Rightarrow> string \<Rightarrow> ('z, goerr option outcome) command_io" where
  "listen pipe filemode grp = do {
     gid \<leftarrow> gets (\<lambda>w. group_id w grp);
     user \<leftarrow> gets user_Current;
     (case user of
        None \<Rightarrow> State_Monad.return (Ret (Some (Msg ''could not lookup current user'')))
      | Some (u, g) \<Rightarrow> (case (Atoi u, Atoi g) of
          (Some currentuid, Some currentgid) \<Rightarrow>
            unless_panic (mkdirpWithPerms (path_Dir pipe) (nat filemode) currentuid currentgid) (\<lambda>e. case e of
                Some e \<Rightarrow> State_Monad.return (Ret (Some e))
              | None \<Rightarrow> do {
                  e \<leftarrow> create_socket pipe filemode;
                  (case e of
                     Some e \<Rightarrow> State_Monad.return (Ret (Some e))
                   | None \<Rightarrow> do { e \<leftarrow> own_socket pipe currentuid gid; State_Monad.return (Ret e) }) })
        | _ \<Rightarrow> State_Monad.return (Ret (Some (Msg ''os reported an id which is not a valid int''))))) }"

definition srv_start :: "Server \<Rightarrow> ('z, goerr option outcome) command_io" where
  "srv_start c =
     (if srv_listening c then State_Monad.return (Ret (Some (Msg ''server already listening'')))
      else unless_panic (listen (srv_pipe c) (srv_pipeMode c) (srv_pipeGroup c)) (\<lambda>e. case e of
          Some e \<Rightarrow> State_Monad.return (Ret (Some e))
        | None \<Rightarrow> do {
            modify (\<lambda>w. w\<lparr>cmd_srv := Some (c\<lparr>srv_listening := True\<rparr>)\<rparr>);
            State_Monad.return (Ret None) }))"

text \<open>\<^verbatim>\<open>strconv.ParseInt(s, 8, 32)\<close>.\<close>

definition read_octal :: "string \<Rightarrow> nat option" where
  "read_octal s = (if s \<noteq> [] \<and> list_all (\<lambda>c. is_digit c \<and> digit_val c < 8) s
     then Some (foldl (\<lambda>n c. 8 * n + digit_val c) 0 s) else None)"

definition ParseInt8 :: "string \<Rightarrow> int option" where
  "ParseInt8 s =
     (let neg = HasPrefix s ''-''; digs = (if HasPrefix s ''-'' \<or> HasPrefix s ''+'' then tl s else s)
      in case read_octal digs of
           None \<Rightarrow> None
         | Some n \<Rightarrow> (let i = (if neg then - int n else int n) in if - (2 ^ 31) \<le> i \<and> i < 2 ^ 31 then Some i else None))"

text \<open>The duration parser of package \<^verbatim>\<open>time\<close> is the argument.\<close>

definition cmd_Init :: "(string \<Rightarrow> int option) \<Rightarrow> ('z, unit outcome) command_io" where
  "cmd_Init ParseDuration = do {
     srv \<leftarrow> gets cmd_srv;
     u \<leftarrow> gets (\<lambda>w. Unstable (config w));
     (case srv of
        Some _ \<Rightarrow> State_Monad.return (Ret ())
      | None \<Rightarrow> do {
          let c = \<lparr>srv_pipe = (if CommandPipePath u = [] then DefaultPipePath else CommandPipePath u),
            srv_pipeMode = (case ParseInt8 (CommandPipeMode u) of Some m \<Rightarrow> m | None \<Rightarrow> 504),
            srv_pipeGroup = CommandPipeGroup u,
            srv_timeout = (case ParseDuration (CommandRequestTimeout u) of Some d \<Rightarrow> d | None \<Rightarrow> 10000000000),
            srv_listening = False\<rparr>;
          modify (\<lambda>w. w\<lparr>cmd_srv := Some c\<rparr>);
          unless_panic (srv_start c) (\<lambda>_. State_Monad.return (Ret ())) }) }"

definition SendCmdPipe :: "string \<Rightarrow> string \<Rightarrow> ('z, reply_data) command_io" where
  "SendCmdPipe pipe req = State (\<lambda>w.
     (case exchange w (tick w) pipe req of None \<Rightarrow> Marshalled ConnError | Some b \<Rightarrow> Bytes b, w\<lparr>tick := Suc (tick w)\<rparr>))"

definition SendCommand :: "string \<Rightarrow> ('z, reply_data) command_io" where
  "SendCommand req = do {
     pipe \<leftarrow> gets (\<lambda>w. CommandPipePath (Unstable (config w)));
     SendCmdPipe (if pipe = [] then DefaultPipePath else pipe) req }"

section \<open>Properties\<close>

text \<open>
  The text of a request: its braces balance, and not before the last character.
\<close>

fun framed :: "int \<Rightarrow> nat list \<Rightarrow> bool" where
  "framed depth [] \<longleftrightarrow> False"
| "framed depth [r] \<longleftrightarrow> depth_after depth r = 0"
| "framed depth (r # rs) \<longleftrightarrow> depth_after depth r \<noteq> 0 \<and> framed (depth_after depth r) rs"

lemma read_request_framed:
  assumes "framed depth rs" and "\<forall>t. now w t \<le> deadline"
  shows "run_state (read_request deadline depth b (map Inr rs @ rest)) w =
    (Inr (b @ map rune_byte rs), w\<lparr>tick := tick w + length rs\<rparr>)"
  using assms
proof (induction depth rs arbitrary: b w rule: framed.induct)
  case (2 depth r)
  then show ?case
    by (simp add: time_Now_def linorder_not_less)
next
  case (3 depth r r' rs)
  have "run_state (read_request deadline (depth_after depth r) (b @ [rune_byte r]) (map Inr (r' # rs) @ rest))
      (w\<lparr>tick := Suc (tick w)\<rparr>) = (Inr ((b @ [rune_byte r]) @ map rune_byte (r' # rs)), w\<lparr>tick := Suc (tick w) + length (r' # rs)\<rparr>)"
    using "3.prems" by (subst "3.IH") auto
  then show ?case
    using "3.prems" by (simp add: time_Now_def linorder_not_less)
qed simp

text \<open>
  C12: a request in ASCII whose braces first balance at its last character reaches its handler
  unchanged, whatever the client sends after it, as long as the clock does not pass the deadline: the
  answer is the handler's for exactly those bytes, and an error of the handler becomes status 105
  with its text.
\<close>

theorem serve_dispatches:
  assumes "framed 0 rs" and "\<forall>r \<in> set rs. r < 128" and "b = map char_of rs"
    and "Request_Unmarshal b = Some cmd" and "map_of hs cmd = Some handler"
    and "\<forall>t. now w t \<le> now w (tick w) + limit"
    and "run_state (handler b) (w\<lparr>tick := Suc (tick w) + length rs\<rparr>) = (resp, w')"
  shows "run_state (serve hs limit True (map Inr rs @ rest)) w =
     (Some (case resp of Inl e \<Rightarrow> Marshalled \<lparr>resp_Status = 105, StatusMessage = e\<rparr> | Inr x \<Rightarrow> Bytes x), w')"
proof -
  have "map rune_byte rs = b"
    using assms(2,3) by (simp add: rune_byte_def)
  then have "run_state (read_request (now w (tick w) + limit) 0 [] (map Inr rs @ rest)) (w\<lparr>tick := Suc (tick w)\<rparr>) =
      (Inr b, w\<lparr>tick := Suc (tick w) + length rs\<rparr>)"
    using read_request_framed [OF assms(1), of "w\<lparr>tick := Suc (tick w)\<rparr>" _ "[]" rest] assms(6) by simp
  then show ?thesis
    using assms(4,5,7) by (simp add: serve_def time_Now_def dispatch_def HandlerError_Status_def split: sum.split)
qed

definition example_request :: "nat list" where
  "example_request = map of_char (CHR ''{'' # CHR 0x22 # ''Command'' @ [CHR 0x22, CHR '':'', CHR 0x22] @ ''ping'' @ [CHR 0x22, CHR ''}''])"

definition ping :: "unit handler" where
  "ping b = State_Monad.return (Inr ''pong'')"

theorem serve_dispatches_witness:
  "fst (run_state (serve [(''ping'', ping)] 1 True (map Inr example_request @ [Inr 65])) (calm [])) =
     Some (Bytes ''pong'')"
proof -
  have eval: "framed 0 example_request" "\<forall>r \<in> set example_request. r < 128"
    "Request_Unmarshal (map char_of example_request) = Some ''ping''"
    by code_simp+
  have "run_state (serve [(''ping'', ping)] 1 True (map Inr example_request @ [Inr 65])) (calm []) =
      (Some (case Inr ''pong'' of Inl e \<Rightarrow> Marshalled \<lparr>resp_Status = 105, StatusMessage = e\<rparr> | Inr x \<Rightarrow> Bytes x),
       (calm [])\<lparr>tick := Suc (tick (calm [])) + length example_request\<rparr>)"
    by (rule serve_dispatches [where handler = ping, OF eval(1,2) refl eval(3)]) (simp_all add: ping_def)
  then show ?thesis
    by simp
qed


text \<open>
  the permissions of the socket are not those asked for: the code subtracts the mode from decimal
  777. With the mode 0770 of the default configuration the socket gets 0356, on which the group
  cannot write and everybody else can.
\<close>

theorem socket_mode_default: "socket_mode 504 = 238 \<and> ParseInt8 (CommandPipeMode (Unstable defaultConfig)) = Some 504"
  by code_simp

text \<open>
  a directory that everybody may use, of mode 0707, is left so when 0700 is asked for: the modes
  are compared digit by digit, but the digits of the one asked for are taken in base ten.
\<close>

theorem mkdirp_keeps_permissive:
  assumes "fault w = (\<lambda>_. None)" and "map_of (fs w) dir = Some (Dir 455 (0, 0))" and "path_Dir dir \<noteq> ''/''" and "path_Dir dir \<noteq> []"
  shows "\<exists>w'. run_state (mkdirpWithPerms dir 448 uid gid) w = (Ret None, w') \<and> fs w' = fs w"
proof -
  have "\<not> morePermissive 455 448"
    by code_simp
  then show ?thesis
    using assms by (subst mkdirpWithPerms.simps)
      (simp add: mkdirp_step_def os_Stat_def syscall_def lookup_Dir correct_dir_def)
qed

theorem mkdirp_keeps_permissive_witness:
  "\<exists>w'. run_state (mkdirpWithPerms ''/run/google-guest-agent'' 448 0 0) (calm [(''/run/google-guest-agent'', Dir 455 (0, 0))]) = (Ret None, w') \<and>
     map_of (fs w') ''/run/google-guest-agent'' = Some (Dir 455 (0, 0))"
proof -
  have "path_Dir ''/run/google-guest-agent'' = ''/run''"
    by code_simp
  then show ?thesis
    using mkdirp_keeps_permissive [of "calm [(''/run/google-guest-agent'', Dir 455 (0, 0))]" "''/run/google-guest-agent''" 0 0] by auto
qed

end
