(* ===== verification/WinAccounts.thy ===== *)
theory WinAccounts
  imports Accounts JsonPrint Command
begin

text \<open>
  The accounts manager on Windows, \<^verbatim>\<open>windows_accounts.go\<close>. The calls into Windows (\<^verbatim>\<open>accounts_windows.go\<close>,
  \<^verbatim>\<open>system_windows.go\<close>), the serial port, RSA and the text of an error are operations passed to the definitions. The loop that draws a
  password may run for ever, so the operations that use it are functions from a state to an optional result:
  \<^const>\<open>None\<close> is a call that does not return.
\<close>

section \<open>Operations that may not return\<close>

type_synonym ('s, 'a) pst = "'s \<Rightarrow> ('a \<times> 's) option"

definition lift_st :: "('s, 'a) state \<Rightarrow> ('s, 'a) pst" where
  "lift_st m = (\<lambda>w. Some (run_state m w))"

definition pbind :: "('s, 'a) pst \<Rightarrow> ('a \<Rightarrow> ('s, 'b) pst) \<Rightarrow> ('s, 'b) pst" where
  "pbind m k = (\<lambda>w. case m w of None \<Rightarrow> None | Some (x, w') \<Rightarrow> k x w')"

definition preturn :: "'a \<Rightarrow> ('s, 'a) pst" where
  "preturn x = (\<lambda>w. Some (x, w))"

fun pfor_all :: "('a \<Rightarrow> ('s, unit) pst) \<Rightarrow> 'a list \<Rightarrow> ('s, unit) pst" where
  "pfor_all f [] = preturn ()"
| "pfor_all f (x # xs) = pbind (f x) (\<lambda>_. pfor_all f xs)"

section \<open>State and the calls into Windows\<close>

text \<open>\<^verbatim>\<open>crypto/rand\<close> answers by tick; \<^verbatim>\<open>badReg\<close> is the package variable.\<close>

record win_agent = command_agent +
  rand_Reader :: "nat \<Rightarrow> nat \<Rightarrow> nat res"
  badReg :: "string list"

type_synonym ('z, 'a) win_io = "('z win_agent_scheme, 'a) state"

datatype hash = Sha1 | Sha256 | Sha512

record versionInfo =
  major :: int
  minor :: int

text \<open>A registry value that does not exist is \<^const>\<open>None\<close>.\<close>

record 'z win_api =
  win_userExists :: "string \<Rightarrow> ('z, goerr option) win_io"
  win_resetPwd :: "string \<Rightarrow> string \<Rightarrow> ('z, goerr option) win_io"
  win_createUser :: "string \<Rightarrow> string \<Rightarrow> ('z, goerr option) win_io"
  win_addUserToGroup :: "string \<Rightarrow> string \<Rightarrow> ('z, goerr option) win_io"
  reg_readMultiString :: "string \<Rightarrow> string \<Rightarrow> ('z, goerr option + string list) win_io"
  reg_writeMultiString :: "string \<Rightarrow> string \<Rightarrow> string list \<Rightarrow> ('z, goerr option) win_io"
  getWindowsServiceImagePath :: "string \<Rightarrow> ('z, string res) win_io"
  getWindowsExeVersion :: "string \<Rightarrow> ('z, versionInfo res) win_io"
  checkWindowsServiceRunning :: "string \<Rightarrow> ('z, bool) win_io"
  EncryptOAEP :: "hash \<Rightarrow> nat \<Rightarrow> int \<Rightarrow> string \<Rightarrow> ('z, string res) win_io"
  credsWriter :: "string \<Rightarrow> ('z, goerr option) win_io"
  error_String :: "goerr \<Rightarrow> string"

definition regKeyBase :: string where
  "regKeyBase = ''SOFTWARE'' @ [CHR 0x5C] @ ''Google'' @ [CHR 0x5C] @ ''ComputeEngine''"

definition accountRegKey :: string where
  "accountRegKey = ''PublicKeys''"

definition sshdRegKey :: string where
  "sshdRegKey = ''SYSTEM'' @ [CHR 0x5C] @ ''CurrentControlSet'' @ [CHR 0x5C] @ ''Services'' @ [CHR 0x5C] @ ''sshd''"

definition minSSHVersion :: versionInfo where
  "minSSHVersion = \<lparr>major = 8, minor = 6\<rparr>"

section \<open>Passwords\<close>

definition pw_lower :: string where
  "pw_lower = ''abcdefghijklmnopqrstuvwxyz''"

definition pw_upper :: string where
  "pw_upper = ''ABCDEFGHIJKLMNOPQRSTUVWXYZ''"

definition pw_numbers :: string where
  "pw_numbers = ''0123456789''"

definition pw_special :: string where
  "pw_special = ''~!@#$%^&*_-+=|'' @ [CHR 0x5C] @ ''(){}[]:;<>,.?/''"

definition pw_chars :: string where
  "pw_chars = pw_lower @ pw_upper @ pw_numbers @ pw_special"

definition pw_length :: "int \<Rightarrow> nat" where
  "pw_length userPwLgth = nat (if userPwLgth > 255 then 255 else if userPwLgth > 15 then userPwLgth else 15)"

definition rand_Int :: "nat \<Rightarrow> ('z, nat res) win_io" where
  "rand_Int n = State (\<lambda>w. (rand_Reader w (tick w) n, w\<lparr>tick := Suc (tick w)\<rparr>))"

text \<open>The inner loop: as many random characters as the password is to have.\<close>

fun draw_chars :: "nat \<Rightarrow> ('z, string res) win_io" where
  "draw_chars 0 = State_Monad.return (Inr [])"
| "draw_chars (Suc n) = do {
     r \<leftarrow> rand_Int (length pw_chars);
     (case r of
        Inl e \<Rightarrow> State_Monad.return (Inl e)
      | Inr ci \<Rightarrow> do {
          rest \<leftarrow> draw_chars n;
          State_Monad.return (map_sum id (Cons (pw_chars ! ci)) rest) }) }"

definition ContainsAny :: "string \<Rightarrow> string \<Rightarrow> bool" where
  "ContainsAny b cs \<longleftrightarrow> list_ex (\<lambda>c. c \<in> set cs) b"

definition meets_complexity :: "string \<Rightarrow> bool" where
  "meets_complexity b \<longleftrightarrow> of_bool (ContainsAny pw_lower b) + of_bool (ContainsAny pw_upper b) +
     of_bool (ContainsAny pw_numbers b) + of_bool (ContainsAny pw_special b) \<ge> (3 :: int)"

partial_function (option) newPwd_loop :: "nat \<Rightarrow> 'z win_agent_scheme \<Rightarrow> (string res \<times> 'z win_agent_scheme) option" where
  "newPwd_loop n w = (case run_state (draw_chars n) w of
     (Inl e, w') \<Rightarrow> Some (Inl e, w')
   | (Inr b, w') \<Rightarrow> if meets_complexity b then Some (Inr b, w') else newPwd_loop n w')"

definition newPwd :: "int \<Rightarrow> ('z win_agent_scheme, string res) pst" where
  "newPwd userPwLgth = newPwd_loop (pw_length userPwLgth)"

section \<open>Credentials\<close>

text \<open>\<^verbatim>\<open>base64.StdEncoding\<close>: line breaks are skipped and the last group is padded.\<close>

definition b64_val :: "char \<Rightarrow> nat option" where
  "b64_val c =
     (let n = (of_char c :: nat) in
      if 65 \<le> n \<and> n \<le> 90 then Some (n - 65)
      else if 97 \<le> n \<and> n \<le> 122 then Some (n - 71)
      else if 48 \<le> n \<and> n \<le> 57 then Some (n + 4)
      else if c = CHR ''+'' then Some 62
      else if c = CHR ''/'' then Some 63 else None)"

definition b64_char :: "nat \<Rightarrow> char" where
  "b64_char v = (if v < 26 then char_of (v + 65) else if v < 52 then char_of (v + 71)
     else if v < 62 then char_of (v - 4) else if v = 62 then CHR ''+'' else CHR ''/'')"

fun b64_groups :: "string \<Rightarrow> string option" where
  "b64_groups [] = Some []"
| "b64_groups (a # b # c # d # r) =
     (case (b64_val a, b64_val b) of
        (Some x, Some y) \<Rightarrow>
          if c = CHR ''='' then (if d = CHR ''='' \<and> r = [] then Some [char_of (x * 4 + y div 16)] else None)
          else (case b64_val c of
            None \<Rightarrow> None
          | Some z \<Rightarrow>
              if d = CHR ''='' then (if r = [] then Some [char_of (x * 4 + y div 16), char_of (y mod 16 * 16 + z div 4)] else None)
              else (case (b64_val d, b64_groups r) of
                (Some u, Some t) \<Rightarrow> Some (char_of (x * 4 + y div 16) # char_of (y mod 16 * 16 + z div 4) # char_of (z mod 4 * 64 + u) # t)
              | _ \<Rightarrow> None))
      | _ \<Rightarrow> None)"
| "b64_groups _ = None"

definition DecodeString :: "string \<Rightarrow> string option" where
  "DecodeString s = b64_groups (filter (\<lambda>c. c \<noteq> CHR 0x0A \<and> c \<noteq> CHR 0x0D) s)"

fun EncodeToString :: "string \<Rightarrow> string" where
  "EncodeToString [] = []"
| "EncodeToString [a] = (let x = (of_char a :: nat) in [b64_char (x div 4), b64_char (x mod 4 * 16), CHR ''='', CHR ''=''])"
| "EncodeToString [a, b] = (let x = (of_char a :: nat); y = (of_char b :: nat) in
     [b64_char (x div 4), b64_char (x mod 4 * 16 + y div 16), b64_char (y mod 16 * 4), CHR ''=''])"
| "EncodeToString (a # b # c # r) = (let x = (of_char a :: nat); y = (of_char b :: nat); z = (of_char c :: nat) in
     [b64_char (x div 4), b64_char (x mod 4 * 16 + y div 16), b64_char (y mod 16 * 4 + z div 64), b64_char (z mod 64)] @ EncodeToString r)"

text \<open>\<^verbatim>\<open>big.Int\<close>: big-endian bytes, and the low 64 bits as a signed number.\<close>

definition SetBytes :: "string \<Rightarrow> nat" where
  "SetBytes b = foldl (\<lambda>n c. 256 * n + of_char c) 0 b"

definition big_Int64 :: "nat \<Rightarrow> int" where
  "big_Int64 n = (let m = int n mod 2 ^ 64 in if m < 2 ^ 63 then m else m - 2 ^ 64)"

record credsJSON =
  ErrorMessage :: string
  EncryptedPassword :: string
  creds_UserName :: string
  PasswordFound :: bool
  creds_Exponent :: string
  creds_Modulus :: string
  creds_HashFunction :: string

definition omit_empty :: "string \<Rightarrow> string \<Rightarrow> (string \<times> json) list" where
  "omit_empty k s = (if s = [] then [] else [(k, JStr s)])"

definition credsJSON_members :: "credsJSON \<Rightarrow> (string \<times> json) list" where
  "credsJSON_members c = omit_empty ''errorMessage'' (ErrorMessage c) @ omit_empty ''encryptedPassword'' (EncryptedPassword c) @
     omit_empty ''userName'' (creds_UserName c) @ (if PasswordFound c then [(''passwordFound'', JBool True)] else []) @
     omit_empty ''exponent'' (creds_Exponent c) @ omit_empty ''modulus'' (creds_Modulus c) @ omit_empty ''hashFunction'' (creds_HashFunction c)"

definition printCreds :: "'z win_api \<Rightarrow> credsJSON \<Rightarrow> ('z, goerr option) win_io" where
  "printCreds ops creds = credsWriter ops (print_object (credsJSON_members creds) @ [CHR 0x0A])"

definition hash_of :: "string \<Rightarrow> hash option" where
  "hash_of s = (if s = ''sha1'' then Some Sha1 else if s = ''sha256'' then Some Sha256 else if s = ''sha512'' then Some Sha512 else None)"

definition createcredsJSON :: "'z win_api \<Rightarrow> WindowsKey \<Rightarrow> string \<Rightarrow> ('z, credsJSON res) win_io" where
  "createcredsJSON ops k pwd = (case DecodeString (Modulus k) of
     None \<Rightarrow> State_Monad.return (Inl (Msg ''error decoding modulus''))
   | Some md \<Rightarrow> (case DecodeString (Exponent k) of
       None \<Rightarrow> State_Monad.return (Inl (Msg ''error decoding exponent''))
     | Some ex \<Rightarrow>
         (let h = (if HashFunction k = [] then ''sha1'' else HashFunction k)
          in case hash_of h of
               None \<Rightarrow> State_Monad.return (Inl (Msg (''unknown hash function requested: '' @ h)))
             | Some hashFunc \<Rightarrow> do {
                 r \<leftarrow> EncryptOAEP ops hashFunc (SetBytes md) (big_Int64 (SetBytes ex)) pwd;
                 State_Monad.return (case r of
                   Inl e \<Rightarrow> Inl (Flat ''error encrypting password'' e)
                 | Inr encPwd \<Rightarrow> Inr \<lparr>ErrorMessage = [], EncryptedPassword = EncodeToString encPwd, creds_UserName = UserName k,
                     PasswordFound = True, creds_Exponent = Exponent k, creds_Modulus = Modulus k, creds_HashFunction = h\<rparr>) })))"

section \<open>Users\<close>

definition add_admin :: "'z win_api \<Rightarrow> string \<Rightarrow> bool \<Rightarrow> ('z, goerr option) win_io" where
  "add_admin ops user b =
     (if b then do { e \<leftarrow> win_addUserToGroup ops user ''Administrators''; State_Monad.return (map_option (Flat ''error running addUserToGroup'') e) }
      else State_Monad.return None)"

text \<open>The user is reset or created, and made an administrator as the key asks.\<close>

definition set_password :: "'z win_api \<Rightarrow> WindowsKey \<Rightarrow> string \<Rightarrow> ('z, credsJSON res) win_io" where
  "set_password ops k pwd = do {
     missing \<leftarrow> win_userExists ops (UserName k);
     e \<leftarrow> (case missing of
         None \<Rightarrow> do {
           e \<leftarrow> win_resetPwd ops (UserName k) pwd;
           (case e of
              Some e \<Rightarrow> State_Monad.return (Some (Flat ''error running resetPwd'' e))
            | None \<Rightarrow> add_admin ops (UserName k) (AddToAdministrators k = Some True)) }
       | Some _ \<Rightarrow> do {
           e \<leftarrow> win_createUser ops (UserName k) pwd;
           (case e of
              Some e \<Rightarrow> State_Monad.return (Some (Flat ''error running createUser'' e))
            | None \<Rightarrow> add_admin ops (UserName k) (AddToAdministrators k \<noteq> Some False)) });
     (case e of Some e \<Rightarrow> State_Monad.return (Inl e) | None \<Rightarrow> createcredsJSON ops k pwd) }"

definition createOrResetPwd :: "'z win_api \<Rightarrow> WindowsKey \<Rightarrow> ('z win_agent_scheme, credsJSON res) pst" where
  "createOrResetPwd ops k = pbind (newPwd (PasswordLength k)) (\<lambda>r. lift_st (case r of
     Inl e \<Rightarrow> State_Monad.return (Inl (Flat ''error creating password'' e))
   | Inr pwd \<Rightarrow> set_password ops k pwd))"

definition createSSHUser :: "'z win_api \<Rightarrow> string \<Rightarrow> ('z win_agent_scheme, goerr option) pst" where
  "createSSHUser ops user = pbind (newPwd 20) (\<lambda>r. lift_st (case r of
     Inl e \<Rightarrow> State_Monad.return (Some (Flat ''error creating password'' e))
   | Inr pwd \<Rightarrow> do {
       missing \<leftarrow> win_userExists ops user;
       (case missing of
          None \<Rightarrow> State_Monad.return None
        | Some _ \<Rightarrow> do {
            e \<leftarrow> win_createUser ops user pwd;
            (case e of
               Some e \<Rightarrow> State_Monad.return (Some (Flat ''error running createUser'' e))
             | None \<Rightarrow> add_admin ops user True) }) }))"

section \<open>The version of OpenSSH\<close>

definition versionInfo_String :: "versionInfo \<Rightarrow> string" where
  "versionInfo_String v = show_int (major v) @ ''.'' @ show_int (minor v)"

definition parseVersionInfo :: "string \<Rightarrow> versionInfo res" where
  "parseVersionInfo psOutput =
     (let verStr = TrimSpace psOutput in
      case Split verStr (CHR ''.'') of
        a # b # _ \<Rightarrow>
          (case Atoi a of
             None \<Rightarrow> Inl (Msg ''invalid syntax'')
           | Some majorVer \<Rightarrow> (case Atoi b of
               None \<Rightarrow> Inl (Msg ''invalid syntax'')
             | Some minorVer \<Rightarrow> Inr \<lparr>major = majorVer, minor = minorVer\<rparr>))
      | _ \<Rightarrow> Inl (Msg (''cannot parse OpenSSH version string: '' @ verStr)))"

definition versionOk :: "versionInfo \<Rightarrow> versionInfo \<Rightarrow> goerr option" where
  "versionOk checkVersion minVersion =
     (let versionError = Msg (''detected OpenSSH version may be incompatible with enable_windows_ssh. Found version '' @
        versionInfo_String checkVersion @ '', Need Version: '' @ versionInfo_String minVersion)
      in if major checkVersion < major minVersion then Some versionError
         else if major checkVersion = major minVersion \<and> minor checkVersion < minor minVersion then Some versionError
         else None)"

definition verifyWinSSHVersion :: "'z win_api \<Rightarrow> ('z, goerr option) win_io" where
  "verifyWinSSHVersion ops = do {
     p \<leftarrow> getWindowsServiceImagePath ops sshdRegKey;
     (case p of
        Inl e \<Rightarrow> State_Monad.return (Some (Flat ''cannot determine sshd path'' e))
      | Inr sshdPath \<Rightarrow> do {
          v \<leftarrow> getWindowsExeVersion ops sshdPath;
          State_Monad.return (case v of
            Inl e \<Rightarrow> Some (Flat ''cannot determine OpenSSH Version'' e)
          | Inr sshdVersion \<Rightarrow> versionOk sshdVersion minSSHVersion) }) }"

section \<open>The manager\<close>

definition getWinSSHEnabled :: "Descriptor \<Rightarrow> bool" where
  "getWinSSHEnabled md = deref_or (deref_or False (EnableWindowsSSH (ProjectAttributes (Proj md))))
     (EnableWindowsSSH (InstanceAttributes (Inst md)))"

definition winAccounts_Diff :: "('z, bool \<times> goerr option) win_io" where
  "winAccounts_Diff = do {
     w \<leftarrow> State_Monad.get;
     let old = oldMetadata w;
     let new = newMetadata w;
     let oi = InstanceAttributes (Inst old);
     let ni = InstanceAttributes (Inst new);
     let op = ProjectAttributes (Proj old);
     let np = ProjectAttributes (Proj new);
     State_Monad.return
       (if getWinSSHEnabled new \<noteq> getWinSSHEnabled old then True
        else if WindowsKeys ni \<noteq> WindowsKeys oi then True
        else if \<not> compareStringSlice (SSHKeys ni) (SSHKeys oi) then True
        else if \<not> compareStringSlice (SSHKeys np) (SSHKeys op) then True
        else BlockProjectKeys ni \<noteq> BlockProjectKeys oi, None) }"

definition winAccounts_Timeout :: "('z, bool \<times> goerr option) win_io" where
  "winAccounts_Timeout = State_Monad.return (False, None)"

definition winAccounts_Disabled :: "bool \<Rightarrow> ('z, bool \<times> goerr option) win_io" where
  "winAccounts_Disabled fakeWindows = do {
     w \<leftarrow> State_Monad.get;
     State_Monad.return
       (if \<not> fakeWindows \<and> goos w \<noteq> ''windows'' then True
        else case AccountManager (config w) of
          Some am \<Rightarrow> account_Disable am
        | None \<Rightarrow> (case DisableAccountManager (InstanceAttributes (Inst (newMetadata w))) of
            Some b \<Rightarrow> b
          | None \<Rightarrow> deref_or False (DisableAccountManager (ProjectAttributes (Proj (newMetadata w))))), None) }"

text \<open>The keys of the registry that can be read; a bad one is noted once.\<close>

fun old_keys :: "string list \<Rightarrow> ('z, WindowsKey list) win_io" where
  "old_keys [] = State_Monad.return []"
| "old_keys (s # ss) = (case decode_windows_key s of
     None \<Rightarrow> do {
       modify (\<lambda>w. w\<lparr>badReg := (if slice_contains (badReg w) s then badReg w else badReg w @ [s])\<rparr>);
       old_keys ss }
   | Some key \<Rightarrow> do { ks \<leftarrow> old_keys ss; State_Monad.return (key # ks) })"

definition same_account :: "WindowsKey \<Rightarrow> WindowsKey \<Rightarrow> bool" where
  "same_account key oldKey \<longleftrightarrow> UserName oldKey = UserName key \<and> Modulus oldKey = Modulus key \<and> ExpireOn oldKey = ExpireOn key"

definition compareAccounts :: "WindowsKey list \<Rightarrow> string list \<Rightarrow> ('z, WindowsKey list) win_io" where
  "compareAccounts newKeys oldStrKeys =
     (if newKeys = [] then State_Monad.return []
      else if oldStrKeys = [] then State_Monad.return newKeys
      else do {
        oldKeys \<leftarrow> old_keys oldStrKeys;
        State_Monad.return (filter (\<lambda>key. \<not> list_ex (same_account key) oldKeys) newKeys) })"

definition WindowsKey_members :: "WindowsKey \<Rightarrow> (string \<times> json) list" where
  "WindowsKey_members k = [(''Email'', JStr (Email k)), (''ExpireOn'', JStr (ExpireOn k)), (''Exponent'', JStr (Exponent k)),
     (''Modulus'', JStr (Modulus k)), (''UserName'', JStr (UserName k)), (''HashFunction'', JStr (HashFunction k)),
     (''AddToAdministrators'', case AddToAdministrators k of None \<Rightarrow> JNull | Some b \<Rightarrow> JBool b),
     (''PasswordLength'', JNum (show_int (PasswordLength k)))]"

definition Marshal_WindowsKey :: "WindowsKey \<Rightarrow> string" where
  "Marshal_WindowsKey k = print_object (WindowsKey_members k)"

text \<open>A key that is not in the registry yet, and what is printed for it.\<close>

definition add_key :: "'z win_api \<Rightarrow> WindowsKey \<Rightarrow> ('z win_agent_scheme, unit) pst" where
  "add_key ops key = pbind (createOrResetPwd ops key) (\<lambda>r. lift_st (do {
     _ \<leftarrow> printCreds ops (case r of
       Inr creds \<Rightarrow> creds
     | Inl e \<Rightarrow> \<lparr>ErrorMessage = error_String ops e, EncryptedPassword = [], creds_UserName = UserName key, PasswordFound = False,
         creds_Exponent = Exponent key, creds_Modulus = Modulus key, creds_HashFunction = []\<rparr>);
     State_Monad.return () }))"

definition ssh_users :: "key_parser \<Rightarrow> 'z win_api \<Rightarrow> ('z win_agent_scheme, unit) pst" where
  "ssh_users parse_key ops = pbind (lift_st (do {
       w \<leftarrow> State_Monad.get;
       (if getWinSSHEnabled (newMetadata w) \<noteq> getWinSSHEnabled (oldMetadata w)
        then do { _ \<leftarrow> verifyWinSSHVersion ops; _ \<leftarrow> checkWindowsServiceRunning ops ''sshd''; State_Monad.return () }
        else State_Monad.return ());
       modify (\<lambda>w. w\<lparr>sshKeys := Some (deref_or [] (sshKeys w))\<rparr>);
       let md = newMetadata w;
       let ia = InstanceAttributes (Inst md);
       mdKeyMap \<leftarrow> getUserKeys parse_key (SSHKeys ia @ (if BlockProjectKeys ia then [] else SSHKeys (ProjectAttributes (Proj md))));
       range_map mdKeyMap }))
     (\<lambda>users. pfor_all (\<lambda>(user, _). pbind (createSSHUser ops user) (\<lambda>_. preturn ())) users)"

definition winAccounts_Set :: "key_parser \<Rightarrow> 'z win_api \<Rightarrow> ('z win_agent_scheme, goerr option) pst" where
  "winAccounts_Set parse_key ops =
     pbind (lift_st (gets (\<lambda>w. getWinSSHEnabled (newMetadata w)))) (\<lambda>sshEnable.
     pbind (if sshEnable then ssh_users parse_key ops else preturn ()) (\<lambda>_.
     pbind (lift_st (gets (\<lambda>w. WindowsKeys (InstanceAttributes (Inst (newMetadata w)))))) (\<lambda>newKeys.
     pbind (lift_st (reg_readMultiString ops regKeyBase accountRegKey)) (\<lambda>r. case r of
        Inl (Some e) \<Rightarrow> preturn (Some e)
      | _ \<Rightarrow>
          pbind (lift_st (compareAccounts newKeys (case r of Inr ks \<Rightarrow> ks | Inl _ \<Rightarrow> []))) (\<lambda>toAdd.
          pbind (pfor_all (add_key ops) toAdd) (\<lambda>_.
            lift_st (reg_writeMultiString ops regKeyBase accountRegKey (map Marshal_WindowsKey newKeys))))))))"

section \<open>Lemmas on passwords\<close>

text \<open>The state before round \<^verbatim>\<open>i\<close> of the loop when every earlier round was in vain, and whether a round ends it.\<close>

fun pw_round :: "nat \<Rightarrow> 'z win_agent_scheme \<Rightarrow> nat \<Rightarrow> 'z win_agent_scheme" where
  "pw_round n w 0 = w"
| "pw_round n w (Suc i) = pw_round n (snd (run_state (draw_chars n) w)) i"

definition pw_settled :: "nat \<Rightarrow> 'z win_agent_scheme \<Rightarrow> bool" where
  "pw_settled n w \<longleftrightarrow> (case fst (run_state (draw_chars n) w) of Inl _ \<Rightarrow> True | Inr b \<Rightarrow> meets_complexity b)"

lemma newPwd_loop_step:
  "newPwd_loop n w = (if pw_settled n w then Some (run_state (draw_chars n) w) else newPwd_loop n (snd (run_state (draw_chars n) w)))"
  by (subst newPwd_loop.simps) (auto simp: pw_settled_def split: prod.splits sum.splits)

lemma newPwd_loop_rounds:
  "\<forall>j < i. \<not> pw_settled n (pw_round n w j) \<Longrightarrow> newPwd_loop n w = newPwd_loop n (pw_round n w i)"
proof (induction i arbitrary: w)
  case (Suc i)
  let ?w = "snd (run_state (draw_chars n) w)"
  have "\<not> pw_settled n w" and "\<forall>j < i. \<not> pw_settled n (pw_round n ?w j)"
    using Suc.prems [rule_format, of 0] Suc.prems [rule_format, of "Suc _"] by auto
  with Suc.IH [of ?w] show ?case
    using newPwd_loop_step [of n w] by simp
qed simp

lemma newPwd_loop_returns:
  assumes "newPwd_loop n w = Some y"
  shows "\<exists>i. pw_settled n (pw_round n w i) \<and> run_state (draw_chars n) (pw_round n w i) = y"
proof (rule newPwd_loop.raw_induct [where P = "\<lambda>n w y. \<exists>i. pw_settled n (pw_round n w i) \<and> run_state (draw_chars n) (pw_round n w i) = y", OF _ assms])
  fix loop :: "nat \<Rightarrow> 'a win_agent_scheme \<Rightarrow> (string res \<times> 'a win_agent_scheme) option" and n w y
  assume IH: "\<And>n w y. loop n w = Some y \<Longrightarrow> \<exists>i. pw_settled n (pw_round n w i) \<and> run_state (draw_chars n) (pw_round n w i) = y"
    and run: "(case run_state (draw_chars n) w of (Inl e, w') \<Rightarrow> Some (Inl e, w')
      | (Inr b, w') \<Rightarrow> if meets_complexity b then Some (Inr b, w') else loop n w') = Some y"
  show "\<exists>i. pw_settled n (pw_round n w i) \<and> run_state (draw_chars n) (pw_round n w i) = y"
  proof (cases "pw_settled n w")
    case True
    with run have "run_state (draw_chars n) w = y"
      by (auto simp: pw_settled_def split: prod.splits sum.splits if_splits)
    with True show ?thesis
      by (intro exI [of _ 0]) simp
  next
    case False
    with run have "loop n (snd (run_state (draw_chars n) w)) = Some y"
      by (auto simp: pw_settled_def split: prod.splits sum.splits if_splits)
    from IH [OF this] obtain i where "pw_settled n (pw_round n (snd (run_state (draw_chars n) w)) i)"
      and "run_state (draw_chars n) (pw_round n (snd (run_state (draw_chars n) w)) i) = y"
      by blast
    then show ?thesis
      by (intro exI [of _ "Suc i"]) simp
  qed
qed


text \<open>What the loop returns has the length asked for and consists of the known characters.\<close>

definition fair_rand :: "(nat \<Rightarrow> nat \<Rightarrow> nat res) \<Rightarrow> bool" where
  "fair_rand r \<longleftrightarrow> (\<forall>t n k. n > 0 \<and> r t n = Inr k \<longrightarrow> k < n)"

lemma draw_chars_spec:
  assumes "fair_rand (rand_Reader w)" and "run_state (draw_chars n) w = (Inr b, w')"
  shows "length b = n \<and> set b \<subseteq> set pw_chars"
  using assms
proof (induction n arbitrary: w b)
  case (Suc n)
  let ?w = "w\<lparr>tick := Suc (tick w)\<rparr>"
  from Suc.prems(2) obtain ci rest where ci: "rand_Reader w (tick w) (length pw_chars) = Inr ci"
    and rest: "run_state (draw_chars n) ?w = (Inr rest, w')" and b: "b = pw_chars ! ci # rest"
    by (cases "fst (run_state (draw_chars n) ?w)") (auto simp: rand_Int_def split: sum.splits prod.splits)
  have "length pw_chars > 0"
    by (simp add: pw_chars_def pw_lower_def)
  then have "ci < length pw_chars"
    using Suc.prems(1) ci by (auto simp: fair_rand_def)
  with Suc.IH [OF _ rest] Suc.prems(1) b show ?case
    by auto
qed simp

lemma draw_chars_rand: "rand_Reader (snd (run_state (draw_chars n) w)) = rand_Reader w"
proof (induction n arbitrary: w)
  case (Suc n)
  from Suc [of "w\<lparr>tick := Suc (tick w)\<rparr>"] show ?case
    by (auto simp: rand_Int_def split: sum.split prod.split)
qed simp

lemma pw_round_rand: "rand_Reader (pw_round n w i) = rand_Reader w"
  by (induction i arbitrary: w) (simp_all add: draw_chars_rand)

text \<open>
  C36: a password that is returned has between 15 and 255 characters, and as many as were asked for if that is
  within these bounds; it has none but the known characters, and of the four classes (lower case, upper case,
  digits, special characters) it misses at most one. The random source must give numbers below the bound it
  is asked for.
\<close>

theorem newPwd_strong:
  assumes "fair_rand (rand_Reader w)" and "newPwd userPwLgth w = Some (Inr pwd, w')"
  shows "length pwd = nat (max 15 (min 255 userPwLgth)) \<and> set pwd \<subseteq> set pw_chars \<and>
    3 \<le> length (filter (\<lambda>d. set pwd \<inter> set d \<noteq> {}) [pw_lower, pw_upper, pw_numbers, pw_special])"
proof -
  let ?n = "pw_length userPwLgth"
  obtain i where settled: "pw_settled ?n (pw_round ?n w i)" and run: "run_state (draw_chars ?n) (pw_round ?n w i) = (Inr pwd, w')"
    using newPwd_loop_returns assms(2) unfolding newPwd_def by blast
  have "length pwd = ?n \<and> set pwd \<subseteq> set pw_chars"
    by (rule draw_chars_spec [OF _ run]) (simp add: pw_round_rand assms(1))
  moreover have "?n = nat (max 15 (min 255 userPwLgth))"
    by (simp add: pw_length_def)
  moreover have "3 \<le> length (filter (\<lambda>d. set pwd \<inter> set d \<noteq> {}) [pw_lower, pw_upper, pw_numbers, pw_special])"
  proof -
    have "meets_complexity pwd"
      using settled run by (simp add: pw_settled_def)
    moreover have "set pwd \<inter> set d \<noteq> {} \<longleftrightarrow> ContainsAny d pwd" for d
      by (auto simp: ContainsAny_def list_ex_iff)
    ultimately show ?thesis
      unfolding meets_complexity_def of_bool_def by (simp split: if_splits)
  qed
  ultimately show ?thesis
    by simp
qed

text \<open>A source whose numbers count up.\<close>

definition calm_win :: win_agent where
  "calm_win = command_agent.extend (wsfc_agent.extend calm_wsfc \<lparr>cmd_srv = None, sockets = [], LookupGroup = (\<lambda>_. None),
       user_Current = None, listen_unix = (\<lambda>_ _. None), chown_socket = (\<lambda>_ _. None), exchange = (\<lambda>_ _ _. None)\<rparr>)
     \<lparr>rand_Reader = (\<lambda>t n. Inr (7 * t mod n)), badReg = []\<rparr>"

theorem newPwd_strong_witness:
  "\<exists>pwd w'. newPwd 20 calm_win = Some (Inr pwd, w') \<and> length pwd = 20 \<and> set pwd \<subseteq> set pw_chars \<and>
    3 \<le> length (filter (\<lambda>d. set pwd \<inter> set d \<noteq> {}) [pw_lower, pw_upper, pw_numbers, pw_special])"
proof -
  have fair: "fair_rand (rand_Reader calm_win)"
    by (auto simp: fair_rand_def calm_win_def command_agent.defs)
  have settled: "pw_settled (pw_length 20) calm_win" and ok: "fst (run_state (draw_chars (pw_length 20)) calm_win) = Inr ''ahovCJQX4!*(;ahovCJQ''"
    by code_simp+
  from ok obtain pwd w' where "run_state (draw_chars (pw_length 20)) calm_win = (Inr pwd, w')"
    by (cases "run_state (draw_chars (pw_length 20)) calm_win") simp
  with settled have "newPwd 20 calm_win = Some (Inr pwd, w')"
    using newPwd_loop_step [of "pw_length 20" calm_win] by (simp add: newPwd_def)
  with newPwd_strong [OF fair this] show ?thesis
    by auto
qed

section \<open>Lemmas on keys\<close>

text \<open>A member of an object whose names differ also without regard to case.\<close>

lemma same_name_unique:
  "distinct (map (\<lambda>m. ToLower (fst m)) ps) \<Longrightarrow> m \<in> set ps \<Longrightarrow> m' \<in> set ps \<Longrightarrow> EqualFold (fst m') (fst m) \<Longrightarrow> m' = m"
  by (auto simp: distinct_map inj_on_def EqualFold_def)

lemma json_field_distinct:
  assumes "distinct (map (\<lambda>m. ToLower (fst m)) ps)" and "(k, v) \<in> set ps"
  shows "json_field ps k = (if v = JNull then None else Some v)"
proof -
  have only: "(k', v') = (k, v)" if "(k', v') \<in> set ps" "EqualFold k' k" for k' v'
    using same_name_unique [OF assms, of "(k', v')"] that by simp
  show ?thesis
  proof (cases "v = JNull")
    case True
    have "find (\<lambda>(k', v). EqualFold k' k \<and> v \<noteq> JNull) (rev ps) = None"
      using only True by (auto simp: find_None_iff)
    with True show ?thesis
      by (simp add: json_field_def)
  next
    case False
    then obtain x where x: "find (\<lambda>(k', v). EqualFold k' k \<and> v \<noteq> JNull) (rev ps) = Some x"
      using assms(2) by (cases "find (\<lambda>(k', v). EqualFold k' k \<and> v \<noteq> JNull) (rev ps)") (auto simp: find_None_iff EqualFold_def)
    then obtain i where i: "i < length ps" "x = rev ps ! i" "EqualFold (fst x) k"
      by (auto simp: find_Some_iff split_beta)
    then have "x \<in> set ps"
      using nth_mem [of i "rev ps"] by simp
    with only [of "fst x" "snd x"] i(3) False x show ?thesis
      by (simp add: json_field_def)
  qed
qed

lemma json_str_field_distinct:
  assumes "distinct (map (\<lambda>m. ToLower (fst m)) ps)" and "(k, JStr s) \<in> set ps"
  shows "json_str_field ps k = Some s"
proof -
  have "(k', v') = (k, JStr s)" if "(k', v') \<in> set ps" "EqualFold k' k" for k' v'
    using same_name_unique [OF assms, of "(k', v')"] that by simp
  then have "EqualFold k' k \<longrightarrow> v' = JStr s" if "(k', v') \<in> set ps" for k' v'
    using that by blast
  moreover have "str_or_null (JStr s)"
    by (simp add: str_or_null_def)
  ultimately have "EqualFold k' k \<longrightarrow> str_or_null v'" if "(k', v') \<in> set ps" for k' v'
    using that by metis
  then have "list_all (\<lambda>(k', v). EqualFold k' k \<longrightarrow> str_or_null v) ps"
    by (auto simp: list_all_iff)
  with json_field_distinct [OF assms] show ?thesis
    by (simp add: json_str_field_def)
qed

lemma WindowsKey_names: "distinct (map (\<lambda>m. ToLower (fst m)) (WindowsKey_members k))"
proof -
  have "map (\<lambda>m. ToLower (fst m)) (WindowsKey_members k) = map ToLower [''Email'', ''ExpireOn'', ''Exponent'', ''Modulus'', ''UserName'',
      ''HashFunction'', ''AddToAdministrators'', ''PasswordLength'']"
    by (simp add: WindowsKey_members_def)
  moreover have "distinct (map ToLower [''Email'', ''ExpireOn'', ''Exponent'', ''Modulus'', ''UserName'',
      ''HashFunction'', ''AddToAdministrators'', ''PasswordLength''])"
    by code_simp
  ultimately show ?thesis
    by (simp only:)
qed

lemma decode_Marshal:
  assumes "- (2 ^ 63) \<le> PasswordLength k" and "PasswordLength k < 2 ^ 63"
  shows "decode_windows_key (Marshal_WindowsKey k) = Some k"
proof -
  let ?ps = "WindowsKey_members k"
  have parse: "json_parse (Marshal_WindowsKey k) = Some (JObj ?ps)"
    unfolding Marshal_WindowsKey_def
    by (rule json_parse_print) (auto simp: WindowsKey_members_def split: option.split)
  note names = WindowsKey_names [of k]
  have str: "json_str_field ?ps ''Email'' = Some (Email k)" "json_str_field ?ps ''ExpireOn'' = Some (ExpireOn k)"
    "json_str_field ?ps ''Exponent'' = Some (Exponent k)" "json_str_field ?ps ''Modulus'' = Some (Modulus k)"
    "json_str_field ?ps ''UserName'' = Some (UserName k)" "json_str_field ?ps ''HashFunction'' = Some (HashFunction k)"
    by (rule json_str_field_distinct [OF names], simp add: WindowsKey_members_def)+
  have "json_field ?ps ''PasswordLength'' = Some (JNum (show_int (PasswordLength k)))"
    by (subst json_field_distinct [OF names, of _ "JNum (show_int (PasswordLength k))"]) (simp_all add: WindowsKey_members_def)
  then have num: "json_int_field ?ps ''PasswordLength'' = Some (PasswordLength k)"
    using assms by (simp add: json_int_field_def Atoi_show_int)
  let ?v = "case AddToAdministrators k of None \<Rightarrow> JNull | Some b \<Rightarrow> JBool b"
  have "json_field ?ps ''AddToAdministrators'' = (if ?v = JNull then None else Some ?v)"
    by (rule json_field_distinct [OF names]) (simp add: WindowsKey_members_def)
  then have bool: "json_bool_field ?ps ''AddToAdministrators'' = Some (AddToAdministrators k)"
    by (cases "AddToAdministrators k") (simp_all add: json_bool_field_def)
  show ?thesis
    unfolding decode_windows_key_def parse by (simp add: json_members_def str num bool)
qed

lemma old_keys_Marshal:
  assumes "\<forall>k \<in> set ks. - (2 ^ 63) \<le> PasswordLength k \<and> PasswordLength k < 2 ^ 63"
  shows "run_state (old_keys (map Marshal_WindowsKey ks)) w = (ks, w)"
  using assms by (induction ks) (simp_all add: decode_Marshal)

text \<open>Keys the registry already has are not acted on.\<close>

lemma compareAccounts_Marshal:
  assumes "\<forall>k \<in> set ks. - (2 ^ 63) \<le> PasswordLength k \<and> PasswordLength k < 2 ^ 63" and "set new \<subseteq> set ks"
  shows "run_state (compareAccounts new (map Marshal_WindowsKey ks)) w = ([], w)"
proof -
  have "filter (\<lambda>key. \<not> list_ex (same_account key) ks) new = []"
    using assms(2) by (auto simp: filter_empty_conv list_ex_iff same_account_def)
  then show ?thesis
    using assms by (auto simp: compareAccounts_def old_keys_Marshal)
qed


text \<open>Calls that succeed, with a registry that holds one key.\<close>

definition one_key :: WindowsKey where
  "one_key = \<lparr>Email = [], ExpireOn = ''2030-01-01T00:00:00Z'', Exponent = ''AQAB'', Modulus = ''AA<>'', UserName = ''al'', HashFunction = [],
     AddToAdministrators = None, PasswordLength = 20\<rparr>"

definition calm_ops :: "unit win_api" where
  "calm_ops = \<lparr>win_userExists = (\<lambda>_. State_Monad.return None), win_resetPwd = (\<lambda>_ _. State_Monad.return None),
     win_createUser = (\<lambda>_ _. State_Monad.return None), win_addUserToGroup = (\<lambda>_ _. State_Monad.return None),
     reg_readMultiString = (\<lambda>_ _. State_Monad.return (Inr [Marshal_WindowsKey one_key])),
     reg_writeMultiString = (\<lambda>_ _ _. State_Monad.return None), getWindowsServiceImagePath = (\<lambda>_. State_Monad.return (Inr [])),
     getWindowsExeVersion = (\<lambda>_. State_Monad.return (Inr minSSHVersion)), checkWindowsServiceRunning = (\<lambda>_. State_Monad.return True),
     EncryptOAEP = (\<lambda>_ _ _ p. State_Monad.return (Inr p)), credsWriter = (\<lambda>_. State_Monad.return None), error_String = (\<lambda>_. [])\<rparr>"


end
