(* ===== verification/Diagnostics.thy ===== *)
theory Diagnostics
  imports WinAccounts
begin

text \<open>
  The diagnostics manager of Windows (\<^verbatim>\<open>diagnostics.go\<close>), which starts a program that collects logs and uploads them.
  The goroutine a request starts is noted with its arguments and runs later, when it is its turn.
\<close>

section \<open>Definitions\<close>

record diag_agent = win_agent +
  diagnosticsDisabled :: bool
  isDiagnosticsRunning :: bool
  diag_jobs :: "string list list"

type_synonym ('z, 'a) diag_io = "('z diag_agent_scheme, 'a) state"

record diagnosticsEntry =
  SignedURL :: string
  diag_ExpireOn :: string
  Trace :: bool

definition diagnosticsCmd :: string where
  "diagnosticsCmd = ''C:'' @ [CHR 0x5C] @ ''Program Files'' @ [CHR 0x5C] @ ''Google'' @ [CHR 0x5C] @ ''Compute Engine'' @ [CHR 0x5C] @
     ''diagnostics'' @ [CHR 0x5C] @ ''diagnostics.exe''"

definition diagnosticsRegKey :: string where
  "diagnosticsRegKey = ''Diagnostics''"

definition diagnostics_Diff :: "('z, bool \<times> goerr option) diag_io" where
  "diagnostics_Diff = do {
     n \<leftarrow> gets newMetadata;
     p \<leftarrow> gets oldMetadata;
     State_Monad.return (Diagnostics (inst_attr n) \<noteq> Diagnostics (inst_attr p), None) }"

definition diagnostics_Timeout :: "('z, bool \<times> goerr option) diag_io" where
  "diagnostics_Timeout = State_Monad.return (False, None)"

text \<open>
  The deferred function compares its variable \<^verbatim>\<open>disabled\<close>, which nothing assigns, with what is noted; the value is
  computed before it runs.
\<close>

definition diagnostics_Disabled :: "bool \<Rightarrow> ('z, bool \<times> goerr option) diag_io" where
  "diagnostics_Disabled fakeWindows = do {
     w \<leftarrow> State_Monad.get;
     (if \<not> fakeWindows \<and> goos w \<noteq> ''windows'' then State_Monad.return (True, None)
      else do {
        let r = (case DiagnosticsSection (config w) of
            Some d \<Rightarrow> \<not> diagnostics_Enable d
          | None \<Rightarrow> (case EnableDiagnostics (inst_attr (newMetadata w)) of
              Some b \<Rightarrow> \<not> b
            | None \<Rightarrow> (case EnableDiagnostics (proj_attr (newMetadata w)) of
                Some b \<Rightarrow> \<not> b
              | None \<Rightarrow> diagnosticsDisabled w)));
        (if False \<noteq> diagnosticsDisabled w then State_Monad.set (w\<lparr>diagnosticsDisabled := False\<rparr>) else State_Monad.return ());
        State_Monad.return (r, None) }) }"

definition Unmarshal_diagnosticsEntry :: "string \<Rightarrow> diagnosticsEntry option" where
  "Unmarshal_diagnosticsEntry b = Option.bind (Option.bind (json_parse b) json_members) (\<lambda>ps.
     case (json_str_field ps ''SignedURL'', json_str_field ps ''ExpireOn'', json_bool_field ps ''Trace'') of
       (Some u, Some e, Some t) \<Rightarrow> Some \<lparr>SignedURL = u, diag_ExpireOn = e, Trace = deref_or False t\<rparr>
     | _ \<Rightarrow> None)"

definition start_collecting :: "'z diag_agent_ext win_api \<Rightarrow> diagnosticsEntry \<Rightarrow> string list \<Rightarrow> ('z, goerr option) diag_io" where
  "start_collecting ops entry known = do {
     running \<leftarrow> gets isDiagnosticsRunning;
     (if running then State_Monad.return None
      else do {
        modify (\<lambda>w. w\<lparr>isDiagnosticsRunning := True,
          diag_jobs := diag_jobs w @ [[''-signedUrl'', SignedURL entry] @ (if Trace entry then [''-trace''] else [])]\<rparr>);
        reg_writeMultiString ops regKeyBase diagnosticsRegKey known }) }"

definition diagnostics_Set :: "'z diag_agent_ext win_api \<Rightarrow> ('z, goerr option) diag_io" where
  "diagnostics_Set ops = do {
     r \<leftarrow> reg_readMultiString ops regKeyBase diagnosticsRegKey;
     (case r of
        Inl (Some e) \<Rightarrow> State_Monad.return (Some e)
      | _ \<Rightarrow> do {
          let known = (case r of Inr es \<Rightarrow> es | Inl _ \<Rightarrow> []);
          strEntry \<leftarrow> gets (\<lambda>w. Diagnostics (inst_attr (newMetadata w)));
          (if slice_contains known strEntry then State_Monad.return None
           else case Unmarshal_diagnosticsEntry strEntry of
             None \<Rightarrow> State_Monad.return (Some (Msg ''json''))
           | Some entry \<Rightarrow> do {
               x \<leftarrow> CheckExpired (diag_ExpireOn entry);
               (if SignedURL entry = [] \<or> fst x then State_Monad.return None
                else start_collecting ops entry (known @ [strEntry])) }) }) }"

text \<open>The goroutine: the program runs, and then the next request may come.\<close>

definition collect_logs :: "string list \<Rightarrow> ('z, unit) diag_io" where
  "collect_logs args = do {
     _ \<leftarrow> WithCombinedOutput (diagnosticsCmd # args);
     modify (\<lambda>w. w\<lparr>isDiagnosticsRunning := False\<rparr>) }"

text \<open>What can happen over time: a run of the manager, whatever the metadata are then, and the end of a goroutine.\<close>

inductive diag_step :: "'z diag_agent_ext win_api \<Rightarrow> 'z diag_agent_scheme \<Rightarrow> 'z diag_agent_scheme \<Rightarrow> bool" for ops where
  requested: "run_state (diagnostics_Set ops) (w\<lparr>newMetadata := md\<rparr>) = (e, w') \<Longrightarrow> diag_step ops w w'"
| collected: "diag_jobs w = xs @ args # ys \<Longrightarrow> run_state (collect_logs args) w = (u, w') \<Longrightarrow>
    diag_step ops w (w'\<lparr>diag_jobs := xs @ ys\<rparr>)"

section \<open>Lemmas\<close>

definition same_jobs :: "'z diag_agent_scheme \<Rightarrow> 'z diag_agent_scheme \<Rightarrow> bool" where
  "same_jobs w w' \<longleftrightarrow> diag_jobs w' = diag_jobs w \<and> isDiagnosticsRunning w' = isDiagnosticsRunning w"

text \<open>A goroutine is there exactly while the flag is set, and never more than one; this is a frame of its own.\<close>

definition one_job :: "'z diag_agent_scheme \<Rightarrow> bool" where
  "one_job w \<longleftrightarrow> length (diag_jobs w) = of_bool (isDiagnosticsRunning w)"

definition stays_one_job :: "'z diag_agent_scheme \<Rightarrow> 'z diag_agent_scheme \<Rightarrow> bool" where
  "stays_one_job w w' \<longleftrightarrow> (one_job w \<longrightarrow> one_job w')"

interpretation same_jobs: io_frame same_jobs
  by unfold_locales (simp_all add: same_jobs_def)

interpretation stays: io_frame stays_one_job
  by unfold_locales (simp_all add: stays_one_job_def one_job_def)

lemma stays_one_jobI: "keeps same_jobs m \<Longrightarrow> keeps stays_one_job m"
  by (auto simp: keeps_def same_jobs_def stays_one_job_def one_job_def)

lemma stays_start_collecting:
  assumes "\<And>k n v. keeps same_jobs (reg_writeMultiString ops k n v)"
  shows "keeps stays_one_job (start_collecting ops entry known)"
proof -
  have "one_job (snd (run_state (start_collecting ops entry known) w))" if w: "one_job w" for w
  proof (cases "isDiagnosticsRunning w")
    case True
    with w show ?thesis
      by (simp add: start_collecting_def)
  next
    case False
    let ?w = "w\<lparr>isDiagnosticsRunning := True,
      diag_jobs := diag_jobs w @ [[''-signedUrl'', SignedURL entry] @ (if Trace entry then [''-trace''] else [])]\<rparr>"
    have "one_job ?w"
      using w False by (simp add: one_job_def)
    with keepsD [OF stays_one_jobI [OF assms], of ?w regKeyBase diagnosticsRegKey known] False show ?thesis
      by (simp add: start_collecting_def stays_one_job_def)
  qed
  then show ?thesis
    by (simp add: keeps_def stays_one_job_def)
qed

lemma stays_Set:
  assumes "\<And>k n. keeps same_jobs (reg_readMultiString ops k n)" and "\<And>k n v. keeps same_jobs (reg_writeMultiString ops k n v)"
  shows "keeps stays_one_job (diagnostics_Set ops)"
  unfolding diagnostics_Set_def Let_def CheckExpired_def
  by (intro stays.keeps_rules keeps_cases stays_one_jobI [OF assms(1)] stays_start_collecting assms(2) stays.keeps_clock stays.keeps_gets)

lemma collect_logs_jobs:
  "same_jobs (w\<lparr>isDiagnosticsRunning := False\<rparr>) (snd (run_state (collect_logs args) w))"
proof -
  have "keeps same_jobs (WithCombinedOutput cmd)" for cmd :: "string list"
    unfolding WithCombinedOutput_def by (intro same_jobs.keeps_rules same_jobs.keeps_spawn)
  from keepsD [OF this, of w "diagnosticsCmd # args"] show ?thesis
    by (auto simp: collect_logs_def same_jobs_def split: prod.split)
qed

lemma diag_step_one_job:
  assumes "\<And>k n. keeps same_jobs (reg_readMultiString ops k n)" and "\<And>k n v. keeps same_jobs (reg_writeMultiString ops k n v)"
    and "diag_step ops w w'" and "one_job w"
  shows "one_job w'"
  using assms(3)
proof cases
  case (requested md e)
  have "one_job (w\<lparr>newMetadata := md\<rparr>)"
    using assms(4) by (simp add: one_job_def)
  with keepsD [OF stays_Set [OF assms(1,2)], of "w\<lparr>newMetadata := md\<rparr>"] requested show ?thesis
    by (simp add: stays_one_job_def)
next
  case (collected xs args ys u v)
  with assms(4) have "xs = []" "ys = []"
    by (cases "isDiagnosticsRunning w"; simp add: one_job_def)+
  with collect_logs_jobs [of w args] collected show ?thesis
    by (simp add: same_jobs_def one_job_def)
qed

section \<open>Properties\<close>

text \<open>
  C32: logs are collected by one program at a time. Starting with none, whatever requests come and whenever the programs
  end, there is at most one goroutine that runs the program, and one is there exactly while the flag says so, so that a
  request is turned away only while a program runs. (The registry calls do not touch the flag.)
\<close>

theorem diagnostics_one_at_a_time:
  assumes "\<And>k n. keeps same_jobs (reg_readMultiString ops k n)" and "\<And>k n v. keeps same_jobs (reg_writeMultiString ops k n v)"
    and "diag_jobs w = []" and "\<not> isDiagnosticsRunning w" and "(diag_step ops)\<^sup>*\<^sup>* w w'"
  shows "length (diag_jobs w') \<le> 1 \<and> (isDiagnosticsRunning w' \<longleftrightarrow> diag_jobs w' \<noteq> [])"
proof -
  have "one_job w'"
    using assms(5)
  proof (induction rule: rtranclp_induct)
    case base
    show ?case
      using assms(3,4) by (simp add: one_job_def)
  next
    case (step v v')
    then show ?case
      using diag_step_one_job [OF assms(1,2)] by blast
  qed
  then show ?thesis
    by (cases "isDiagnosticsRunning w'") (auto simp: one_job_def)
qed

definition calm_diag :: diag_agent where
  "calm_diag = win_agent.extend calm_win \<lparr>diagnosticsDisabled = False, isDiagnosticsRunning = False, diag_jobs = []\<rparr>"

definition empty_registry :: "unit diag_agent_ext win_api" where
  "empty_registry = \<lparr>win_userExists = (\<lambda>_. State_Monad.return None), win_resetPwd = (\<lambda>_ _. State_Monad.return None),
     win_createUser = (\<lambda>_ _. State_Monad.return None), win_addUserToGroup = (\<lambda>_ _. State_Monad.return None),
     reg_readMultiString = (\<lambda>_ _. State_Monad.return (Inl None)), reg_writeMultiString = (\<lambda>_ _ _. State_Monad.return None),
     getWindowsServiceImagePath = (\<lambda>_. State_Monad.return (Inr [])),
     getWindowsExeVersion = (\<lambda>_. State_Monad.return (Inr minSSHVersion)),
     checkWindowsServiceRunning = (\<lambda>_. State_Monad.return True), EncryptOAEP = (\<lambda>_ _ _ p. State_Monad.return (Inr p)),
     credsWriter = (\<lambda>_. State_Monad.return None), error_String = (\<lambda>_. [])\<rparr>"

definition collect_request :: Descriptor where
  "collect_request = empty_descriptor\<lparr>Inst := empty_instance\<lparr>InstanceAttributes := no_attributes\<lparr>Diagnostics :=
     print_object [(''SignedURL'', JStr ''https://x''), (''ExpireOn'', JStr ''2020-01-01T00:00:00Z'')]\<rparr>\<rparr>\<rparr>"

abbreviation collecting :: diag_agent where
  "collecting \<equiv> snd (run_state (diagnostics_Set empty_registry) (calm_diag\<lparr>newMetadata := collect_request\<rparr>))"

lemma collecting_jobs: "diag_jobs collecting = [[''-signedUrl'', ''https://x'']]"
  by code_simp

theorem diagnostics_one_at_a_time_witness:
  "isDiagnosticsRunning collecting \<and> length (diag_jobs collecting) \<le> 1"
proof -
  have "(diag_step empty_registry)\<^sup>*\<^sup>* calm_diag collecting"
    by (rule r_into_rtranclp, rule diag_step.requested) (rule prod.collapse [symmetric])
  moreover have "keeps same_jobs (reg_readMultiString empty_registry k n)" "keeps same_jobs (reg_writeMultiString empty_registry k n v)"
    "diag_jobs calm_diag = []" "\<not> isDiagnosticsRunning calm_diag" for k n v
    by (simp_all add: empty_registry_def keeps_def same_jobs_def calm_diag_def win_agent.defs)
  ultimately show ?thesis
    using diagnostics_one_at_a_time [of empty_registry calm_diag collecting] by (simp add: collecting_jobs)
qed

end
