(* ===== verification/Scheduler.thy ===== *)
theory Scheduler
  imports Diagnostics Triple
begin

text \<open>
  \<^verbatim>\<open>scheduler/scheduler.go\<close>. The cron library is a parameter: the operations the scheduler calls, on a
  state of its own. A job that cron runs is identified by its ID. The operations are given once as they
  act on the scheduler's own state; the monadic versions run a call of the scheduler from start to end,
  and the step relation interleaves calls, runs of jobs and cron.
\<close>

section \<open>The scheduler\<close>

record 'c cron_ops =
  AddFunc :: "string \<Rightarrow> string \<Rightarrow> 'c \<Rightarrow> nat res \<times> 'c"
  Remove :: "nat \<Rightarrow> 'c \<Rightarrow> 'c"
  Start :: "'c \<Rightarrow> 'c"
  Stop :: "'c \<Rightarrow> 'c"

record 'c Scheduler =
  cron :: 'c
  jobs :: "(string \<times> nat) list"

definition setEntryID :: "string \<Rightarrow> nat \<Rightarrow> ('c, 'z) Scheduler_scheme \<Rightarrow> ('c, 'z) Scheduler_scheme" where
  "setEntryID jobID entryID s = s\<lparr>jobs := AList.update jobID entryID (jobs s)\<rparr>"

definition UnscheduleJob :: "'c cron_ops \<Rightarrow> string \<Rightarrow> ('c, 'z) Scheduler_scheme \<Rightarrow> ('c, 'z) Scheduler_scheme" where
  "UnscheduleJob ops jobID s = (case map_of (jobs s) jobID of
     Some entry \<Rightarrow> s\<lparr>cron := Remove ops entry (cron s), jobs := AList.delete jobID (jobs s)\<rparr>
   | None \<Rightarrow> s)"

definition IsScheduled :: "string \<Rightarrow> ('c, 'z) Scheduler_scheme \<Rightarrow> bool" where
  "IsScheduled jobID s \<longleftrightarrow> map_of (jobs s) jobID \<noteq> None"

text \<open>\<^verbatim>\<open>fmt.Sprintf("@every %ds", int(interval.Seconds()))\<close>, with the interval in nanoseconds.\<close>

definition every :: "int \<Rightarrow> string" where
  "every interval = ''@every '' @ show_int (truncate_rat (of_int interval / 1000000000)) @ ''s''"

definition add_entry :: "'c cron_ops \<Rightarrow> string \<Rightarrow> int \<Rightarrow> ('c, 'z) Scheduler_scheme \<Rightarrow> nat res \<times> ('c, 'z) Scheduler_scheme" where
  "add_entry ops jobID interval s =
     (case AddFunc ops (every interval) jobID (cron s) of (r, c) \<Rightarrow> (r, s\<lparr>cron := c\<rparr>))"

section \<open>Calls from start to end\<close>

text \<open>The scheduler is a package variable. A goroutine that is started for a job is noted by its ID.\<close>

record 'c sched_agent = diag_agent +
  scheduler :: "'c Scheduler"
  started :: "string list"

type_synonym ('c, 'z, 'a) sched_io = "(('c, 'z) sched_agent_scheme, 'a) state"

record ('c, 'z) Job =
  job_ID :: string
  Interval :: "int \<times> bool"
  ShouldEnable :: "('c, 'z, bool) sched_io"
  job_Run :: "('c, 'z, bool \<times> goerr option) sched_io"

definition on_scheduler :: "('c Scheduler \<Rightarrow> 'c Scheduler) \<Rightarrow> ('c, 'z, unit) sched_io" where
  "on_scheduler f = modify (\<lambda>w. w\<lparr>scheduler := f (scheduler w)\<rparr>)"

definition Get_scheduler :: "'c cron_ops \<Rightarrow> ('c, 'z, unit) sched_io" where
  "Get_scheduler ops = on_scheduler (\<lambda>s. s\<lparr>cron := Start ops (cron s)\<rparr>)"

definition sched_Stop :: "'c cron_ops \<Rightarrow> ('c, 'z, unit) sched_io" where
  "sched_Stop ops = on_scheduler (\<lambda>s. s\<lparr>cron := Stop ops (cron s)\<rparr>)"

definition getFunc :: "'c cron_ops \<Rightarrow> ('c, 'z) Job \<Rightarrow> ('c, 'z, unit) sched_io" where
  "getFunc ops job = do {
     (schedule, err) \<leftarrow> job_Run job;
     (if \<not> schedule then on_scheduler (UnscheduleJob ops (job_ID job)) else State_Monad.return ()) }"

definition jobInit ::
  "'c cron_ops \<Rightarrow> string \<Rightarrow> int \<Rightarrow> ('c, 'z, unit) sched_io \<Rightarrow> bool \<Rightarrow> bool \<Rightarrow> ('c, 'z, goerr option) sched_io" where
  "jobInit ops jobID interval job startImmediately synchronous = do {
     found \<leftarrow> gets (\<lambda>w. IsScheduled jobID (scheduler w));
     (if found then State_Monad.return None
      else bind_ok (State (\<lambda>w. case add_entry ops jobID interval (scheduler w) of (r, s) \<Rightarrow> (r, w\<lparr>scheduler := s\<rparr>)))
        (\<lambda>e. Some (Wrap (''unable to schedule '' @ jobID) e)) (\<lambda>entry. do {
          on_scheduler (setEntryID jobID entry);
          (if \<not> startImmediately then State_Monad.return ()
           else if synchronous then job
           else modify (\<lambda>w. w\<lparr>started := started w @ [jobID]\<rparr>));
          State_Monad.return None })) }"

definition ScheduleJob :: "'c cron_ops \<Rightarrow> ('c, 'z) Job \<Rightarrow> bool \<Rightarrow> ('c, 'z, goerr option) sched_io" where
  "ScheduleJob ops job synchronous = do {
     ok \<leftarrow> ShouldEnable job;
     (if \<not> ok then State_Monad.return (Some (Msg (''ShouldEnable() returned false, cannot schedule job '' @ job_ID job)))
      else jobInit ops (job_ID job) (fst (Interval job)) (getFunc ops job) (snd (Interval job)) synchronous) }"

section \<open>Interleaved calls\<close>

text \<open>
  Where a goroutine is: about to look the job up in \<^verbatim>\<open>jobs\<close> (\<^verbatim>\<open>jobInit\<close>, which takes no lock), to call
  \<^verbatim>\<open>AddFunc\<close>, to note the entry, to start the job, inside the job, or about to unschedule it.
\<close>

datatype sched_pc = SCheck | SAdd | SSet nat | SStart | SRun | SUnschedule | SEnd

record sthread =
  st_ID :: string
  st_interval :: int
  st_now :: bool
  st_pc :: sched_pc

record 'c sched_config = "'c Scheduler" +
  threads :: "sthread list"

definition goto :: "nat \<Rightarrow> sched_pc \<Rightarrow> ('c, 'z) sched_config_scheme \<Rightarrow> ('c, 'z) sched_config_scheme" where
  "goto i pc c = c\<lparr>threads := (threads c)[i := (threads c ! i)\<lparr>st_pc := pc\<rparr>]\<rparr>"

text \<open>The goroutines that \<^verbatim>\<open>ScheduleJobs\<close> starts for jobs that are enabled.\<close>

definition ScheduleJobs :: "(string \<times> int \<times> bool) list \<Rightarrow> sthread list" where
  "ScheduleJobs js = map (\<lambda>(i, d, s). \<lparr>st_ID = i, st_interval = d, st_now = s, st_pc = SCheck\<rparr>) js"

text \<open>Cron runs the job of any of its entries in a goroutine of its own; \<^verbatim>\<open>entries\<close> lists them.\<close>

inductive sched_step ::
  "'c cron_ops \<Rightarrow> ('c \<Rightarrow> (nat \<times> string) list) \<Rightarrow> 'c sched_config \<Rightarrow> 'c sched_config \<Rightarrow> bool"
  for ops :: "'c cron_ops" and entries :: "'c \<Rightarrow> (nat \<times> string) list" where
  found: "i < length (threads c) \<Longrightarrow> st_pc (threads c ! i) = SCheck \<Longrightarrow>
    IsScheduled (st_ID (threads c ! i)) c \<Longrightarrow> sched_step ops entries c (goto i SEnd c)"
| not_found: "i < length (threads c) \<Longrightarrow> st_pc (threads c ! i) = SCheck \<Longrightarrow>
    \<not> IsScheduled (st_ID (threads c ! i)) c \<Longrightarrow> sched_step ops entries c (goto i SAdd c)"
| added: "i < length (threads c) \<Longrightarrow> st_pc (threads c ! i) = SAdd \<Longrightarrow>
    add_entry ops (st_ID (threads c ! i)) (st_interval (threads c ! i)) c = (Inr e, c') \<Longrightarrow>
    sched_step ops entries c (goto i (SSet e) c')"
| refused: "i < length (threads c) \<Longrightarrow> st_pc (threads c ! i) = SAdd \<Longrightarrow>
    add_entry ops (st_ID (threads c ! i)) (st_interval (threads c ! i)) c = (Inl er, c') \<Longrightarrow>
    sched_step ops entries c (goto i SEnd c')"
| noted: "i < length (threads c) \<Longrightarrow> st_pc (threads c ! i) = SSet e \<Longrightarrow>
    sched_step ops entries c (goto i SStart (setEntryID (st_ID (threads c ! i)) e c))"
| start: "i < length (threads c) \<Longrightarrow> st_pc (threads c ! i) = SStart \<Longrightarrow>
    sched_step ops entries c (goto i (if st_now (threads c ! i) then SRun else SEnd) c)"
| run_renew: "i < length (threads c) \<Longrightarrow> st_pc (threads c ! i) = SRun \<Longrightarrow> sched_step ops entries c (goto i SEnd c)"
| run_stop: "i < length (threads c) \<Longrightarrow> st_pc (threads c ! i) = SRun \<Longrightarrow> sched_step ops entries c (goto i SUnschedule c)"
| unscheduled: "i < length (threads c) \<Longrightarrow> st_pc (threads c ! i) = SUnschedule \<Longrightarrow>
    sched_step ops entries c (goto i SEnd (UnscheduleJob ops (st_ID (threads c ! i)) c))"
| fire: "(e, j) \<in> set (entries (cron c)) \<Longrightarrow>
    sched_step ops entries c (c\<lparr>threads := threads c @ [\<lparr>st_ID = j, st_interval = d, st_now = b, st_pc = SRun\<rparr>]\<rparr>)"

inductive_cases sched_stepE: "sched_step ops entries c c'"

section \<open>Lemmas\<close>

text \<open>What the documentation of cron promises about its entries.\<close>

definition cron_laws :: "'c cron_ops \<Rightarrow> ('c \<Rightarrow> (nat \<times> string) list) \<Rightarrow> bool" where
  "cron_laws ops entries \<longleftrightarrow>
     (\<forall>spec j k e k'. AddFunc ops spec j k = (Inr e, k') \<longrightarrow>
        e \<notin> fst ` set (entries k) \<and> set (entries k') = insert (e, j) (set (entries k))) \<and>
     (\<forall>spec j k er k'. AddFunc ops spec j k = (Inl er, k') \<longrightarrow> set (entries k') = set (entries k)) \<and>
     (\<forall>e k. set (entries (Remove ops e k)) = {x \<in> set (entries k). fst x \<noteq> e})"

definition scheduling :: "sched_pc \<Rightarrow> bool" where
  "scheduling pc \<longleftrightarrow> (case pc of SCheck \<Rightarrow> True | SAdd \<Rightarrow> True | SSet _ \<Rightarrow> True | _ \<Rightarrow> False)"

text \<open>
  The invariant, when no two calls schedule the same job at a time: an entry of cron is noted under
  its job or about to be, what is noted is an entry, and a job that is being added is not noted.
\<close>

abbreviation pc_at :: "'c sched_config \<Rightarrow> nat \<Rightarrow> sched_pc" where
  "pc_at c i \<equiv> st_pc (threads c ! i)"

abbreviation id_at :: "'c sched_config \<Rightarrow> nat \<Rightarrow> string" where
  "id_at c i \<equiv> st_ID (threads c ! i)"

definition noted_or_pending :: "('c \<Rightarrow> (nat \<times> string) list) \<Rightarrow> 'c sched_config \<Rightarrow> bool" where
  "noted_or_pending entries c \<longleftrightarrow> (\<forall>e j. (e, j) \<in> set (entries (cron c)) \<longrightarrow>
     map_of (jobs c) j = Some e \<or> (\<exists>i < length (threads c). pc_at c i = SSet e \<and> id_at c i = j))"

definition noted_entry :: "('c \<Rightarrow> (nat \<times> string) list) \<Rightarrow> 'c sched_config \<Rightarrow> bool" where
  "noted_entry entries c \<longleftrightarrow> (\<forall>e j. map_of (jobs c) j = Some e \<longrightarrow> (e, j) \<in> set (entries (cron c))) \<and>
     (\<forall>i e. i < length (threads c) \<longrightarrow> pc_at c i = SSet e \<longrightarrow> (e, id_at c i) \<in> set (entries (cron c)))"

definition one_adding :: "'c sched_config \<Rightarrow> bool" where
  "one_adding c \<longleftrightarrow>
     (\<forall>i. i < length (threads c) \<longrightarrow> scheduling (pc_at c i) \<longrightarrow> pc_at c i \<noteq> SCheck \<longrightarrow> map_of (jobs c) (id_at c i) = None) \<and>
     (\<forall>i k. i < length (threads c) \<longrightarrow> k < length (threads c) \<longrightarrow> scheduling (pc_at c i) \<longrightarrow>
        scheduling (pc_at c k) \<longrightarrow> id_at c i = id_at c k \<longrightarrow> i = k)"

definition one_job :: "('c \<Rightarrow> (nat \<times> string) list) \<Rightarrow> 'c sched_config \<Rightarrow> bool" where
  "one_job entries c \<longleftrightarrow> (\<forall>e j j'. (e, j) \<in> set (entries (cron c)) \<longrightarrow> (e, j') \<in> set (entries (cron c)) \<longrightarrow> j = j')"

definition sched_inv :: "('c \<Rightarrow> (nat \<times> string) list) \<Rightarrow> 'c sched_config \<Rightarrow> bool" where
  "sched_inv entries c \<longleftrightarrow> noted_or_pending entries c \<and> noted_entry entries c \<and> one_adding c \<and> one_job entries c"

lemmas sched_inv_defs = sched_inv_def noted_or_pending_def noted_entry_def one_adding_def one_job_def

lemma goto_simps [simp]:
  "cron (goto i pc c) = cron c" "jobs (goto i pc c) = jobs c" "length (threads (goto i pc c)) = length (threads c)"
  "i < length (threads c) \<Longrightarrow> threads (goto i pc c) ! k = (if k = i then (threads c ! i)\<lparr>st_pc := pc\<rparr> else threads c ! k)"
  by (auto simp: goto_def nth_list_update)

lemma scheduling_simps [simp]:
  "scheduling SCheck" "scheduling SAdd" "scheduling (SSet e)" "\<not> scheduling SStart" "\<not> scheduling SRun"
  "\<not> scheduling SUnschedule" "\<not> scheduling SEnd"
  by (simp_all add: scheduling_def)

lemma cron_lawsD:
  assumes "cron_laws ops entries"
  shows "AddFunc ops spec j k = (Inr e, k') \<Longrightarrow> e \<notin> fst ` set (entries k) \<and> set (entries k') = insert (e, j) (set (entries k))"
    and "AddFunc ops spec j k = (Inl er, k') \<Longrightarrow> set (entries k') = set (entries k)"
    and "set (entries (Remove ops e k)) = {x \<in> set (entries k). fst x \<noteq> e}"
  using assms unfolding cron_laws_def by blast+

text \<open>A step that only moves a goroutine that is not about to note an entry.\<close>

lemma sched_inv_goto:
  assumes "sched_inv entries c" and "i < length (threads c)" and "\<And>e. pc_at c i \<noteq> SSet e"
    and "scheduling pc \<Longrightarrow> scheduling (pc_at c i) \<and> map_of (jobs c) (id_at c i) = None \<and> pc = SAdd"
  shows "sched_inv entries (goto i pc c)"
  using assms unfolding sched_inv_defs by (auto split: if_splits) metis+

text \<open>The goroutine at \<^verbatim>\<open>i\<close> moves to \<^verbatim>\<open>pc\<close>, and the others stay where they are.\<close>

definition moves :: "'c sched_config \<Rightarrow> nat \<Rightarrow> sched_pc \<Rightarrow> 'c sched_config \<Rightarrow> bool" where
  "moves c i pc c' \<longleftrightarrow> length (threads c') = length (threads c) \<and> (\<forall>m. pc_at c' m = (if m = i then pc else pc_at c m)) \<and>
     (\<forall>m. id_at c' m = id_at c m)"

lemma moves_goto: "i < length (threads c) \<Longrightarrow> threads d = threads c \<Longrightarrow> moves c i pc (goto i pc d)"
  by (auto simp: moves_def)

abbreviation pending_at :: "'c sched_config \<Rightarrow> nat \<Rightarrow> string \<Rightarrow> bool" where
  "pending_at c e j \<equiv> \<exists>i < length (threads c). pc_at c i = SSet e \<and> id_at c i = j"

lemma pending_moves:
  assumes "pending_at c e j" and "moves c i pc c'" and "pc_at c i \<noteq> SSet e \<or> id_at c i \<noteq> j"
  shows "pending_at c' e j"
proof -
  from assms(1) obtain m where m: "m < length (threads c)" "pc_at c m = SSet e" "id_at c m = j"
    by blast
  with assms(3) have "m \<noteq> i"
    by auto
  with m assms(2) show ?thesis
    by (intro exI [of _ m]) (simp add: moves_def)
qed

lemma one_adding_moves:
  assumes "one_adding c" and "moves c i pc c'" and "i < length (threads c)" and "scheduling pc \<Longrightarrow> scheduling (pc_at c i)"
    and "\<And>m. m < length (threads c) \<Longrightarrow> scheduling (pc_at c' m) \<Longrightarrow> pc_at c' m \<noteq> SCheck \<Longrightarrow> map_of (jobs c') (id_at c m) = None"
  shows "one_adding c'"
  unfolding one_adding_def
proof (intro conjI allI impI)
  fix m n
  assume "m < length (threads c')" "n < length (threads c')" "scheduling (pc_at c' m)" "scheduling (pc_at c' n)" "id_at c' m = id_at c' n"
  then have "m < length (threads c)" "n < length (threads c)" "scheduling (pc_at c m)" "scheduling (pc_at c n)" "id_at c m = id_at c n"
    using assms(2,4) by (auto simp: moves_def split: if_splits)
  with assms(1) show "m = n"
    unfolding one_adding_def by blast
qed (use assms(2,5) in \<open>simp add: moves_def\<close>)

lemma sched_inv_added:
  assumes inv: "sched_inv entries c" and i: "i < length (threads c)" "pc_at c i = SAdd"
    and k: "e \<notin> fst ` set (entries (cron c))" "set (entries (cron c')) = insert (e, id_at c i) (set (entries (cron c)))"
    and c': "moves c i (SSet e) c'" "jobs c' = jobs c"
  shows "sched_inv entries c'"
proof -
  have E: "noted_or_pending entries c" "noted_entry entries c" "one_adding c" "one_job entries c"
    using inv by (simp_all add: sched_inv_def)
  have m: "length (threads c') = length (threads c)" "\<And>m. pc_at c' m = (if m = i then SSet e else pc_at c m)"
    "\<And>m. id_at c' m = id_at c m"
    using c'(1) unfolding moves_def by blast+
  have "map_of (jobs c') j = Some e' \<or> (\<exists>m < length (threads c'). pc_at c' m = SSet e' \<and> id_at c' m = j)"
    if "(e', j) \<in> set (entries (cron c'))" for e' j
  proof (cases "(e', j) = (e, id_at c i)")
    case True
    with i m show ?thesis by auto
  next
    case False
    with that k E(1) have "map_of (jobs c) j = Some e' \<or> (\<exists>m < length (threads c). pc_at c m = SSet e' \<and> id_at c m = j)"
      unfolding noted_or_pending_def by blast
    with pending_moves [OF _ c'(1)] i c'(2) show ?thesis
      by auto
  qed
  then have "noted_or_pending entries c'"
    by (simp add: noted_or_pending_def)
  moreover have "noted_entry entries c'"
    using E(2) m c'(2) k(2) unfolding noted_entry_def by simp
  moreover have "one_adding c'"
    by (rule one_adding_moves [OF E(3) c'(1) i(1)]) (use E(3) i m c'(2) in \<open>auto simp: one_adding_def split: if_splits\<close>)
  moreover have "one_job entries c'"
    using E(4) k unfolding one_job_def by (auto simp: image_iff)
  ultimately show ?thesis
    by (simp add: sched_inv_def)
qed

lemma sched_inv_noted:
  assumes inv: "sched_inv entries c" and i: "i < length (threads c)" "pc_at c i = SSet e"
    and c': "moves c i SStart c'" "jobs c' = AList.update (id_at c i) e (jobs c)" "cron c' = cron c"
  shows "sched_inv entries c'"
proof -
  have E: "noted_or_pending entries c" "noted_entry entries c" "one_adding c" "one_job entries c"
    using inv by (simp_all add: sched_inv_def)
  have m: "length (threads c') = length (threads c)" "\<And>m. pc_at c' m = (if m = i then SStart else pc_at c m)"
    "\<And>m. id_at c' m = id_at c m"
    using c'(1) unfolding moves_def by blast+
  have jobs: "map_of (jobs c') = (map_of (jobs c))(id_at c i \<mapsto> e)"
    by (simp add: c'(2) update_conv')
  have free: "map_of (jobs c) (id_at c i) = None"
    using E(3) i unfolding one_adding_def by simp
  have "map_of (jobs c') j = Some e' \<or> pending_at c' e' j" if "(e', j) \<in> set (entries (cron c'))" for e' j
  proof -
    from that E(1) c'(3) consider "map_of (jobs c) j = Some e'" | "pending_at c e' j"
      unfolding noted_or_pending_def by auto
    then show ?thesis
    proof cases
      case 2
      then show ?thesis
        using pending_moves [OF 2 c'(1)] i jobs by (cases "e' = e \<and> j = id_at c i") auto
    qed (use jobs free in auto)
  qed
  then have "noted_or_pending entries c'"
    by (simp add: noted_or_pending_def)
  moreover have "noted_entry entries c'"
    using E(2) m i jobs c'(3) unfolding noted_entry_def by simp
  moreover have "one_adding c'"
  proof (rule one_adding_moves [OF E(3) c'(1) i(1)])
    fix n
    assume n: "n < length (threads c)" "scheduling (pc_at c' n)" "pc_at c' n \<noteq> SCheck"
    with m have "n \<noteq> i" "scheduling (pc_at c n)" "pc_at c n \<noteq> SCheck"
      by (auto split: if_splits)
    with E(3) n(1) i have "id_at c n \<noteq> id_at c i" "map_of (jobs c) (id_at c n) = None"
      unfolding one_adding_def by auto
    with jobs show "map_of (jobs c') (id_at c n) = None"
      by simp
  qed simp
  moreover have "one_job entries c'"
    using E(4) c'(3) unfolding one_job_def by simp
  ultimately show ?thesis
    by (simp add: sched_inv_def)
qed

lemma sched_inv_unscheduled:
  assumes inv: "sched_inv entries c" and i: "i < length (threads c)" "pc_at c i = SUnschedule" "map_of (jobs c) (id_at c i) = Some e"
    and c': "moves c i SEnd c'" "jobs c' = AList.delete (id_at c i) (jobs c)"
      "set (entries (cron c')) = {x \<in> set (entries (cron c)). fst x \<noteq> e}"
  shows "sched_inv entries c'"
proof -
  have E: "noted_or_pending entries c" "noted_entry entries c" "one_adding c" "one_job entries c"
    using inv by (simp_all add: sched_inv_def)
  have m: "length (threads c') = length (threads c)" "\<And>m. pc_at c' m = (if m = i then SEnd else pc_at c m)"
    "\<And>m. id_at c' m = id_at c m"
    using c'(1) unfolding moves_def by blast+
  have jobs: "map_of (jobs c') = (map_of (jobs c))(id_at c i := None)"
    by (simp add: c'(2) delete_conv')
  have ei: "(e, id_at c i) \<in> set (entries (cron c))"
    using E(2) i(3) unfolding noted_entry_def by blast
  have "map_of (jobs c') j = Some e' \<or> pending_at c' e' j" if "(e', j) \<in> set (entries (cron c'))" for e' j
  proof -
    from that E(1) c'(3) have "map_of (jobs c) j = Some e' \<or> pending_at c e' j" and "e' \<noteq> e"
      unfolding noted_or_pending_def by auto
    with pending_moves [OF _ c'(1)] i jobs show ?thesis
      by auto
  qed
  then have "noted_or_pending entries c'"
    by (simp add: noted_or_pending_def)
  moreover have "noted_entry entries c'"
    unfolding noted_entry_def
  proof (intro conjI allI impI)
    fix e' j
    assume "map_of (jobs c') j = Some e'"
    with jobs have "map_of (jobs c) j = Some e'" "j \<noteq> id_at c i"
      by (auto split: if_splits)
    with E(2,4) ei have "(e', j) \<in> set (entries (cron c))" "e' \<noteq> e"
      unfolding noted_entry_def one_job_def by blast+
    then show "(e', j) \<in> set (entries (cron c'))"
      by (simp add: c'(3))
  next
    fix n e'
    assume "n < length (threads c')" "pc_at c' n = SSet e'"
    with m have n: "n < length (threads c)" "pc_at c n = SSet e'"
      by (auto split: if_splits)
    then have "scheduling (pc_at c n)" "pc_at c n \<noteq> SCheck"
      by simp_all
    with E(3) n(1) have "map_of (jobs c) (id_at c n) = None"
      unfolding one_adding_def by blast
    with i(3) have "id_at c n \<noteq> id_at c i"
      by auto
    with n E(2,4) ei have "(e', id_at c n) \<in> set (entries (cron c))" "e' \<noteq> e"
      unfolding noted_entry_def one_job_def by blast+
    then show "(e', id_at c' n) \<in> set (entries (cron c'))"
      by (simp add: c'(3) m(3))
  qed
  moreover have "one_adding c'"
  proof (rule one_adding_moves [OF E(3) c'(1) i(1)])
    fix n
    assume n: "n < length (threads c)" "scheduling (pc_at c' n)" "pc_at c' n \<noteq> SCheck"
    with m have "scheduling (pc_at c n)" "pc_at c n \<noteq> SCheck"
      by (auto split: if_splits)
    with n(1) E(3) have "map_of (jobs c) (id_at c n) = None"
      unfolding one_adding_def by blast
    then show "map_of (jobs c') (id_at c n) = None"
      by (simp add: jobs)
  qed simp
  moreover have "one_job entries c'"
    using E(4) unfolding one_job_def c'(3) by blast
  ultimately show ?thesis
    by (simp add: sched_inv_def)
qed

lemma sched_inv_fire:
  assumes "sched_inv entries c" and "\<not> scheduling (st_pc t)"
  shows "sched_inv entries (c\<lparr>threads := threads c @ [t]\<rparr>)"
proof -
  let ?c = "c\<lparr>threads := threads c @ [t]\<rparr>"
  have old: "m < length (threads c) \<Longrightarrow> threads ?c ! m = threads c ! m" for m
    by (simp add: nth_append)
  have new: "m < length (threads ?c) \<Longrightarrow> scheduling (pc_at ?c m) \<Longrightarrow> m < length (threads c)" for m
    using assms(2) by (auto simp: nth_append split: if_splits)
  have E: "noted_or_pending entries c" "noted_entry entries c" "one_adding c" "one_job entries c"
    using assms(1) by (simp_all add: sched_inv_def)
  have "noted_or_pending entries ?c"
    using E(1) old unfolding noted_or_pending_def by (simp add: nth_append) (metis less_SucI)
  moreover have "noted_entry entries ?c"
    unfolding noted_entry_def
  proof (intro conjI allI impI)
    fix n e
    assume n: "n < length (threads ?c)" "pc_at ?c n = SSet e"
    then have "n < length (threads c)"
      by (intro new) simp_all
    with n old [of n] E(2) show "(e, id_at ?c n) \<in> set (entries (cron ?c))"
      unfolding noted_entry_def by simp
  qed (use E(2) in \<open>simp add: noted_entry_def\<close>)
  moreover have "one_adding ?c"
    unfolding one_adding_def
  proof (intro conjI allI impI)
    fix n
    assume n: "n < length (threads ?c)" "scheduling (pc_at ?c n)" "pc_at ?c n \<noteq> SCheck"
    note nc = new [OF n(1,2)]
    have "scheduling (pc_at c n)" "pc_at c n \<noteq> SCheck"
      using n(2,3) unfolding old [OF nc] .
    with nc E(3) have "map_of (jobs c) (id_at c n) = None"
      unfolding one_adding_def by blast
    then show "map_of (jobs ?c) (id_at ?c n) = None"
      unfolding old [OF nc] by simp
  next
    fix n k
    assume n: "n < length (threads ?c)" "k < length (threads ?c)" "scheduling (pc_at ?c n)" "scheduling (pc_at ?c k)" "id_at ?c n = id_at ?c k"
    note nk = new [OF n(1,3)] new [OF n(2,4)]
    have "scheduling (pc_at c n)" "scheduling (pc_at c k)" "id_at c n = id_at c k"
      using n(3-5) unfolding old [OF nk(1)] old [OF nk(2)] .
    with nk E(3) show "n = k"
      unfolding one_adding_def by blast
  qed
  moreover have "one_job entries ?c"
    using E(4) by (simp add: one_job_def)
  ultimately show ?thesis
    by (simp add: sched_inv_def)
qed

lemma sched_inv_step:
  assumes laws: "cron_laws ops entries" and inv: "sched_inv entries c" and "sched_step ops entries c c'"
  shows "sched_inv entries c'"
  using assms(3)
proof cases
  case (refused i er d)
  obtain k where d: "d = c\<lparr>cron := k\<rparr>" and k: "AddFunc ops (every (st_interval (threads c ! i))) (id_at c i) (cron c) = (Inl er, k)"
    using refused(4) by (auto simp: add_entry_def split: prod.splits)
  have "sched_inv entries d"
    using inv unfolding sched_inv_defs d by (simp add: cron_lawsD(2) [OF laws k])
  then show ?thesis
    unfolding refused(1) by (rule sched_inv_goto) (use refused(2,3) in \<open>simp_all add: d\<close>)
next
  case (added i e d)
  obtain k where d: "d = c\<lparr>cron := k\<rparr>" and k: "AddFunc ops (every (st_interval (threads c ! i))) (id_at c i) (cron c) = (Inr e, k)"
    using added(4) by (auto simp: add_entry_def split: prod.splits)
  have "moves c i (SSet e) c'"
    unfolding added(1) by (rule moves_goto [OF added(2)]) (simp add: d)
  then show ?thesis
    by (intro sched_inv_added [OF inv added(2,3)]) (use cron_lawsD(1) [OF laws k] in \<open>auto simp: added(1) d\<close>)
next
  case (noted i e)
  have "moves c i SStart c'"
    unfolding noted(1) by (rule moves_goto [OF noted(2)]) (simp add: setEntryID_def)
  then show ?thesis
    by (rule sched_inv_noted [OF inv noted(2,3)]) (simp_all add: noted(1) setEntryID_def)
next
  case (unscheduled i)
  show ?thesis
  proof (cases "map_of (jobs c) (id_at c i)")
    case None
    then show ?thesis
      using unscheduled(2,3) unfolding unscheduled(1) UnscheduleJob_def None option.case
      by (intro sched_inv_goto [OF inv]) simp_all
  next
    case (Some e)
    have "moves c i SEnd c'"
      unfolding unscheduled(1) UnscheduleJob_def Some option.case by (rule moves_goto [OF unscheduled(2)]) simp
    then show ?thesis
      by (rule sched_inv_unscheduled [OF inv unscheduled(2,3) Some])
         (simp_all add: unscheduled(1) UnscheduleJob_def Some cron_lawsD(3) [OF laws])
  qed
next
  case (fire e j d b)
  then show ?thesis
    using sched_inv_fire [OF inv] by simp
next
  case (start i)
  then show ?thesis
    unfolding start(1) by (intro sched_inv_goto [OF inv]) (simp_all split: if_splits)
next
  case (found i)
  then show ?thesis
    unfolding found(1) by (intro sched_inv_goto [OF inv]) simp_all
next
  case (not_found i)
  then show ?thesis
    unfolding not_found(1) by (intro sched_inv_goto [OF inv]) (simp_all add: IsScheduled_def)
next
  case (run_renew i)
  then show ?thesis
    unfolding run_renew(1) by (intro sched_inv_goto [OF inv]) simp_all
next
  case (run_stop i)
  then show ?thesis
    unfolding run_stop(1) by (intro sched_inv_goto [OF inv]) simp_all
qed

lemma sched_inv_reachable:
  assumes "cron_laws ops entries" and "(sched_step ops entries)\<^sup>*\<^sup>* c c'" and "sched_inv entries c"
  shows "sched_inv entries c'"
  using assms(2)
proof (induction rule: rtranclp_induct)
  case (step d d')
  then show ?case
    by (intro sched_inv_step [OF assms(1), of d d'])
qed (rule assms(3))

section \<open>Properties\<close>

text \<open>
  C10: when the jobs of a \<^verbatim>\<open>ScheduleJobs\<close> have different IDs, then however the goroutines are interleaved
  with each other and with runs of the jobs that cron starts, cron never has two entries for a job, and
  once no call is under way a job counts as scheduled exactly if cron has an entry for it.
\<close>

theorem scheduled_iff_entry:
  assumes "cron_laws ops entries" and "jobs c0 = []" and "entries (cron c0) = []"
    and "threads c0 = ScheduleJobs js" and "distinct (map fst js)" and "(sched_step ops entries)\<^sup>*\<^sup>* c0 c"
  shows "(\<forall>e e' j. (e, j) \<in> set (entries (cron c)) \<longrightarrow> (e', j) \<in> set (entries (cron c)) \<longrightarrow> e = e') \<and>
    ((\<forall>t \<in> set (threads c). \<not> scheduling (st_pc t)) \<longrightarrow> (\<forall>j. IsScheduled j c \<longleftrightarrow> (\<exists>e. (e, j) \<in> set (entries (cron c)))))"
proof -
  have ids: "threads c0 ! i = (case js ! i of (j, d, s) \<Rightarrow> \<lparr>st_ID = j, st_interval = d, st_now = s, st_pc = SCheck\<rparr>)"
    if "i < length (threads c0)" for i
    using that by (simp add: assms(4) ScheduleJobs_def)
  have "i = k" if "i < length (threads c0)" "k < length (threads c0)" "id_at c0 i = id_at c0 k" for i k
    using that assms(5) by (auto simp: ids assms(4) ScheduleJobs_def distinct_conv_nth split: prod.splits) (metis fst_conv)
  moreover have "pc_at c0 i = SCheck" if "i < length (threads c0)" for i
    using ids [OF that] by (simp split: prod.splits)
  ultimately have "sched_inv entries c0"
    unfolding sched_inv_defs assms(2,3) by auto
  then have inv: "sched_inv entries c"
    by (rule sched_inv_reachable [OF assms(1,6)])
  then have E: "noted_or_pending entries c" "noted_entry entries c" "one_adding c"
    by (simp_all add: sched_inv_def)
  have "e = e'" if "(e, j) \<in> set (entries (cron c))" "(e', j) \<in> set (entries (cron c))" for e e' j
  proof -
    have unnoted: "map_of (jobs c) j = None" if "pending_at c x j" for x
      using that E(3) unfolding one_adding_def by fastforce
    have "x = y" if "pending_at c x j" "pending_at c y j" for x y
      using that E(3) unfolding one_adding_def by (metis scheduling_simps(3) sched_pc.inject)
    with that E(1) unnoted show ?thesis
      unfolding noted_or_pending_def by (metis option.distinct(1) option.inject)
  qed
  moreover have "IsScheduled j c \<longleftrightarrow> (\<exists>e. (e, j) \<in> set (entries (cron c)))"
    if "\<forall>t \<in> set (threads c). \<not> scheduling (st_pc t)" for j
  proof -
    have "\<not> pending_at c e j" for e
      using that by (metis nth_mem scheduling_simps(3))
    with E(1,2) show ?thesis
      unfolding noted_or_pending_def noted_entry_def IsScheduled_def by (metis option.exhaust option.distinct(1))
  qed
  ultimately show ?thesis
    by blast
qed

text \<open>A cron that numbers its entries.\<close>

definition list_cron :: "(nat \<times> (nat \<times> string) list) cron_ops" where
  "list_cron = \<lparr>AddFunc = (\<lambda>spec j (n, es). (Inr n, (Suc n, filter (\<lambda>x. fst x < n) es @ [(n, j)]))),
     Remove = (\<lambda>e (n, es). (n, filter (\<lambda>x. fst x \<noteq> e) es)), Start = id, Stop = id\<rparr>"

definition list_entries :: "nat \<times> (nat \<times> string) list \<Rightarrow> (nat \<times> string) list" where
  "list_entries c = filter (\<lambda>x. fst x < fst c) (snd c)"

lemma list_cron_laws: "cron_laws list_cron list_entries"
  unfolding cron_laws_def list_cron_def list_entries_def by (auto split: prod.splits)

theorem scheduled_iff_entry_witness:
  "\<exists>c. (sched_step list_cron list_entries)\<^sup>*\<^sup>*
      \<lparr>cron = (0, []), jobs = [], threads = ScheduleJobs [(''a'', 1, False)]\<rparr> c \<and>
    IsScheduled ''a'' c \<and> (\<exists>e. (e, ''a'') \<in> set (list_entries (cron c)))"
proof -
  let ?C = "\<lambda>k js pc. \<lparr>cron = k, jobs = js, threads = [\<lparr>st_ID = ''a'', st_interval = 1, st_now = False, st_pc = pc\<rparr>]\<rparr>"
  let ?S = "sched_step list_cron list_entries"
  let ?k = "(1, [(0, ''a'')]) :: nat \<times> (nat \<times> string) list"
  have goto: "goto 0 pc (?C k js pc0) = ?C k js pc" for k :: "nat \<times> (nat \<times> string) list" and js pc pc0
    by (simp add: goto_def)
  have 1: "?S (?C (0, []) [] SCheck) (?C (0, []) [] SAdd)"
    using sched_step.not_found [of 0 "?C (0, []) [] SCheck" list_cron list_entries] by (simp add: goto IsScheduled_def)
  have 2: "?S (?C (0, []) [] SAdd) (?C ?k [] (SSet 0))"
    using sched_step.added [of 0 "?C (0, []) [] SAdd" list_cron 0 "?C ?k [] SAdd" list_entries]
    by (simp add: goto add_entry_def list_cron_def)
  have 3: "?S (?C ?k [] (SSet 0)) (?C ?k [(''a'', 0)] SStart)"
    using sched_step.noted [of 0 "?C ?k [] (SSet 0)" 0 list_cron list_entries] by (simp add: goto setEntryID_def)
  have 4: "?S (?C ?k [(''a'', 0)] SStart) (?C ?k [(''a'', 0)] SEnd)"
    using sched_step.start [of 0 "?C ?k [(''a'', 0)] SStart" list_cron list_entries] by (simp add: goto)
  have run: "?S\<^sup>*\<^sup>* (?C (0, []) [] SCheck) (?C ?k [(''a'', 0)] SEnd)"
    using 1 2 3 4 by (meson converse_rtranclp_into_rtranclp rtranclp.rtrancl_refl)
  have "IsScheduled ''a'' (?C ?k [(''a'', 0)] SEnd)"
    by (simp add: IsScheduled_def)
  moreover have "IsScheduled ''a'' (?C ?k [(''a'', 0)] SEnd) \<longleftrightarrow> (\<exists>e. (e, ''a'') \<in> set (list_entries (cron (?C ?k [(''a'', 0)] SEnd))))"
    using scheduled_iff_entry [OF list_cron_laws _ _ _ _ run, of "[(''a'', 1, False)]"]
    by (simp add: list_entries_def ScheduleJobs_def)
  ultimately show ?thesis
    using run by (intro exI [of _ "?C ?k [(''a'', 0)] SEnd"]) (simp add: ScheduleJobs_def)
qed

text \<open>
  C40: two calls that schedule the same job at the same time can leave it with two entries of which
  one is noted. Unscheduling the job then removes that one: the job does not count as scheduled any
  more, and cron goes on running it. \<^verbatim>\<open>jobInit\<close> looks the job up without holding the lock under which
  it is noted.
\<close>

theorem schedule_race:
  assumes "cron_laws ops entries" and "\<forall>spec j k. \<exists>e k'. AddFunc ops spec j k = (Inr e, k')" and "jobs c0 = []"
    and "threads c0 = ScheduleJobs [(j, d, False), (j, d, False)] @ [\<lparr>st_ID = j, st_interval = d, st_now = False, st_pc = SUnschedule\<rparr>]"
  shows "\<exists>c e. (sched_step ops entries)\<^sup>*\<^sup>* c0 c \<and> (\<forall>t \<in> set (threads c). st_pc t = SEnd) \<and>
    \<not> IsScheduled j c \<and> (e, j) \<in> set (entries (cron c))"
proof -
  define T where "T pc = \<lparr>st_ID = j, st_interval = d, st_now = False, st_pc = pc\<rparr>" for pc
  have start: "c0 = \<lparr>cron = cron c0, jobs = [], threads = [T SCheck, T SCheck, T SUnschedule]\<rparr>"
    using assms(3,4) by (cases c0) (simp add: T_def ScheduleJobs_def)
  obtain e1 k1 where k1: "AddFunc ops (every d) j (cron c0) = (Inr e1, k1)"
    using assms(2) by blast
  obtain e2 k2 where k2: "AddFunc ops (every d) j k1 = (Inr e2, k2)"
    using assms(2) by blast
  let ?C = "\<lambda>k js a b c. \<lparr>cron = k, jobs = js, threads = [T a, T b, T c]\<rparr>"
  let ?S = "sched_step ops entries"
  have goto: "goto 0 pc (?C k js a b c) = ?C k js pc b c" "goto (Suc 0) pc (?C k js a b c) = ?C k js a pc c"
    "goto 2 pc (?C k js a b c) = ?C k js a b pc" for pc k js a b c
    by (simp_all add: goto_def T_def numeral_2_eq_2)
  have T: "st_ID (T pc) = j" "st_interval (T pc) = d" "\<not> st_now (T pc)" "st_pc (T pc) = pc" for pc
    by (simp_all add: T_def)
  have 1: "?S (?C (cron c0) [] SCheck SCheck SUnschedule) (?C (cron c0) [] SAdd SCheck SUnschedule)"
    using sched_step.not_found [of 0 "?C (cron c0) [] SCheck SCheck SUnschedule" ops entries] by (simp add: goto T IsScheduled_def)
  have 2: "?S (?C (cron c0) [] SAdd SCheck SUnschedule) (?C (cron c0) [] SAdd SAdd SUnschedule)"
    using sched_step.not_found [of "Suc 0" "?C (cron c0) [] SAdd SCheck SUnschedule" ops entries] by (simp add: goto T IsScheduled_def)
  have 3: "?S (?C (cron c0) [] SAdd SAdd SUnschedule) (?C k1 [] (SSet e1) SAdd SUnschedule)"
    using sched_step.added [of 0 "?C (cron c0) [] SAdd SAdd SUnschedule" ops e1 "?C k1 [] SAdd SAdd SUnschedule" entries]
    by (simp add: goto T add_entry_def k1)
  have 4: "?S (?C k1 [] (SSet e1) SAdd SUnschedule) (?C k2 [] (SSet e1) (SSet e2) SUnschedule)"
    using sched_step.added [of "Suc 0" "?C k1 [] (SSet e1) SAdd SUnschedule" ops e2 "?C k2 [] (SSet e1) SAdd SUnschedule" entries]
    by (simp add: goto T add_entry_def k2)
  have 5: "?S (?C k2 [] (SSet e1) (SSet e2) SUnschedule) (?C k2 [(j, e1)] SStart (SSet e2) SUnschedule)"
    using sched_step.noted [of 0 "?C k2 [] (SSet e1) (SSet e2) SUnschedule" e1 ops entries] by (simp add: goto T setEntryID_def)
  have 6: "?S (?C k2 [(j, e1)] SStart (SSet e2) SUnschedule) (?C k2 [(j, e2)] SStart SStart SUnschedule)"
    using sched_step.noted [of "Suc 0" "?C k2 [(j, e1)] SStart (SSet e2) SUnschedule" e2 ops entries] by (simp add: goto T setEntryID_def)
  have 7: "?S (?C k2 [(j, e2)] SStart SStart SUnschedule) (?C k2 [(j, e2)] SEnd SStart SUnschedule)"
    using sched_step.start [of 0 "?C k2 [(j, e2)] SStart SStart SUnschedule" ops entries] by (simp add: goto T)
  have 8: "?S (?C k2 [(j, e2)] SEnd SStart SUnschedule) (?C k2 [(j, e2)] SEnd SEnd SUnschedule)"
    using sched_step.start [of "Suc 0" "?C k2 [(j, e2)] SEnd SStart SUnschedule" ops entries] by (simp add: goto T)
  have 9: "?S (?C k2 [(j, e2)] SEnd SEnd SUnschedule) (?C (Remove ops e2 k2) [] SEnd SEnd SEnd)"
    using sched_step.unscheduled [of 2 "?C k2 [(j, e2)] SEnd SEnd SUnschedule" ops entries]
    by (simp add: goto T UnscheduleJob_def)
  have "(e1, j) \<in> set (entries k1)" "e2 \<notin> fst ` set (entries k1)" "set (entries k2) = insert (e2, j) (set (entries k1))"
    using cron_lawsD(1) [OF assms(1) k1] cron_lawsD(1) [OF assms(1) k2] by auto
  then have "(e1, j) \<in> set (entries (Remove ops e2 k2))"
    by (force simp: cron_lawsD(3) [OF assms(1)])
  moreover have "?S\<^sup>*\<^sup>* c0 (?C (Remove ops e2 k2) [] SEnd SEnd SEnd)"
    using 1 2 3 4 5 6 7 8 9 by (subst start) (meson converse_rtranclp_into_rtranclp rtranclp.rtrancl_refl)
  ultimately show ?thesis
    by (intro exI [of _ "?C (Remove ops e2 k2) [] SEnd SEnd SEnd"] exI [of _ e1]) (simp add: T IsScheduled_def)
qed

theorem schedule_race_witness:
  "\<exists>c e. (sched_step list_cron list_entries)\<^sup>*\<^sup>* \<lparr>cron = (0, []), jobs = [], threads =
       ScheduleJobs [(''a'', 1, False), (''a'', 1, False)] @ [\<lparr>st_ID = ''a'', st_interval = 1, st_now = False, st_pc = SUnschedule\<rparr>]\<rparr> c \<and>
     \<not> IsScheduled ''a'' c \<and> (e, ''a'') \<in> set (list_entries (cron c))"
proof -
  have "\<forall>spec j k. \<exists>e k'. AddFunc list_cron spec j k = (Inr e, k')"
    by (simp add: list_cron_def split: prod.split)
  from schedule_race [OF list_cron_laws this, of "\<lparr>cron = (0, []), jobs = [], threads =
      ScheduleJobs [(''a'', 1, False), (''a'', 1, False)] @ [\<lparr>st_ID = ''a'', st_interval = 1, st_now = False, st_pc = SUnschedule\<rparr>]\<rparr>" "''a''" 1]
  show ?thesis
    by auto
qed

end
