(* ===== verification/AtomicFile.thy ===== *)
theory AtomicFile
  imports NetCommon IoFrame
begin

text \<open>
  \<^verbatim>\<open>SaferWriteFile\<close> of \<^verbatim>\<open>utils/file.go\<close>: a file is replaced as a whole or not at all, whichever of the system
  calls fails. The name of the temporary file is the file's name with the random digits the operating
  system's \<^verbatim>\<open>CreateTemp\<close> appends.
\<close>

section \<open>Paths\<close>

text \<open>A clean absolute directory and a file name in it.\<close>

definition file_in :: "string \<Rightarrow> string \<Rightarrow> bool" where
  "file_in d b \<longleftrightarrow> Clean d = d \<and> HasPrefix d ''/'' \<and> d \<noteq> ''/'' \<and> b \<noteq> [] \<and> b \<noteq> ''.'' \<and> b \<noteq> ''..'' \<and> CHR ''/'' \<notin> set b"

definition temp_suffix :: "string \<Rightarrow> bool" where
  "temp_suffix r \<longleftrightarrow> r \<noteq> [] \<and> (\<forall>c \<in> set r. CHR ''0'' \<le> c \<and> c \<le> CHR ''9'')"

lemma temp_suffix_chars: "temp_suffix r \<Longrightarrow> c \<in> set r \<Longrightarrow> c \<noteq> CHR ''/'' \<and> c \<noteq> CHR ''.''"
  by (auto simp: temp_suffix_def)

lemma file_in_temp:
  assumes "file_in d b" and "temp_suffix r"
  shows "file_in d (b @ r)"
proof -
  from assms(2) obtain c r' where r: "r = r' @ [c]"
    by (cases r rule: rev_cases) (auto simp: temp_suffix_def)
  with temp_suffix_chars [OF assms(2), of c] have "c \<noteq> CHR ''.''"
    by simp
  then have "b @ r \<noteq> ''.''" and "b @ r \<noteq> ''..''"
    using r by (auto simp: append_eq_Cons_conv)
  with assms temp_suffix_chars [OF assms(2)] show ?thesis
    by (auto simp: file_in_def)
qed

lemma clean_comps_snoc_empty: "clean_comps r acc (xs @ [[]]) = clean_comps r acc xs"
  by (induction xs arbitrary: acc) (auto split: list.split)

lemma Clean_slash:
  assumes "Clean d = d" and "HasPrefix d ''/''"
  shows "Clean (d @ ''/'') = d"
proof -
  from assms(2) have "HasPrefix (d @ ''/'') ''/''"
    by (auto simp: HasPrefix_iff)
  with assms Split_append [of d "CHR ''/''" "[]"] show ?thesis
    by (simp add: Clean_def clean_comps_snoc_empty)
qed

lemma path_of_file_in:
  assumes "file_in d b"
  shows "path_Join [d, b] = d @ ''/'' @ b" and "path_Dir (d @ ''/'' @ b) = d" and "path_Base (d @ ''/'' @ b) = b"
proof -
  from assms have b: "b \<noteq> []" "\<And>c. c \<in> set (rev b) \<Longrightarrow> c \<noteq> CHR ''/''" and d: "Clean d = d" "HasPrefix d ''/''"
    by (auto simp: file_in_def)
  from assms show "path_Join [d, b] = d @ ''/'' @ b"
    by (intro path_Join_clean) (auto simp: file_in_def)
  have "dropWhile (\<lambda>c. c \<noteq> CHR ''/'') (rev b @ CHR ''/'' # rev d) = CHR ''/'' # rev d"
    using b(2) by (subst dropWhile_append2) auto
  then show "path_Dir (d @ ''/'' @ b) = d"
    using Clean_slash [OF d] by (simp add: path_Dir_def)
  obtain c b' where bc: "rev b = c # b'"
    using b(1) by (cases "rev b") auto
  with b(2) have "c \<noteq> CHR ''/''"
    by simp
  have "takeWhile (\<lambda>c. c \<noteq> CHR ''/'') (rev b @ CHR ''/'' # rev d) = rev b"
    using b(2) by (subst takeWhile_append2) auto
  moreover have "TrimRight (d @ ''/'' @ b) ''/'' = d @ ''/'' @ b"
    using bc \<open>c \<noteq> CHR ''/''\<close> by (simp add: TrimRight_def)
  ultimately show "path_Base (d @ ''/'' @ b) = b"
    using b(1) by (simp add: path_Base_def)
qed

section \<open>The random names\<close>

definition same_rand :: "'z world_scheme \<Rightarrow> 'z world_scheme \<Rightarrow> bool" where
  "same_rand w w' \<longleftrightarrow> rand w' = rand w"

interpretation same_rand: io_frame same_rand
  by unfold_locales (simp_all add: same_rand_def)

lemma same_rand_writes: "keeps same_rand (utils_WriteFile p s m)" "keeps same_rand (SaferWriteFile p s m)"
  unfolding SaferWriteFile_def utils_WriteFile_def by (intro same_rand.keeps_os)+

text \<open>An assertion on the files in a world whose temporary names are as documented.\<close>

definition holding :: "((string \<rightharpoonup> node) \<Rightarrow> bool) \<Rightarrow> 'z world_scheme \<Rightarrow> bool" where
  "holding P w \<longleftrightarrow> (\<forall>t. temp_suffix (rand w t)) \<and> P (map_of (fs w))"

lemma triple_holding:
  assumes "keeps same_rand m" and "triple (\<lambda>w. P (map_of (fs w))) m (\<lambda>r w. Q r (map_of (fs w)))"
  shows "triple (holding P) m (\<lambda>r. holding (Q r))"
proof (rule tripleI)
  fix w r w'
  assume w: "holding P w" and run: "run_state m w = (r, w')"
  from keepsD [OF assms(1), of w] tripleD [OF assms(2) _ run] w run show "holding (Q r) w'"
    by (simp add: holding_def same_rand_def)
qed

lemma holding_if_ok:
  assumes "keeps same_rand m"
    and "triple (\<lambda>w. P (map_of (fs w))) m (\<lambda>e w. case e of Some _ \<Rightarrow> E (map_of (fs w)) | None \<Rightarrow> R (map_of (fs w)))"
    and "\<And>e w. holding E w \<Longrightarrow> Q (h e) w" and "triple (holding R) k Q"
  shows "triple (holding P) (if_ok m h k) Q"
proof (rule triple_if_ok [OF _ assms(3,4)])
  show "triple (holding P) m (\<lambda>e w. case e of Some _ \<Rightarrow> holding E w | None \<Rightarrow> holding R w)"
    by (rule triple_post [OF triple_holding [OF assms(1), of P "\<lambda>e f. case e of Some _ \<Rightarrow> E f | None \<Rightarrow> R f"]])
       (use assms(2) in \<open>auto simp: triple_def split: option.splits\<close>)
qed

section \<open>The steps\<close>

lemma triple_CreateTemp:
  assumes "file_in d b" and "\<And>f r c m o1. P f \<Longrightarrow> temp_suffix r \<Longrightarrow> f (d @ ''/'' @ b @ r) = None \<Longrightarrow>
      R (d @ ''/'' @ b @ r) (f(d @ ''/'' @ b @ r \<mapsto> Reg c m o1))"
  shows "triple (holding P) (os_CreateTemp d b) (\<lambda>r w. case r of Inl _ \<Rightarrow> holding P w | Inr t \<Rightarrow> holding (R t) w)"
proof (rule tripleI)
  fix w :: "'z world_scheme" and r w'
  assume w: "holding P w" and run: "run_state (os_CreateTemp d b) w = (r, w')"
  let ?s = "rand w (tick w)"
  let ?t = "d @ ''/'' @ b @ ?s"
  from w have s: "temp_suffix ?s"
    by (simp add: holding_def)
  have t: "path_Join [d, b @ ?s] = ?t"
    using path_of_file_in(1) [OF file_in_temp [OF assms(1) s]] by simp
  have rnd: "rand w' = rand w"
    using keepsD [OF same_rand.keeps_files(20), of w d b] run by (simp add: same_rand_def)
  have res: "map_of (fs w) ?t = None \<Longrightarrow> resolve (fs w) ?t = Some ?t"
    by (intro resolve_no_link) simp
  from run have "run_state (os_Open True True False 384 ?t) w = (r, w')"
    by (simp add: os_CreateTemp_def t)
  then have "(\<exists>e. r = Inl e) \<and> fs w' = fs w \<or>
      (r = Inr ?t \<and> map_of (fs w) ?t = None \<and> (\<exists>m o1. map_of (fs w') = (map_of (fs w))(?t \<mapsto> Reg [] m o1)))"
    using res
    by (auto simp: os_Open_def syscall_def lookup_def update_conv' Let_def split: option.splits if_splits errno.splits) blast+
  then consider (failed) e where "r = Inl e" "fs w' = fs w"
    | (made) m o1 where "r = Inr ?t" "map_of (fs w) ?t = None" "map_of (fs w') = (map_of (fs w))(?t \<mapsto> Reg [] m o1)"
    by blast
  then show "case r of Inl _ \<Rightarrow> holding P w' | Inr t \<Rightarrow> holding (R t) w'"
  proof cases
    case failed
    with w rnd show ?thesis
      by (simp add: holding_def)
  next
    case made
    from w have "P (map_of (fs w))"
      by (simp add: holding_def)
    from assms(2) [OF this s made(2)] w rnd made(1,3) show ?thesis
      by (simp add: holding_def)
  qed
qed

lemma triple_Chmod:
  assumes "\<And>f. P f \<Longrightarrow> \<exists>c m o1. f p = Some (Reg c m o1)" and "\<And>f c m o1. P f \<Longrightarrow> f p = Some (Reg c m o1) \<Longrightarrow> P (f(p \<mapsto> Reg c pm o1))"
  shows "triple (\<lambda>w. P (map_of (fs w))) (os_Chmod p pm) (\<lambda>_ w. P (map_of (fs w)))"
  unfolding os_Chmod_def
proof (rule triple_errs, rule triple_syscall [where Q = "\<lambda>_. P", THEN triple_post])
  fix um and f :: files
  assume P: "P (map_of f)"
  then obtain c m o1 where p: "map_of f p = Some (Reg c m o1)"
    using assms(1) by blast
  then have "lookup f p = Inr (p, Reg c m o1)"
    using resolve_no_link [of f p] by (simp add: lookup_def)
  with assms(2) [OF P p] P show "(\<forall>e. P (map_of f)) \<and> (\<forall>a f'. (case lookup f p of Inl e \<Rightarrow> Inl e
      | Inr (q, n) \<Rightarrow> Inr ((), AList.update q (set_perm pm n) f)) = Inr (a, f') \<longrightarrow> P (map_of f'))"
    by (simp add: set_perm_def update_conv')
qed (auto split: sum.splits)

section \<open>Replacing a file\<close>

text \<open>
  The paths the operation is to leave alone: they hold what they held, and the operation's temporary
  files and directories are elsewhere.
\<close>

definition away :: "string \<Rightarrow> string \<Rightarrow> string set \<Rightarrow> bool" where
  "away d b K \<longleftrightarrow> (\<forall>q \<in> K. q \<notin> set (dir_prefixes d) \<and> (\<forall>r. temp_suffix r \<longrightarrow> q \<noteq> d @ ''/'' @ b @ r))"

definition as_before :: "string set \<Rightarrow> (string \<rightharpoonup> node) \<Rightarrow> (string \<rightharpoonup> node) \<Rightarrow> bool" where
  "as_before K k f \<longleftrightarrow> (\<forall>q \<in> K. f q = k q)"

definition replaced :: "string set \<Rightarrow> (string \<rightharpoonup> node) \<Rightarrow> string \<Rightarrow> string \<Rightarrow> (string \<rightharpoonup> node) \<Rightarrow> bool" where
  "replaced K k p s f \<longleftrightarrow> (\<exists>m o1. f p = Some (Reg s m o1)) \<and> as_before (K - {p}) k f"

text \<open>The temporary file, with the content \<^verbatim>\<open>cs\<close> allows.\<close>

definition temp_at :: "string \<Rightarrow> string set \<Rightarrow> string \<Rightarrow> (string \<rightharpoonup> node) \<Rightarrow> bool" where
  "temp_at p cs t f \<longleftrightarrow> (\<exists>r. temp_suffix r \<and> t = p @ r) \<and> (\<exists>c m o1. c \<in> cs \<and> f t = Some (Reg c m o1))"

lemma as_before_dirs: "away d b K \<Longrightarrow> as_before K k f \<Longrightarrow> dirs_added (dir_prefixes d) f g \<Longrightarrow> as_before K k g"
  unfolding away_def as_before_def dirs_added_def by metis

lemma as_before_temp: "away d b K \<Longrightarrow> temp_suffix r \<Longrightarrow> as_before K k f \<Longrightarrow> as_before K k (f(d @ ''/'' @ b @ r := n))"
  by (auto simp: away_def as_before_def)

lemma temp_at_dirs: "temp_at p cs t f \<Longrightarrow> dirs_added ps f g \<Longrightarrow> temp_at p cs t g"
  unfolding temp_at_def dirs_added_def by (metis option.distinct(1))

lemma temp_at_file: "temp_at p cs t f \<Longrightarrow> file_or_none f t"
  by (auto simp: temp_at_def file_or_none_def)

lemma triple_write_temp:
  fixes k :: "string \<rightharpoonup> node"
  assumes "file_in d b" and "away d b K" and "temp_suffix r" and "t = d @ ''/'' @ b @ r"
  defines "B \<equiv> \<lambda>cs f. as_before K k f \<and> temp_at (d @ ''/'' @ b) cs t f"
  shows "triple (\<lambda>w. B UNIV (map_of (fs w))) (utils_WriteFile s t m)
    (\<lambda>e w. case e of Some _ \<Rightarrow> B UNIV (map_of (fs w)) | None \<Rightarrow> B {s} (map_of (fs w)))"
proof -
  have dir: "path_Dir t = d"
    using path_of_file_in(2) [OF file_in_temp [OF assms(1,3)]] assms(4) by simp
  have wf: "utils_WriteFile s t m = if_ok (os_MkdirAll d m) (\<lambda>e. Some (Wrap ''unable to create required directories'' e)) (os_WriteFile t s m)"
    by (simp add: utils_WriteFile_def if_ok_def dir)
  have upd: "B UNIV f \<Longrightarrow> c \<in> cs \<Longrightarrow> B cs (f(t \<mapsto> Reg c m' o1))" for f c cs m' o1
    using as_before_temp [OF assms(2,3)] assms(3,4) unfolding B_def temp_at_def by auto
  have mk: "triple (\<lambda>w. B UNIV (map_of (fs w))) (os_MkdirAll d m) (\<lambda>_ w. B UNIV (map_of (fs w)))"
    by (rule triple_MkdirAll) (auto simp: B_def intro: as_before_dirs [OF assms(2)] temp_at_dirs)
  have wr: "triple (\<lambda>w. B UNIV (map_of (fs w))) (os_WriteFile t s m)
    (\<lambda>e w. case e of Some _ \<Rightarrow> B UNIV (map_of (fs w)) | None \<Rightarrow> B {s} (map_of (fs w)))"
  proof (rule triple_WriteFile)
    show "B UNIV f \<Longrightarrow> file_or_none f t" for f
      unfolding B_def by (blast intro: temp_at_file)
    show "B UNIV f \<Longrightarrow> B UNIV (f(t \<mapsto> Reg [] m' o1))" for f m' o1
      by (rule upd) simp_all
    show "B UNIV f \<Longrightarrow> B {s} (f(t \<mapsto> Reg s m' o1))" for f m' o1
      by (rule upd) simp_all
  qed
  show ?thesis
    unfolding wf
  proof (rule triple_if_ok [OF _ _ wr])
    show "triple (\<lambda>w. B UNIV (map_of (fs w))) (os_MkdirAll d m)
      (\<lambda>e w. case e of Some _ \<Rightarrow> B UNIV (map_of (fs w)) | None \<Rightarrow> B UNIV (map_of (fs w)))"
      by (rule triple_post [OF mk]) (simp split: option.split)
  qed simp
qed

lemma triple_swap:
  assumes "away d b K" and "temp_suffix r" and "t = d @ ''/'' @ b @ r"
  shows "triple (\<lambda>w. as_before K k (map_of (fs w)) \<and> temp_at (d @ ''/'' @ b) {s} t (map_of (fs w))) (os_Rename t (d @ ''/'' @ b))
    (\<lambda>e w. case e of Some _ \<Rightarrow> as_before K k (map_of (fs w)) | None \<Rightarrow> replaced K k (d @ ''/'' @ b) s (map_of (fs w)))"
  by (rule triple_Rename [where P = "\<lambda>f. as_before K k f \<and> temp_at (d @ ''/'' @ b) {s} t f"])
     (use assms in \<open>auto simp: replaced_def as_before_def temp_at_def away_def\<close>)

text \<open>How the operation ends: with an error and everything as before, or with the file replaced.\<close>

definition all_or_nothing :: "string set \<Rightarrow> (string \<rightharpoonup> node) \<Rightarrow> string \<Rightarrow> string \<Rightarrow> goerr option \<Rightarrow> (string \<rightharpoonup> node) \<Rightarrow> bool" where
  "all_or_nothing K k p s e f \<longleftrightarrow> (case e of Some _ \<Rightarrow> as_before K k f | None \<Rightarrow> replaced K k p s f)"

lemma triple_fill_temp:
  assumes "file_in d b" and "away d b K" and "temp_suffix r" and "t = d @ ''/'' @ b @ r"
    and h: "\<And>e. h1 e \<noteq> None" "\<And>e. h2 e \<noteq> None" "\<And>e. h0 e \<noteq> None"
  shows "triple (holding (\<lambda>f. as_before K k f \<and> temp_at (d @ ''/'' @ b) UNIV t f))
     (if_ok (os_Chmod t m) h1 (if_ok os_Close h0 (if_ok (utils_WriteFile s t m) h2 (os_Rename t (d @ ''/'' @ b)))))
     (\<lambda>e. holding (all_or_nothing K k (d @ ''/'' @ b) s e))" (is "triple (holding ?B) _ ?Q")
proof (rule holding_if_ok [OF same_rand.keeps_files(16), where E = ?B and R = ?B])
  have "triple (\<lambda>w. ?B (map_of (fs w))) (os_Chmod t m) (\<lambda>_ w. ?B (map_of (fs w)))"
  proof (rule triple_Chmod)
    show "?B f \<Longrightarrow> \<exists>c m o1. f t = Some (Reg c m o1)" for f
      by (auto simp: temp_at_def)
    show "?B f \<Longrightarrow> f t = Some (Reg c m' o1) \<Longrightarrow> ?B (f(t \<mapsto> Reg c m o1))" for f c m' o1
      using as_before_temp [OF assms(2,3), of k f "Some (Reg c m o1)"] assms(3,4) by (auto simp: temp_at_def)
  qed
  then show "triple (\<lambda>w. ?B (map_of (fs w))) (os_Chmod t m) (\<lambda>e w. case e of Some _ \<Rightarrow> ?B (map_of (fs w)) | None \<Rightarrow> ?B (map_of (fs w)))"
    by (rule triple_post) (simp split: option.split)
  show "holding ?B w \<Longrightarrow> ?Q (h1 e) w" for e w
    using h(1) [of e] by (auto simp: holding_def all_or_nothing_def)
  have "triple (holding ?B) (if_ok (utils_WriteFile s t m) h2 (os_Rename t (d @ ''/'' @ b))) ?Q"
  proof (rule holding_if_ok [OF same_rand_writes(1) triple_write_temp [OF assms(1-4)]])
    show "holding ?B w \<Longrightarrow> ?Q (h2 e) w" for e w
      using h(2) [of e] by (auto simp: holding_def all_or_nothing_def)
    show "triple (holding (\<lambda>f. as_before K k f \<and> temp_at (d @ ''/'' @ b) {s} t f)) (os_Rename t (d @ ''/'' @ b)) ?Q"
      by (rule triple_holding [OF same_rand.keeps_files(13)])
         (use triple_swap [OF assms(2-4), of k s] in \<open>simp add: all_or_nothing_def cong: option.case_cong\<close>)
  qed
  then show "triple (holding ?B) (if_ok os_Close h0 (if_ok (utils_WriteFile s t m) h2 (os_Rename t (d @ ''/'' @ b)))) ?Q"
  proof (rule holding_if_ok [OF same_rand.keeps_files(21) triple_Close, rotated])
    show "holding ?B w \<Longrightarrow> ?Q (h0 e) w" for e w
      using h(3) [of e] by (auto simp: holding_def all_or_nothing_def)
  qed
qed

lemma SaferWriteFile_steps:
  assumes "file_in d b"
  shows "SaferWriteFile s (d @ ''/'' @ b) m =
    if_ok (os_MkdirAll d m) (\<lambda>e. Some (Wrap ''unable to create required directories'' e))
      (bind_ok (os_CreateTemp d b) (\<lambda>e. Some (Wrap ''unable to create temporary file'' e)) (\<lambda>t.
        if_ok (os_Chmod t m) (\<lambda>e. Some (Wrap ''unable to set permissions on temporary file'' e))
          (if_ok os_Close (\<lambda>e. Some (Wrap ''failed to close temporary file'' e))
            (if_ok (utils_WriteFile s t m) (\<lambda>e. Some (Wrap ''unable to write to a temporary file'' e)) (os_Rename t (d @ ''/'' @ b))))))"
  unfolding SaferWriteFile_def if_ok_def bind_ok_def path_of_file_in(2,3) [OF assms] ..

lemma triple_SaferWriteFile:
  assumes "file_in d b" and "away d b K"
  shows "triple (holding (as_before K k)) (SaferWriteFile s (d @ ''/'' @ b) m) (\<lambda>e. holding (all_or_nothing K k (d @ ''/'' @ b) s e))"
    (is "triple (holding ?A) _ ?Q")
  unfolding SaferWriteFile_steps [OF assms(1)]
proof (rule holding_if_ok [OF same_rand.keeps_files(15), where E = ?A and R = ?A])
  have "triple (\<lambda>w. ?A (map_of (fs w))) (os_MkdirAll d m) (\<lambda>_ w. ?A (map_of (fs w)))"
    by (rule triple_MkdirAll) (rule as_before_dirs [OF assms(2)])
  then show "triple (\<lambda>w. ?A (map_of (fs w))) (os_MkdirAll d m) (\<lambda>e w. case e of Some _ \<Rightarrow> ?A (map_of (fs w)) | None \<Rightarrow> ?A (map_of (fs w)))"
    by (rule triple_post) (simp split: option.split)
  let ?B = "\<lambda>t f. ?A f \<and> temp_at (d @ ''/'' @ b) UNIV t f"
  show "triple (holding ?A) (bind_ok (os_CreateTemp d b) (\<lambda>e. Some (Wrap ''unable to create temporary file'' e)) (\<lambda>t.
        if_ok (os_Chmod t m) (\<lambda>e. Some (Wrap ''unable to set permissions on temporary file'' e))
          (if_ok os_Close (\<lambda>e. Some (Wrap ''failed to close temporary file'' e))
            (if_ok (utils_WriteFile s t m) (\<lambda>e. Some (Wrap ''unable to write to a temporary file'' e)) (os_Rename t (d @ ''/'' @ b)))))) ?Q"
  proof (rule triple_bind_ok [where R = "\<lambda>t. holding (?B t)"])
    show "triple (holding ?A) (os_CreateTemp d b) (\<lambda>r w. case r of Inl _ \<Rightarrow> holding ?A w | Inr t \<Rightarrow> holding (?B t) w)"
    proof (rule triple_CreateTemp [OF assms(1)])
      show "?A f \<Longrightarrow> temp_suffix r \<Longrightarrow> ?B (d @ ''/'' @ b @ r) (f(d @ ''/'' @ b @ r \<mapsto> Reg c m o1))" for f r c m o1
        using as_before_temp [OF assms(2), of r k f] by (auto simp: temp_at_def)
    qed
    show "triple (holding (?B t)) (if_ok (os_Chmod t m) (\<lambda>e. Some (Wrap ''unable to set permissions on temporary file'' e))
          (if_ok os_Close (\<lambda>e. Some (Wrap ''failed to close temporary file'' e))
            (if_ok (utils_WriteFile s t m) (\<lambda>e. Some (Wrap ''unable to write to a temporary file'' e)) (os_Rename t (d @ ''/'' @ b))))) ?Q" for t
    proof (cases "\<exists>r. temp_suffix r \<and> t = d @ ''/'' @ b @ r")
      case True
      then obtain r where "temp_suffix r" and "t = d @ ''/'' @ b @ r"
        by blast
      then show ?thesis
        by (intro triple_fill_temp [OF assms]) simp_all
    next
      case False
      then show ?thesis
        by (auto simp: triple_def holding_def temp_at_def)
    qed
  qed (auto simp: holding_def all_or_nothing_def)
qed (auto simp: holding_def all_or_nothing_def)

lemma away_file: "HasPrefix d ''/'' \<Longrightarrow> away d b {d @ ''/'' @ b}"
  by (auto simp: away_def temp_suffix_def dest!: length_dir_prefixes)

section \<open>The property\<close>

text \<open>
  C9: \<^verbatim>\<open>SaferWriteFile\<close> replaces a file as a whole or leaves it alone: whichever system calls fail, the path
  holds what it held (the call then returned an error) or exactly the new contents (and there was none).
\<close>

theorem SaferWriteFile_atomic:
  assumes "file_in d b" and "\<forall>t. temp_suffix (rand w t)" and "p = d @ ''/'' @ b"
    and "run_state (SaferWriteFile s p m) w = (e, w')"
  shows "if e = None then \<exists>m' o1. map_of (fs w') p = Some (Reg s m' o1) else map_of (fs w') p = map_of (fs w) p"
proof -
  have "away d b {p}"
    unfolding assms(3) by (rule away_file) (use assms(1) in \<open>simp add: file_in_def\<close>)
  note safer = triple_SaferWriteFile [OF assms(1) this, of "map_of (fs w)" s m, folded assms(3)]
  have "holding (as_before {p} (map_of (fs w))) w"
    using assms(2) by (simp add: holding_def as_before_def)
  from tripleD [OF safer this assms(4)] show ?thesis
    by (cases e) (simp_all add: holding_def all_or_nothing_def as_before_def replaced_def)
qed

theorem SaferWriteFile_atomic_witness:
  "\<exists>e w'. run_state (SaferWriteFile ''new'' ''/run/agent/key'' 420) (calm [(''/run/agent/key'', Reg ''old'' 420 (0, 0))]\<lparr>fault := \<lambda>t. if t = 4 then Some EINVAL else None\<rparr>) = (e, w') \<and>
    (if e = None then \<exists>m' o1. map_of (fs w') ''/run/agent/key'' = Some (Reg ''new'' m' o1)
     else map_of (fs w') ''/run/agent/key'' = Some (Reg ''old'' 420 (0, 0)))"
proof -
  let ?w = "calm [(''/run/agent/key'', Reg ''old'' 420 (0, 0))]\<lparr>fault := \<lambda>t. if t = 4 then Some EINVAL else None\<rparr>"
  obtain e w' where run: "run_state (SaferWriteFile ''new'' ''/run/agent/key'' 420) ?w = (e, w')"
    by (cases "run_state (SaferWriteFile ''new'' ''/run/agent/key'' 420) ?w")
  have "Clean ''/run/agent'' = ''/run/agent''"
    by code_simp
  then have f: "file_in ''/run/agent'' ''key''"
    by (simp add: file_in_def HasPrefix_iff)
  have r: "\<forall>t. temp_suffix (rand ?w t)"
    by (simp add: temp_suffix_def calm_def)
  have p: "''/run/agent/key'' = ''/run/agent'' @ ''/'' @ ''key''"
    by simp
  have old: "map_of (fs ?w) ''/run/agent/key'' = Some (Reg ''old'' 420 (0, 0))"
    by (simp add: calm_def)
  from SaferWriteFile_atomic [OF f r p run] run show ?thesis
    unfolding old by blast
qed

end
