(* ===== verification/Live.thy ===== *)
theory Live
  imports Prelude
begin

text \<open>
  Transition systems that end well. The model of a concurrent component is a step relation; the
  interface below is what a liveness proof needs of it: an invariant that every step keeps, a
  rank that every step lowers and, in a state of the invariant that has no step left, the
  outcome wanted. What follows is proved once and used through an interpretation.
\<close>

locale ends_well =
  fixes step :: "'s \<Rightarrow> 's \<Rightarrow> bool" and inv :: "'s \<Rightarrow> bool" and rank :: "('s \<times> 's) set" and outcome :: "'s \<Rightarrow> bool"
  assumes wf_rank: "wf rank"
    and inv_step: "inv s \<Longrightarrow> step s s' \<Longrightarrow> inv s'"
    and rank_step: "inv s \<Longrightarrow> step s s' \<Longrightarrow> (s', s) \<in> rank"
    and stuck_outcome: "inv s \<Longrightarrow> \<forall>s'. \<not> step s s' \<Longrightarrow> outcome s"
begin

lemma inv_reachable:
  assumes "step\<^sup>*\<^sup>* s s'" and "inv s"
  shows "inv s'"
  using assms by (induction rule: rtranclp_induct) (auto intro: inv_step)

lemma no_infinite_run:
  assumes "inv s"
  shows "\<nexists>\<sigma>. \<sigma> 0 = s \<and> (\<forall>i. step (\<sigma> i) (\<sigma> (Suc i)))"
proof
  assume "\<exists>\<sigma>. \<sigma> 0 = s \<and> (\<forall>i. step (\<sigma> i) (\<sigma> (Suc i)))"
  then obtain \<sigma> where s: "\<sigma> 0 = s" and st: "\<And>i. step (\<sigma> i) (\<sigma> (Suc i))"
    by blast
  have "inv (\<sigma> i)" for i
    by (induction i) (auto simp: s assms intro: inv_step st)
  then have "(\<sigma> (Suc i), \<sigma> i) \<in> rank" for i
    using rank_step st by blast
  then show False
    using wf_rank unfolding wf_iff_no_infinite_down_chain by blast
qed

lemma stuck_is_outcome:
  assumes "inv s" and "step\<^sup>*\<^sup>* s s'" and "\<forall>t. \<not> step s' t"
  shows "outcome s'"
  using assms inv_reachable stuck_outcome by blast

lemma outcome_reachable:
  assumes "inv s"
  shows "\<exists>s'. step\<^sup>*\<^sup>* s s' \<and> inv s' \<and> outcome s'"
  using assms
proof (induction s rule: wf_induct_rule [OF wf_rank])
  case (1 s)
  show ?case
  proof (cases "\<exists>s'. step s s'")
    case True
    then obtain s' where s': "step s s'"
      by blast
    from "1.IH" [OF rank_step [OF "1.prems" s'] inv_step [OF "1.prems" s']] s'
    show ?thesis
      by (meson converse_rtranclp_into_rtranclp)
  next
    case False
    then show ?thesis
      using "1.prems" stuck_outcome by blast
  qed
qed

end

end
