(* ===== verification/Events.thy ===== *)
theory Events
  imports World Live
begin

text \<open>
  The events manager, \<^verbatim>\<open>google_guest_agent/events/events.go\<close>. The calls that change the manager's
  maps are functions on its record. \<^verbatim>\<open>Run\<close> starts goroutines that meet on unbuffered channels; they
  are the program counters of a configuration, and a step of the relation \<^verbatim>\<open>ev_step\<close> is a step of
  one of them or a meeting of a sender and a receiver. What a watcher's \<^verbatim>\<open>Run\<close> returns at its n-th
  call and what a callback answers are parameters (\<^verbatim>\<open>watch\<close>, \<^verbatim>\<open>answer\<close>), so a theorem covers every
  watcher and every subscriber. Reads and writes of the flags \<^verbatim>\<open>leaving\<close> and \<^verbatim>\<open>abort\<close>, which the code
  does without a lock, are atomic steps.
\<close>

section \<open>Data\<close>

record Watcher =
  w_ID :: string
  w_Events :: "string list"

text \<open>The channel \<^verbatim>\<open>removed\<close> and a callback variable are known by their addresses.\<close>

record WatcherEventType =
  we_watcher :: Watcher
  we_evType :: string
  we_removed :: nat

record 'u eventSubscriber =
  sub_data :: 'u
  sub_cb :: nat

record 'd EventData =
  ev_Data :: 'd
  ev_Error :: "goerr option"

record watcherQueue =
  q_watchersMap :: "string list"
  leaving :: bool

record 'u Manager =
  watcherEvents :: "WatcherEventType list"
  watchersMap :: "string list"
  removingWatcherEvents :: "string list"
  ev_running :: bool
  subscribers :: "(string \<times> 'u eventSubscriber list) list"
  ev_queue :: watcherQueue
  next_addr :: nat

definition newManager :: "'u Manager" where
  "newManager = \<lparr>watcherEvents = [], watchersMap = [], removingWatcherEvents = [], ev_running = False,
     subscribers = [], ev_queue = \<lparr>q_watchersMap = [], leaving = False\<rparr>, next_addr = 0\<rparr>"

section \<open>The calls on the manager\<close>

definition q_length :: "watcherQueue \<Rightarrow> nat" where
  "q_length q = length (q_watchersMap q)"

definition q_add :: "string \<Rightarrow> watcherQueue \<Rightarrow> watcherQueue" where
  "q_add evType q = q\<lparr>q_watchersMap := List.insert evType (q_watchersMap q)\<rparr>"

definition q_del :: "string \<Rightarrow> watcherQueue \<Rightarrow> nat \<times> watcherQueue" where
  "q_del evType q = (let m = removeAll evType (q_watchersMap q) in (length m, q\<lparr>q_watchersMap := m\<rparr>))"

definition subs_of :: "'u Manager \<Rightarrow> string \<Rightarrow> 'u eventSubscriber list" where
  "subs_of m evType = (case map_of (subscribers m) evType of None \<Rightarrow> [] | Some s \<Rightarrow> s)"

definition Subscribe :: "string \<Rightarrow> 'u \<Rightarrow> 'u Manager \<Rightarrow> 'u Manager" where
  "Subscribe evType data m =
     m\<lparr>subscribers := AList.update evType (subs_of m evType @ [\<lparr>sub_data = data, sub_cb = next_addr m\<rparr>]) (subscribers m),
       next_addr := Suc (next_addr m)\<rparr>"

definition unsubscribe :: "string \<Rightarrow> nat \<Rightarrow> 'u Manager \<Rightarrow> 'u Manager" where
  "unsubscribe evType cb m =
     (let keepMe = filter (\<lambda>c. sub_cb c \<noteq> cb) (subs_of m evType)
      in if keepMe = [] then m\<lparr>subscribers := AList.delete evType (subscribers m)\<rparr>
         else m\<lparr>subscribers := AList.update evType keepMe (subscribers m)\<rparr>)"

text \<open>The callback is a parameter of \<^verbatim>\<open>Unsubscribe\<close>: its address is that of a new variable.\<close>

definition Unsubscribe :: "string \<Rightarrow> 'u Manager \<Rightarrow> 'u Manager" where
  "Unsubscribe evType m = unsubscribe evType (next_addr m) (m\<lparr>next_addr := Suc (next_addr m)\<rparr>)"

section \<open>Goroutines\<close>

text \<open>
  A watcher's goroutine: in the n-th call of its \<^verbatim>\<open>Run\<close>; back from it; sending on the data bus; out
  of the loop; sending on its own channel \<^verbatim>\<open>removed\<close>; sending on \<^verbatim>\<open>watcherDone\<close>; gone. Its field
  \<^verbatim>\<open>t_listening\<close> says that the goroutine waiting on \<^verbatim>\<open>removed\<close> is still there.
\<close>

datatype watcher_pc = WRun nat | WRet nat | WSend nat | WFin | WRemoved | WDone | WEnd

record wthread =
  t_ID :: string
  t_evType :: string
  t_removed :: nat
  t_pc :: watcher_pc
  t_abort :: bool
  t_listening :: bool

datatype ctx_pc = CSelect | CSend | CEnd

text \<open>The callback handler: in its select, or with the subscribers still to call and those to delete.\<close>

datatype ('u, 'd) cb_pc = BSelect | BHandle string "'d EventData" "'u eventSubscriber list" "'u eventSubscriber list" | BEnd

datatype done_pc = DLoop | DGot nat | DSignalCtx | DSignalCb | DEnd

text \<open>A call of \<^verbatim>\<open>RemoveWatcher\<close>: in its loop, or sending on the channel of a watcher.\<close>

datatype remove_pc = RLoop string "WatcherEventType list" | RSend nat string "WatcherEventType list"

record ('u, 'd) config =
  mngr :: "'u Manager"
  threads :: "wthread list"
  c_pc :: ctx_pc
  b_pc :: "('u, 'd) cb_pc"
  d_pc :: done_pc
  remover :: "remove_pc option"
  ctx_done :: bool
  delivered :: "(nat \<times> string \<times> 'd EventData) list"

definition runWatcher :: "string \<Rightarrow> string \<Rightarrow> nat \<Rightarrow> wthread" where
  "runWatcher ID evType removed = \<lparr>t_ID = ID, t_evType = evType, t_removed = removed, t_pc = WRun 0,
     t_abort = False, t_listening = True\<rparr>"

fun new_events :: "Watcher \<Rightarrow> nat \<Rightarrow> string list \<Rightarrow> WatcherEventType list" where
  "new_events w a [] = []"
| "new_events w a (e # es) = \<lparr>we_watcher = w, we_evType = e, we_removed = a\<rparr> # new_events w (Suc a) es"

text \<open>\<^verbatim>\<open>evTypes[curr].removed\<close>: the last of the new entries with that event type.\<close>

definition removed_of :: "WatcherEventType list \<Rightarrow> string \<Rightarrow> nat" where
  "removed_of evs e = (case map_of (rev (map (\<lambda>x. (we_evType x, we_removed x)) evs)) e of Some a \<Rightarrow> a | None \<Rightarrow> 0)"

definition AddWatcher :: "Watcher \<Rightarrow> ('u, 'd) config \<Rightarrow> goerr option \<times> ('u, 'd) config" where
  "AddWatcher w c =
     (let m = mngr c in
      if w_ID w \<in> set (watchersMap m) then (Some (Msg (''watcher('' @ w_ID w @ '') was previously added'')), c)
      else
        let evs = new_events w (next_addr m) (w_Events w);
            m1 = m\<lparr>watchersMap := w_ID w # watchersMap m, watcherEvents := watcherEvents m @ evs,
                   next_addr := next_addr m + length evs\<rparr>
        in if \<not> ev_running m then (None, c\<lparr>mngr := m1\<rparr>)
           else (None, c\<lparr>mngr := m1\<lparr>ev_queue := fold q_add (w_Events w) (ev_queue m)\<rparr>,
                         threads := threads c @ map (\<lambda>e. runWatcher (w_ID w) e (removed_of evs e)) (w_Events w)\<rparr>))"

definition AddWatchers :: "Watcher list \<Rightarrow> ('u, 'd) config \<Rightarrow> goerr option \<times> ('u, 'd) config" where
  "AddWatchers ws c = fold (\<lambda>w (e, c). if e \<noteq> None then (e, c) else AddWatcher w c) ws (None, c)"

text \<open>The start of \<^verbatim>\<open>RemoveWatcher\<close>; the lock it takes admits one call at a time.\<close>

definition RemoveWatcher :: "Watcher \<Rightarrow> ('u, 'd) config \<Rightarrow> goerr option \<times> ('u, 'd) config" where
  "RemoveWatcher w c =
     (if w_ID w \<notin> set (watchersMap (mngr c)) then (Some (Msg (''unknown Watcher('' @ w_ID w @ '')'')), c)
      else (None, c\<lparr>remover := Some (RLoop (w_ID w) (watcherEvents (mngr c)))\<rparr>))"

text \<open>The start of \<^verbatim>\<open>Run\<close>, up to the point where it waits for its three goroutines.\<close>

definition Run :: "('u, 'd) config \<Rightarrow> goerr option \<times> ('u, 'd) config" where
  "Run c =
     (let m = mngr c in
      if ev_running m then (Some (Msg ''tried calling event manager's Run() twice''), c)
      else
        let q = fold q_add (map we_evType (watcherEvents m)) (ev_queue m)
        in (None, c\<lparr>mngr := m\<lparr>ev_running := True, ev_queue := q\<rparr>,
                    threads := threads c @ map (\<lambda>x. runWatcher (w_ID (we_watcher x)) (we_evType x) (we_removed x)) (watcherEvents m),
                    c_pc := CSelect, b_pc := BSelect, d_pc := (if q_length q > 0 then DLoop else DEnd)\<rparr>))"

text \<open>\<^verbatim>\<open>wg.Wait\<close> returns when the three goroutines are gone.\<close>

definition returned :: "('u, 'd) config \<Rightarrow> bool" where
  "returned c \<longleftrightarrow> c_pc c = CEnd \<and> b_pc c = BEnd \<and> d_pc c = DEnd"

definition fresh_config :: "'u Manager \<Rightarrow> ('u, 'd) config" where
  "fresh_config m = \<lparr>mngr = m, threads = [], c_pc = CEnd, b_pc = BEnd, d_pc = DEnd, remover = None,
     ctx_done = False, delivered = []\<rparr>"

type_synonym 'd watch = "string \<Rightarrow> string \<Rightarrow> nat \<Rightarrow> bool \<times> 'd EventData"

type_synonym ('u, 'd) answer = "'u eventSubscriber \<Rightarrow> string \<Rightarrow> 'd EventData \<Rightarrow> nat \<Rightarrow> bool"

definition set_leaving :: "('u, 'd) config \<Rightarrow> ('u, 'd) config" where
  "set_leaving c = c\<lparr>mngr := (mngr c)\<lparr>ev_queue := (ev_queue (mngr c))\<lparr>leaving := True\<rparr>\<rparr>\<rparr>"

abbreviation is_leaving :: "('u, 'd) config \<Rightarrow> bool" where
  "is_leaving c \<equiv> leaving (ev_queue (mngr c))"

abbreviation set_thread :: "nat \<Rightarrow> wthread \<Rightarrow> ('u, 'd) config \<Rightarrow> ('u, 'd) config" where
  "set_thread i t c \<equiv> c\<lparr>threads := (threads c)[i := t]\<rparr>"

text \<open>The goroutine that waits on \<^verbatim>\<open>removed\<close> receives: \<^verbatim>\<open>abort\<close> becomes true and it is gone.\<close>

abbreviation told :: "wthread \<Rightarrow> wthread" where
  "told t \<equiv> t\<lparr>t_abort := True, t_listening := False\<rparr>"

text \<open>What the callback handler does with an event it received.\<close>

definition receive :: "('u, 'd) config \<Rightarrow> string \<Rightarrow> 'd EventData \<Rightarrow> ('u, 'd) cb_pc" where
  "receive c evType ev = (case map_of (subscribers (mngr c)) evType of
     None \<Rightarrow> BSelect | Some subs \<Rightarrow> if subs = [] then BSelect else BHandle evType ev subs [])"

inductive ev_step :: "'d watch \<Rightarrow> ('u, 'd) answer \<Rightarrow> ('u, 'd) config \<Rightarrow> ('u, 'd) config \<Rightarrow> bool"
  for watch :: "'d watch" and answer :: "('u, 'd) answer" where
  ctx_handler: "\<lbrakk>c_pc c = CSelect; ctx_done c\<rbrakk> \<Longrightarrow> ev_step watch answer c ((set_leaving c)\<lparr>c_pc := CSend\<rparr>)"
| ctx_to_callbacks: "\<lbrakk>c_pc c = CSend; b_pc c = BSelect\<rbrakk> \<Longrightarrow> ev_step watch answer c (c\<lparr>c_pc := CEnd, b_pc := BEnd\<rparr>)"
| watcher_returns: "\<lbrakk>i < length (threads c); t = threads c ! i; t_pc t = WRun n\<rbrakk> \<Longrightarrow>
    ev_step watch answer c (set_thread i (t\<lparr>t_pc := WRet n\<rparr>) c)"
| watcher_checks: "\<lbrakk>i < length (threads c); t = threads c ! i; t_pc t = WRet n\<rbrakk> \<Longrightarrow>
    ev_step watch answer c (set_thread i (t\<lparr>t_pc := if t_abort t \<or> is_leaving c then WFin else WSend n\<rparr>) c)"
| data_bus: "\<lbrakk>i < length (threads c); t = threads c ! i; t_pc t = WSend n; b_pc c = BSelect;
      watch (t_ID t) (t_evType t) n = (renew, ev)\<rbrakk> \<Longrightarrow>
    ev_step watch answer c ((set_thread i (t\<lparr>t_pc := if renew then WRun (Suc n) else WFin\<rparr>) c)
      \<lparr>b_pc := receive c (t_evType t) ev\<rparr>)"
| watcher_finishes: "\<lbrakk>i < length (threads c); t = threads c ! i; t_pc t = WFin\<rbrakk> \<Longrightarrow>
    ev_step watch answer c (set_thread i (t\<lparr>t_pc := if t_abort t then WDone else WRemoved\<rparr>) c)"
| own_removed: "\<lbrakk>i < length (threads c); t = threads c ! i; t_pc t = WRemoved; t_listening t\<rbrakk> \<Longrightarrow>
    ev_step watch answer c (set_thread i ((told t)\<lparr>t_pc := WDone\<rparr>) c)"
| watcher_done: "\<lbrakk>i < length (threads c); t = threads c ! i; t_pc t = WDone; d_pc c = DLoop;
      q_del (t_evType t) (ev_queue (mngr c)) = (len, q)\<rbrakk> \<Longrightarrow>
    ev_step watch answer c ((set_thread i (t\<lparr>t_pc := WEnd\<rparr>) c)
      \<lparr>mngr := (mngr c)\<lparr>ev_queue := q,
         removingWatcherEvents := removeAll (t_evType t) (removingWatcherEvents (mngr c))\<rparr>,
       d_pc := DGot len\<rparr>)"
| done_checks: "d_pc c = DGot len \<Longrightarrow>
    ev_step watch answer c (c\<lparr>d_pc := if len > 0 then DLoop else if is_leaving c then DEnd else DSignalCtx\<rparr>)"
| done_to_ctx: "\<lbrakk>d_pc c = DSignalCtx; c_pc c = CSelect\<rbrakk> \<Longrightarrow>
    ev_step watch answer c ((set_leaving c)\<lparr>c_pc := CEnd, d_pc := DSignalCb\<rparr>)"
| done_to_callbacks: "\<lbrakk>d_pc c = DSignalCb; b_pc c = BSelect\<rbrakk> \<Longrightarrow>
    ev_step watch answer c (c\<lparr>b_pc := BEnd, d_pc := DEnd\<rparr>)"
| callback: "b_pc c = BHandle evType ev (s # subs) deleteMe \<Longrightarrow>
    ev_step watch answer c (c\<lparr>delivered := delivered c @ [(sub_cb s, evType, ev)],
      b_pc := BHandle evType ev subs (if answer s evType ev (length (delivered c)) then deleteMe else deleteMe @ [s])\<rparr>)"
| callbacks_over: "b_pc c = BHandle evType ev [] deleteMe \<Longrightarrow>
    ev_step watch answer c (c\<lparr>mngr := fold (\<lambda>s. unsubscribe evType (sub_cb s)) deleteMe (mngr c), b_pc := BSelect\<rparr>)"
| remove_next: "\<lbrakk>remover c = Some (RLoop ID (x # xs))\<rbrakk> \<Longrightarrow>
    ev_step watch answer c
      (if we_evType x \<in> set (removingWatcherEvents (mngr c)) \<or> w_ID (we_watcher x) \<noteq> ID then c\<lparr>remover := Some (RLoop ID xs)\<rparr>
       else c\<lparr>mngr := (mngr c)\<lparr>removingWatcherEvents := we_evType x # removingWatcherEvents (mngr c)\<rparr>,
              remover := Some (RSend (we_removed x) ID xs)\<rparr>)"
| remove_over: "remover c = Some (RLoop ID []) \<Longrightarrow> ev_step watch answer c (c\<lparr>remover := None\<rparr>)"
| remove_send: "\<lbrakk>remover c = Some (RSend a ID xs); i < length (threads c); t = threads c ! i; t_removed t = a; t_listening t\<rbrakk> \<Longrightarrow>
    ev_step watch answer c ((set_thread i (told t) c)\<lparr>remover := Some (RLoop ID xs)\<rparr>)"

inductive_cases ev_stepE: "ev_step watch answer c c'"

text \<open>A step, or the context of the agent is done.\<close>

definition ev_step_or_cancel :: "'d watch \<Rightarrow> ('u, 'd) answer \<Rightarrow> ('u, 'd) config \<Rightarrow> ('u, 'd) config \<Rightarrow> bool" where
  "ev_step_or_cancel watch answer c c' \<longleftrightarrow> ev_step watch answer c c' \<or> c' = c\<lparr>ctx_done := True\<rparr>"

section \<open>Without cancellation, \<open>Run\<close> returns\<close>

text \<open>The first call of a watcher's \<^verbatim>\<open>Run\<close> that asks for no renewal.\<close>

definition last_run :: "'d watch \<Rightarrow> wthread \<Rightarrow> nat" where
  "last_run watch t = (LEAST n. \<not> fst (watch (t_ID t) (t_evType t) n))"

definition stops :: "'d watch \<Rightarrow> wthread \<Rightarrow> bool" where
  "stops watch t \<longleftrightarrow> (\<exists>n. \<not> fst (watch (t_ID t) (t_evType t) n))"

definition at_run :: "'d watch \<Rightarrow> wthread \<Rightarrow> nat \<Rightarrow> bool" where
  "at_run watch t n \<longleftrightarrow> n \<le> last_run watch t"

fun t_ok_pc :: "'d watch \<Rightarrow> wthread \<Rightarrow> watcher_pc \<Rightarrow> bool" where
  "t_ok_pc watch t (WRun n) \<longleftrightarrow> t_listening t \<and> \<not> t_abort t \<and> at_run watch t n"
| "t_ok_pc watch t (WRet n) \<longleftrightarrow> t_listening t \<and> \<not> t_abort t \<and> at_run watch t n"
| "t_ok_pc watch t (WSend n) \<longleftrightarrow> t_listening t \<and> \<not> t_abort t \<and> at_run watch t n"
| "t_ok_pc watch t WFin \<longleftrightarrow> t_listening t \<and> \<not> t_abort t"
| "t_ok_pc watch t WRemoved \<longleftrightarrow> t_listening t \<and> \<not> t_abort t"
| "t_ok_pc watch t WDone \<longleftrightarrow> True"
| "t_ok_pc watch t WEnd \<longleftrightarrow> True"

definition t_ok :: "'d watch \<Rightarrow> wthread \<Rightarrow> bool" where
  "t_ok watch t \<longleftrightarrow> stops watch t \<and> t_ok_pc watch t (t_pc t)"

text \<open>The event types whose watchers are not gone.\<close>

definition active :: "wthread list \<Rightarrow> string set" where
  "active ts = {t_evType (ts ! i) | i. i < length ts \<and> t_pc (ts ! i) \<noteq> WEnd}"

fun phase_ok :: "('u, 'd) config \<Rightarrow> done_pc \<Rightarrow> bool" where
  "phase_ok c DLoop \<longleftrightarrow> c_pc c = CSelect \<and> b_pc c \<noteq> BEnd \<and> \<not> is_leaving c \<and> q_watchersMap (ev_queue (mngr c)) \<noteq> []"
| "phase_ok c (DGot n) \<longleftrightarrow> c_pc c = CSelect \<and> b_pc c \<noteq> BEnd \<and> \<not> is_leaving c \<and> n = length (q_watchersMap (ev_queue (mngr c)))"
| "phase_ok c DSignalCtx \<longleftrightarrow> c_pc c = CSelect \<and> b_pc c \<noteq> BEnd \<and> \<not> is_leaving c \<and> q_watchersMap (ev_queue (mngr c)) = []"
| "phase_ok c DSignalCb \<longleftrightarrow> c_pc c = CEnd \<and> b_pc c \<noteq> BEnd \<and> q_watchersMap (ev_queue (mngr c)) = []"
| "phase_ok c DEnd \<longleftrightarrow> c_pc c = CEnd \<and> b_pc c = BEnd \<and> q_watchersMap (ev_queue (mngr c)) = []"

definition ev_inv :: "'d watch \<Rightarrow> ('u, 'd) config \<Rightarrow> bool" where
  "ev_inv watch c \<longleftrightarrow> \<not> ctx_done c \<and> remover c = None \<and> (\<forall>t \<in> set (threads c). t_ok watch t) \<and>
     distinct (map t_evType (threads c)) \<and> set (q_watchersMap (ev_queue (mngr c))) = active (threads c) \<and>
     phase_ok c (d_pc c)"

lemma stops_last_run:
  "stops watch t \<Longrightarrow> \<not> fst (watch (t_ID t) (t_evType t) (last_run watch t))"
  unfolding stops_def last_run_def by (rule LeastI_ex)

lemma renew_at_run:
  assumes "stops watch t" and "at_run watch t n" and "fst (watch (t_ID t) (t_evType t) n)"
  shows "at_run watch t (Suc n)"
  using assms stops_last_run [OF assms(1)] unfolding at_run_def by (metis Suc_leI le_neq_implies_less)

lemma no_renew_last_run:
  assumes "at_run watch t n" and "\<not> fst (watch (t_ID t) (t_evType t) n)"
  shows "n = last_run watch t"
  using assms unfolding at_run_def last_run_def by (metis Least_le le_antisym)

lemma same_thread_simps [simp]:
  "last_run watch (t\<lparr>t_pc := p\<rparr>) = last_run watch t" "stops watch (t\<lparr>t_pc := p\<rparr>) = stops watch t"
  "last_run watch (told t) = last_run watch t" "stops watch (told t) = stops watch t"
  "at_run watch (t\<lparr>t_pc := p\<rparr>) n = at_run watch t n"
  by (simp_all add: last_run_def stops_def at_run_def)

lemma t_ok_pc_update [simp]: "t_ok_pc watch (t\<lparr>t_pc := p\<rparr>) q = t_ok_pc watch t q"
  by (cases q) simp_all

lemma ball_update:
  "\<forall>t \<in> set ts. P t \<Longrightarrow> P t' \<Longrightarrow> \<forall>t \<in> set (ts[i := t']). P t"
  using set_update_subset_insert by fastforce

lemma map_update_same:
  "t = ts ! i \<Longrightarrow> f t' = f t \<Longrightarrow> map f (ts[i := t']) = map f ts"
  by (metis list_update_id map_update)

lemma active_update:
  assumes "i < length ts" and "t = ts ! i" and "t_evType t' = t_evType t" and "t_pc t \<noteq> WEnd" and "t_pc t' \<noteq> WEnd"
  shows "active (ts[i := t']) = active ts"
  using assms unfolding active_def by (auto simp: nth_list_update split: if_splits)

lemma active_end:
  assumes "i < length ts" and "t = ts ! i" and "distinct (map t_evType ts)" and "t_pc t' = WEnd"
  shows "active (ts[i := t']) = active ts - {t_evType t}"
proof -
  have "t_evType (ts ! j) \<noteq> t_evType (ts ! i)" if "j < length ts" "j \<noteq> i" for j
    using assms(1,3) that by (simp add: distinct_conv_nth)
  then show ?thesis
    using assms unfolding active_def by (auto simp: nth_list_update split: if_splits) metis+
qed

lemma phase_ok_simps [simp]:
  "phase_ok (c\<lparr>threads := ts\<rparr>) p = phase_ok c p" "phase_ok (c\<lparr>delivered := l\<rparr>) p = phase_ok c p"
  "phase_ok (c\<lparr>d_pc := d\<rparr>) p = phase_ok c p"
  by (cases p; simp)+

lemma thread_update_inv:
  assumes "ev_inv watch c" and "i < length (threads c)" and "t = threads c ! i"
    and "t_evType t' = t_evType t" and "t_pc t \<noteq> WEnd" and "t_pc t' \<noteq> WEnd" and "t_ok watch t'"
  shows "ev_inv watch (set_thread i t' c)"
  using assms ball_update [of "threads c" "t_ok watch" t' i]
  by (simp add: ev_inv_def map_update_same active_update)

lemma thread_ok: "ev_inv watch c \<Longrightarrow> i < length (threads c) \<Longrightarrow> t_ok watch (threads c ! i)"
  by (simp add: ev_inv_def)

lemma thread_active:
  assumes "ev_inv watch c" and "i < length (threads c)" and "t_pc (threads c ! i) \<noteq> WEnd"
  shows "\<not> is_leaving c \<and> b_pc c \<noteq> BEnd \<and> c_pc c = CSelect"
proof -
  have "t_evType (threads c ! i) \<in> set (q_watchersMap (ev_queue (mngr c)))"
    using assms by (auto simp: ev_inv_def active_def)
  then show ?thesis
    using assms(1) by (cases "d_pc c") (auto simp: ev_inv_def)
qed

lemma unsubscribe_queue [simp]: "ev_queue (unsubscribe e a m) = ev_queue m"
  by (simp add: unsubscribe_def Let_def)

lemma fold_unsubscribe_queue [simp]: "ev_queue (fold (\<lambda>s. unsubscribe e (f s)) ss m) = ev_queue m"
  by (induction ss arbitrary: m) simp_all

lemma receive_not_end [simp]: "receive c e d \<noteq> BEnd"
  by (simp add: receive_def split: option.split)

text \<open>Every step keeps the invariant.\<close>

lemma pc_update_inv:
  assumes "ev_inv watch c" and "i < length (threads c)" and "t = threads c ! i" and "t_pc t \<noteq> WEnd" and "p \<noteq> WEnd"
    and "t_ok_pc watch t p"
  shows "ev_inv watch (set_thread i (t\<lparr>t_pc := p\<rparr>) c)"
  by (rule thread_update_inv [OF assms(1-3)]) (use assms thread_ok [OF assms(1,2)] in \<open>simp_all add: t_ok_def\<close>)

lemma phase_ok_b_pc: "b_pc c \<noteq> BEnd \<Longrightarrow> b \<noteq> BEnd \<Longrightarrow> phase_ok (c\<lparr>b_pc := b\<rparr>) p = phase_ok c p"
  by (cases p) simp_all

lemma b_pc_inv: "ev_inv watch c \<Longrightarrow> b_pc c \<noteq> BEnd \<Longrightarrow> b \<noteq> BEnd \<Longrightarrow> ev_inv watch (c\<lparr>b_pc := b\<rparr>)"
  by (simp add: ev_inv_def phase_ok_b_pc)

lemma phase_ok_queue: "ev_queue m = ev_queue (mngr c) \<Longrightarrow> phase_ok (c\<lparr>mngr := m\<rparr>) p = phase_ok c p"
  by (cases p) simp_all

lemma watcher_done_inv:
  assumes "ev_inv watch c" and "i < length (threads c)" and "t = threads c ! i" and "t_pc t = WDone"
    and "d_pc c = DLoop" and "q_del (t_evType t) (ev_queue (mngr c)) = (len, q)"
  shows "ev_inv watch ((set_thread i (t\<lparr>t_pc := WEnd\<rparr>) c)\<lparr>mngr := (mngr c)\<lparr>ev_queue := q,
           removingWatcherEvents := r\<rparr>, d_pc := DGot len\<rparr>)"
proof -
  have "t_ok watch (t\<lparr>t_pc := WEnd\<rparr>)"
    using thread_ok [OF assms(1,2)] assms(3) by (simp add: t_ok_def)
  with assms show ?thesis
    using ball_update [of "threads c" "t_ok watch" "t\<lparr>t_pc := WEnd\<rparr>" i]
    by (auto simp: ev_inv_def q_del_def Let_def map_update_same active_end)
qed

lemma phase_ok_c_pc: "phase_ok c p \<Longrightarrow> c_pc c \<noteq> CSend"
  by (cases p) simp_all

lemma ev_step_inv:
  assumes "ev_step watch answer c c'" and "ev_inv watch c"
  shows "ev_inv watch c'"
  using assms
proof (cases rule: ev_step.cases)
  case (watcher_returns i t n)
  then show ?thesis
    using thread_ok [OF assms(2), of i] by (simp add: pc_update_inv [OF assms(2)] t_ok_def)
next
  case (watcher_checks i t n)
  then show ?thesis
    using thread_ok [OF assms(2), of i] by (simp add: pc_update_inv [OF assms(2)] t_ok_def)
next
  case (data_bus i t n renew ev)
  then have ok: "t_ok watch t"
    using thread_ok [OF assms(2), of i] by simp
  have "ev_inv watch (set_thread i (t\<lparr>t_pc := if renew then WRun (Suc n) else WFin\<rparr>) c)"
    by (rule pc_update_inv [OF assms(2) data_bus(2,3)])
      (use data_bus ok renew_at_run [of watch t n] in \<open>simp_all add: t_ok_def\<close>)
  then show ?thesis
    unfolding data_bus(1) by (rule b_pc_inv) (simp_all add: data_bus)
next
  case (watcher_finishes i t)
  then show ?thesis
    using thread_ok [OF assms(2), of i] by (simp add: pc_update_inv [OF assms(2)] t_ok_def)
next
  case (own_removed i t)
  show ?thesis
    unfolding own_removed(1)
    by (rule thread_update_inv [OF assms(2) own_removed(2,3)])
      (use own_removed thread_ok [OF assms(2), of i] in \<open>simp_all add: t_ok_def\<close>)
next
  case (watcher_done i t len q)
  then show ?thesis
    using watcher_done_inv [OF assms(2)] by simp
next
  case (callback evType ev s subs deleteMe)
  then show ?thesis
    using assms(2) by (simp add: ev_inv_def phase_ok_b_pc)
next
  case (callbacks_over evType ev deleteMe)
  then show ?thesis
    using assms(2) by (simp add: ev_inv_def phase_ok_b_pc phase_ok_queue)
qed (use assms(2) in \<open>auto simp: ev_inv_def set_leaving_def dest: phase_ok_c_pc\<close>)

text \<open>Every step lowers the rank.\<close>

fun t_rank_pc :: "nat \<Rightarrow> watcher_pc \<Rightarrow> nat" where
  "t_rank_pc k (WRun n) = 3 * (k - n) + 6"
| "t_rank_pc k (WRet n) = 3 * (k - n) + 5"
| "t_rank_pc k (WSend n) = 3 * (k - n) + 4"
| "t_rank_pc k WFin = 3"
| "t_rank_pc k WRemoved = 2"
| "t_rank_pc k WDone = 1"
| "t_rank_pc k WEnd = 0"

definition t_rank :: "'d watch \<Rightarrow> wthread \<Rightarrow> nat" where
  "t_rank watch t = t_rank_pc (last_run watch t) (t_pc t)"

fun d_rank :: "done_pc \<Rightarrow> nat" where
  "d_rank (DGot n) = 3" | "d_rank DSignalCtx = 2" | "d_rank DSignalCb = 1" | "d_rank _ = 0"

fun b_rank :: "('u, 'd) cb_pc \<Rightarrow> nat" where
  "b_rank (BHandle e d subs del) = Suc (Suc (length subs))" | "b_rank BSelect = 1" | "b_rank BEnd = 0"

definition ev_rank :: "'d watch \<Rightarrow> (('u, 'd) config \<times> ('u, 'd) config) set" where
  "ev_rank watch = measures [\<lambda>c. sum_list (map (t_rank watch) (threads c)), \<lambda>c. d_rank (d_pc c), \<lambda>c. b_rank (b_pc c)]"

lemma thread_lower:
  assumes "i < length ts" and "t = ts ! i" and "t_rank watch t' < t_rank watch t"
  shows "sum_list (map (t_rank watch) (ts[i := t'])) < sum_list (map (t_rank watch) ts)"
proof -
  have "map (t_rank watch) ts ! i \<le> sum_list (map (t_rank watch) ts)"
    using assms(1) by (intro member_le_sum_list) simp_all
  then show ?thesis
    using assms by (simp add: map_update sum_list_update)
qed

lemma thread_step_rank:
  assumes "i < length (threads c)" and "t = threads c ! i" and "t_rank watch t' < t_rank watch t"
    and "threads c' = (threads c)[i := t']"
  shows "(c', c) \<in> ev_rank watch"
  using thread_lower [OF assms(1-3)] by (simp add: ev_rank_def assms(4))

lemma ev_step_rank:
  assumes "ev_step watch answer c c'" and "ev_inv watch c"
  shows "(c', c) \<in> ev_rank watch"
  using assms
proof (cases rule: ev_step.cases)
  case (watcher_returns i t n)
  show ?thesis
    by (rule thread_step_rank [OF watcher_returns(2,3), where t' = "t\<lparr>t_pc := WRet n\<rparr>"])
      (use watcher_returns in \<open>simp_all add: t_rank_def\<close>)
next
  case (watcher_checks i t n)
  show ?thesis
    by (rule thread_step_rank [OF watcher_checks(2,3), where t' = "t\<lparr>t_pc := if t_abort t \<or> is_leaving c then WFin else WSend n\<rparr>"])
      (use watcher_checks in \<open>simp_all add: t_rank_def\<close>)
next
  case (data_bus i t n renew ev)
  have "t_ok watch t"
    using thread_ok [OF assms(2)] data_bus by simp
  then have "t_rank watch (t\<lparr>t_pc := if renew then WRun (Suc n) else WFin\<rparr>) < t_rank watch t"
    using data_bus renew_at_run [of watch t n] by (auto simp: t_ok_def t_rank_def at_run_def)
  then show ?thesis
    by (rule thread_step_rank [OF data_bus(2,3)]) (simp add: data_bus(1))
next
  case (watcher_finishes i t)
  show ?thesis
    by (rule thread_step_rank [OF watcher_finishes(2,3), where t' = "t\<lparr>t_pc := if t_abort t then WDone else WRemoved\<rparr>"])
      (use watcher_finishes in \<open>simp_all add: t_rank_def\<close>)
next
  case (own_removed i t)
  show ?thesis
    by (rule thread_step_rank [OF own_removed(2,3), where t' = "(told t)\<lparr>t_pc := WDone\<rparr>"])
      (use own_removed in \<open>simp_all add: t_rank_def\<close>)
next
  case (watcher_done i t len q)
  show ?thesis
    by (rule thread_step_rank [OF watcher_done(2,3), where t' = "t\<lparr>t_pc := WEnd\<rparr>"])
      (use watcher_done in \<open>simp_all add: t_rank_def\<close>)
qed (use assms(2) in \<open>auto simp: ev_rank_def ev_inv_def set_leaving_def dest: phase_ok_c_pc\<close>)

lemma ev_stuck:
  assumes "ev_inv watch c" and "\<forall>c'. \<not> ev_step watch answer c c'"
  shows "returned c"
proof -
  have b: "b_pc c = BSelect" if "b_pc c \<noteq> BEnd"
    using assms(2) that ev_step.callback ev_step.callbacks_over by (metis cb_pc.exhaust list.exhaust)
  have t: "t_pc (threads c ! i) = WEnd" if i: "i < length (threads c)" and "d_pc c = DLoop" for i
  proof (rule ccontr)
    assume e: "t_pc (threads c ! i) \<noteq> WEnd"
    from thread_active [OF assms(1) i e] b have "b_pc c = BSelect"
      by blast
    moreover have "t_ok watch (threads c ! i)"
      using thread_ok [OF assms(1) i] .
    ultimately show False
      using assms(2) e i \<open>d_pc c = DLoop\<close>
        ev_step.watcher_returns [OF i refl, of _ watch answer] ev_step.watcher_checks [OF i refl, of _ watch answer]
        ev_step.data_bus [OF i refl, of _ watch _ _ answer] ev_step.watcher_finishes [OF i refl, of watch answer]
        ev_step.own_removed [OF i refl, of watch answer] ev_step.watcher_done [OF i refl, of _ _ watch answer]
      by (cases "t_pc (threads c ! i)") (auto simp: t_ok_def, (metis prod.exhaust)+)
  qed
  show ?thesis
  proof (cases "d_pc c")
    case DLoop
    then have "active (threads c) = {}"
      using t by (auto simp: active_def)
    then show ?thesis
      using assms(1) DLoop by (auto simp: ev_inv_def)
  next
    case (DGot n)
    then show ?thesis
      using assms(2) ev_step.done_checks by blast
  next
    case DSignalCtx
    then show ?thesis
      using assms ev_step.done_to_ctx by (metis ev_inv_def phase_ok.simps(3))
  next
    case DSignalCb
    then show ?thesis
      using assms b ev_step.done_to_callbacks by (metis ev_inv_def phase_ok.simps(4))
  next
    case DEnd
    then show ?thesis
      using assms(1) by (simp add: ev_inv_def returned_def)
  qed
qed

interpretation run_ends: ends_well "ev_step watch answer" "ev_inv watch" "ev_rank watch" returned
  by unfold_locales (simp add: ev_rank_def, blast intro: ev_step_inv, blast intro: ev_step_rank, blast intro: ev_stuck)

text \<open>A manager on which only \<^verbatim>\<open>AddWatcher\<close> and \<^verbatim>\<open>Subscribe\<close> were called is ready to run.\<close>

definition ready :: "'d watch \<Rightarrow> 'u Manager \<Rightarrow> bool" where
  "ready watch m \<longleftrightarrow> \<not> ev_running m \<and> ev_queue m = \<lparr>q_watchersMap = [], leaving = False\<rparr> \<and> watcherEvents m \<noteq> [] \<and>
     distinct (map we_evType (watcherEvents m)) \<and>
     (\<forall>x \<in> set (watcherEvents m). \<exists>n. \<not> fst (watch (w_ID (we_watcher x)) (we_evType x) n))"

lemma fold_q_add:
  "set (q_watchersMap (fold q_add es q)) = set es \<union> set (q_watchersMap q)"
  "leaving (fold q_add es q) = leaving q"
  by (induction es arbitrary: q) (auto simp: q_add_def)

lemma active_all: "\<forall>t \<in> set ts. t_pc t \<noteq> WEnd \<Longrightarrow> active ts = t_evType ` set ts"
  unfolding active_def by (force simp: in_set_conv_nth)

lemma ready_inv:
  assumes "ready watch m" and "Run (fresh_config m) = (None, c)"
  shows "ev_inv watch c"
proof -
  let ?ts = "map (\<lambda>x. runWatcher (w_ID (we_watcher x)) (we_evType x) (we_removed x)) (watcherEvents m)"
  have "set (q_watchersMap (fold q_add (map we_evType (watcherEvents m)) (ev_queue m))) = active ?ts"
    using assms(1) by (simp add: fold_q_add(1) ready_def active_all runWatcher_def image_image)
  then show ?thesis
    using assms fold_q_add [of "map we_evType (watcherEvents m)" "ev_queue m"]
    by (auto simp: Run_def fresh_config_def Let_def ev_inv_def ready_def t_ok_def stops_def at_run_def runWatcher_def
        q_length_def comp_def split: if_splits)
qed

section \<open>What the subscribers receive\<close>

lemma subs_of_unsubscribe:
  "subs_of (unsubscribe e a m) e' = (if e' = e then filter (\<lambda>c. sub_cb c \<noteq> a) (subs_of m e) else subs_of m e')"
  by (simp add: unsubscribe_def Let_def subs_of_def AList.update_conv' AList.delete_conv')

lemma subs_of_unsubscribe_all:
  "subs_of (fold (\<lambda>s. unsubscribe e (sub_cb s)) del m) e' =
     (if e' = e then filter (\<lambda>c. sub_cb c \<notin> sub_cb ` set del) (subs_of m e) else subs_of m e')"
  by (induction del arbitrary: m) (auto simp: subs_of_unsubscribe intro: filter_cong)

lemma receive_subscribed:
  "s \<in> set (subs_of (mngr c) e) \<Longrightarrow> receive c e d = BHandle e d (subs_of (mngr c) e) []"
  by (cases "map_of (subscribers (mngr c)) e") (auto simp: receive_def subs_of_def)

definition received :: "nat \<Rightarrow> string \<Rightarrow> (nat \<times> string \<times> 'd EventData) list \<Rightarrow> 'd EventData list" where
  "received cb evType l = map (snd \<circ> snd) (filter (\<lambda>x. fst x = cb \<and> fst (snd x) = evType) l)"

definition outputs :: "'d watch \<Rightarrow> wthread \<Rightarrow> nat \<Rightarrow> 'd EventData list" where
  "outputs watch t n = map (\<lambda>j. snd (watch (t_ID t) (t_evType t) j)) [0..<n]"

fun sent_pc :: "nat \<Rightarrow> watcher_pc \<Rightarrow> nat" where
  "sent_pc k (WRun n) = n" | "sent_pc k (WRet n) = n" | "sent_pc k (WSend n) = n" | "sent_pc k _ = Suc k"

fun pending :: "'u eventSubscriber \<Rightarrow> string \<Rightarrow> ('u, 'd) cb_pc \<Rightarrow> 'd EventData list" where
  "pending s ev (BHandle e d rest del) = (if e = ev \<and> s \<in> set rest then [d] else [])"
| "pending s ev _ = []"

fun handler_ok :: "'u eventSubscriber \<Rightarrow> string \<Rightarrow> ('u, 'd) cb_pc \<Rightarrow> bool" where
  "handler_ok s ev (BHandle e d rest del) \<longleftrightarrow> e = ev \<longrightarrow>
     distinct (map sub_cb rest) \<and> (\<forall>x \<in> set rest. sub_cb x = sub_cb s \<longrightarrow> x = s) \<and> sub_cb s \<notin> sub_cb ` set del"
| "handler_ok s ev _ \<longleftrightarrow> True"

text \<open>
  For the thread at an index and a subscriber of its events: what the subscriber received, with the
  event on its way to it, is what the watcher sent.
\<close>

definition log_inv :: "'d watch \<Rightarrow> nat \<Rightarrow> string \<Rightarrow> string \<Rightarrow> 'u eventSubscriber \<Rightarrow> ('u, 'd) config \<Rightarrow> bool" where
  "log_inv watch i ID ev s c \<longleftrightarrow> i < length (threads c) \<and> t_evType (threads c ! i) = ev \<and> t_ID (threads c ! i) = ID \<and>
     s \<in> set (subs_of (mngr c) ev) \<and> distinct (map sub_cb (subs_of (mngr c) ev)) \<and> handler_ok s ev (b_pc c) \<and>
     received (sub_cb s) ev (delivered c) @ pending s ev (b_pc c) =
       outputs watch (threads c ! i) (sent_pc (last_run watch (threads c ! i)) (t_pc (threads c ! i)))"

lemma outputs_pc [simp]: "outputs watch (t\<lparr>t_pc := p\<rparr>) = outputs watch t" "outputs watch (told t) = outputs watch t"
  by (simp_all add: outputs_def fun_eq_iff)

lemma thread_log_inv:
  assumes "log_inv watch i ID ev s c" and "j < length (threads c)" and "t = threads c ! j"
    and "t_evType t' = t_evType t" and "t_ID t' = t_ID t" and "sent_pc (last_run watch t) (t_pc t') = sent_pc (last_run watch t) (t_pc t)"
  shows "log_inv watch i ID ev s (set_thread j t' c)"
proof -
  have "last_run watch t' = last_run watch t" and "outputs watch t' = outputs watch t"
    using assms(4,5) by (simp_all add: last_run_def outputs_def fun_eq_iff)
  with assms show ?thesis
    by (cases "j = i") (simp_all add: log_inv_def nth_list_update)
qed

lemma inj_cb:
  "distinct (map sub_cb ss) \<Longrightarrow> s \<in> set ss \<Longrightarrow> x \<in> set ss \<Longrightarrow> sub_cb x = sub_cb s \<Longrightarrow> x = s"
  by (meson distinct_map inj_onD)

lemma data_bus_log:
  assumes "log_inv watch i ID ev s c" and "ev_inv watch c" and "j < length (threads c)" and "t = threads c ! j"
    and "t_pc t = WSend n" and "b_pc c = BSelect" and "watch (t_ID t) (t_evType t) n = (renew, d)"
  shows "log_inv watch i ID ev s ((set_thread j (t\<lparr>t_pc := if renew then WRun (Suc n) else WFin\<rparr>) c)
           \<lparr>b_pc := receive c (t_evType t) d\<rparr>)"
proof (cases "j = i")
  case True
  have "t_ok watch t"
    using thread_ok [OF assms(2,3)] assms(4) by simp
  then have "\<not> renew \<Longrightarrow> n = last_run watch t"
    using no_renew_last_run [of watch t n] assms(5,7) by (simp add: t_ok_def)
  then have "sent_pc (last_run watch t) (if renew then WRun (Suc n) else WFin) = Suc n"
    by simp
  with True assms inj_cb show ?thesis
    by (auto simp: log_inv_def receive_subscribed outputs_def nth_list_update split del: if_split)
next
  case False
  have "t_evType t \<noteq> ev"
    using False assms(1-4) by (auto simp: log_inv_def ev_inv_def distinct_conv_nth)
  then show ?thesis
    using False assms by (auto simp: log_inv_def receive_def nth_list_update split: option.split)
qed

lemma callback_log:
  assumes "handler_ok s ev (BHandle e d (x # rest) del)"
  shows "received (sub_cb s) ev (l @ [(sub_cb x, e, d)]) @ pending s ev (BHandle e d rest del') =
         received (sub_cb s) ev l @ pending s ev (BHandle e d (x # rest) del)"
  using assms by (cases "x = s") (auto simp: received_def)

lemma log_step:
  assumes "ev_step watch answer c c'" and "ev_inv watch c" and "log_inv watch i ID ev s c"
    and "\<forall>d k. answer s ev d k"
  shows "log_inv watch i ID ev s c'"
  using assms(1)
proof (cases rule: ev_step.cases)
  case (watcher_returns j t n)
  show ?thesis
    unfolding watcher_returns(1) by (rule thread_log_inv [OF assms(3) watcher_returns(2,3)]) (simp_all add: watcher_returns(4))
next
  case (watcher_checks j t n)
  have "t_ok watch t"
    using thread_ok [OF assms(2)] watcher_checks by simp
  moreover have "\<not> is_leaving c"
    using thread_active [OF assms(2) watcher_checks(2)] watcher_checks by simp
  ultimately show ?thesis
    unfolding watcher_checks(1)
    by (intro thread_log_inv [OF assms(3) watcher_checks(2,3)]) (simp_all add: watcher_checks(4) t_ok_def)
next
  case (data_bus j t n renew d)
  then show ?thesis
    using data_bus_log [OF assms(3,2)] by blast
next
  case (watcher_finishes j t)
  show ?thesis
    unfolding watcher_finishes(1) by (rule thread_log_inv [OF assms(3) watcher_finishes(2,3)]) (simp_all add: watcher_finishes(4))
next
  case (own_removed j t)
  show ?thesis
    unfolding own_removed(1) by (rule thread_log_inv [OF assms(3) own_removed(2,3)]) (simp_all add: own_removed(4))
next
  case (watcher_done j t len q)
  have "log_inv watch i ID ev s (set_thread j (t\<lparr>t_pc := WEnd\<rparr>) c)"
    by (rule thread_log_inv [OF assms(3) watcher_done(2,3)]) (simp_all add: watcher_done(4))
  then show ?thesis
    by (simp add: watcher_done(1) log_inv_def subs_of_def)
next
  case (callback e d x rest del)
  then show ?thesis
    using assms(3,4) callback_log [of s ev e d x rest del "delivered c"]
    by (auto simp: log_inv_def simp del: pending.simps)
next
  case (callbacks_over e d del)
  then show ?thesis
    using assms(3) by (auto simp: log_inv_def subs_of_unsubscribe_all distinct_map_filter)
qed (use assms(2,3) in \<open>auto simp: ev_inv_def log_inv_def set_leaving_def subs_of_def dest: phase_ok_c_pc\<close>)

lemma log_reachable:
  assumes "(ev_step watch answer)\<^sup>*\<^sup>* c0 c" and "ev_inv watch c0" and "log_inv watch i ID ev s c0"
    and "\<forall>d k. answer s ev d k"
  shows "log_inv watch i ID ev s c"
  using assms(1) by (induction rule: rtranclp_induct) (use assms log_step run_ends.inv_reachable in \<open>blast+\<close>)

lemma Run_log_inv:
  assumes "ready watch m" and "Run (fresh_config m) = (None, c0)" and "i < length (watcherEvents m)"
    and "ev = we_evType (watcherEvents m ! i)"
    and "s \<in> set (subs_of m ev)" and "distinct (map sub_cb (subs_of m ev))"
  shows "log_inv watch i (w_ID (we_watcher (watcherEvents m ! i))) ev s c0"
  using assms
  by (auto simp: Run_def fresh_config_def Let_def ready_def log_inv_def runWatcher_def received_def outputs_def subs_of_def)

lemma returned_all_gone:
  assumes "ev_inv watch c" and "returned c" and "i < length (threads c)"
  shows "t_pc (threads c ! i) = WEnd"
  using assms by (auto simp: ev_inv_def returned_def active_def)

section \<open>Cancellation\<close>

text \<open>
  The callback handler is gone, and the first watcher waits to send to it. Its event type stays in
  the queue, so the goroutine that counts the watchers waits for it.
\<close>

definition abandoned :: "('u, 'd) config \<Rightarrow> bool" where
  "abandoned c \<longleftrightarrow> b_pc c = BEnd \<and> threads c \<noteq> [] \<and> (\<exists>n. t_pc (threads c ! 0) = WSend n) \<and>
     t_evType (threads c ! 0) \<in> set (q_watchersMap (ev_queue (mngr c))) \<and> distinct (map t_evType (threads c)) \<and>
     remover c = None \<and> (d_pc c = DLoop \<or> (\<exists>n. d_pc c = DGot (Suc n)))"

lemma abandoned_thread:
  assumes "abandoned c" and "i < length (threads c)" and "t = threads c ! i" and "i \<noteq> 0" and "t_evType t' = t_evType t"
  shows "abandoned (set_thread i t' c)"
  using assms by (simp add: abandoned_def map_update_same)

lemma abandoned_done:
  assumes "abandoned c" and "i < length (threads c)" and "t = threads c ! i" and "i \<noteq> 0"
    and "q_del (t_evType t) (ev_queue (mngr c)) = (len, q)"
  shows "abandoned ((set_thread i (t\<lparr>t_pc := WEnd\<rparr>) c)\<lparr>mngr := (mngr c)\<lparr>ev_queue := q, removingWatcherEvents := r\<rparr>, d_pc := DGot len\<rparr>)"
proof -
  have "t_evType (threads c ! 0) \<noteq> t_evType t"
    using assms(1-4) by (auto simp: abandoned_def distinct_conv_nth)
  then have "t_evType (threads c ! 0) \<in> set (q_watchersMap q)"
    using assms(1,5) by (auto simp: abandoned_def q_del_def Let_def)
  moreover have "len = length (q_watchersMap q)"
    using assms(5) by (auto simp: q_del_def Let_def)
  ultimately show ?thesis
    using assms(1-4) by (cases "q_watchersMap q") (auto simp: abandoned_def map_update_same)
qed

lemma abandoned_pos: "abandoned c \<Longrightarrow> t = threads c ! i \<Longrightarrow> \<forall>n. t_pc t \<noteq> WSend n \<Longrightarrow> i \<noteq> 0"
  unfolding abandoned_def by metis

lemma abandoned_cancel [simp]: "abandoned (c\<lparr>ctx_done := b\<rparr>) = abandoned c"
  by (simp add: abandoned_def)

lemma abandoned_step:
  assumes "abandoned c" and "ev_step watch answer c c'"
  shows "abandoned c'"
  using assms(2)
proof (cases rule: ev_step.cases)
  case (watcher_returns i t n)
  show ?thesis
    unfolding watcher_returns(1)
    by (rule abandoned_thread [OF assms(1) watcher_returns(2,3) abandoned_pos [OF assms(1) watcher_returns(3)]]) (simp_all add: watcher_returns(4))
next
  case (watcher_checks i t n)
  show ?thesis
    unfolding watcher_checks(1)
    by (rule abandoned_thread [OF assms(1) watcher_checks(2,3) abandoned_pos [OF assms(1) watcher_checks(3)]]) (simp_all add: watcher_checks(4))
next
  case (watcher_finishes i t)
  show ?thesis
    unfolding watcher_finishes(1)
    by (rule abandoned_thread [OF assms(1) watcher_finishes(2,3) abandoned_pos [OF assms(1) watcher_finishes(3)]]) (simp_all add: watcher_finishes(4))
next
  case (own_removed i t)
  show ?thesis
    unfolding own_removed(1)
    by (rule abandoned_thread [OF assms(1) own_removed(2,3) abandoned_pos [OF assms(1) own_removed(3)]]) (simp_all add: own_removed(4))
next
  case (watcher_done i t len q)
  show ?thesis
    unfolding watcher_done(1)
    by (rule abandoned_done [OF assms(1) watcher_done(2,3) abandoned_pos [OF assms(1) watcher_done(3)] watcher_done(6)])
      (simp add: watcher_done(4))
qed (use assms(1) in \<open>auto simp: abandoned_def set_leaving_def\<close>)

lemma abandoned_never_returns:
  assumes "(ev_step_or_cancel watch answer)\<^sup>*\<^sup>* c c'" and "abandoned c"
  shows "\<not> returned c'"
proof -
  have "abandoned c'"
    using assms(1)
  proof (induction rule: rtranclp_induct)
    case base
    show ?case by (rule assms(2))
  next
    case (step c1 c2)
    then show ?case
      using abandoned_step unfolding ev_step_or_cancel_def by auto
  qed
  then show ?thesis
    by (auto simp: abandoned_def returned_def)
qed

lemma Run_abandoned:
  assumes "ready watch m" and "Run (fresh_config m) = (None, c0)"
  shows "\<exists>c. (ev_step_or_cancel watch answer)\<^sup>*\<^sup>* c0 c \<and> abandoned c"
proof -
  let ?R = "ev_step_or_cancel watch answer"
  have inv: "ev_inv watch c0" and t0: "threads c0 \<noteq> []" "t_pc (threads c0 ! 0) = WRun 0"
    and pcs: "c_pc c0 = CSelect" "b_pc c0 = BSelect" "\<not> is_leaving c0"
    using ready_inv [OF assms] assms fold_q_add(2) [of "map we_evType (watcherEvents m)" "ev_queue m"]
    by (auto simp: Run_def fresh_config_def Let_def ready_def runWatcher_def split: if_splits)
  let ?t = "threads c0 ! 0"
  let ?c1 = "set_thread 0 (?t\<lparr>t_pc := WRet 0\<rparr>) c0"
  let ?c2 = "set_thread 0 (?t\<lparr>t_pc := WSend 0\<rparr>) c0"
  let ?c3 = "?c2\<lparr>ctx_done := True\<rparr>"
  let ?c4 = "(set_leaving ?c3)\<lparr>c_pc := CSend\<rparr>"
  let ?c5 = "?c4\<lparr>c_pc := CEnd, b_pc := BEnd\<rparr>"
  have ok: "t_ok watch ?t"
    using thread_ok [OF inv, of 0] t0 by simp
  have 1: "?R c0 ?c1"
    unfolding ev_step_or_cancel_def using ev_step.watcher_returns [of 0 c0 ?t 0] t0 by simp
  have 2: "?R ?c1 ?c2"
    unfolding ev_step_or_cancel_def using ev_step.watcher_checks [of 0 ?c1 "?t\<lparr>t_pc := WRet 0\<rparr>" 0] t0 pcs ok
    by (simp add: t_ok_def)
  have 3: "?R ?c2 ?c3"
    by (simp add: ev_step_or_cancel_def)
  have 4: "?R ?c3 ?c4"
    unfolding ev_step_or_cancel_def using ev_step.ctx_handler [of ?c3] pcs by simp
  have 5: "?R ?c4 ?c5"
    unfolding ev_step_or_cancel_def using ev_step.ctx_to_callbacks [of ?c4] pcs by (simp add: set_leaving_def)
  have "t_evType ?t \<in> set (q_watchersMap (ev_queue (mngr c0)))"
    using inv t0 by (auto simp: ev_inv_def active_def)
  then have "abandoned ?c5"
    using inv t0 assms by (auto simp: abandoned_def set_leaving_def ev_inv_def map_update_same Run_def fresh_config_def Let_def
        q_length_def split: if_splits)
  moreover have "?R\<^sup>*\<^sup>* c0 ?c5"
    using 1 2 3 4 5 by (meson converse_rtranclp_into_rtranclp r_into_rtranclp)
  ultimately show ?thesis
    by blast
qed

section \<open>Properties\<close>

text \<open>
  C3: if nobody cancels the context or removes a watcher, and every watcher at some time asks for no
  renewal, then \<^verbatim>\<open>Run\<close> returns: no schedule of its goroutines goes on for ever, and one that can go no
  further has all three of them finished (there is no deadlock), whatever the watchers report and
  the callbacks answer.
\<close>

theorem events_Run_returns:
  assumes "ready watch m" and "Run (fresh_config m) = (None, c0)"
  shows "(\<nexists>\<sigma>. \<sigma> 0 = c0 \<and> (\<forall>i. ev_step watch answer (\<sigma> i) (\<sigma> (Suc i)))) \<and>
     (\<forall>c. (ev_step watch answer)\<^sup>*\<^sup>* c0 c \<and> (\<forall>c'. \<not> ev_step watch answer c c') \<longrightarrow> returned c)"
  using run_ends.no_infinite_run [OF ready_inv [OF assms]] run_ends.stuck_is_outcome [OF ready_inv [OF assms]] by blast

definition demo_manager :: "nat Manager" where
  "demo_manager = Subscribe ''e'' 0 (mngr (snd (AddWatcher \<lparr>w_ID = ''w'', w_Events = [''e'']\<rparr> (fresh_config newManager :: (nat, nat) config))))"

definition demo_watch :: "nat watch" where
  "demo_watch = (\<lambda>ID ev n. (n < 2, \<lparr>ev_Data = n, ev_Error = None\<rparr>))"

lemma demo_ready: "ready demo_watch demo_manager"
  by (auto simp: ready_def demo_manager_def demo_watch_def Subscribe_def AddWatcher_def fresh_config_def newManager_def Let_def)

lemma demo_Run: "Run (fresh_config demo_manager) = (None, snd (Run (fresh_config demo_manager)))"
  by (simp add: Run_def demo_manager_def Subscribe_def AddWatcher_def fresh_config_def newManager_def Let_def)

theorem events_Run_returns_witness:
  "(\<nexists>\<sigma>. \<sigma> 0 = snd (Run (fresh_config demo_manager)) \<and> (\<forall>i. ev_step demo_watch (\<lambda>s e d k. True) (\<sigma> i) (\<sigma> (Suc i))))"
  by (rule events_Run_returns [OF demo_ready demo_Run, THEN conjunct1])

text \<open>
  C8: a subscriber that always renews has received, when \<^verbatim>\<open>Run\<close> has returned, every event of the
  watcher of its event type, once each, in the order in which the watcher reported them, the last
  being the first for which the watcher asked for no renewal.
\<close>

theorem events_delivered:
  assumes "ready watch m" and "Run (fresh_config m) = (None, c0)" and "x \<in> set (watcherEvents m)"
    and "s \<in> set (subs_of m (we_evType x))" and "distinct (map sub_cb (subs_of m (we_evType x)))"
    and "\<forall>d k. answer s (we_evType x) d k"
    and "(ev_step watch answer)\<^sup>*\<^sup>* c0 c" and "returned c"
    and "out = watch (w_ID (we_watcher x)) (we_evType x)"
  shows "received (sub_cb s) (we_evType x) (delivered c) = map (\<lambda>j. snd (out j)) [0..<Suc (LEAST n. \<not> fst (out n))]"
proof -
  obtain i where i: "i < length (watcherEvents m)" and x: "x = watcherEvents m ! i"
    using assms(3) by (auto simp: in_set_conv_nth)
  have inv: "ev_inv watch c"
    by (rule run_ends.inv_reachable [OF assms(7) ready_inv [OF assms(1,2)]])
  have l: "log_inv watch i (w_ID (we_watcher x)) (we_evType x) s c"
    using log_reachable [OF assms(7) ready_inv [OF assms(1,2)] Run_log_inv [OF assms(1,2) i refl]] assms(4-6)
    by (simp add: x)
  moreover have "t_pc (threads c ! i) = WEnd"
    using returned_all_gone [OF inv assms(8)] l by (simp add: log_inv_def)
  ultimately show ?thesis
    using assms(8) by (simp add: log_inv_def returned_def outputs_def last_run_def assms(9))
qed

theorem events_delivered_witness:
  "\<exists>c. (ev_step demo_watch (\<lambda>s e d k. True))\<^sup>*\<^sup>* (snd (Run (fresh_config demo_manager))) c \<and> returned c \<and>
     map ev_Data (received 1 ''e'' (delivered c)) = [0, 1, 2]"
proof -
  let ?c0 = "snd (Run (fresh_config demo_manager))"
  let ?s = "\<lparr>sub_data = (0 :: nat), sub_cb = 1\<rparr>"
  let ?x = "\<lparr>we_watcher = \<lparr>w_ID = ''w'', w_Events = [''e'']\<rparr>, we_evType = ''e'', we_removed = 0\<rparr>"
  obtain c where c: "(ev_step demo_watch (\<lambda>s e d k. True))\<^sup>*\<^sup>* ?c0 c" "returned c"
    using run_ends.outcome_reachable [OF ready_inv [OF demo_ready demo_Run], of "\<lambda>s e d k. True"] by (elim exE conjE) (rule that)
  have l: "(LEAST n. \<not> fst (demo_watch ''w'' ''e'' n)) = 2"
    unfolding demo_watch_def by (rule Least_equality) auto
  have u: "[0..<Suc 2] = [0, 1, 2 :: nat]"
    by (simp add: numeral_2_eq_2)
  have "received (sub_cb ?s) (we_evType ?x) (delivered c) =
      map (\<lambda>j. snd (demo_watch ''w'' ''e'' j)) [0..<Suc (LEAST n. \<not> fst (demo_watch ''w'' ''e'' n))]"
    by (rule events_delivered [where x = ?x and s = ?s and out = "demo_watch ''w'' ''e''", OF demo_ready demo_Run _ _ _ _ c])
      (simp_all add: demo_manager_def Subscribe_def AddWatcher_def fresh_config_def newManager_def Let_def subs_of_def)
  then have "map ev_Data (received 1 ''e'' (delivered c)) = [0, 1, 2]"
    unfolding l u by (simp add: demo_watch_def)
  with c show ?thesis
    by (intro exI [of _ c] conjI)
qed

text \<open>
  C38: if the context is cancelled, \<^verbatim>\<open>Run\<close> may wait for ever: a schedule leads to a configuration from
  which no schedule returns. The callback handler has left while a watcher that was past its check
  of \<^verbatim>\<open>leaving\<close> sends to it.
\<close>

theorem events_cancel_can_block:
  assumes "ready watch m" and "Run (fresh_config m) = (None, c0)"
  shows "\<exists>c. (ev_step_or_cancel watch answer)\<^sup>*\<^sup>* c0 c \<and>
     (\<forall>c'. (ev_step_or_cancel watch answer)\<^sup>*\<^sup>* c c' \<longrightarrow> \<not> returned c')"
proof -
  obtain c where "(ev_step_or_cancel watch answer)\<^sup>*\<^sup>* c0 c" and "abandoned c"
    using Run_abandoned [OF assms] by blast
  then show ?thesis
    by (intro exI [of _ c] conjI allI impI) (assumption, rule abandoned_never_returns)
qed

theorem events_cancel_can_block_witness:
  "\<exists>c. (ev_step_or_cancel demo_watch (\<lambda>s e d k. True))\<^sup>*\<^sup>* (snd (Run (fresh_config demo_manager))) c \<and> \<not> returned c"
  using events_cancel_can_block [OF demo_ready demo_Run, of "\<lambda>s e d k. True"] by (elim exE conjE) blast

text \<open>The addresses handed out so far are below the next one; every call keeps that.\<close>

definition addresses_ok :: "'u Manager \<Rightarrow> bool" where
  "addresses_ok m \<longleftrightarrow> (\<forall>e. \<forall>s \<in> set (subs_of m e). sub_cb s < next_addr m)"

lemma addresses_ok_new: "addresses_ok newManager"
  by (simp add: addresses_ok_def newManager_def subs_of_def)

lemma addresses_ok_Subscribe: "addresses_ok m \<Longrightarrow> addresses_ok (Subscribe e d m)"
  by (auto simp: addresses_ok_def Subscribe_def subs_of_def AList.update_conv' less_Suc_eq split: if_splits)

text \<open>
  \<^verbatim>\<open>Unsubscribe\<close> removes nothing: it compares the address of its own parameter with those of the
  subscriptions, and they are never equal.
\<close>

theorem Unsubscribe_keeps:
  assumes "addresses_ok m"
  shows "subs_of (Unsubscribe e m) = subs_of m"
proof
  fix e'
  have "subs_of (m\<lparr>next_addr := Suc (next_addr m)\<rparr>) = subs_of m"
    by (simp add: subs_of_def fun_eq_iff)
  moreover have "filter (\<lambda>c. sub_cb c \<noteq> next_addr m) (subs_of m e) = subs_of m e"
    using assms by (intro filter_True) (force simp: addresses_ok_def)
  ultimately show "subs_of (Unsubscribe e m) e' = subs_of m e'"
    by (simp add: Unsubscribe_def subs_of_unsubscribe)
qed

theorem Unsubscribe_keeps_witness:
  "subs_of (Unsubscribe ''e'' (Subscribe ''e'' (7 :: nat) newManager)) ''e'' = [\<lparr>sub_data = 7, sub_cb = 0\<rparr>]"
  using Unsubscribe_keeps [OF addresses_ok_Subscribe [OF addresses_ok_new], of "''e''" "''e''" "7 :: nat"]
  by (simp add: subs_of_def Subscribe_def newManager_def)

end
