(* ===== verification/Watchers.thy ===== *)
theory Watchers
  imports MdsClient Run Events
begin

text \<open>
  The two watchers the events manager starts with: \<^verbatim>\<open>events/metadata/metadata.go\<close>, which waits for a
  change of the metadata, and \<^verbatim>\<open>events/gracefulshutdown/gracefulshutdown.go\<close>, which waits for the
  state of a graceful shutdown and starts the scripts for it.
\<close>

section \<open>Metadata\<close>

definition metadata_WatcherID :: string where
  "metadata_WatcherID = ''metadata-watcher''"

definition LongpollEvent :: string where
  "LongpollEvent = ''metadata-watcher,longpoll''"

definition metadata_watcher :: Watcher where
  "metadata_watcher = \<lparr>w_ID = metadata_WatcherID, w_Events = [LongpollEvent]\<rparr>"

text \<open>
  The field \<^verbatim>\<open>failedPrevious\<close> is passed in and out; it decides what is logged, nothing else. The
  second result is the event's data.
\<close>

definition metadata_Run :: "bool \<Rightarrow> ('z, bool \<times> (bool \<times> Descriptor res)) mds_io" where
  "metadata_Run failedPrevious = do {
     r \<leftarrow> Watch;
     State_Monad.return (case r of Inl e \<Rightarrow> True | Inr d \<Rightarrow> False, (True, r)) }"

section \<open>Graceful shutdown\<close>

definition shutdown_WatcherID :: string where
  "shutdown_WatcherID = ''graceful-shutdown-watcher''"

definition RunScriptEvent :: string where
  "RunScriptEvent = ''graceful-shutdown-watcher,run-script''"

definition shutdown_watcher :: Watcher where
  "shutdown_watcher = \<lparr>w_ID = shutdown_WatcherID, w_Events = [RunScriptEvent]\<rparr>"

text \<open>The argument is the path of the script runner on Windows, if the agent's own path is known.\<close>

definition runGracefulShutdownScript :: "string option \<Rightarrow> ('z, unit) io" where
  "runGracefulShutdownScript runnerPath = do {
     linux \<leftarrow> is_goos ''linux'';
     windows \<leftarrow> is_goos ''windows'';
     (if linux then do {
        _ \<leftarrow> spawn [''systemctl'', ''start'', ''google-graceful-shutdown-scripts.service''];
        State_Monad.return () }
      else if windows then (case runnerPath of
          None \<Rightarrow> State_Monad.return ()
        | Some p \<Rightarrow> do { _ \<leftarrow> spawn [p, ''graceful-shutdown'']; State_Monad.return () })
      else State_Monad.return ()) }"

definition after_or_done :: "int \<Rightarrow> ('z, bool \<times> goerr option) io" where
  "after_or_done d = do {
     e \<leftarrow> done_or_after d;
     State_Monad.return (case e of Some e \<Rightarrow> (False, Some e) | None \<Rightarrow> (True, None)) }"

definition shutdown_Run :: "string option \<Rightarrow> ('z, bool \<times> goerr option) mds_io" where
  "shutdown_Run runnerPath = do {
     r \<leftarrow> WatchKey ''instance/shutdown-details/stop-state'';
     (case r of
        Inl e \<Rightarrow>
          if (case errors_As_MDS e of Some (s, _) \<Rightarrow> s = 404 | None \<Rightarrow> False)
          then after_or_done 60000000000
          else after_or_done 5000000000
      | Inr val \<Rightarrow>
          if TrimSpace val = ''PENDING_STOP'' then do {
            runGracefulShutdownScript runnerPath;
            State_Monad.return (False, None) }
          else State_Monad.return (True, None)) }"

section \<open>Properties\<close>

text \<open>
  while no graceful shutdown is in progress, so that the server answers 404, a call of the
  watcher's \<^verbatim>\<open>Run\<close> makes one request, starts no script, asks for renewal, and waits 5 seconds: the
  wait of a minute meant for this answer is never reached.
\<close>

theorem shutdown_Run_404:
  assumes "http w (tick w) (request_of (watch_cfg ''instance/shutdown-details/stop-state'') (etag w)) = Got a"
    and "StatusCode a = 404" and "ctx w = (\<lambda>_. None)"
  shows "\<exists>w'. run_state (shutdown_Run runner) w = ((True, None), w') \<and> sleeps w' = sleeps w @ [5000000000] \<and>
     trace w' = trace w \<and> length (requests w') = Suc (length (requests w))"
  using mds_retry_404 [OF assms(1,2)] assms(3)
  by (auto simp: shutdown_Run_def WatchKey_def giving_up_def after_or_done_def done_or_after_def)

theorem shutdown_Run_404_witness:
  "\<exists>w'. run_state (shutdown_Run None) (calm_mds (Got \<lparr>StatusCode = 404, etag_header = [], body = Inr []\<rparr>)) = ((True, None), w') \<and>
     sleeps w' = [5000000000]"
  using shutdown_Run_404 [of "calm_mds (Got \<lparr>StatusCode = 404, etag_header = [], body = Inr []\<rparr>)" _ None]
  by (auto simp: calm_mds_def calm_def world.defs)

text \<open>
  on Linux the watcher starts the service of the scripts, exactly once, if and only if the
  server reports the state \<^verbatim>\<open>PENDING_STOP\<close>, and that is also when it asks not to be run again.
\<close>

theorem shutdown_Run_script:
  assumes "run_state (WatchKey ''instance/shutdown-details/stop-state'') w = (Inr val, w1)" and "goos w1 = ''linux''"
  shows "\<exists>w'. run_state (shutdown_Run runner) w = ((TrimSpace val \<noteq> ''PENDING_STOP'', None), w') \<and>
     trace w' = trace w1 @ (if TrimSpace val = ''PENDING_STOP''
       then [[''systemctl'', ''start'', ''google-graceful-shutdown-scripts.service'']] else [])"
  using assms
  by (cases "TrimSpace val = ''PENDING_STOP''")
    (auto simp: shutdown_Run_def runGracefulShutdownScript_def is_goos_def spawn_def split: prod.split)

theorem shutdown_Run_script_witness:
  "\<exists>w'. run_state (shutdown_Run None) (calm_mds (Got \<lparr>StatusCode = 200, etag_header = [], body = Inr ''PENDING_STOP''\<rparr>)) = ((False, None), w') \<and>
     trace w' = [[''systemctl'', ''start'', ''google-graceful-shutdown-scripts.service'']]"
proof -
  let ?w = "calm_mds (Got \<lparr>StatusCode = 200, etag_header = [], body = Inr ''PENDING_STOP''\<rparr>)"
  let ?r = "run_state (WatchKey ''instance/shutdown-details/stop-state'') ?w"
  have eval: "fst ?r = Inr ''PENDING_STOP''" "goos (snd ?r) = ''linux''" "trace (snd ?r) = []" "TrimSpace ''PENDING_STOP'' = ''PENDING_STOP''"
    by code_simp+
  then have "?r = (Inr ''PENDING_STOP'', snd ?r)"
    by (metis prod.collapse)
  from shutdown_Run_script [OF this eval(2), of None] show ?thesis
    by (simp add: eval(3,4))
qed

end
