(* ===== verification/Crypto.thy ===== *)
theory Crypto
  imports Scheduler AtomicFile Watchers
begin

text \<open>
  The credentials for the HTTPS endpoint of the metadata server: \<^verbatim>\<open>agentcrypto/crypto_util.go\<close>,
  \<^verbatim>\<open>mtls_mds.go\<close> and \<^verbatim>\<open>mtls_mds_linux.go\<close>, with the reading of UEFI variables of \<^verbatim>\<open>uefi\<close>. PEM, X.509,
  AES-GCM, protojson and the TPM are parameters.
\<close>

section \<open>UEFI variables\<close>

record VariableName =
  RootDir :: string
  var_Name :: string
  GUID :: string

record Variable =
  Variable_Name :: VariableName
  var_Attributes :: string
  Content :: string

definition defaultEFIVarsDir :: string where
  "defaultEFIVarsDir = ''/sys/firmware/efi/efivars''"

definition var_Path :: "VariableName \<Rightarrow> string" where
  "var_Path v = path_Join [if RootDir v = [] then defaultEFIVarsDir else RootDir v, var_Name v @ ''-'' @ GUID v]"

definition ReadVariable :: "VariableName \<Rightarrow> ('z, Variable res) io" where
  "ReadVariable v = bind_ok (os_ReadFile (var_Path v)) (\<lambda>e. Inl (Flat (''error reading '' @ var_Path v) e)) (\<lambda>b.
     State_Monad.return
       (if length b < 4 then Inl (Msg (var_Path v @ '' contains '' @ show_nat (length b) @ '' bytes of data, it should have at least 4''))
        else Inr \<lparr>Variable_Name = v, var_Attributes = take 4 b, Content = drop 4 b\<rparr>))"

section \<open>Certificates\<close>

record ('cert, 'pool, 'blob) crypto_lib =
  pem_Decode :: "string \<Rightarrow> string option"
  x509_ParseCertificate :: "string \<Rightarrow> 'cert res"
  AppendCertsFromPEM :: "string \<Rightarrow> 'pool option"
  cert_Verify :: "'cert \<Rightarrow> 'pool \<Rightarrow> goerr option"
  NewAESGCM :: "string \<Rightarrow> (string \<Rightarrow> string res) res"
  protojson_Unmarshal :: "string \<Rightarrow> ('blob \<times> string) res"
  OpenTPM :: "nat \<Rightarrow> goerr option"
  EndorsementKeyECC :: "nat \<Rightarrow> goerr option"
  ek_Import :: "nat \<Rightarrow> 'blob \<Rightarrow> string res"

definition parseCertificate :: "('cert, 'pool, 'blob) crypto_lib \<Rightarrow> string \<Rightarrow> 'cert res" where
  "parseCertificate lib cert = (case pem_Decode lib cert of
     None \<Rightarrow> Inl (Msg ''failed to parse PEM certificate'')
   | Some block \<Rightarrow> (case x509_ParseCertificate lib block of
       Inl e \<Rightarrow> Inl (Wrap ''failed to parse certificate'' e)
     | Inr c \<Rightarrow> Inr c))"

definition verifySign :: "('cert, 'pool, 'blob) crypto_lib \<Rightarrow> string \<Rightarrow> string \<Rightarrow> ('z, goerr option) io" where
  "verifySign lib cert rootCAFile =
     bind_ok (os_ReadFile rootCAFile) (\<lambda>e. Some (Wrap ''failed to read CA PEM file for verifying signature'' e)) (\<lambda>caCertPEM.
       State_Monad.return
         (case parseCertificate lib cert of
            Inl e \<Rightarrow> Some (Wrap ''failed to parse client certificate for verifying signature'' e)
          | Inr x509Cert \<Rightarrow>
              (case AppendCertsFromPEM lib caCertPEM of
                 None \<Rightarrow> Some (Msg (''failed to add '' @ rootCAFile @ '' to new certpool for verifying client certificate''))
               | Some roots \<Rightarrow>
                   map_option (Wrap (''failed to verify client certificate against root CA '' @ rootCAFile)) (cert_Verify lib x509Cert roots))))"

definition decrypt :: "('cert, 'pool, 'blob) crypto_lib \<Rightarrow> string \<Rightarrow> string \<Rightarrow> string res" where
  "decrypt lib aesKey cipherText = (case NewAESGCM lib aesKey of
     Inl e \<Rightarrow> Inl (Flat ''failed to initialize cipher'' e)
   | Inr aesgcm \<Rightarrow> aesgcm cipherText)"

section \<open>The job\<close>

record 'c creds_agent = "'c sched_agent" +
  rootCertsInstalled :: bool
  useNativeStore :: bool
  isEnabled :: bool
  creds_failedPrevious :: bool
  eventManager :: "unit Manager"

type_synonym ('c, 'z, 'a) creds_io = "(('c, 'z) creds_agent_scheme, 'a) state"

definition googleRootCACertUEFIVar :: VariableName where
  "googleRootCACertUEFIVar = \<lparr>RootDir = [], var_Name = ''InstanceRootCACertificate'', GUID = ''a2858e46-a37f-456a-8c79-0c1fe48b65ff''\<rparr>"

definition clientCertsKey :: string where
  "clientCertsKey = ''instance/credentials/mds-client-certificate''"

definition MTLSSchedulerID :: string where
  "MTLSSchedulerID = ''MTLS_MDS_Credential_Boostrapper''"

definition MTLSScheduleInterval :: int where
  "MTLSScheduleInterval = 48 * 3600 * 1000000000"

definition defaultCredsDir :: string where
  "defaultCredsDir = ''/run/google-mds-mtls''"

definition rootCACert :: string where
  "rootCACert = path_Join [defaultCredsDir, ''root.crt'']"

definition clientCreds :: string where
  "clientCreds = path_Join [defaultCredsDir, ''client.key'']"

definition readRootCACert :: "('cert, 'pool, 'blob) crypto_lib \<Rightarrow> VariableName \<Rightarrow> ('z, Variable res) io" where
  "readRootCACert lib name =
     bind_ok (ReadVariable name) (\<lambda>e. Inl (Wrap ''unable to read root CA cert file contents'' e)) (\<lambda>v.
       State_Monad.return (case parseCertificate lib (Content v) of
         Inl e \<Rightarrow> Inl (Wrap ''unable to verify Root CA cert'' e) | Inr _ \<Rightarrow> Inr v))"

definition getClientCredentials :: "('cert, 'pool, 'blob) crypto_lib \<Rightarrow> ('z, ('blob \<times> string) res) mds_io" where
  "getClientCredentials lib =
     bind_ok (GetKey clientCertsKey []) (\<lambda>e. Inl (Wrap ''unable to get client credentials from MDS'' e)) (\<lambda>creds.
       State_Monad.return (case protojson_Unmarshal lib creds of
         Inl e \<Rightarrow> Inl (Wrap ''unable to unmarshal MDS response'' e) | Inr r \<Rightarrow> Inr r))"

definition ask_lib :: "(nat \<Rightarrow> 'a) \<Rightarrow> ('z, 'a) io" where
  "ask_lib f = State (\<lambda>w. (f (tick w), w\<lparr>tick := Suc (tick w)\<rparr>))"

definition extractKey :: "('cert, 'pool, 'blob) crypto_lib \<Rightarrow> 'blob \<Rightarrow> ('z, string res) io" where
  "extractKey lib importBlob =
     if_ok (ask_lib (OpenTPM lib)) (\<lambda>e. Inl (Wrap ''unable to open a channel to the TPM'' e))
       (if_ok (ask_lib (EndorsementKeyECC lib)) (\<lambda>e. Inl (Wrap ''failed to load a key from TPM'' e))
         (bind_ok (ask_lib (\<lambda>t. ek_Import lib t importBlob)) (\<lambda>e. Inl (Wrap ''failed to decrypt import blob'' e))
           (\<lambda>dek. State_Monad.return (Inr dek))))"

definition fetchClientCredentials :: "('cert, 'pool, 'blob) crypto_lib \<Rightarrow> string \<Rightarrow> ('z, string res) mds_io" where
  "fetchClientCredentials lib rootCA =
     bind_ok (getClientCredentials lib) Inl (\<lambda>(importBlob, cipherText).
     bind_ok (extractKey lib importBlob) Inl (\<lambda>dek.
     bind_ok (State_Monad.return (decrypt lib dek cipherText)) Inl (\<lambda>plaintext.
     if_ok (verifySign lib plaintext rootCA) Inl (State_Monad.return (Inr plaintext)))))"

section \<open>Linux\<close>

definition certUpdaters :: "(string \<times> string list) list" where
  "certUpdaters = [(''update-ca-certificates'', [''/usr/local/share/ca-certificates'', ''/usr/share/pki/trust/anchors'']),
     (''update-ca-trust'', [''/etc/pki/ca-trust/source/anchors''])]"

definition getCAStoreUpdater :: "('z, string res) io" where
  "getCAStoreUpdater = do {
     order \<leftarrow> range_map certUpdaters;
     r \<leftarrow> for_range (\<lambda>u _. do {
         p \<leftarrow> exec_LookPath u;
         State_Monad.return (case p of Inr _ \<Rightarrow> Inl u | Inl _ \<Rightarrow> Inr ()) }) (map fst order) ();
     State_Monad.return (case r of Inl u \<Rightarrow> Inr u | Inr _ \<Rightarrow> Inl (Msg ''no known trust updaters were found'')) }"

definition certificateDirFromUpdater :: "string \<Rightarrow> ('z, string res) io" where
  "certificateDirFromUpdater updater = (case map_of certUpdaters updater of
     None \<Rightarrow> State_Monad.return (Inl (Msg (''unknown updater '' @ updater)))
   | Some dirs \<Rightarrow> do {
       r \<leftarrow> for_range (\<lambda>dir _. do {
           s \<leftarrow> os_Stat dir;
           State_Monad.return (case s of Inr n \<Rightarrow> if node_IsDir n then Inl dir else Inr () | Inl _ \<Rightarrow> Inr ()) }) dirs ();
       State_Monad.return (case r of Inl d \<Rightarrow> Inr d | Inr _ \<Rightarrow> Inl (Msg ''no of the known directories found'')) })"

definition updateSystemStore :: "string \<Rightarrow> ('z, goerr option) io" where
  "updateSystemStore cert =
     bind_ok getCAStoreUpdater Some (\<lambda>cmd.
     bind_ok (certificateDirFromUpdater cmd) Some (\<lambda>dir.
     if_ok (CopyFile cert (path_Join [dir, path_Base cert]) 420) Some (do {
       res \<leftarrow> WithOutput [cmd];
       State_Monad.return (if ExitCode res \<noteq> 0 then Some (Flat (''command '' @ cmd @ '' failed with error'') (Msg (result_Error res))) else None) })))"

definition writeRootCACert :: "string \<Rightarrow> string \<Rightarrow> ('c, 'z, goerr option) creds_io" where
  "writeRootCACert bytes outputFile =
     if_ok (os_MkdirAll (path_Dir outputFile) 429) Some
       (if_ok (SaferWriteFile bytes outputFile 420) Some (do {
         native \<leftarrow> gets useNativeStore;
         (if \<not> native then State_Monad.return None
          else do { _ \<leftarrow> updateSystemStore outputFile; State_Monad.return None }) }))"

definition writeClientCredentials :: "string \<Rightarrow> string \<Rightarrow> ('z, goerr option) io" where
  "writeClientCredentials plaintext outputFile =
     if_ok (os_MkdirAll (path_Dir outputFile) 429) Some (SaferWriteFile plaintext outputFile 420)"

section \<open>Running and scheduling the job\<close>

definition install_root :: "('cert, 'pool, 'blob) crypto_lib \<Rightarrow> ('c, 'z, goerr option) creds_io" where
  "install_root lib = do {
     done \<leftarrow> gets rootCertsInstalled;
     (if done then State_Monad.return None
      else bind_ok (readRootCACert lib googleRootCACertUEFIVar)
        (\<lambda>e. Some (Wrap ''failed to read Root CA cert with an error'' e)) (\<lambda>v.
        if_ok (writeRootCACert (Content v) rootCACert)
          (\<lambda>e. Some (Wrap ''failed to store Root CA cert with an error'' e)) (State_Monad.return None))) }"

definition creds_Run :: "('cert, 'pool, 'blob) crypto_lib \<Rightarrow> ('c, 'z, bool \<times> goerr option) creds_io" where
  "creds_Run lib =
     if_ok (install_root lib) (\<lambda>e. (True, Some e)) (do {
       modify (\<lambda>w. w\<lparr>rootCertsInstalled := True\<rparr>);
       bind_ok (fetchClientCredentials lib rootCACert)
         (\<lambda>e. (True, Some (Wrap ''failed to generate client credentials with an error'' e))) (\<lambda>creds.
         if_ok (writeClientCredentials creds clientCreds)
           (\<lambda>e. (True, Some (Wrap ''failed to store client credentials with an error'' e)))
           (State_Monad.return (True, None))) })"

definition shouldEnableJob :: "Descriptor \<Rightarrow> ('c, 'z, bool) creds_io" where
  "shouldEnableJob mds = do {
     cfg \<leftarrow> gets config;
     let enable = \<not> deref_or (deref_or (cfg_DisableHTTPSMdsSetup (MDS cfg)) (DisableHTTPSMdsSetup (ProjectAttributes (Proj mds))))
       (DisableHTTPSMdsSetup (InstanceAttributes (Inst mds)));
     (if \<not> enable then State_Monad.return False
      else do {
        r \<leftarrow> GetKey clientCertsKey [];
        modify (\<lambda>w. w\<lparr>creds_failedPrevious := (case r of Inl _ \<Rightarrow> True | Inr _ \<Rightarrow> False)\<rparr>);
        State_Monad.return (case r of Inl _ \<Rightarrow> False | Inr _ \<Rightarrow> True) }) }"

definition shouldUseNativeStore :: "Sections \<Rightarrow> Descriptor \<Rightarrow> bool" where
  "shouldUseNativeStore cfg mds =
     deref_or (deref_or (cfg_HTTPSMDSEnableNativeStore (MDS cfg)) (HTTPSMDSEnableNativeStore (ProjectAttributes (Proj mds))))
       (HTTPSMDSEnableNativeStore (InstanceAttributes (Inst mds)))"

definition checkUserSettings :: "Descriptor \<Rightarrow> ('c, 'z, unit) creds_io" where
  "checkUserSettings mds = do {
     cfg \<leftarrow> gets config;
     modify (\<lambda>w. w\<lparr>useNativeStore := shouldUseNativeStore cfg mds\<rparr>);
     b \<leftarrow> shouldEnableJob mds;
     modify (\<lambda>w. w\<lparr>isEnabled := b\<rparr>) }"

definition CredsJob :: "('cert, 'pool, 'blob) crypto_lib \<Rightarrow> ('c, 'z creds_agent_ext) Job" where
  "CredsJob lib = \<lparr>job_ID = MTLSSchedulerID, Interval = (MTLSScheduleInterval, True),
     ShouldEnable = gets isEnabled, job_Run = creds_Run lib\<rparr>"

text \<open>The event's data is the descriptor or the watcher's error; the result asks to stay subscribed.\<close>

definition mdsSchedulerHandler ::
  "('cert, 'pool, 'blob) crypto_lib \<Rightarrow> 'c cron_ops \<Rightarrow> Descriptor option res \<Rightarrow> ('c, 'z, bool) creds_io" where
  "mdsSchedulerHandler lib ops ev = (case ev of
     Inl _ \<Rightarrow> State_Monad.return True
   | Inr None \<Rightarrow> State_Monad.return False
   | Inr (Some mds) \<Rightarrow> do {
       alreadyScheduled \<leftarrow> gets (\<lambda>w. IsScheduled MTLSSchedulerID (scheduler w));
       checkUserSettings mds;
       shouldSchedule \<leftarrow> gets isEnabled;
       (if \<not> shouldSchedule \<and> alreadyScheduled then do {
          on_scheduler (UnscheduleJob ops MTLSSchedulerID);
          State_Monad.return True }
        else if shouldSchedule \<and> \<not> alreadyScheduled then do {
          _ \<leftarrow> ScheduleJob ops (CredsJob lib) True;
          State_Monad.return True }
        else State_Monad.return True) })"

definition crypto_Init :: "('cert, 'pool, 'blob) crypto_lib \<Rightarrow> 'c cron_ops \<Rightarrow> ('c, 'z, unit) creds_io" where
  "crypto_Init lib ops = do {
     Get_scheduler ops;
     r \<leftarrow> Get;
     _ \<leftarrow> mdsSchedulerHandler lib ops (map_sum id Some r);
     modify (\<lambda>w. w\<lparr>eventManager := Subscribe LongpollEvent () (eventManager w)\<rparr>) }"

section \<open>Scheduling\<close>

text \<open>What is scheduled, whether the job is enabled and where it is to store the certificate are not changed by a run of the job.\<close>

definition same_job :: "('c, 'z) creds_agent_scheme \<Rightarrow> ('c, 'z) creds_agent_scheme \<Rightarrow> bool" where
  "same_job w w' \<longleftrightarrow> scheduler w' = scheduler w \<and> isEnabled w' = isEnabled w \<and> useNativeStore w' = useNativeStore w"

interpretation same_job: http_frame same_job
  by unfold_locales (simp_all add: same_job_def)

lemma same_job_sets:
  "keeps same_job (modify (\<lambda>w. w\<lparr>rootCertsInstalled := b\<rparr>))"
  "keeps same_job (modify (\<lambda>w. w\<lparr>creds_failedPrevious := b\<rparr>))" "keeps same_job (gets f)" "keeps same_job (ask_lib g)"
  by (simp_all add: keeps_def same_job_def ask_lib_def)

lemma same_job_store: "keeps same_job (updateSystemStore cert)"
  unfolding updateSystemStore_def getCAStoreUpdater_def certificateDirFromUpdater_def CopyFile_def utils_WriteFile_def
  by (intro same_job.keeps_os same_job.keeps_run)

lemma same_job_root: "keeps same_job (install_root lib)"
  unfolding install_root_def readRootCACert_def ReadVariable_def writeRootCACert_def SaferWriteFile_def utils_WriteFile_def
  by (intro same_job.keeps_os same_job_sets same_job_store)

lemma same_job_fetch: "keeps same_job (fetchClientCredentials lib p)"
  unfolding fetchClientCredentials_def getClientCredentials_def extractKey_def verifySign_def
  by (intro same_job.keeps_os same_job_sets same_job.keeps_mds)

lemma same_job_Run: "keeps same_job (creds_Run lib)"
  unfolding creds_Run_def writeClientCredentials_def SaferWriteFile_def utils_WriteFile_def
  by (intro same_job.keeps_os same_job_sets same_job_root same_job_fetch)

lemma fst_if_ok:
  "\<forall>e. P (h e) \<Longrightarrow> \<forall>w. P (fst (run_state k w)) \<Longrightarrow> P (fst (run_state (if_ok m h k) w))"
  by (auto split: prod.split option.split)

lemma fst_bind_ok:
  "\<forall>e. P (h e) \<Longrightarrow> \<forall>x w. P (fst (run_state (k x) w)) \<Longrightarrow> P (fst (run_state (bind_ok m h k) w))"
  by (auto split: prod.split sum.split)

text \<open>The job always asks to be run again.\<close>

lemma creds_Run_renews: "fst (fst (run_state (creds_Run lib) w))"
  unfolding creds_Run_def
  by (intro fst_if_ok [where P = fst] allI) (auto simp del: run_if_ok run_bind_ok intro!: fst_bind_ok [where P = fst] fst_if_ok [where P = fst])

lemma getFunc_same:
  fixes ops :: "'c cron_ops"
  shows "keeps same_job (getFunc ops (CredsJob lib) :: ('c, 'z, unit) creds_io)"
proof (rule keepsI)
  fix w :: "('c, 'z) creds_agent_scheme"
  obtain b e w1 where run: "run_state (creds_Run lib) w = ((b, e), w1)"
    by (metis surj_pair)
  with creds_Run_renews [of lib w] keepsD [OF same_job_Run, of w lib] show "same_job w (snd (run_state (getFunc ops (CredsJob lib) :: ('c, 'z, unit) creds_io) w))"
    by (simp add: getFunc_def CredsJob_def)
qed

text \<open>Scheduling the job, if cron takes it, leaves it scheduled.\<close>

lemma ScheduleJob_creds:
  fixes w :: "('c, 'z) creds_agent_scheme"
  assumes "\<forall>spec j c. \<exists>e c'. AddFunc ops spec j c = (Inr e, c')" and "isEnabled w" and "\<not> IsScheduled MTLSSchedulerID (scheduler w)"
  shows "case run_state (ScheduleJob ops (CredsJob lib) True) w of (_, w') \<Rightarrow> isEnabled w' \<and> IsScheduled MTLSSchedulerID (scheduler w')"
proof -
  obtain e c' where add: "AddFunc ops (every MTLSScheduleInterval) MTLSSchedulerID (cron (scheduler w)) = (Inr e, c')"
    using assms(1) by blast
  let ?w = "w\<lparr>scheduler := setEntryID MTLSSchedulerID e (scheduler w\<lparr>cron := c'\<rparr>)\<rparr>"
  have "same_job ?w (snd (run_state (getFunc ops (CredsJob lib)) ?w))"
    by (rule keepsD [OF getFunc_same])
  moreover have "IsScheduled MTLSSchedulerID (setEntryID MTLSSchedulerID e s)" for s :: "'c Scheduler"
    by (simp add: IsScheduled_def setEntryID_def update_conv')
  ultimately show ?thesis
    using assms(2,3) add
    by (auto simp: ScheduleJob_def jobInit_def CredsJob_def add_entry_def on_scheduler_def same_job_def split: prod.split)
qed

lemma shouldEnableJob_frame: "keeps same_job (shouldEnableJob mds)"
  unfolding shouldEnableJob_def Let_def by (intro same_job.keeps_os same_job_sets same_job.keeps_mds)

text \<open>What the settings say, before the metadata server is asked.\<close>

definition mtls_wanted :: "Sections \<Rightarrow> Descriptor \<Rightarrow> bool" where
  "mtls_wanted cfg mds \<longleftrightarrow> \<not> (case (DisableHTTPSMdsSetup (InstanceAttributes (Inst mds)), DisableHTTPSMdsSetup (ProjectAttributes (Proj mds))) of
     (Some b, _) \<Rightarrow> b | (None, Some b) \<Rightarrow> b | (None, None) \<Rightarrow> cfg_DisableHTTPSMdsSetup (MDS cfg))"

definition key_served :: "('c, 'z) creds_agent_scheme \<Rightarrow> bool" where
  "key_served w \<longleftrightarrow> (case fst (run_state (GetKey clientCertsKey []) w) of Inl _ \<Rightarrow> False | Inr _ \<Rightarrow> True)"

lemma shouldEnableJob_wanted: "fst (run_state (shouldEnableJob mds) w) \<longleftrightarrow> mtls_wanted (config w) mds \<and> key_served w"
  by (auto simp: shouldEnableJob_def mtls_wanted_def key_served_def deref_or_def Let_def split: option.splits prod.splits sum.splits)

lemma checkUserSettings_run:
  assumes "run_state (checkUserSettings mds) w = (u, w1)" and "w0 = w\<lparr>useNativeStore := shouldUseNativeStore (config w) mds\<rparr>"
  shows "scheduler w1 = scheduler w \<and> (isEnabled w1 \<longleftrightarrow> mtls_wanted (config w) mds \<and> key_served w0)"
proof -
  obtain b w2 where run: "run_state (shouldEnableJob mds) w0 = (b, w2)"
    by fastforce
  with assms have "w1 = w2\<lparr>isEnabled := b\<rparr>"
    by (simp add: checkUserSettings_def)
  moreover have "scheduler w2 = scheduler w"
    using keepsD [OF shouldEnableJob_frame, of w0 mds] run assms(2) by (simp add: same_job_def)
  moreover have "b \<longleftrightarrow> mtls_wanted (config w) mds \<and> key_served w0"
    using shouldEnableJob_wanted [of mds w0] run assms(2) by simp
  ultimately show ?thesis
    by simp
qed

text \<open>
  C13: after the handler has been given a metadata descriptor, the job that fetches the credentials is
  scheduled exactly if it is wanted and the metadata server answers the request for the credentials,
  whatever was scheduled before and whichever system calls, TPM operations and other requests fail, as
  long as cron takes the job. It is wanted if the first of the settings of the instance, of the project
  and of the configuration file that is there does not disable it. The handler stays subscribed.
\<close>

theorem mdsSchedulerHandler_schedules:
  fixes w :: "('c, 'z) creds_agent_scheme"
  assumes "\<forall>spec j c. \<exists>e c'. AddFunc ops spec j c = (Inr e, c')"
    and "run_state (mdsSchedulerHandler lib ops (Inr (Some mds))) w = (renew, w')"
  shows "renew \<and> (IsScheduled MTLSSchedulerID (scheduler w') \<longleftrightarrow>
    mtls_wanted (config w) mds \<and> key_served (w\<lparr>useNativeStore := shouldUseNativeStore (config w) mds\<rparr>))"
proof -
  obtain u and w1 :: "('c, 'z) creds_agent_scheme" where chk: "run_state (checkUserSettings mds) w = (u, w1)"
    by (cases "run_state (checkUserSettings mds) w")
  note w1 = checkUserSettings_run [OF chk refl]
  have gone: "\<not> IsScheduled MTLSSchedulerID (UnscheduleJob ops MTLSSchedulerID s)" for s :: "'c Scheduler"
    by (auto simp: IsScheduled_def UnscheduleJob_def delete_conv' split: option.split)
  show ?thesis
  proof (cases "isEnabled w1 \<and> \<not> IsScheduled MTLSSchedulerID (scheduler w)")
    case True
    with assms(2) chk have "w' = snd (run_state (ScheduleJob ops (CredsJob lib) True) w1)" and renew
      by (auto simp: mdsSchedulerHandler_def split: prod.splits)
    with ScheduleJob_creds [OF assms(1), of w1 lib] True w1 show ?thesis
      by (auto split: prod.splits)
  next
    case False
    with assms(2) chk gone w1 show ?thesis
      by (auto simp: mdsSchedulerHandler_def on_scheduler_def split: if_splits)
  qed
qed

text \<open>An agent nothing is scheduled in, with a cryptographic library that accepts everything.\<close>

definition calm_creds :: "files \<Rightarrow> (nat \<times> (nat \<times> string) list) creds_agent" where
  "calm_creds f = sched_agent.extend (diag_agent.extend (calm_diag\<lparr>fs := f\<rparr>) \<lparr>scheduler = \<lparr>cron = (0, []), jobs = []\<rparr>, started = []\<rparr>)
     \<lparr>rootCertsInstalled = False, useNativeStore = False, isEnabled = False, creds_failedPrevious = False, eventManager = newManager\<rparr>"

definition plain_lib :: "(string, string, string) crypto_lib" where
  "plain_lib = \<lparr>pem_Decode = Some, x509_ParseCertificate = Inr, AppendCertsFromPEM = Some, cert_Verify = (\<lambda>_ _. None),
     NewAESGCM = (\<lambda>_. Inr Inr), protojson_Unmarshal = (\<lambda>s. Inr ([], s)), OpenTPM = (\<lambda>_. None), EndorsementKeyECC = (\<lambda>_. None),
     ek_Import = (\<lambda>_ _. Inr [])\<rparr>"

lemma calm_creds_simps:
  "config (calm_creds f) = defaultConfig" "ctx (calm_creds f) = (\<lambda>_. None)" "fs (calm_creds f) = f" "rand (calm_creds f) = (\<lambda>_. ''1'')"
  "http (calm_creds f) = (\<lambda>_ _. Got \<lparr>StatusCode = 200, etag_header = [], body = Inr []\<rparr>)"
  "rootCertsInstalled (calm_creds f) = False" "useNativeStore (calm_creds f) = False"
  by (simp_all add: calm_creds_def calm_diag_def calm_win_def calm_wsfc_def calm_address_def calm_net_def calm_agent_def calm_def
      sched_agent.defs diag_agent.defs win_agent.defs command_agent.defs wsfc_agent.defs address_agent.defs net_agent.defs agent.defs
      mds_world.defs world.defs)

definition mtls_on :: Descriptor where
  "mtls_on = empty_descriptor\<lparr>Inst := Inst empty_descriptor\<lparr>InstanceAttributes := InstanceAttributes (Inst empty_descriptor)\<lparr>DisableHTTPSMdsSetup := Some False\<rparr>\<rparr>\<rparr>"

theorem mdsSchedulerHandler_schedules_witness:
  "\<exists>renew w'. run_state (mdsSchedulerHandler plain_lib list_cron (Inr (Some mtls_on))) (calm_creds []) = (renew, w') \<and>
     renew \<and> IsScheduled MTLSSchedulerID (scheduler w')"
proof -
  obtain renew and w' :: "(nat \<times> (nat \<times> string) list) creds_agent"
    where run: "run_state (mdsSchedulerHandler plain_lib list_cron (Inr (Some mtls_on))) (calm_creds []) = (renew, w')"
    by (cases "run_state (mdsSchedulerHandler plain_lib list_cron (Inr (Some mtls_on))) (calm_creds [])")
  have cron: "\<forall>spec j c. \<exists>e c'. AddFunc list_cron spec j c = (Inr e, c')"
    by (simp add: list_cron_def split: prod.split)
  have "mtls_wanted (config (calm_creds [])) mtls_on"
    by (simp add: mtls_wanted_def mtls_on_def)
  moreover have "key_served (calm_creds []\<lparr>useNativeStore := b\<rparr>)" for b
    unfolding key_served_def GetKey_def by (subst mds_retry_200 [where a = "\<lparr>StatusCode = 200, etag_header = [], body = Inr []\<rparr>" and md = "[]"]) (simp_all add: calm_creds_simps)
  ultimately show ?thesis
    using mdsSchedulerHandler_schedules [OF cron run] run by blast
qed

section \<open>The credentials\<close>

text \<open>The two files, in the form of the lemmas about replacing files.\<close>

lemma creds_paths:
  "clientCreds = ''/run/google-mds-mtls'' @ ''/'' @ ''client.key''" "rootCACert = ''/run/google-mds-mtls'' @ ''/'' @ ''root.crt''"
  "path_Dir clientCreds = ''/run/google-mds-mtls''" "path_Dir rootCACert = ''/run/google-mds-mtls''"
  by code_simp+

lemma creds_files: "file_in ''/run/google-mds-mtls'' ''client.key''" "file_in ''/run/google-mds-mtls'' ''root.crt''"
proof -
  have "Clean ''/run/google-mds-mtls'' = ''/run/google-mds-mtls''"
    by code_simp
  then show "file_in ''/run/google-mds-mtls'' ''client.key''" "file_in ''/run/google-mds-mtls'' ''root.crt''"
    by (simp_all add: file_in_def HasPrefix_iff)
qed

lemma creds_not_dirs: "clientCreds \<notin> set (dir_prefixes ''/run/google-mds-mtls'')" "rootCACert \<notin> set (dir_prefixes ''/run/google-mds-mtls'')"
  using length_dir_prefixes [of "''/run/google-mds-mtls''" clientCreds] length_dir_prefixes [of "''/run/google-mds-mtls''" rootCACert]
  by (auto simp: creds_paths HasPrefix_iff)

lemma creds_away:
  "away ''/run/google-mds-mtls'' ''client.key'' {clientCreds, rootCACert}" "away ''/run/google-mds-mtls'' ''root.crt'' {clientCreds, rootCACert}"
  using creds_not_dirs by (auto simp: away_def temp_suffix_def creds_paths)

text \<open>The client's file is as it was and the root certificate is no link.\<close>

definition untouched :: "node option \<Rightarrow> (string \<rightharpoonup> node) \<Rightarrow> bool" where
  "untouched n f \<longleftrightarrow> f clientCreds = n \<and> (\<forall>t. f rootCACert \<noteq> Some (Link t))"

text \<open>A certificate that verifies against the root certificate in the file.\<close>

definition verified :: "('cert, 'pool, 'blob) crypto_lib \<Rightarrow> string \<Rightarrow> (string \<rightharpoonup> node) \<Rightarrow> bool" where
  "verified lib p f \<longleftrightarrow> (\<exists>ca m o1 c pool. f rootCACert = Some (Reg ca m o1) \<and> parseCertificate lib p = Inr c \<and>
     AppendCertsFromPEM lib ca = Some pool \<and> cert_Verify lib c pool = None)"

lemma untouched_dirs:
  assumes "untouched n f" and "dirs_added (dir_prefixes ''/run/google-mds-mtls'') f g"
  shows "untouched n g"
proof -
  have "g clientCreds = f clientCreds" "g rootCACert = f rootCACert"
    using assms(2) creds_not_dirs unfolding dirs_added_def by blast+
  with assms(1) show ?thesis
    by (simp add: untouched_def)
qed

lemma verified_dirs:
  assumes "verified lib p f" and "dirs_added (dir_prefixes ''/run/google-mds-mtls'') f g"
  shows "verified lib p g"
proof -
  have "g rootCACert = f rootCACert"
    using assms(2) creds_not_dirs unfolding dirs_added_def by blast
  with assms(1) show ?thesis
    by (simp add: verified_def)
qed

lemma triple_root_file: "triple (holding (untouched n)) (SaferWriteFile s rootCACert m) (\<lambda>_. holding (untouched n))"
proof (rule tripleI)
  fix w :: "'z world_scheme" and e w'
  assume w: "holding (untouched n) w" and run: "run_state (SaferWriteFile s rootCACert m) w = (e, w')"
  then have "holding (as_before {clientCreds, rootCACert} (map_of (fs w))) w"
    by (simp add: holding_def as_before_def)
  from tripleD [OF triple_SaferWriteFile [OF creds_files(2) creds_away(2)] this, folded creds_paths(2), OF run] w
  show "holding (untouched n) w'"
    by (cases e) (auto simp: holding_def all_or_nothing_def as_before_def replaced_def untouched_def creds_paths)
qed

lemma triple_client_file:
  "triple (holding (\<lambda>f. untouched n f \<and> verified lib p f)) (SaferWriteFile p clientCreds m)
     (\<lambda>e. holding (\<lambda>f. case e of Some _ \<Rightarrow> f clientCreds = n | None \<Rightarrow> (\<exists>m o1. f clientCreds = Some (Reg p m o1)) \<and> verified lib p f))"
proof (rule tripleI)
  fix w :: "'z world_scheme" and e w'
  assume w: "holding (\<lambda>f. untouched n f \<and> verified lib p f) w" and run: "run_state (SaferWriteFile p clientCreds m) w = (e, w')"
  then have "holding (as_before {clientCreds, rootCACert} (map_of (fs w))) w"
    by (simp add: holding_def as_before_def)
  from tripleD [OF triple_SaferWriteFile [OF creds_files(1) creds_away(1)] this, folded creds_paths(1), OF run]
  have end_: "holding (all_or_nothing {clientCreds, rootCACert} (map_of (fs w)) clientCreds p e) w'" .
  have "rootCACert \<noteq> clientCreds"
    by (simp add: creds_paths)
  with end_ w show "holding (\<lambda>f. case e of Some _ \<Rightarrow> f clientCreds = n | None \<Rightarrow> (\<exists>m o1. f clientCreds = Some (Reg p m o1)) \<and> verified lib p f) w'"
    by (cases e) (auto simp: holding_def all_or_nothing_def as_before_def replaced_def untouched_def verified_def)
qed

lemma triple_creds_dir:
  assumes "\<And>f g. P f \<Longrightarrow> dirs_added (dir_prefixes ''/run/google-mds-mtls'') f g \<Longrightarrow> P g"
  shows "triple (holding P) (os_MkdirAll ''/run/google-mds-mtls'' m) (\<lambda>e w. case e of Some _ \<Rightarrow> holding P w | None \<Rightarrow> holding P w)"
  by (rule triple_post [OF triple_holding [OF same_rand.keeps_files(15) triple_MkdirAll [OF assms]]]) (auto split: option.split)

lemma triple_writeClientCredentials:
  "triple (holding (\<lambda>f. untouched n f \<and> verified lib p f)) (writeClientCredentials p clientCreds)
     (\<lambda>e. holding (\<lambda>f. case e of Some _ \<Rightarrow> f clientCreds = n | None \<Rightarrow> (\<exists>m o1. f clientCreds = Some (Reg p m o1)) \<and> verified lib p f))"
  unfolding writeClientCredentials_def creds_paths(3)
proof (rule triple_if_ok [OF triple_creds_dir _ triple_client_file])
  show "untouched n f \<and> verified lib p f \<Longrightarrow> dirs_added (dir_prefixes ''/run/google-mds-mtls'') f g \<Longrightarrow> untouched n g \<and> verified lib p g" for f g
    using untouched_dirs verified_dirs by blast
qed (auto simp: holding_def untouched_def)

text \<open>Reading a file that is no link.\<close>

lemma ReadFile_effect:
  assumes "run_state (os_ReadFile p) w = (r, w')" and "\<And>t. map_of (fs w) p \<noteq> Some (Link t)"
  shows "map_of (fs w') = map_of (fs w) \<and> rand w' = rand w \<and> (\<forall>c. r = Inr c \<longrightarrow> (\<exists>m o1. map_of (fs w) p = Some (Reg c m o1)))"
proof -
  have "resolve (fs w) p = Some p"
    using assms(2) by (rule resolve_no_link)
  with assms(1) show ?thesis
    by (auto simp: os_ReadFile_def syscall_def lookup_def Let_def split: option.splits sum.splits node.splits if_splits)
qed

lemma triple_verifySign:
  "triple (holding (untouched n)) (verifySign lib p rootCACert) (\<lambda>e. holding (\<lambda>f. untouched n f \<and> (e = None \<longrightarrow> verified lib p f)))"
proof (rule tripleI)
  fix w :: "'z world_scheme" and e w'
  assume w: "holding (untouched n) w" and run: "run_state (verifySign lib p rootCACert) w = (e, w')"
  obtain r w1 where read: "run_state (os_ReadFile rootCACert) w = (r, w1)"
    by fastforce
  have "map_of (fs w) rootCACert \<noteq> Some (Link t)" for t
    using w by (simp add: holding_def untouched_def)
  note eff = ReadFile_effect [OF read this]
  from run read have "w' = w1"
    by (auto simp: verifySign_def split: sum.splits)
  moreover have "verified lib p (map_of (fs w))" if e: "e = None"
  proof -
    from run read e obtain ca where r: "r = Inr ca"
      by (auto simp: verifySign_def split: sum.splits)
    with run read e show ?thesis
      using eff by (auto simp: verifySign_def verified_def split: sum.splits option.splits)
  qed
  ultimately show "holding (\<lambda>f. untouched n f \<and> (e = None \<longrightarrow> verified lib p f)) w'"
    using eff w by (simp add: holding_def)
qed

text \<open>Everything before the signature is verified leaves the files alone.\<close>

definition same_store :: "'z mds_world_scheme \<Rightarrow> 'z mds_world_scheme \<Rightarrow> bool" where
  "same_store w w' \<longleftrightarrow> map_of (fs w') = map_of (fs w) \<and> rand w' = rand w"

interpretation same_store: wait_frame same_store
  by unfold_locales
     (auto simp: same_store_def keeps_def time_Now_def ctx_Err_def done_or_after_def Let_def split: option.splits)

lemma same_store_asks: "keeps same_store (http_Do r)" "keeps same_store (updateEtag a)" "keeps same_store (ask_lib g)"
  by (simp_all add: keeps_def same_store_def http_Do_def updateEtag_def ask_lib_def Let_def)

lemma same_store_mds_retry: "keeps same_store (mds_retry cfg)"
  unfolding mds_retry_def mds_attempt_def mds_do_def Let_def
  by (intro same_store.keeps_rules keeps_cases same_store.keeps_ctx_Err same_store.keeps_RunWithResponse same_store_asks keeps_reply)

lemma triple_same_store:
  assumes "keeps same_store m"
  shows "triple (holding P) m (\<lambda>r w. case r of Inl _ \<Rightarrow> holding P w | Inr _ \<Rightarrow> holding P w)"
proof (rule tripleI)
  fix w r w'
  assume "holding P w" and "run_state m w = (r, w')"
  with keepsD [OF assms, of w] show "case r of Inl _ \<Rightarrow> holding P w' | Inr _ \<Rightarrow> holding P w'"
    by (simp add: holding_def same_store_def split: sum.split)
qed

lemma same_store_creds: "keeps same_store (getClientCredentials lib)" "keeps same_store (extractKey lib b)"
  unfolding getClientCredentials_def extractKey_def GetKey_def if_ok_def bind_ok_def
  by (intro same_store.keeps_rules keeps_cases same_store_mds_retry same_store_asks)+

lemma triple_fetch_creds:
  "triple (holding (untouched n)) (fetchClientCredentials lib rootCACert)
     (\<lambda>r w. case r of Inl _ \<Rightarrow> holding (untouched n) w | Inr p \<Rightarrow> holding (\<lambda>f. untouched n f \<and> verified lib p f) w)" (is "triple _ _ ?Q")
proof -
  let ?A = "holding (untouched n) :: 'z mds_world_scheme \<Rightarrow> bool"
  have sign: "triple ?A (if_ok (verifySign lib p rootCACert) Inl (State_Monad.return (Inr p))) ?Q" for p
  proof (rule triple_if_ok [where E = ?A and R = "holding (\<lambda>f. untouched n f \<and> verified lib p f)"])
    show "triple ?A (verifySign lib p rootCACert)
      (\<lambda>e w. case e of Some _ \<Rightarrow> ?A w | None \<Rightarrow> holding (\<lambda>f. untouched n f \<and> verified lib p f) w)"
      by (rule triple_post [OF triple_verifySign]) (auto simp: holding_def split: option.split)
  qed (auto intro: triple_return)
  have key: "triple ?A (bind_ok (extractKey lib b) Inl (\<lambda>dek. bind_ok (State_Monad.return (decrypt lib dek c)) Inl (\<lambda>p.
      if_ok (verifySign lib p rootCACert) Inl (State_Monad.return (Inr p))))) ?Q" for b c
  proof (rule triple_bind_ok [OF triple_same_store [OF same_store_creds(2)]])
    show "triple ?A (bind_ok (State_Monad.return (decrypt lib dek c)) Inl (\<lambda>p.
      if_ok (verifySign lib p rootCACert) Inl (State_Monad.return (Inr p)))) ?Q" for dek
      by (rule triple_bind_ok [OF triple_same_store [OF same_store.keeps_return] _ sign]) simp
  qed simp
  show ?thesis
    unfolding fetchClientCredentials_def
  proof (rule triple_bind_ok [OF triple_same_store [OF same_store_creds(1)]])
    show "triple ?A (case x of (b, c) \<Rightarrow> bind_ok (extractKey lib b) Inl (\<lambda>dek. bind_ok (State_Monad.return (decrypt lib dek c)) Inl (\<lambda>p.
      if_ok (verifySign lib p rootCACert) Inl (State_Monad.return (Inr p))))) ?Q" for x
      by (cases x) (simp add: key)
  qed simp
qed

lemma triple_writeRootCACert:
  "triple (\<lambda>w. holding (untouched n) w \<and> \<not> useNativeStore w) (writeRootCACert c rootCACert) (\<lambda>_. holding (untouched n))"
  unfolding writeRootCACert_def creds_paths(4)
proof (rule triple_if_ok)
  let ?A = "\<lambda>w :: ('c, 'z) creds_agent_scheme. holding (untouched n) w \<and> \<not> useNativeStore w"
  have "triple (holding (untouched n)) (os_MkdirAll ''/run/google-mds-mtls'' 429)
      (\<lambda>e (w :: ('c, 'z) creds_agent_scheme). case e of Some _ \<Rightarrow> holding (untouched n) w | None \<Rightarrow> holding (untouched n) w)"
    by (rule triple_creds_dir) (rule untouched_dirs)
  from triple_frame [OF same_job.keeps_files(15) _ this, of "\<lambda>w. \<not> useNativeStore w"]
  show "triple ?A (os_MkdirAll ''/run/google-mds-mtls'' 429) (\<lambda>e w. case e of Some _ \<Rightarrow> ?A w | None \<Rightarrow> ?A w)"
    by (rule triple_post) (auto simp: same_job_def split: option.splits)
  have safer: "keeps same_job (SaferWriteFile c rootCACert 420)"
    unfolding SaferWriteFile_def utils_WriteFile_def by (intro same_job.keeps_os)
  show "triple ?A (if_ok (SaferWriteFile c rootCACert 420) Some (do {
         native \<leftarrow> gets useNativeStore;
         (if \<not> native then State_Monad.return None
          else do { _ \<leftarrow> updateSystemStore rootCACert; State_Monad.return None }) })) (\<lambda>_. holding (untouched n))"
  proof (rule triple_if_ok [where E = ?A and R = ?A])
    from triple_frame [OF safer _ triple_root_file, of "\<lambda>w. \<not> useNativeStore w"]
    show "triple ?A (SaferWriteFile c rootCACert 420) (\<lambda>e w. case e of Some _ \<Rightarrow> ?A w | None \<Rightarrow> ?A w)"
      by (rule triple_post) (auto simp: same_job_def split: option.splits)
  qed (auto simp: triple_def)
qed auto

lemma triple_readRoot:
  fixes n :: "node option"
  shows "triple (\<lambda>w :: ('c, 'z) creds_agent_scheme. holding (untouched n) w \<and> \<not> useNativeStore w) (readRootCACert lib v)
    (\<lambda>r w. case r of Inl _ \<Rightarrow> holding (untouched n) w \<and> \<not> useNativeStore w | Inr _ \<Rightarrow> holding (untouched n) w \<and> \<not> useNativeStore w)"
proof (rule tripleI)
  fix w :: "('c, 'z) creds_agent_scheme" and r w'
  assume w: "holding (untouched n) w \<and> \<not> useNativeStore w" and run: "run_state (readRootCACert lib v) w = (r, w')"
  have "keeps same_job (readRootCACert lib v :: ('c, 'z, Variable res) creds_io)"
    unfolding readRootCACert_def ReadVariable_def by (intro same_job.keeps_os)
  from keepsD [OF this, of w] run have "useNativeStore w' = useNativeStore w"
    by (simp add: same_job_def)
  moreover have "map_of (fs w') = map_of (fs w) \<and> rand w' = rand w"
    using run
    by (auto simp: readRootCACert_def ReadVariable_def os_ReadFile_def syscall_def Let_def
        split: option.splits sum.splits prod.splits node.splits)
  ultimately show "case r of Inl _ \<Rightarrow> holding (untouched n) w' \<and> \<not> useNativeStore w' | Inr _ \<Rightarrow> holding (untouched n) w' \<and> \<not> useNativeStore w'"
    using w by (simp add: holding_def split: sum.split)
qed

lemma triple_install_root:
  "triple (\<lambda>w. holding (untouched n) w \<and> (rootCertsInstalled w \<or> \<not> useNativeStore w)) (install_root lib :: ('c, 'z, goerr option) creds_io) (\<lambda>_. holding (untouched n))"
proof (rule tripleI)
  fix w :: "('c, 'z) creds_agent_scheme" and e w'
  assume w: "holding (untouched n) w \<and> (rootCertsInstalled w \<or> \<not> useNativeStore w)" and run: "run_state (install_root lib) w = (e, w')"
  let ?m = "bind_ok (readRootCACert lib googleRootCACertUEFIVar) (\<lambda>e. Some (Wrap ''failed to read Root CA cert with an error'' e)) (\<lambda>v.
        if_ok (writeRootCACert (Content v) rootCACert)
          (\<lambda>e. Some (Wrap ''failed to store Root CA cert with an error'' e)) (State_Monad.return None)) :: ('c, 'z, goerr option) creds_io"
  have m: "triple (\<lambda>w. holding (untouched n) w \<and> \<not> useNativeStore w) ?m (\<lambda>_. holding (untouched n))"
  proof (rule triple_bind_ok [OF triple_readRoot])
    show "triple (\<lambda>w. holding (untouched n) w \<and> \<not> useNativeStore w) (if_ok (writeRootCACert (Content v) rootCACert)
          (\<lambda>e. Some (Wrap ''failed to store Root CA cert with an error'' e)) (State_Monad.return None)) (\<lambda>_. holding (untouched n))" for v
      by (rule triple_if_ok [where E = "holding (untouched n)" and R = "holding (untouched n)", OF triple_post [OF triple_writeRootCACert]])
         (auto intro: triple_return split: option.split)
  qed simp
  show "holding (untouched n) w'"
  proof (cases "rootCertsInstalled w")
    case True
    with run w show ?thesis
      by (simp add: install_root_def)
  next
    case False
    with run have "run_state ?m w = (e, w')"
      by (simp add: install_root_def del: run_if_ok run_bind_ok)
    with tripleD [OF m] False w show ?thesis
      by blast
  qed
qed

text \<open>
  C7: a run of the job never leaves anything in the client's file but what was there or a certificate that
  verified: whichever system calls, requests and TPM operations fail, the file holds what it held, and the
  run ended with an error, or it holds as a whole a text whose certificate verifies against the root
  certificate that is in the root certificate's file then. The root certificate must not be a symbolic
  link, and the run must not be one that adds it to the system's store, which runs other programs.
\<close>

theorem creds_Run_verified:
  fixes w :: "('c, 'z) creds_agent_scheme"
  assumes "\<forall>t. temp_suffix (rand w t)" and "\<forall>t. map_of (fs w) rootCACert \<noteq> Some (Link t)"
    and "rootCertsInstalled w \<or> \<not> useNativeStore w" and "run_state (creds_Run lib) w = ((renew, err), w')"
  shows "if err \<noteq> None then map_of (fs w') clientCreds = map_of (fs w) clientCreds
    else \<exists>p m o1. map_of (fs w') clientCreds = Some (Reg p m o1) \<and> verified lib p (map_of (fs w'))"
proof -
  let ?n = "map_of (fs w) clientCreds"
  let ?Q = "\<lambda>(r :: bool \<times> goerr option) (w :: ('c, 'z) creds_agent_scheme). if snd r \<noteq> None then map_of (fs w) clientCreds = ?n
    else \<exists>p m o1. map_of (fs w) clientCreds = Some (Reg p m o1) \<and> verified lib p (map_of (fs w))"
  let ?A = "holding (untouched ?n) :: ('c, 'z) creds_agent_scheme \<Rightarrow> bool"
  have wr: "triple (holding (\<lambda>f. untouched ?n f \<and> verified lib p f)) (if_ok (writeClientCredentials p clientCreds)
      (\<lambda>e. (True, Some (Wrap ''failed to store client credentials with an error'' e))) (State_Monad.return (True, None))) ?Q" for p
  proof (rule triple_if_ok)
    show "triple (holding (\<lambda>f. untouched ?n f \<and> verified lib p f)) (writeClientCredentials p clientCreds)
      (\<lambda>e w. case e of Some _ \<Rightarrow> map_of (fs w) clientCreds = ?n
        | None \<Rightarrow> (\<exists>m o1. map_of (fs w) clientCreds = Some (Reg p m o1)) \<and> verified lib p (map_of (fs w)))"
      by (rule triple_post [OF triple_writeClientCredentials]) (auto simp: holding_def split: option.splits)
  qed (auto intro: triple_return)
  have fetch: "triple ?A (bind_ok (fetchClientCredentials lib rootCACert)
         (\<lambda>e. (True, Some (Wrap ''failed to generate client credentials with an error'' e))) (\<lambda>creds.
         if_ok (writeClientCredentials creds clientCreds)
           (\<lambda>e. (True, Some (Wrap ''failed to store client credentials with an error'' e)))
           (State_Monad.return (True, None)))) ?Q"
    by (rule triple_bind_ok [OF triple_fetch_creds _ wr]) (simp add: holding_def untouched_def)
  have "triple (\<lambda>w. holding (untouched ?n) w \<and> (rootCertsInstalled w \<or> \<not> useNativeStore w)) (creds_Run lib) ?Q"
    unfolding creds_Run_def
  proof (rule triple_if_ok [where E = ?A and R = ?A])
    show "triple (\<lambda>w. holding (untouched ?n) w \<and> (rootCertsInstalled w \<or> \<not> useNativeStore w)) (install_root lib)
      (\<lambda>e w. case e of Some _ \<Rightarrow> ?A w | None \<Rightarrow> ?A w)"
      by (rule triple_post [OF triple_install_root]) (simp split: option.split)
    show "?A w \<Longrightarrow> ?Q (True, Some e) w" for e w
      by (simp add: holding_def untouched_def)
    show "triple ?A (do { modify (\<lambda>w. w\<lparr>rootCertsInstalled := True\<rparr>);
       bind_ok (fetchClientCredentials lib rootCACert)
         (\<lambda>e. (True, Some (Wrap ''failed to generate client credentials with an error'' e))) (\<lambda>creds.
         if_ok (writeClientCredentials creds clientCreds)
           (\<lambda>e. (True, Some (Wrap ''failed to store client credentials with an error'' e)))
           (State_Monad.return (True, None))) }) ?Q"
      by (rule triple_bind [OF _ fetch]) (simp add: triple_def holding_def)
  qed
  from tripleD [OF this _ assms(4)] assms(1-3) show ?thesis
    by (simp add: holding_def untouched_def)
qed

theorem creds_Run_verified_witness:
  "\<exists>renew w'. run_state (creds_Run plain_lib) (calm_creds [(var_Path googleRootCACertUEFIVar, Reg ''attrROOT'' 420 (0, 0))]) = ((renew, None), w') \<and>
     (\<exists>p m o1. map_of (fs w') clientCreds = Some (Reg p m o1) \<and> verified plain_lib p (map_of (fs w')))"
proof -
  let ?w = "calm_creds [(var_Path googleRootCACertUEFIVar, Reg ''attrROOT'' 420 (0, 0))]"
  obtain renew err and w' :: "(nat \<times> (nat \<times> string) list) creds_agent" where run: "run_state (creds_Run plain_lib) ?w = ((renew, err), w')"
    by (metis surj_pair)
  have "snd (fst (run_state (creds_Run plain_lib) ?w)) = None"
    by code_simp
  with run have err: "err = None"
    by simp
  have r: "\<forall>t. temp_suffix (rand ?w t)"
    by (simp add: calm_creds_simps temp_suffix_def)
  have l: "\<forall>t. map_of (fs ?w) rootCACert \<noteq> Some (Link t)"
    by (simp add: calm_creds_simps)
  have n: "rootCertsInstalled ?w \<or> \<not> useNativeStore ?w"
    by (simp add: calm_creds_simps)
  from creds_Run_verified [OF r l n run] run err show ?thesis
    by auto
qed

end
