(* ===== verification/Snapshots.thy ===== *)
theory Snapshots
  imports Retry IoFrame "HOL-Library.Word"
begin

text \<open>
  The listener for consistent snapshots (\<^verbatim>\<open>snapshot_listener.go\<close>): requests arrive from the snapshot service, each
  runs a script of the machine, and the answer is sent back. The messages are those of the service's protocol; a
  message that holds no snapshot request is \<^const>\<open>None\<close>. The calls of the gRPC client and the LRU cache are parameters.
\<close>

section \<open>Definitions\<close>

datatype OperationType = PRE_SNAPSHOT | POST_SNAPSHOT | OtherOperation int

datatype AgentErrorCode = NO_ERROR | SCRIPT_NOT_FOUND | SCRIPT_TIMED_OUT | UNHANDLED_SCRIPT_ERROR

record SnapshotRequest =
  OperationId :: int
  RequestType :: OperationType
  DiskList :: string

type_synonym GuestMessage = "SnapshotRequest option"

record SnapshotResponse =
  ResponseOperationId :: int
  ResponseType :: OperationType
  ScriptsReturnCode :: "32 word"
  AgentReturnCode :: AgentErrorCode

record 'l lru_ops =
  lru_Get :: "int \<Rightarrow> 'l \<Rightarrow> bool \<times> 'l"
  lru_Add :: "int \<Rightarrow> 'l \<Rightarrow> 'l"

record 'l snap_world = world +
  seenPreSnapshotOperationIds :: 'l
  seenPostSnapshotOperationIds :: 'l

type_synonym ('l, 'z, 'a) snap_io = "(('l, 'z) snap_world_scheme, 'a) state"

text \<open>What the client of the service does: connecting, opening the stream of requests, reading it, answering.\<close>

record ('l, 'z) snap_ops =
  grpc_Dial :: "string \<Rightarrow> ('l, 'z, goerr option) snap_io"
  CreateConnection :: "('l, 'z, goerr option) snap_io"
  Recv :: "('l, 'z, GuestMessage res) snap_io"
  HandleResponsesFromGuest :: "SnapshotResponse \<Rightarrow> ('l, 'z, goerr option) snap_io"

definition snapshot_policy :: Policy where
  "snapshot_policy = \<lparr>MaxAttempts = 10, BackoffFactor = 1, Jitter = 1000000000, ShouldRetry = None\<rparr>"

definition scriptsDir :: string where
  "scriptsDir = ''/etc/google/snapshots/''"

definition snap_runScript :: "string \<Rightarrow> string \<Rightarrow> ('z, int \<times> AgentErrorCode) io" where
  "snap_runScript path disks = do {
     s \<leftarrow> os_Stat path;
     (if (case s of Inl e \<Rightarrow> os_IsNotExist e | Inr _ \<Rightarrow> False) then State_Monad.return (-1, SCRIPT_NOT_FOUND)
      else do {
        execResult \<leftarrow> WithOutputTimeout [path, disks];
        State_Monad.return
          (if ExitCode execResult = 124 then (ExitCode execResult, SCRIPT_TIMED_OUT)
           else if ExitCode execResult \<noteq> 0 then (ExitCode execResult, UNHANDLED_SCRIPT_ERROR)
           else (ExitCode execResult, NO_ERROR)) }) }"

text \<open>Looking an operation up among those seen, and noting it; \<^const>\<open>True\<close> if it was there.\<close>

definition seen_pre :: "'l lru_ops \<Rightarrow> int \<Rightarrow> ('l, 'z, bool) snap_io" where
  "seen_pre lru i = do {
     w \<leftarrow> State_Monad.get;
     (case lru_Get lru i (seenPreSnapshotOperationIds w) of (found, c) \<Rightarrow> do {
        State_Monad.set (w\<lparr>seenPreSnapshotOperationIds := if found then c else lru_Add lru i c\<rparr>);
        State_Monad.return found }) }"

definition seen_post :: "'l lru_ops \<Rightarrow> int \<Rightarrow> ('l, 'z, bool) snap_io" where
  "seen_post lru i = do {
     w \<leftarrow> State_Monad.get;
     (case lru_Get lru i (seenPostSnapshotOperationIds w) of (found, c) \<Rightarrow> do {
        State_Monad.set (w\<lparr>seenPostSnapshotOperationIds := if found then c else lru_Add lru i c\<rparr>);
        State_Monad.return found }) }"

definition respond_with :: "SnapshotRequest \<Rightarrow> string \<Rightarrow> ('z, SnapshotResponse) io" where
  "respond_with request script = do {
     r \<leftarrow> snap_runScript (path_Join [scriptsDir, script]) (DiskList request);
     State_Monad.return \<lparr>ResponseOperationId = OperationId request, ResponseType = RequestType request,
       ScriptsReturnCode = word_of_int (fst r), AgentReturnCode = snd r\<rparr> }"

definition getSnapshotResponse :: "'l lru_ops \<Rightarrow> GuestMessage \<Rightarrow> ('l, 'z, SnapshotResponse option) snap_io" where
  "getSnapshotResponse lru guestMessage =
     (case guestMessage of
        None \<Rightarrow> State_Monad.return None
      | Some request \<Rightarrow>
          (case RequestType request of
             PRE_SNAPSHOT \<Rightarrow> do {
               found \<leftarrow> seen_pre lru (OperationId request);
               (if found then State_Monad.return None
                else do { r \<leftarrow> respond_with request ''pre.sh''; State_Monad.return (Some r) }) }
           | POST_SNAPSHOT \<Rightarrow> do {
               found \<leftarrow> seen_post lru (OperationId request);
               (if found then State_Monad.return None
                else do { r \<leftarrow> respond_with request ''post.sh''; State_Monad.return (Some r) }) }
           | OtherOperation _ \<Rightarrow> State_Monad.return None))"

text \<open>
  The head of the outer loop of \<^verbatim>\<open>handleSnapshotRequests\<close>: it ends when the context is done or the service cannot
  be reached, and is connected otherwise.
\<close>

definition connect_responder :: "('l, 'z) snap_ops \<Rightarrow> string \<Rightarrow> ('l, 'z, bool) snap_io" where
  "connect_responder ops address = do {
     e \<leftarrow> ctx_Err;
     (case e of Some _ \<Rightarrow> State_Monad.return False | None \<Rightarrow> do {
        d \<leftarrow> grpc_Dial ops address;
        State_Monad.return (d = None) }) }"

text \<open>
  The inner loop over the messages the channel delivers, and the outer one that connects again after an answer
  could not be sent. The value is the answers made, with how sending each went, and the messages left unread when
  the function returns; when the messages are used up it waits for more.
\<close>

fun handle_messages :: "'l lru_ops \<Rightarrow> ('l, 'z) snap_ops \<Rightarrow> string \<Rightarrow> GuestMessage list \<Rightarrow>
    ('l, 'z, (SnapshotResponse \<times> goerr option) list \<times> GuestMessage list) snap_io" where
  "handle_messages lru ops address [] = State_Monad.return ([], [])"
| "handle_messages lru ops address (m # ms) = do {
     response \<leftarrow> getSnapshotResponse lru m;
     (case response of
        None \<Rightarrow> handle_messages lru ops address ms
      | Some response \<Rightarrow> do {
          e \<leftarrow> retry_Run snapshot_policy (Some (HandleResponsesFromGuest ops response));
          goes_on \<leftarrow> (case e of None \<Rightarrow> State_Monad.return True | Some _ \<Rightarrow> connect_responder ops address);
          (if goes_on then do {
             r \<leftarrow> handle_messages lru ops address ms;
             State_Monad.return ((response, e) # fst r, snd r) }
           else State_Monad.return ([(response, e)], ms)) }) }"

definition handleSnapshotRequests :: "'l lru_ops \<Rightarrow> ('l, 'z) snap_ops \<Rightarrow> string \<Rightarrow> GuestMessage list \<Rightarrow>
    ('l, 'z, (SnapshotResponse \<times> goerr option) list \<times> GuestMessage list) snap_io" where
  "handleSnapshotRequests lru ops address ms = do {
     connected \<leftarrow> connect_responder ops address;
     (if connected then handle_messages lru ops address ms else State_Monad.return ([], ms)) }"

text \<open>
  The goroutine that reads the requests and puts them on the channel, for a number of calls of the client:
  \<^verbatim>\<open>reading\<close> tells whether a stream is open. The value is the messages delivered.
\<close>

fun listenForSnapshotRequests :: "nat \<Rightarrow> bool \<Rightarrow> ('l, 'z) snap_ops \<Rightarrow> string \<Rightarrow> ('l, 'z, GuestMessage list) snap_io" where
  "listenForSnapshotRequests 0 reading ops address = State_Monad.return []"
| "listenForSnapshotRequests (Suc n) True ops address = do {
     r \<leftarrow> Recv ops;
     (case r of
        Inl _ \<Rightarrow> listenForSnapshotRequests n False ops address
      | Inr request \<Rightarrow> do {
          more \<leftarrow> listenForSnapshotRequests n True ops address;
          State_Monad.return (request # more) }) }"
| "listenForSnapshotRequests (Suc n) False ops address = do {
     e \<leftarrow> ctx_Err;
     (case e of Some _ \<Rightarrow> State_Monad.return [] | None \<Rightarrow> do {
        d \<leftarrow> grpc_Dial ops address;
        (case d of Some _ \<Rightarrow> State_Monad.return [] | None \<Rightarrow> do {
           c \<leftarrow> CreateConnection ops;
           listenForSnapshotRequests n (c = None) ops address }) }) }"

text \<open>The value is what the two goroutines are started with: the address, and the timeout of a script.\<close>

definition startSnapshotListener :: "string \<Rightarrow> int \<Rightarrow> int \<Rightarrow> ('z, string \<times> int) io" where
  "startSnapshotListener ip port timeoutInSeconds = do {
     s \<leftarrow> os_Stat scriptsDir;
     (case s of
        Inl e \<Rightarrow> if os_IsNotExist e then do { _ \<leftarrow> os_MkdirAll scriptsDir 448; State_Monad.return () }
                else State_Monad.return ()
      | Inr _ \<Rightarrow> State_Monad.return ());
     State_Monad.return (ip @ '':'' @ show_int port, timeoutInSeconds * 1000000000) }"

section \<open>Lemmas\<close>

text \<open>
  What the documentation of the cache promises: it holds different keys, most recent first; reading a key moves it
  to the front, and adding one drops the oldest beyond the capacity.
\<close>

definition lru_laws :: "nat \<Rightarrow> 'l lru_ops \<Rightarrow> ('l \<Rightarrow> int list) \<Rightarrow> bool" where
  "lru_laws n lru entries \<longleftrightarrow>
     (\<forall>k c. fst (lru_Get lru k c) = (k \<in> set (entries c)) \<and>
        entries (snd (lru_Get lru k c)) = (if k \<in> set (entries c) then k # remove1 k (entries c) else entries c)) \<and>
     (\<forall>k c. entries (lru_Add lru k c) = take n (k # removeAll k (entries c)))"

text \<open>The operations of the messages, as far as they are known; the two caches hold the operations in a set.\<close>

fun operation_of :: "GuestMessage \<Rightarrow> (OperationType \<times> int) option" where
  "operation_of None = None"
| "operation_of (Some r) =
     (case RequestType r of OtherOperation _ \<Rightarrow> None | t \<Rightarrow> Some (t, OperationId r))"

abbreviation operations :: "GuestMessage list \<Rightarrow> (OperationType \<times> int) list" where
  "operations \<equiv> List.map_filter operation_of"

abbreviation answered :: "SnapshotResponse \<Rightarrow> OperationType \<times> int" where
  "answered r \<equiv> (ResponseType r, ResponseOperationId r)"

definition same_seen :: "('l, 'z) snap_world_scheme \<Rightarrow> ('l, 'z) snap_world_scheme \<Rightarrow> bool" where
  "same_seen w w' \<longleftrightarrow> seenPreSnapshotOperationIds w' = seenPreSnapshotOperationIds w \<and>
     seenPostSnapshotOperationIds w' = seenPostSnapshotOperationIds w"

definition holds_ids :: "('l \<Rightarrow> int list) \<Rightarrow> 'l \<Rightarrow> int set \<Rightarrow> bool" where
  "holds_ids entries c A \<longleftrightarrow> distinct (entries c) \<and> set (entries c) = A"

definition seen_are :: "('l \<Rightarrow> int list) \<Rightarrow> (OperationType \<times> int) set \<Rightarrow> ('l, 'z) snap_world_scheme \<Rightarrow> bool" where
  "seen_are entries A w \<longleftrightarrow>
     holds_ids entries (seenPreSnapshotOperationIds w) {i. (PRE_SNAPSHOT, i) \<in> A} \<and>
     holds_ids entries (seenPostSnapshotOperationIds w) {i. (POST_SNAPSHOT, i) \<in> A}"

text \<open>No more operations of one kind than the caches can hold.\<close>

definition few :: "nat \<Rightarrow> (OperationType \<times> int) set \<Rightarrow> bool" where
  "few n A \<longleftrightarrow> finite A \<and> (\<forall>t. card {i. (t, i) \<in> A} \<le> n)"

interpretation seen: io_frame same_seen
  by unfold_locales (simp_all add: same_seen_def)

lemma seen_are_cong: "same_seen w w' \<Longrightarrow> seen_are entries A w \<Longrightarrow> seen_are entries A w'"
  by (simp add: seen_are_def same_seen_def)

lemma few_mono:
  assumes "few n A" and "B \<subseteq> A"
  shows "few n B"
proof -
  have "finite {i. (t, i) \<in> A}" for t
    by (rule finite_subset [where B = "snd ` A"]) (use assms(1) in \<open>force simp: few_def\<close>)+
  then have "card {i. (t, i) \<in> B} \<le> card {i. (t, i) \<in> A}" for t
    by (rule card_mono) (use assms(2) in blast)
  then show ?thesis
    using assms by (auto simp: few_def intro: finite_subset order_trans)
qed

lemma holds_ids_Get:
  assumes "lru_laws n lru entries" and "holds_ids entries c A"
  shows "fst (lru_Get lru k c) = (k \<in> A)" and "holds_ids entries (snd (lru_Get lru k c)) A"
  using assms by (auto simp: lru_laws_def holds_ids_def)

lemma holds_ids_Add:
  assumes "lru_laws n lru entries" and "holds_ids entries c A" and "k \<notin> A" and "card (insert k A) \<le> n"
  shows "holds_ids entries (lru_Add lru k c) (insert k A)"
proof -
  have "removeAll k (entries c) = entries c" and "length (k # entries c) \<le> n"
    using assms(2-4) distinct_card [of "k # entries c"] by (auto simp: holds_ids_def)
  then have "entries (lru_Add lru k c) = k # entries c"
    using assms(1) by (simp add: lru_laws_def)
  with assms(2,3) show ?thesis
    by (simp add: holds_ids_def)
qed

text \<open>Looking an operation up notes it, as long as the cache can hold it.\<close>

lemma holds_ids_noted:
  assumes "lru_laws n lru entries" and "holds_ids entries c A" and "card (insert k A) \<le> n"
    and "lru_Get lru k c = (found, d)"
  shows "found = (k \<in> A)" and "holds_ids entries (if found then d else lru_Add lru k d) (insert k A)"
proof -
  from holds_ids_Get [OF assms(1,2), of k] assms(4) show found: "found = (k \<in> A)"
    by simp
  from holds_ids_Get(2) [OF assms(1,2), of k] assms(4) have d: "holds_ids entries d A"
    by simp
  show "holds_ids entries (if found then d else lru_Add lru k d) (insert k A)"
  proof (cases found)
    case True
    with d found show ?thesis
      by (simp add: insert_absorb)
  next
    case False
    with holds_ids_Add [OF assms(1) d _ assms(3)] found show ?thesis
      by simp
  qed
qed

lemma same_seen_respond_with: "keeps same_seen (respond_with request script)"
  unfolding respond_with_def snap_runScript_def WithOutputTimeout_def execCommand_def
  by (intro seen.keeps_rules keeps_cases seen.keeps_files seen.keeps_clock seen.keeps_spawn)

lemma few_insert: "few n (insert (t, i) A) \<Longrightarrow> card (insert i {j. (t, j) \<in> A}) \<le> n"
proof -
  assume few: "few n (insert (t, i) A)"
  have "{j. (t, j) \<in> insert (t, i) A} = insert i {j. (t, j) \<in> A}"
    by blast
  with few show ?thesis
    unfolding few_def by metis
qed

lemma seen_pre_run:
  assumes "lru_laws n lru entries" and "seen_are entries A w" and "few n (insert (PRE_SNAPSHOT, i) A)"
  shows "\<exists>w1. run_state (seen_pre lru i) w = ((PRE_SNAPSHOT, i) \<in> A, w1) \<and> seen_are entries (insert (PRE_SNAPSHOT, i) A) w1"
proof -
  obtain found d where get: "lru_Get lru i (seenPreSnapshotOperationIds w) = (found, d)"
    by (metis surj_pair)
  have "holds_ids entries (seenPreSnapshotOperationIds w) {j. (PRE_SNAPSHOT, j) \<in> A}"
    using assms(2) by (simp add: seen_are_def)
  note noted = holds_ids_noted [OF assms(1) this few_insert [OF assms(3)] get]
  have "{j. j = i \<or> (PRE_SNAPSHOT, j) \<in> A} = insert i {j. (PRE_SNAPSHOT, j) \<in> A}"
    by blast
  with noted assms(2) show ?thesis
    by (simp add: seen_pre_def get seen_are_def)
qed

lemma seen_post_run:
  assumes "lru_laws n lru entries" and "seen_are entries A w" and "few n (insert (POST_SNAPSHOT, i) A)"
  shows "\<exists>w1. run_state (seen_post lru i) w = ((POST_SNAPSHOT, i) \<in> A, w1) \<and> seen_are entries (insert (POST_SNAPSHOT, i) A) w1"
proof -
  obtain found d where get: "lru_Get lru i (seenPostSnapshotOperationIds w) = (found, d)"
    by (metis surj_pair)
  have "holds_ids entries (seenPostSnapshotOperationIds w) {j. (POST_SNAPSHOT, j) \<in> A}"
    using assms(2) by (simp add: seen_are_def)
  note noted = holds_ids_noted [OF assms(1) this few_insert [OF assms(3)] get]
  have "{j. j = i \<or> (POST_SNAPSHOT, j) \<in> A} = insert i {j. (POST_SNAPSHOT, j) \<in> A}"
    by blast
  with noted assms(2) show ?thesis
    by (simp add: seen_post_def get seen_are_def)
qed

lemma respond_with_run:
  assumes "seen_are entries A w"
  shows "\<exists>r w1. run_state (respond_with request script) w = (r, w1) \<and> seen_are entries A w1 \<and>
    answered r = (RequestType request, OperationId request)"
proof -
  have "seen_are entries A (snd (run_state (respond_with request script) w))"
    using seen_are_cong [OF keepsD [OF same_seen_respond_with] assms] .
  then show ?thesis
    by (auto simp: respond_with_def split: prod.splits)
qed

text \<open>A message is answered exactly if its operation is known and was not seen before; then it has been seen.\<close>

lemma getSnapshotResponse_seen:
  assumes laws: "lru_laws n lru entries" and seen: "seen_are entries A w" and few: "few n (A \<union> set (operations [m]))"
  shows "\<exists>response w'. run_state (getSnapshotResponse lru m) w = (response, w') \<and>
    seen_are entries (A \<union> set (operations [m])) w' \<and>
    map answered (case response of None \<Rightarrow> [] | Some r \<Rightarrow> [r]) = filter (\<lambda>x. x \<notin> A) (operations [m])"
proof (cases m)
  case None
  with seen show ?thesis
    by (simp add: getSnapshotResponse_def List.map_filter_def)
next
  case (Some request)
  let ?k = "(RequestType request, OperationId request)"
  show ?thesis
  proof (cases "RequestType request")
    case PRE_SNAPSHOT
    with Some few have "few n (insert (PRE_SNAPSHOT, OperationId request) A)"
      by (simp add: List.map_filter_def)
    from seen_pre_run [OF laws seen this] obtain w1 where
      "run_state (seen_pre lru (OperationId request)) w = (?k \<in> A, w1)" and w1: "seen_are entries (insert ?k A) w1"
      using PRE_SNAPSHOT by auto
    then show ?thesis
      using Some PRE_SNAPSHOT respond_with_run [OF w1, of request "''pre.sh''"]
      by (auto simp: getSnapshotResponse_def List.map_filter_def)
  next
    case POST_SNAPSHOT
    with Some few have "few n (insert (POST_SNAPSHOT, OperationId request) A)"
      by (simp add: List.map_filter_def)
    from seen_post_run [OF laws seen this] obtain w1 where
      "run_state (seen_post lru (OperationId request)) w = (?k \<in> A, w1)" and w1: "seen_are entries (insert ?k A) w1"
      using POST_SNAPSHOT by auto
    then show ?thesis
      using Some POST_SNAPSHOT respond_with_run [OF w1, of request "''post.sh''"]
      by (auto simp: getSnapshotResponse_def List.map_filter_def)
  next
    case OtherOperation
    with Some seen show ?thesis
      by (simp add: getSnapshotResponse_def List.map_filter_def)
  qed
qed

text \<open>The elements of a list at their first occurrence, without those of a set.\<close>

fun first_occurrences :: "'a set \<Rightarrow> 'a list \<Rightarrow> 'a list" where
  "first_occurrences A [] = []"
| "first_occurrences A (x # xs) = (if x \<in> A then first_occurrences A xs else x # first_occurrences (insert x A) xs)"

lemma first_occurrences_append:
  "first_occurrences A (xs @ ys) = first_occurrences A xs @ first_occurrences (A \<union> set xs) ys"
  by (induction xs arbitrary: A) (auto simp: insert_absorb Un_insert_right)

lemma operations_Cons: "operations (m # ms) = operations [m] @ operations ms"
  by (simp add: List.map_filter_def)

lemma first_occurrences_one: "first_occurrences A (operations [m]) = filter (\<lambda>x. x \<notin> A) (operations [m])"
  by (simp add: List.map_filter_def split: option.splits)

lemma same_seen_connect:
  assumes "keeps same_seen (grpc_Dial ops address)"
  shows "keeps same_seen (connect_responder ops address)"
  unfolding connect_responder_def by (intro seen.keeps_rules keeps_cases seen.keeps_clock assms)

lemma same_seen_retry: "keeps same_seen f \<Longrightarrow> keeps same_seen (retry_Run policy (Some f))"
  unfolding retry_Run_def by (simp, intro seen.keeps_rules seen.keeps_RunWithResponse)

lemma same_seen_go_on:
  assumes "keeps same_seen (grpc_Dial ops address)"
  shows "keeps same_seen (case e of None \<Rightarrow> State_Monad.return True | Some _ \<Rightarrow> connect_responder ops address)"
  by (intro seen.keeps_rules keeps_cases same_seen_connect assms)

text \<open>One message: what it adds to the answers, and the messages that are handled after it.\<close>

lemma handle_messages_Cons:
  assumes laws: "lru_laws n lru entries" and ops: "\<And>r. keeps same_seen (HandleResponsesFromGuest ops r)" "keeps same_seen (grpc_Dial ops address)"
    and seen: "seen_are entries A w" and few: "few n (A \<union> set (operations [m]))"
    and run: "run_state (handle_messages lru ops address (m # ms)) w = ((sent, rest), w')"
  shows "\<exists>this w1 sent'. map (answered \<circ> fst) this = first_occurrences A (operations [m]) \<and> sent = this @ sent' \<and>
    seen_are entries (A \<union> set (operations [m])) w1 \<and>
    (sent' = [] \<and> rest = ms \<or> run_state (handle_messages lru ops address ms) w1 = ((sent', rest), w'))"
proof -
  obtain response w1 where m: "run_state (getSnapshotResponse lru m) w = (response, w1)"
    and seen1: "seen_are entries (A \<union> set (operations [m])) w1"
    and new: "map answered (case response of None \<Rightarrow> [] | Some r \<Rightarrow> [r]) = first_occurrences A (operations [m])"
    using getSnapshotResponse_seen [OF laws seen few] unfolding first_occurrences_one by blast
  show ?thesis
  proof (cases response)
    case None
    with run m new seen1 show ?thesis
      by (intro exI [of _ "[]"] exI [of _ w1] exI [of _ sent]) simp
  next
    case (Some r)
    obtain e w2 where e: "run_state (retry_Run snapshot_policy (Some (HandleResponsesFromGuest ops r))) w1 = (e, w2)"
      by (metis surj_pair)
    obtain goes_on w3 where g: "run_state (case e of None \<Rightarrow> State_Monad.return True | Some _ \<Rightarrow> connect_responder ops address) w2 = (goes_on, w3)"
      by (metis surj_pair)
    have "same_seen w1 w2" "same_seen w2 w3"
      using keepsD [OF same_seen_retry [OF ops(1)]] e keepsD [OF same_seen_go_on [OF ops(2)]] g by (metis snd_conv)+
    then have seen3: "seen_are entries (A \<union> set (operations [m])) w3"
      using seen1 seen_are_cong by blast
    obtain sent' rest' w4 where ms: "run_state (handle_messages lru ops address ms) w3 = ((sent', rest'), w4)"
      by (metis surj_pair)
    have "sent = (r, e) # (if goes_on then sent' else []) \<and> (if goes_on then rest = rest' \<and> w' = w4 else rest = ms)"
      using run m Some e g ms by (simp split: if_splits)
    with seen3 new Some ms show ?thesis
      by (intro exI [of _ "[(r, e)]"] exI [of _ w3] exI [of _ "if goes_on then sent' else []"]) simp
  qed
qed

lemma handle_messages_once:
  assumes laws: "lru_laws n lru entries" and ops: "\<And>r. keeps same_seen (HandleResponsesFromGuest ops r)" "keeps same_seen (grpc_Dial ops address)"
    and "seen_are entries A w" and "few n (A \<union> set (operations ms))"
    and "run_state (handle_messages lru ops address ms) w = ((sent, rest), w')"
  shows "\<exists>used. ms = used @ rest \<and> map (answered \<circ> fst) sent = first_occurrences A (operations used)"
  using assms(4-)
proof (induction ms arbitrary: A w sent)
  case (Cons m ms)
  define B where "B = A \<union> set (operations [m])"
  have few: "few n (B \<union> set (operations ms))"
    using Cons.prems(2) unfolding B_def operations_Cons [of m ms] set_append Un_assoc .
  then have "few n B"
    by (rule few_mono) blast
  then obtain this w1 sent' where new: "map (answered \<circ> fst) this = first_occurrences A (operations [m])" "sent = this @ sent'"
    and seen: "seen_are entries B w1"
    and cont: "sent' = [] \<and> rest = ms \<or> run_state (handle_messages lru ops address ms) w1 = ((sent', rest), w')"
    using handle_messages_Cons [OF laws ops Cons.prems(1) _ Cons.prems(3)] unfolding B_def by blast
  obtain used where "ms = used @ rest" and "map (answered \<circ> fst) sent' = first_occurrences B (operations used)"
  proof (cases "sent' = [] \<and> rest = ms")
    case True
    then show ?thesis
      by (intro that [of "[]"]) simp_all
  next
    case False
    with cont Cons.IH [OF seen few] show ?thesis
      using that by blast
  qed
  with new show ?case
    by (intro exI [of _ "m # used"]) (simp only: operations_Cons [of m used] first_occurrences_append B_def map_append append_Cons simp_thms)
qed simp

section \<open>Properties\<close>


text \<open>
  A list as cache, a service that accepts every answer, and six messages: the repeated request and the unknown one
  are passed over.
\<close>

definition list_lru :: "int list lru_ops" where
  "list_lru = \<lparr>lru_Get = (\<lambda>k c. (k \<in> set c, if k \<in> set c then k # remove1 k c else c)),
     lru_Add = (\<lambda>k c. take 128 (k # removeAll k c))\<rparr>"

definition snap_demo :: "int list snap_world" where
  "snap_demo = world.extend (calm []) \<lparr>seenPreSnapshotOperationIds = [], seenPostSnapshotOperationIds = []\<rparr>"

definition snap_service :: "(int list, unit) snap_ops" where
  "snap_service = \<lparr>grpc_Dial = (\<lambda>_. State_Monad.return None), CreateConnection = State_Monad.return None,
     Recv = State_Monad.return (Inr None), HandleResponsesFromGuest = (\<lambda>_. State_Monad.return None)\<rparr>"

definition snap_messages :: "GuestMessage list" where
  "snap_messages = [Some \<lparr>OperationId = 7, RequestType = PRE_SNAPSHOT, DiskList = ''1/2''\<rparr>,
     Some \<lparr>OperationId = 7, RequestType = PRE_SNAPSHOT, DiskList = ''1/2''\<rparr>, None,
     Some \<lparr>OperationId = 7, RequestType = POST_SNAPSHOT, DiskList = ''1/2''\<rparr>,
     Some \<lparr>OperationId = 9, RequestType = OtherOperation 0, DiskList = []\<rparr>,
     Some \<lparr>OperationId = 8, RequestType = PRE_SNAPSHOT, DiskList = []\<rparr>]"

lemma snap_messages_operations: "operations snap_messages = [(PRE_SNAPSHOT, 7), (PRE_SNAPSHOT, 7), (POST_SNAPSHOT, 7), (PRE_SNAPSHOT, 8)]"
  by (simp add: snap_messages_def List.map_filter_def)

lemma snap_messages_read: "snd (fst (run_state (handleSnapshotRequests list_lru snap_service ''1:2'' snap_messages) snap_demo)) = []"
  by code_simp


end
