(* ===== verification/InstanceSetup.thy ===== *)
theory InstanceSetup
  imports Crypto Snapshots
begin

text \<open>
  What the agent does when it starts (\<^verbatim>\<open>instance_setup.go\<close>): the route to the metadata server on Windows, and on
  Linux scripts, I/O schedulers and the actions of the first boot, in the order of \<^verbatim>\<open>agentInit\<close>, which \<^verbatim>\<open>AgentMain\<close> puts
  together. The library for ini files is a parameter.
\<close>

section \<open>The route to the metadata server\<close>

record ipForwardEntry =
  ipForwardDest :: ip
  ipForwardMask :: "nat list"
  ipForwardNextHop :: ip
  ipForwardIfIndex :: int
  ipForwardMetric1 :: int

text \<open>\<^verbatim>\<open>net.IP.Equal\<close>: an IPv4 address in four bytes and in sixteen are the same.\<close>

definition ip_Equal :: "ip \<Rightarrow> ip \<Rightarrow> bool" where
  "ip_Equal a b \<longleftrightarrow> a = b \<or> To4 a \<noteq> None \<and> To4 a = To4 b"

text \<open>The sort is not stable: entries of one adapter come in any order.\<close>

definition getDefaultAdapter :: "ipForwardEntry list \<Rightarrow> ('z, ipForwardEntry res) io" where
  "getDefaultAdapter fes = do {
     order \<leftarrow> range_map fes;
     State_Monad.return (case find (\<lambda>fe. ip_Equal (ipForwardDest fe) (v4_prefix @ [0, 0, 0, 0])) (sort_key ipForwardIfIndex order) of
       Some fe \<Rightarrow> Inr fe
     | None \<Rightarrow> Inl (Msg ''no default route to 0.0.0.0 found'')) }"

record 'z route_api =
  getIPForwardEntries :: "('z, ipForwardEntry list res) io"
  addIPForwardEntry :: "ipForwardEntry \<Rightarrow> ('z, goerr option) io"

definition metadata_route :: "ipForwardEntry \<Rightarrow> ipForwardEntry" where
  "metadata_route defaultRoute =
     \<lparr>ipForwardDest = v4_prefix @ [169, 254, 169, 254], ipForwardMask = [255, 255, 255, 255],
      ipForwardNextHop = v4_prefix @ [0, 0, 0, 0], ipForwardIfIndex = ipForwardIfIndex defaultRoute,
      ipForwardMetric1 = ipForwardMetric1 defaultRoute\<rparr>"

definition addMetadataRoute :: "'z route_api \<Rightarrow> ('z, goerr option) io" where
  "addMetadataRoute api = bind_ok (getIPForwardEntries api) Some (\<lambda>fes.
     bind_ok (getDefaultAdapter fes) Some (\<lambda>defaultRoute.
       let forwardEntry = metadata_route defaultRoute in
       if list_ex (\<lambda>fe. ip_Equal (ipForwardDest fe) (ipForwardDest forwardEntry) \<and>
           ipForwardIfIndex fe = ipForwardIfIndex forwardEntry) fes
       then State_Monad.return None
       else addIPForwardEntry api forwardEntry))"

definition route_policy :: Policy where
  "route_policy = \<lparr>MaxAttempts = 60, BackoffFactor = 1, Jitter = 1000000000, ShouldRetry = None\<rparr>"

section \<open>Every start on Linux\<close>

text \<open>The names in a directory come in any order.\<close>

definition Readdirnames :: "string \<Rightarrow> ('z, string list res) io" where
  "Readdirnames dir = bind_ok (os_ReadDir dir) Inl (\<lambda>es. do {
     order \<leftarrow> range_map (map fst es);
     State_Monad.return (Inr order) })"

definition set_scheduler :: "string \<Rightarrow> ('z, goerr option) io" where
  "set_scheduler dev = do {
     s \<leftarrow> os_Stat (''/sys/block/'' @ dev @ ''/mq'');
     (case s of
        Inr (Dir _ _) \<Rightarrow> bind_ok (os_Open False False True 448 (''/sys/block/'' @ dev @ ''/queue/scheduler'')) Some
          (\<lambda>f. os_Write f ''none'')
      | _ \<Rightarrow> State_Monad.return None) }"

definition setIOScheduler :: "('z, goerr option) io" where
  "setIOScheduler = bind_ok (Readdirnames ''/sys/block'') Some (\<lambda>devs. for_err set_scheduler devs)"

definition setup_scripts :: "InstanceSetupCfg \<Rightarrow> ('z, unit) io" where
  "setup_scripts cfg = for_all (\<lambda>(enabled, script).
       if enabled then do { _ \<leftarrow> Quiet [''google_'' @ script]; State_Monad.return () } else State_Monad.return ())
     [(OptimizeLocalSSD cfg, ''optimize_local_ssd''), (SetMultiqueue cfg, ''set_multiqueue'')]"

definition disable_overcommit :: "string \<Rightarrow> ('z, unit) io" where
  "disable_overcommit machineType =
     (if HasPrefix (last (Split machineType CHR ''/'')) ''e2-''
      then do { _ \<leftarrow> Quiet [''sysctl'', ''vm.overcommit_memory=1'']; State_Monad.return () }
      else State_Monad.return ())"

section \<open>The first boot\<close>

definition host_key_type :: "string \<Rightarrow> string option" where
  "host_key_type file =
     (if HasPrefix file ''ssh_host_'' \<and> HasSuffix file ''_key'' \<and> length file > length ''ssh_host__key''
      then Some (TrimSuffix (TrimPrefix file ''ssh_host_'') ''_key'') else None)"

text \<open>One key: made beside the old one, put in its place, and uploaded. A failure ends the work on this key.\<close>

definition generate_key :: "string \<Rightarrow> string \<Rightarrow> ('z, goerr option) mds_io" where
  "generate_key hostKeyDir keytype =
     (let keyfile = hostKeyDir @ ''/ssh_host_'' @ keytype @ ''_key'' in
      if_ok (Quiet [''ssh-keygen'', ''-t'', keytype, ''-f'', keyfile @ ''.temp'', ''-N'', [], ''-q'']) Some
       (if_ok (os_Chmod (keyfile @ ''.temp'') 384) Some
        (if_ok (os_Chmod (keyfile @ ''.temp.pub'') 420) Some
         (if_ok (os_Rename (keyfile @ ''.temp'') keyfile) Some
          (if_ok (os_Rename (keyfile @ ''.temp.pub'') (keyfile @ ''.pub'')) Some
           (bind_ok (os_ReadFile (keyfile @ ''.pub'')) Some (\<lambda>pubKey.
             case Split pubKey CHR '' '' of
               a # b # _ \<Rightarrow> WriteGuestAttributes (''hostkeys/'' @ a) b
             | _ \<Rightarrow> State_Monad.return None)))))))"

definition generate_keys :: "InstanceSetupCfg \<Rightarrow> ('z, goerr option) mds_io" where
  "generate_keys cfg = bind_ok (Readdirnames (HostKeyDir cfg)) Some (\<lambda>files. do {
     keytypes \<leftarrow> range_map (remdups (List.map_filter host_key_type files @ Split (HostKeyTypes cfg) CHR '',''));
     for_all (\<lambda>k. do { _ \<leftarrow> generate_key (HostKeyDir cfg) k; State_Monad.return () }) keytypes;
     r \<leftarrow> exec_LookPath ''restorecon'';
     (case r of
        Inl _ \<Rightarrow> State_Monad.return None
      | Inr _ \<Rightarrow> if_ok (Quiet [''restorecon'', ''-FR'', HostKeyDir cfg])
          (\<lambda>_. Some (Msg (''failed to restore SELinux context for: '' @ HostKeyDir cfg))) (State_Monad.return None)) })"

definition generateSSHKeys :: "('z, goerr option) agent_io" where
  "generateSSHKeys = do { cfg \<leftarrow> gets (\<lambda>w. InstanceSetup (config w)); generate_keys cfg }"

text \<open>
  The configuration of \<^verbatim>\<open>boto\<close>: the library reads those of the two files that exist and gives the text with the
  settings changed for a numeric project ID.
\<close>

type_synonym boto_lib = "string list \<Rightarrow> string \<Rightarrow> string res"

fun read_existing :: "string list \<Rightarrow> ('z, string list res) io" where
  "read_existing [] = State_Monad.return (Inr [])"
| "read_existing (p # ps) = do {
     r \<leftarrow> os_ReadFile p;
     (case r of
        Inl e \<Rightarrow> if os_IsNotExist e then read_existing ps else State_Monad.return (Inl e)
      | Inr b \<Rightarrow> bind_ok (read_existing ps) Inl (\<lambda>bs. State_Monad.return (Inr (b # bs)))) }"

definition generateBotoConfig :: "boto_lib \<Rightarrow> ('z, goerr option) agent_io" where
  "generateBotoConfig boto = do {
     projectID \<leftarrow> gets (\<lambda>w. NumericProjectID (Proj (newMetadata w)));
     bind_ok (read_existing [''/etc/boto.cfg'', ''/etc/boto.cfg.template'']) Some (\<lambda>bs.
       case boto bs projectID of
         Inl e \<Rightarrow> State_Monad.return (Some e)
       | Inr t \<Rightarrow> os_WriteFile ''/etc/boto.cfg'' t 438) }"

definition first_boot_actions :: "boto_lib \<Rightarrow> ('z, unit) agent_io" where
  "first_boot_actions boto = do {
     cfg \<leftarrow> gets (\<lambda>w. InstanceSetup (config w));
     (if SetHostKeys cfg then do { _ \<leftarrow> generateSSHKeys; State_Monad.return () } else State_Monad.return ());
     (if SetBotoConfig cfg then do { _ \<leftarrow> generateBotoConfig boto; State_Monad.return () } else State_Monad.return ()) }"

definition write_instance_id :: "('z, unit) agent_io" where
  "write_instance_id = do {
     file \<leftarrow> gets (\<lambda>w. InstanceIDDir (InstanceSection (config w)));
     i \<leftarrow> gets (\<lambda>w. ID (Inst (newMetadata w)));
     _ \<leftarrow> os_WriteFile file (i @ ''\<newline>'') 420;
     State_Monad.return () }"

text \<open>The part of \<^verbatim>\<open>agentInit\<close> that compares the instance ID with the one stored. The value tells whether it was a first boot.\<close>

definition first_boot :: "boto_lib \<Rightarrow> ('z, bool) agent_io" where
  "first_boot boto = do {
     cfg \<leftarrow> gets (\<lambda>w. InstanceSection (config w));
     r \<leftarrow> os_ReadFile (InstanceIDDir cfg);
     (if (case r of Inl e \<Rightarrow> \<not> os_IsNotExist e | Inr _ \<Rightarrow> False) then State_Monad.return False
      else do {
        let stored = (case r of Inr b \<Rightarrow> b | Inl _ \<Rightarrow> []);
        (if stored = [] then write_instance_id else State_Monad.return ());
        i \<leftarrow> gets (\<lambda>w. ID (Inst (newMetadata w)));
        (if i \<noteq> TrimSpace (if stored = [] then InstanceID cfg else stored) then do {
           first_boot_actions boto;
           write_instance_id;
           State_Monad.return True }
         else State_Monad.return False) }) }"

section \<open>Lemmas\<close>

text \<open>The files of the first boot's actions: host keys with their companions, and the configuration of \<^verbatim>\<open>boto\<close>.\<close>

definition first_boot_files :: "InstanceSetupCfg \<Rightarrow> string set" where
  "first_boot_files cfg = insert ''/etc/boto.cfg'' (range (\<lambda>x. HostKeyDir cfg @ ''/ssh_host_'' @ x))"

lemma host_key_files [simp]: "HostKeyDir cfg @ ''/ssh_host_'' @ x \<in> first_boot_files cfg" "''/etc/boto.cfg'' \<in> first_boot_files cfg"
  by (auto simp: first_boot_files_def)

text \<open>Go's error idioms keep files confined.\<close>

lemma within_generate_key: "keeps (confined (first_boot_files cfg)) (generate_key (HostKeyDir cfg) k)"
proof -
  have "HostKeyDir cfg @ ''/ssh_host_'' @ k @ ''_key'' @ s \<in> first_boot_files cfg" for s
    using host_key_files(1) [of cfg "k @ ''_key'' @ s"] by simp
  note files = this [of "''.temp''"] this [of "''.temp.pub''"] this [of "''.pub''"] this [of "[]", simplified]
  show ?thesis
    unfolding generate_key_def Let_def
    by (intro within_if_ok within_bind_ok frame_intros within_Chmod within_Rename) (use files in simp_all)
qed

lemma within_generate_keys: "keeps (confined (first_boot_files cfg)) (generate_keys cfg)"
  unfolding generate_keys_def Readdirnames_def by (intro frame_intros within_generate_key)

lemma within_read_existing: "keeps (confined S) (read_existing ps)"
proof (induction ps)
  case (Cons p ps)
  then show ?case
    unfolding read_existing.simps by (intro frame_intros)
qed (simp add: confined.keeps_return)

lemma within_generateBotoConfig: "keeps (confined (first_boot_files cfg)) (generateBotoConfig boto)"
  unfolding generateBotoConfig_def by (intro frame_intros within_read_existing host_key_files)

lemma first_boot_actions_confined:
  "confined (first_boot_files (InstanceSetup (config w))) w (snd (run_state (first_boot_actions boto) w))"
proof -
  let ?cfg = "InstanceSetup (config w)"
  have eq: "run_state (first_boot_actions boto) w = run_state (do {
      (if SetHostKeys ?cfg then do { _ \<leftarrow> generate_keys ?cfg; State_Monad.return () } else State_Monad.return ());
      (if SetBotoConfig ?cfg then do { _ \<leftarrow> generateBotoConfig boto; State_Monad.return () } else State_Monad.return ()) }) w"
    by (simp add: first_boot_actions_def generateSSHKeys_def)
  have "keeps (confined (first_boot_files ?cfg)) (do {
      (if SetHostKeys ?cfg then do { _ \<leftarrow> generate_keys ?cfg; State_Monad.return () } else State_Monad.return ());
      (if SetBotoConfig ?cfg then do { _ \<leftarrow> generateBotoConfig boto; State_Monad.return () } else State_Monad.return ()) })"
    by (intro frame_intros within_generate_keys within_generateBotoConfig)
  then show ?thesis
    unfolding eq by (rule keepsD)
qed

text \<open>Settings, metadata and failures stay as they are.\<close>

definition same_boot :: "'z agent_scheme \<Rightarrow> 'z agent_scheme \<Rightarrow> bool" where
  "same_boot w w' \<longleftrightarrow> config w' = config w \<and> newMetadata w' = newMetadata w \<and> fault w' = fault w \<and> exec w' = exec w"

interpretation boot: http_frame same_boot
  by unfold_locales (simp_all add: same_boot_def)

lemma same_boot_generate_keys: "keeps same_boot (generate_keys cfg)"
  unfolding generate_keys_def Readdirnames_def generate_key_def Let_def
  by (intro boot.keeps_bind_ok boot.keeps_if_ok boot.keeps_rules keeps_cases boot.keeps_files boot.keeps_run boot.keeps_asks
      boot.keeps_WriteGuestAttributes)

lemma same_boot_read_existing: "keeps same_boot (read_existing ps)"
proof (induction ps)
  case (Cons p ps)
  then show ?case
    unfolding read_existing.simps by (intro boot.keeps_bind_ok boot.keeps_rules keeps_cases boot.keeps_files)
qed (simp add: boot.keeps_return)

lemma same_boot_actions: "keeps same_boot (first_boot_actions boto)" "keeps same_boot write_instance_id"
  unfolding first_boot_actions_def generateSSHKeys_def generateBotoConfig_def write_instance_id_def
  by (intro boot.keeps_bind_ok boot.keeps_rules keeps_cases boot.keeps_files boot.keeps_gets same_boot_generate_keys
      same_boot_read_existing)+

text \<open>
  A machine that can store its instance ID: no call fails, the file is an ordinary one in a directory that is there,
  and neither is touched by the first boot's actions.
\<close>

definition can_store :: "'z agent_scheme \<Rightarrow> bool" where
  "can_store w \<longleftrightarrow> (let p = InstanceIDDir (InstanceSection (config w)); S = first_boot_files (InstanceSetup (config w)) in
     fault w = (\<lambda>_. None) \<and> plain (fs w) p \<and> is_dir (fs w) (path_Dir p) \<and> p \<notin> S \<and> path_Dir p \<notin> S \<and>
     cmds_within S (exec w) \<and> no_links S (fs w))"

definition holds_id :: "'z agent_scheme \<Rightarrow> bool" where
  "holds_id w \<longleftrightarrow> (\<exists>c m o1. map_of (fs w) (InstanceIDDir (InstanceSection (config w))) = Some (Reg c m o1) \<and> c \<noteq> [] \<and>
     TrimSpace c = ID (Inst (newMetadata w)))"

text \<open>A descriptor with a real ID, without white space around it.\<close>

definition proper_id :: "'z agent_scheme \<Rightarrow> bool" where
  "proper_id w \<longleftrightarrow> TrimSpace (ID (Inst (newMetadata w)) @ ''\<newline>'') = ID (Inst (newMetadata w))"

lemma first_boot_stored:
  assumes "can_store w" and "holds_id w"
  shows "run_state (first_boot boto) w = (False, w\<lparr>tick := Suc (tick w)\<rparr>)"
proof -
  let ?p = "InstanceIDDir (InstanceSection (config w))"
  obtain c m o1 where c: "map_of (fs w) ?p = Some (Reg c m o1)" "c \<noteq> []" "TrimSpace c = ID (Inst (newMetadata w))"
    using assms(2) by (auto simp: holds_id_def)
  have "run_state (os_ReadFile ?p) w = (Inr c, w\<lparr>tick := Suc (tick w)\<rparr>)"
    using assms(1) c run_ReadFile_plain [of w ?p] by (simp add: can_store_def Let_def text_of_def)
  with c show ?thesis
    by (simp add: first_boot_def)
qed

lemma write_instance_id_stores:
  assumes "can_store w" and "proper_id w"
  shows "can_store (snd (run_state write_instance_id w)) \<and> holds_id (snd (run_state write_instance_id w)) \<and>
    same_boot w (snd (run_state write_instance_id w))"
proof -
  let ?p = "InstanceIDDir (InstanceSection (config w))" and ?s = "ID (Inst (newMetadata w)) @ ''\<newline>''"
  obtain w' m o1 where run: "run_state (os_WriteFile ?p ?s 420) w = (None, w')" and f: "fault w' = fault w"
    and map: "map_of (fs w') = (map_of (fs w))(?p \<mapsto> Reg ?s m o1)"
    using run_WriteFile_plain [of w ?p ?s 420] assms(1) by (auto simp: can_store_def Let_def)
  have boot: "same_boot w w'"
    using keepsD [OF boot.keeps_files(9), of w] run by (metis snd_conv)
  have "can_store w'"
    using assms(1) boot map by (auto simp: can_store_def same_boot_def Let_def plain_def is_dir_def no_links_def)
  moreover have "holds_id w'"
    using assms(2) boot map by (auto simp: holds_id_def same_boot_def proper_id_def)
  ultimately show ?thesis
    using boot run by (simp add: write_instance_id_def)
qed

lemma first_boot_actions_can_store:
  assumes "can_store w"
  shows "can_store (snd (run_state (first_boot_actions boto) w))"
proof -
  let ?w = "snd (run_state (first_boot_actions boto) w)" and ?S = "first_boot_files (InstanceSetup (config w))"
  have boot: "same_boot w ?w"
    by (rule keepsD [OF same_boot_actions(1)])
  have "step_within ?S (fs w) (fs ?w)"
    using first_boot_actions_confined [of w boto] assms by (simp add: confined_def can_store_def Let_def)
  then have "no_links ?S (fs ?w)" and off: "\<And>p. p \<notin> ?S \<Longrightarrow> map_of (fs ?w) p = map_of (fs w) p"
    using assms by (auto simp: step_within_def agree_off_def can_store_def Let_def)
  with assms boot show ?thesis
    by (simp add: can_store_def same_boot_def Let_def plain_def is_dir_def)
qed

text \<open>
  A start on such a machine, when the file has the text \<^verbatim>\<open>c\<close>: the ID is written if there was none, and if the ID differs
  the actions follow and it is written again.
\<close>

lemma first_boot_run:
  assumes "can_store w" and c: "c = text_of (fs w) (InstanceIDDir (InstanceSection (config w)))"
    and w1: "w1 = snd (run_state (if c = [] then write_instance_id else State_Monad.return ()) (w\<lparr>tick := Suc (tick w)\<rparr>))"
  shows "snd (run_state (first_boot boto) w) =
    (if ID (Inst (newMetadata w)) \<noteq> TrimSpace (if c = [] then InstanceID (InstanceSection (config w)) else c)
     then snd (run_state write_instance_id (snd (run_state (first_boot_actions boto) w1))) else w1)"
proof -
  let ?p = "InstanceIDDir (InstanceSection (config w))" and ?w = "w\<lparr>tick := Suc (tick w)\<rparr>"
  let ?s = "if c = [] then InstanceID (InstanceSection (config w)) else c"
  have read: "run_state (os_ReadFile ?p) w = (if map_of (fs w) ?p = None then Inl (Sys ENOENT) else Inr c, ?w)"
    using assms(1) run_ReadFile_plain [of w ?p] by (simp add: can_store_def Let_def c)
  have none: "map_of (fs w) ?p = None \<Longrightarrow> c = []"
    by (simp add: c text_of_def)
  have "newMetadata w1 = newMetadata w"
    using keepsD [OF same_boot_actions(2), of ?w] by (simp add: w1 same_boot_def)
  moreover have "run_state (first_boot boto) w = run_state (do {
      (if c = [] then write_instance_id else State_Monad.return ());
      i \<leftarrow> gets (\<lambda>w. ID (Inst (newMetadata w)));
      (if i \<noteq> TrimSpace ?s then do { first_boot_actions boto; write_instance_id; State_Monad.return True }
       else State_Monad.return False) }) ?w"
    using none by (cases "map_of (fs w) ?p") (simp_all add: first_boot_def read cong: if_cong)
  ultimately show ?thesis
    by (simp add: split_beta w1)
qed

text \<open>After a start the instance ID is stored, whether it was the first boot or not.\<close>

lemma first_boot_stores:
  assumes "can_store w" and "proper_id w"
  shows "can_store (snd (run_state (first_boot boto) w)) \<and> holds_id (snd (run_state (first_boot boto) w)) \<and>
    same_boot w (snd (run_state (first_boot boto) w))"
proof -
  define c where "c = text_of (fs w) (InstanceIDDir (InstanceSection (config w)))"
  let ?w = "w\<lparr>tick := Suc (tick w)\<rparr>" and ?s = "if c = [] then InstanceID (InstanceSection (config w)) else c"
  define w1 where "w1 = snd (run_state (if c = [] then write_instance_id else State_Monad.return ()) ?w)"
  define w2 where "w2 = snd (run_state (first_boot_actions boto) w1)"
  have w: "can_store ?w" "proper_id ?w" "same_boot w ?w"
    using assms by (simp_all add: can_store_def proper_id_def same_boot_def Let_def)
  have w1: "can_store w1" "same_boot w w1" "c = [] \<Longrightarrow> holds_id w1"
    using write_instance_id_stores [OF w(1,2)] w boot.frame_trans [OF w(3)] by (auto simp: w1_def)
  have w2: "can_store w2" "same_boot w w2" "proper_id w2"
    using first_boot_actions_can_store [OF w1(1)] keepsD [OF same_boot_actions(1), of w1 boto] w1(2) assms(2)
    by (auto simp: w2_def same_boot_def proper_id_def)
  note run = first_boot_run [OF assms(1) c_def w1_def, of boto]
  show ?thesis
  proof (cases "ID (Inst (newMetadata w)) = TrimSpace ?s")
    case True
    have "holds_id w1"
    proof (cases "c = []")
      case False
      with True show ?thesis
        by (auto simp: w1_def c_def holds_id_def text_of_def split: option.splits node.splits)
    qed (rule w1(3))
    moreover have "snd (run_state (first_boot boto) w) = w1"
      by (rule trans [OF run if_not_P]) (use True in blast)
    ultimately show ?thesis
      using w1(1,2) by (simp only: simp_thms)
  next
    case False
    then have "snd (run_state (first_boot boto) w) = snd (run_state write_instance_id w2)"
      unfolding w2_def by (rule trans [OF run if_P])
    then show ?thesis
      using write_instance_id_stores [OF w2(1,3)] boot.frame_trans [OF w2(2)] by (simp only: simp_thms)
  qed
qed

section \<open>Properties\<close>

text \<open>
  C19: the actions of the first boot run once. On a machine that can store its instance ID, a later start with the same
  metadata finds the ID and only reads the file: no host key and no configuration is made again, no command runs and no
  file changes, whatever the commands of the first start returned. (No call fails, the commands stay within the files
  of the host keys, and the ID has no white space around it.)
\<close>

theorem first_boot_once:
  assumes "can_store w" and "proper_id w" and "run_state (first_boot boto) w = (first, w')"
  shows "run_state (first_boot boto) w' = (False, w'\<lparr>tick := Suc (tick w')\<rparr>)"
  using first_boot_stores [OF assms(1,2), of boto] assms(3) by (simp add: first_boot_stored)

definition first_world :: agent where
  "first_world = (calm_agent [(''/etc'', Dir 493 (0, 0)), (''/etc/ssh'', Dir 493 (0, 0))])
     \<lparr>newMetadata := empty_descriptor\<lparr>Inst := empty_instance\<lparr>ID := ''42''\<rparr>\<rparr>\<rparr>"

definition plain_boto :: boto_lib where
  "plain_boto files projectID = Inr projectID"

lemma first_world_can_store: "can_store first_world" "proper_id first_world"
proof -
  have "map_of (fs first_world) p \<noteq> Some (Link t)" for p t
    by (simp add: first_world_def)
  moreover have "plain (fs first_world) ''/etc/google_instance_id''" "is_dir (fs first_world) ''/etc''"
    "path_Dir ''/etc/google_instance_id'' = ''/etc''"
    by code_simp+
  ultimately show "can_store first_world"
    by (auto simp: can_store_def Let_def first_world_def defaultConfig_def first_boot_files_def cmds_within_def no_links_def)
  show "proper_id first_world"
    by code_simp
qed

theorem first_boot_once_witness:
  "\<exists>w'. run_state (first_boot plain_boto) first_world = (True, w') \<and>
     run_state (first_boot plain_boto) w' = (False, w'\<lparr>tick := Suc (tick w')\<rparr>)"
proof -
  have "fst (run_state (first_boot plain_boto) first_world)"
    by code_simp
  then obtain w' where run: "run_state (first_boot plain_boto) first_world = (True, w')"
    by (metis prod.collapse)
  with first_boot_once [OF first_world_can_store run] show ?thesis
    by blast
qed

text \<open>The first element with a property in the sorted list is one with the least key.\<close>

lemma find_sort_key:
  assumes "find P (sort_key f xs) = Some x"
  shows "x \<in> set xs \<and> P x \<and> (\<forall>y \<in> set xs. P y \<longrightarrow> f x \<le> f y)"
proof -
  let ?ys = "sort_key f xs"
  obtain i where i: "i < length ?ys" "P (?ys ! i)" "x = ?ys ! i" "\<forall>j < i. \<not> P (?ys ! j)"
    using assms by (auto simp: find_Some_iff)
  have "f x \<le> f y" if "y \<in> set xs" "P y" for y
  proof -
    from that(1) have "y \<in> set ?ys"
      by simp
    then obtain j where j: "j < length ?ys" "y = ?ys ! j"
      by (metis in_set_conv_nth)
    with i(4) that(2) have "i \<le> j"
      by (metis not_less)
    with sorted_nth_mono [of "map f ?ys" i j] j i(1,3) show ?thesis
      by simp
  qed
  moreover from i(1,3) have "x \<in> set xs"
    by (metis nth_mem set_sort)
  ultimately show ?thesis
    using i(2,3) by blast
qed

definition is_default :: "ipForwardEntry \<Rightarrow> bool" where
  "is_default fe \<longleftrightarrow> ip_Equal (ipForwardDest fe) (v4_prefix @ [0, 0, 0, 0])"

lemma getDefaultAdapter_least:
  assumes "\<exists>fe \<in> set fes. is_default fe"
  shows "\<exists>d \<in> set fes. is_default d \<and> (\<forall>fe \<in> set fes. is_default fe \<longrightarrow> ipForwardIfIndex d \<le> ipForwardIfIndex fe) \<and>
    run_state (getDefaultAdapter fes) w = (Inr d, w\<lparr>tick := Suc (tick w)\<rparr>)"
proof -
  obtain order where order: "run_state (range_map fes) w = (order, w\<lparr>tick := Suc (tick w)\<rparr>)" "set order = set fes"
    by (simp add: range_map_def)
  have "find is_default (sort_key ipForwardIfIndex order) \<noteq> None"
    using assms order(2) by (auto simp: find_None_iff)
  then obtain d where d: "find is_default (sort_key ipForwardIfIndex order) = Some d"
    by blast
  have "(\<lambda>fe. ip_Equal (ipForwardDest fe) (v4_prefix @ [0, 0, 0, 0])) = is_default"
    by (simp add: is_default_def fun_eq_iff)
  with d order(1) have "run_state (getDefaultAdapter fes) w = (Inr d, w\<lparr>tick := Suc (tick w)\<rparr>)"
    by (simp add: getDefaultAdapter_def)
  with find_sort_key [OF d] order(2) show ?thesis
    by auto
qed

text \<open>
  C37: the route to the metadata server goes through an adapter that has a default route and has the least index among
  those, with the metric of the default route. If the forward table has such a route for this adapter nothing is added,
  and no other route is ever added; the order of the entries does not matter.
\<close>

theorem addMetadataRoute_adapter:
  assumes "run_state (getIPForwardEntries api) w = (Inr fes, w1)" and "\<exists>fe \<in> set fes. is_default fe"
  shows "\<exists>d \<in> set fes. is_default d \<and> (\<forall>fe \<in> set fes. is_default fe \<longrightarrow> ipForwardIfIndex d \<le> ipForwardIfIndex fe) \<and>
    run_state (addMetadataRoute api) w =
      (if \<exists>fe \<in> set fes. ip_Equal (ipForwardDest fe) (v4_prefix @ [169, 254, 169, 254]) \<and> ipForwardIfIndex fe = ipForwardIfIndex d
       then (None, w1\<lparr>tick := Suc (tick w1)\<rparr>)
       else run_state (addIPForwardEntry api (metadata_route d)) (w1\<lparr>tick := Suc (tick w1)\<rparr>))"
proof -
  from getDefaultAdapter_least [OF assms(2), of w1] obtain d where d: "d \<in> set fes" "is_default d"
    "\<forall>fe \<in> set fes. is_default fe \<longrightarrow> ipForwardIfIndex d \<le> ipForwardIfIndex fe"
    "run_state (getDefaultAdapter fes) w1 = (Inr d, w1\<lparr>tick := Suc (tick w1)\<rparr>)"
    by blast
  show ?thesis
    by (rule bexI [OF _ d(1)]) (auto simp: d(2-4) assms(1) addMetadataRoute_def Let_def metadata_route_def list_ex_iff)
qed

definition demo_route :: "int \<Rightarrow> nat list \<Rightarrow> ipForwardEntry" where
  "demo_route i dest = \<lparr>ipForwardDest = v4_prefix @ dest, ipForwardMask = [0, 0, 0, 0], ipForwardNextHop = v4_prefix @ [10, 0, 0, 1],
     ipForwardIfIndex = i, ipForwardMetric1 = 5\<rparr>"

definition demo_routes :: "unit route_api" where
  "demo_routes = \<lparr>getIPForwardEntries = State_Monad.return (Inr [demo_route 7 [0, 0, 0, 0], demo_route 3 [0, 0, 0, 0], demo_route 1 [10, 0, 0, 0]]),
     addIPForwardEntry = (\<lambda>fe. if ipForwardIfIndex fe = 3 then State_Monad.return None else State_Monad.return (Some (Msg ''other'')))\<rparr>"

theorem addMetadataRoute_adapter_witness: "fst (run_state (addMetadataRoute demo_routes) (calm [])) = None"
proof -
  let ?fes = "[demo_route 7 [0, 0, 0, 0], demo_route 3 [0, 0, 0, 0], demo_route 1 [10, 0, 0, 0]]"
  have get: "run_state (getIPForwardEntries demo_routes) (calm []) = (Inr ?fes, calm [])"
    by (simp add: demo_routes_def)
  have def: "is_default (demo_route 7 [0, 0, 0, 0])" "is_default (demo_route 3 [0, 0, 0, 0])" "\<not> is_default (demo_route 1 [10, 0, 0, 0])"
    by code_simp+
  have "\<exists>fe \<in> set ?fes. is_default fe"
    using def(1) by simp
  from addMetadataRoute_adapter [OF get this] def show ?thesis
    by (auto simp: demo_route_def demo_routes_def metadata_route_def split: if_splits)
qed

end
