(* ===== verification/TrustedCa.thy ===== *)
theory TrustedCa
  imports Watchers OsLoginConf
begin

text \<open>
  The trusted authorities of OS Login: the pipe sshd reads them from and the watcher that waits for a reader
  (\<^verbatim>\<open>events/sshtrustedca/*.go\<close>), the handler that answers a reader (\<^verbatim>\<open>sshca/sshca.go\<close>), and switching both on
  (\<^verbatim>\<open>enableDisableOSLoginCertAuth\<close> of \<^verbatim>\<open>oslogin.go\<close>). The watcher's \<^verbatim>\<open>Run\<close> and the goroutine it starts are a step
  relation; the rest are operations on the state.
\<close>

section \<open>The pipe and its handler\<close>

definition ca_WatcherID :: string where
  "ca_WatcherID = ''ssh-trusted-ca-pipe-watcher''"

definition ReadEvent :: string where
  "ReadEvent = ''ssh-trusted-ca-pipe-watcher,read''"

definition ca_DefaultPipePath :: string where
  "ca_DefaultPipePath = ''/etc/ssh/oslogin_trustedca.pub''"

definition ca_watcher :: Watcher where
  "ca_watcher = \<lparr>w_ID = ca_WatcherID, w_Events = [ReadEvent]\<rparr>"

text \<open>The watcher's flag, and what was written to readers of the pipe so far.\<close>

record ca_world = mds_world +
  waitingWrite :: bool
  pipe_out :: "string list"

type_synonym ('z, 'a) ca_io = "('z ca_world_scheme, 'a) state"

definition createNamedPipe :: "string \<Rightarrow> ('z, goerr option) io" where
  "createNamedPipe pipePath = do {
     d \<leftarrow> os_Stat (path_Dir pipePath);
     m \<leftarrow> (case d of
         Inl e \<Rightarrow> if os_IsNotExist e then os_MkdirAll (path_Dir pipePath) 493 else State_Monad.return None
       | Inr _ \<Rightarrow> State_Monad.return None);
     (case m of Some e \<Rightarrow> State_Monad.return (Some e) | None \<Rightarrow> do {
        s \<leftarrow> os_Stat pipePath;
        f \<leftarrow> (case s of
            Inr _ \<Rightarrow> State_Monad.return None
          | Inl e \<Rightarrow>
              if os_IsNotExist e then do {
                k \<leftarrow> os_Mkfifo pipePath 420;
                State_Monad.return (map_option (Flat ''failed to create named pipe'') k) }
              else State_Monad.return (Some (Msg (''failed to stat file: '' @ pipePath))));
        (case f of Some e \<Rightarrow> State_Monad.return (Some e) | None \<Rightarrow> do {
           r \<leftarrow> exec_LookPath ''restorecon'';
           (case r of
              Inl _ \<Rightarrow> State_Monad.return None
            | Inr restorecon \<Rightarrow> Quiet [restorecon, pipePath]) }) }) }"

definition setWaitingWrite :: "bool \<Rightarrow> ('z, unit) ca_io" where
  "setWaitingWrite val = do { w \<leftarrow> State_Monad.get; State_Monad.set (w\<lparr>waitingWrite := val\<rparr>) }"

definition finishedCb :: "('z, unit) ca_io" where
  "finishedCb = setWaitingWrite False"

text \<open>A write to the pipe is complete or fails.\<close>

definition pipe_WriteString :: "string \<Rightarrow> ('z, goerr option) ca_io" where
  "pipe_WriteString s = do {
     w \<leftarrow> State_Monad.get;
     (case fault w (tick w) of
        Some e \<Rightarrow> do { State_Monad.set (w\<lparr>tick := Suc (tick w)\<rparr>); State_Monad.return (Some (Sys e)) }
      | None \<Rightarrow> do {
          State_Monad.set (w\<lparr>tick := Suc (tick w), pipe_out := pipe_out w @ [s]\<rparr>);
          State_Monad.return None }) }"

text \<open>The keys of \<^verbatim>\<open>Certificates\<close>; \<^const>\<open>None\<close> is an error of \<^verbatim>\<open>json.Unmarshal\<close>.\<close>

definition Unmarshal_Certificates :: "string \<Rightarrow> string list option" where
  "Unmarshal_Certificates b = Option.bind (Option.bind (json_parse b) json_members) (\<lambda>ps.
     case json_field ps ''trustedCertificateAuthorities'' of
       None \<Rightarrow> Some []
     | Some (JArr vs) \<Rightarrow> option_list (map (\<lambda>v. Option.bind (json_members v) (\<lambda>qs. json_str_field qs ''publicKey'')) vs)
     | Some _ \<Rightarrow> None)"

definition write_certificates :: "('z, unit) ca_io" where
  "write_certificates = do {
     r \<leftarrow> GetKey ''oslogin/certificates'' [];
     (case r of
        Inl _ \<Rightarrow> State_Monad.return ()
      | Inr certificate \<Rightarrow> (case Unmarshal_Certificates certificate of
          None \<Rightarrow> State_Monad.return ()
        | Some outData \<Rightarrow> do { _ \<leftarrow> pipe_WriteString (Join outData ''\<newline>''); State_Monad.return () })) }"

text \<open>The data of an event: an error, the open pipe, or anything else.\<close>

datatype ca_data = CaError goerr | CaPipe | CaOther

definition ca_writeFile :: "ca_data \<Rightarrow> ('z, bool) ca_io" where
  "ca_writeFile evData =
     (case evData of
        CaError _ \<Rightarrow> State_Monad.return True
      | CaOther \<Rightarrow> State_Monad.return False
      | CaPipe \<Rightarrow> do {
          write_certificates;
          _ \<leftarrow> os_Close;
          finishedCb;
          State_Monad.return True })"

section \<open>Switching it on\<close>

definition sshca_Init :: "'u \<Rightarrow> ('u, 'd) config \<Rightarrow> ('u, 'd) config" where
  "sshca_Init cb c = c\<lparr>mngr := Subscribe ReadEvent cb (mngr c)\<rparr>"

definition sshca_Close :: "('u, 'd) config \<Rightarrow> ('u, 'd) config" where
  "sshca_Close c = c\<lparr>mngr := Unsubscribe ReadEvent (mngr c)\<rparr>"

text \<open>The first part of the state tells whether \<^verbatim>\<open>trustedCAWatcher\<close> is set.\<close>

definition enableDisableOSLoginCertAuth ::
  "'u \<Rightarrow> Descriptor option \<Rightarrow> bool \<times> ('u, 'd) config \<Rightarrow> goerr option \<times> bool \<times> ('u, 'd) config" where
  "enableDisableOSLoginCertAuth cb metadata s =
     (case (metadata, s) of
        (None, s) \<Rightarrow> (None, s)
      | (Some md, (trustedCAWatcher, c)) \<Rightarrow>
          if fst (getOSLoginEnabled md) \<and> \<not> trustedCAWatcher then
            (case AddWatcher ca_watcher c of
               (Some e, c) \<Rightarrow> (Some e, True, c)
             | (None, c) \<Rightarrow> (None, True, sshca_Init cb c))
          else (None, s))"

section \<open>The watcher\<close>

text \<open>
  \<^verbatim>\<open>Run\<close> is at one of its blocking calls or accesses of shared variables; what it returns is whether to renew,
  whether the open pipe is given, and an error. The goroutine for the context is not started, waits in its
  \<^verbatim>\<open>select\<close>, is about to set \<^verbatim>\<open>canceled\<close>, opens the pipe for reading, or is gone.
\<close>

type_synonym ca_result = "bool \<times> bool \<times> goerr option"

datatype ca_pc = CaWait | CaCreate | CaOpen | CaCheck | CaSend | CaSet | CaRet ca_result

datatype ca_goroutine = GNone | GSelect | GStore | GOpen | GEnd

record ca_config =
  ca_pc :: ca_pc
  ca_go :: ca_goroutine
  ca_canceled :: bool
  ca_ctx_done :: bool
  ca_waiting :: bool
  ca_handling :: bool

text \<open>
  What the surroundings do, at whichever time: the error of creating the pipe and of the two calls that open it,
  whether another process opens it for reading, and whether the context is cancelled.
\<close>

record ca_env =
  create_err :: "goerr option"
  open_err :: "goerr option"
  cancel_open_err :: "goerr option"
  reader_comes :: bool
  gets_cancelled :: bool

text \<open>
  A pipe opened for writing waits until it is opened for reading, and the other way round. The handler of the
  last event, while there is one, calls \<^verbatim>\<open>Finished\<close> at some time. Polling \<^verbatim>\<open>waitingWrite\<close> is waiting for it.
\<close>

inductive ca_step :: "ca_env \<Rightarrow> ca_config \<Rightarrow> ca_config \<Rightarrow> bool" for env where
  finished: "ca_handling c \<Longrightarrow> ca_step env c (c\<lparr>ca_handling := False, ca_waiting := False\<rparr>)"
| cancelled: "gets_cancelled env \<Longrightarrow> \<not> ca_ctx_done c \<Longrightarrow> ca_step env c (c\<lparr>ca_ctx_done := True\<rparr>)"
| waited: "ca_pc c = CaWait \<Longrightarrow> \<not> ca_waiting c \<Longrightarrow> ca_step env c (c\<lparr>ca_pc := CaCreate, ca_go := GSelect\<rparr>)"
| created: "ca_pc c = CaCreate \<Longrightarrow> create_err env = None \<Longrightarrow> ca_step env c (c\<lparr>ca_pc := CaOpen\<rparr>)"
| not_created: "ca_pc c = CaCreate \<Longrightarrow> create_err env = Some e \<Longrightarrow> ca_step env c (c\<lparr>ca_pc := CaRet (True, False, Some e)\<rparr>)"
| opened: "ca_pc c = CaOpen \<Longrightarrow> open_err env = None \<Longrightarrow> reader_comes env \<Longrightarrow> ca_step env c (c\<lparr>ca_pc := CaCheck\<rparr>)"
| not_opened: "ca_pc c = CaOpen \<Longrightarrow> open_err env = Some e \<Longrightarrow> ca_step env c (c\<lparr>ca_pc := CaRet (True, False, Some e)\<rparr>)"
| opened_both: "ca_pc c = CaOpen \<Longrightarrow> ca_go c = GOpen \<Longrightarrow> open_err env = None \<Longrightarrow> cancel_open_err env = None \<Longrightarrow>
    ca_step env c (c\<lparr>ca_pc := CaCheck, ca_go := GEnd\<rparr>)"
| checked: "ca_pc c = CaCheck \<Longrightarrow> ca_step env c (c\<lparr>ca_pc := if ca_canceled c then CaRet (False, False, None) else CaSend\<rparr>)"
| sent: "ca_pc c = CaSend \<Longrightarrow> ca_go c = GSelect \<Longrightarrow> ca_step env c (c\<lparr>ca_pc := CaSet, ca_go := GEnd\<rparr>)"
| flagged: "ca_pc c = CaSet \<Longrightarrow>
    ca_step env c (c\<lparr>ca_pc := CaRet (True, True, None), ca_waiting := True, ca_handling := True\<rparr>)"
| go_done: "ca_go c = GSelect \<Longrightarrow> ca_ctx_done c \<Longrightarrow> ca_step env c (c\<lparr>ca_go := GStore\<rparr>)"
| go_store: "ca_go c = GStore \<Longrightarrow> ca_step env c (c\<lparr>ca_go := GOpen, ca_canceled := True\<rparr>)"
| go_opened: "ca_go c = GOpen \<Longrightarrow> ca_pc c \<in> {CaCheck, CaSend, CaSet, CaRet (True, True, None)} \<Longrightarrow> cancel_open_err env = None \<Longrightarrow>
    ca_step env c (c\<lparr>ca_go := GEnd\<rparr>)"
| go_not_opened: "ca_go c = GOpen \<Longrightarrow> cancel_open_err env = Some e \<Longrightarrow> ca_step env c (c\<lparr>ca_go := GEnd\<rparr>)"
| go_closed: "ca_go c = GSelect \<Longrightarrow> ca_pc c = CaRet r \<Longrightarrow> ca_step env c (c\<lparr>ca_go := GEnd\<rparr>)"

definition ca_Run :: "bool \<Rightarrow> bool \<Rightarrow> ca_config" where
  "ca_Run waiting handling = \<lparr>ca_pc = CaWait, ca_go = GNone, ca_canceled = False, ca_ctx_done = False,
     ca_waiting = waiting, ca_handling = handling\<rparr>"

text \<open>What \<^verbatim>\<open>Run\<close> returns when it is not cancelled.\<close>

definition ca_value :: "ca_env \<Rightarrow> ca_result" where
  "ca_value env = (case create_err env of Some e \<Rightarrow> (True, False, Some e)
     | None \<Rightarrow> (case open_err env of Some e \<Rightarrow> (True, False, Some e) | None \<Rightarrow> (True, True, None)))"

section \<open>Lemmas\<close>

definition same_pipe :: "'z ca_world_scheme \<Rightarrow> 'z ca_world_scheme \<Rightarrow> bool" where
  "same_pipe w w' \<longleftrightarrow> pipe_out w' = pipe_out w \<and> waitingWrite w' = waitingWrite w"

interpretation pipe: http_frame same_pipe
  by unfold_locales (simp_all add: same_pipe_def)

text \<open>The pipe gets opened: it cannot be, another process reads it, or the goroutine for the context does.\<close>

definition ca_served :: "ca_env \<Rightarrow> bool" where
  "ca_served env \<longleftrightarrow> open_err env \<noteq> None \<or> reader_comes env \<or> gets_cancelled env \<and> cancel_open_err env = None"

fun ca_pc_ok :: "ca_env \<Rightarrow> ca_config \<Rightarrow> ca_pc \<Rightarrow> bool" where
  "ca_pc_ok env c CaWait \<longleftrightarrow> ca_go c = GNone \<and> (ca_waiting c \<longrightarrow> ca_handling c)"
| "ca_pc_ok env c CaCreate \<longleftrightarrow> ca_go c \<noteq> GNone \<and> (ca_go c = GEnd \<longrightarrow> ca_canceled c \<and> cancel_open_err env \<noteq> None)"
| "ca_pc_ok env c CaOpen \<longleftrightarrow> create_err env = None \<and> ca_go c \<noteq> GNone \<and> (ca_go c = GEnd \<longrightarrow> ca_canceled c \<and> cancel_open_err env \<noteq> None)"
| "ca_pc_ok env c CaCheck \<longleftrightarrow> create_err env = None \<and> open_err env = None \<and> (ca_go c = GEnd \<longrightarrow> ca_canceled c)"
| "ca_pc_ok env c CaSend \<longleftrightarrow> create_err env = None \<and> open_err env = None \<and> (ca_go c = GEnd \<longrightarrow> ca_ctx_done c)"
| "ca_pc_ok env c CaSet \<longleftrightarrow> create_err env = None \<and> open_err env = None"
| "ca_pc_ok env c (CaRet r) \<longleftrightarrow> r = ca_value env \<or> r = (False, False, None) \<and> ca_ctx_done c"

definition ca_inv :: "ca_env \<Rightarrow> ca_config \<Rightarrow> bool" where
  "ca_inv env c \<longleftrightarrow> ca_served env \<and> ca_pc_ok env c (ca_pc c) \<and> (ca_ctx_done c \<longrightarrow> gets_cancelled env) \<and>
     (ca_canceled c \<longrightarrow> ca_ctx_done c) \<and> (ca_go c \<in> {GStore, GOpen} \<longrightarrow> ca_ctx_done c) \<and> (ca_go c = GOpen \<longrightarrow> ca_canceled c) \<and>
     (ca_pc c \<noteq> CaWait \<longrightarrow> ca_go c \<noteq> GNone)"

fun ca_pc_rank :: "ca_pc \<Rightarrow> nat" where
  "ca_pc_rank CaWait = 24" | "ca_pc_rank CaCreate = 15" | "ca_pc_rank CaOpen = 12" | "ca_pc_rank CaCheck = 9"
| "ca_pc_rank CaSend = 6" | "ca_pc_rank CaSet = 3" | "ca_pc_rank (CaRet r) = 0"

fun ca_go_rank :: "ca_goroutine \<Rightarrow> nat" where
  "ca_go_rank GNone = 0" | "ca_go_rank GSelect = 3" | "ca_go_rank GStore = 2" | "ca_go_rank GOpen = 1" | "ca_go_rank GEnd = 0"

definition ca_rank :: "ca_config \<Rightarrow> nat" where
  "ca_rank c = ca_pc_rank (ca_pc c) + ca_go_rank (ca_go c) + of_bool (ca_handling c) + of_bool (\<not> ca_ctx_done c)"

lemma ca_inv_step:
  assumes "ca_inv env c" and "ca_step env c c'"
  shows "ca_inv env c'"
  using assms(2,1) by (cases; cases "ca_pc c") (auto simp: ca_inv_def ca_value_def)

lemma ca_rank_step: "ca_inv env c \<Longrightarrow> ca_step env c c' \<Longrightarrow> ca_rank c' < ca_rank c"
  by (erule ca_step.cases) (auto simp: ca_rank_def ca_inv_def)

lemma ca_stuck:
  assumes "ca_inv env c" and stuck: "\<forall>c'. \<not> ca_step env c c'"
  shows "(\<exists>r. ca_pc c = CaRet r) \<or> ca_ctx_done c \<and> ca_pc c = CaSend"
proof (rule disjCI)
  assume "\<not> (ca_ctx_done c \<and> ca_pc c = CaSend)"
  moreover have "\<not> ca_handling c" "gets_cancelled env \<longrightarrow> ca_ctx_done c"
    using stuck ca_step.finished ca_step.cancelled by blast+
  moreover have "ca_pc c \<noteq> CaCreate" "ca_pc c \<noteq> CaCheck" "ca_pc c \<noteq> CaSet" "ca_go c \<noteq> GStore"
    using stuck ca_step.created ca_step.not_created ca_step.checked ca_step.flagged ca_step.go_store by (metis option.exhaust)+
  moreover have "ca_pc c \<noteq> CaWait \<or> ca_waiting c" "ca_pc c \<noteq> CaSend \<or> ca_go c \<noteq> GSelect" "ca_go c \<noteq> GSelect \<or> \<not> ca_ctx_done c"
    using stuck ca_step.waited ca_step.sent ca_step.go_done by blast+
  moreover have "ca_pc c \<noteq> CaOpen \<or> open_err env = None \<and> \<not> reader_comes env \<and> (ca_go c = GOpen \<longrightarrow> cancel_open_err env \<noteq> None)"
    using stuck ca_step.opened ca_step.not_opened ca_step.opened_both by (metis option.exhaust)
  moreover have "ca_go c \<noteq> GOpen \<or> cancel_open_err env = None"
    using stuck ca_step.go_not_opened by (metis option.exhaust)
  moreover have "ca_go c \<noteq> GOpen \<or> ca_pc c \<noteq> CaSend \<or> cancel_open_err env \<noteq> None"
    using stuck ca_step.go_opened by blast
  ultimately show "\<exists>r. ca_pc c = CaRet r"
    using assms(1) by (cases "ca_pc c") (auto simp: ca_inv_def ca_served_def intro: ca_goroutine.exhaust [of "ca_go c"])
qed

interpretation ca: ends_well "ca_step env" "ca_inv env" "measure ca_rank"
  "\<lambda>c. (\<exists>r. ca_pc c = CaRet r) \<or> ca_ctx_done c \<and> ca_pc c = CaSend"
  for env
  by unfold_locales (use ca_inv_step ca_rank_step ca_stuck in \<open>auto\<close>)

section \<open>Properties\<close>

text \<open>
  C16: the watcher's \<^verbatim>\<open>Run\<close> with the goroutine it starts never goes on for ever, and if the pipe gets opened at some
  time (by sshd, with an error, or by the goroutine after a cancellation) and the handler of the last event finishes,
  then \<^verbatim>\<open>Run\<close> returns, unless the context is cancelled: the open pipe and a renewal, or the error of creating or
  opening it. After a cancellation it may also return without renewal, or wait for ever to tell the goroutine that it
  goes on.
\<close>

theorem ca_Run_ends:
  assumes "waiting \<longrightarrow> handling" and "ca_served env"
  shows "(\<nexists>\<sigma>. \<sigma> 0 = ca_Run waiting handling \<and> (\<forall>i. ca_step env (\<sigma> i) (\<sigma> (Suc i)))) \<and>
    (\<forall>c. (ca_step env)\<^sup>*\<^sup>* (ca_Run waiting handling) c \<and> (\<forall>c'. \<not> ca_step env c c') \<longrightarrow>
       ca_pc c = CaRet (ca_value env) \<or>
       gets_cancelled env \<and> (ca_pc c = CaRet (False, False, None) \<or> ca_pc c = CaSend))"
proof -
  have inv: "ca_inv env (ca_Run waiting handling)"
    using assms by (simp add: ca_inv_def ca_Run_def)
  have "ca_pc c = CaRet (ca_value env) \<or> gets_cancelled env \<and> (ca_pc c = CaRet (False, False, None) \<or> ca_pc c = CaSend)"
    if "(ca_step env)\<^sup>*\<^sup>* (ca_Run waiting handling) c" and "\<forall>c'. \<not> ca_step env c c'" for c
    using ca.stuck_is_outcome [OF inv that] ca.inv_reachable [OF that(1) inv] by (auto simp: ca_inv_def)
  with ca.no_infinite_run [OF inv] show ?thesis
    by blast
qed

text \<open>A run: sshd opens the pipe while the context lives, or while it is cancelled.\<close>

definition sshd_reads :: "bool \<Rightarrow> ca_env" where
  "sshd_reads cancels = \<lparr>create_err = None, open_err = None, cancel_open_err = None, reader_comes = True, gets_cancelled = cancels\<rparr>"

definition ca_at :: "ca_pc \<Rightarrow> ca_goroutine \<Rightarrow> bool \<Rightarrow> bool \<Rightarrow> bool \<Rightarrow> ca_config" where
  "ca_at pc g canceled cx waiting = \<lparr>ca_pc = pc, ca_go = g, ca_canceled = canceled, ca_ctx_done = cx,
     ca_waiting = waiting, ca_handling = waiting\<rparr>"

lemma ca_to_send: "(ca_step (sshd_reads cancels))\<^sup>*\<^sup>* (ca_Run False False) (ca_at CaSend GSelect False False False)"
proof -
  let ?s = "ca_step (sshd_reads cancels)"
  have "?s\<^sup>*\<^sup>* (ca_Run False False) (ca_Run False False)"
    by simp
  also have "?s (ca_Run False False) (ca_at CaCreate GSelect False False False)"
    using ca_step.waited [of "ca_Run False False"] by (simp add: ca_Run_def ca_at_def)
  also (rtranclp.rtrancl_into_rtrancl) have "?s (ca_at CaCreate GSelect False False False) (ca_at CaOpen GSelect False False False)"
    using ca_step.created [of "ca_at CaCreate GSelect False False False" "sshd_reads cancels"] by (simp add: sshd_reads_def ca_at_def)
  also (rtranclp.rtrancl_into_rtrancl) have "?s (ca_at CaOpen GSelect False False False) (ca_at CaCheck GSelect False False False)"
    using ca_step.opened [of "ca_at CaOpen GSelect False False False" "sshd_reads cancels"] by (simp add: sshd_reads_def ca_at_def)
  also (rtranclp.rtrancl_into_rtrancl) have "?s (ca_at CaCheck GSelect False False False) (ca_at CaSend GSelect False False False)"
    using ca_step.checked [of "ca_at CaCheck GSelect False False False" "sshd_reads cancels"] by (simp add: ca_at_def)
  finally (rtranclp.rtrancl_into_rtrancl) show ?thesis .
qed

lemma ca_answered: "(ca_step (sshd_reads False))\<^sup>*\<^sup>* (ca_Run False False) (ca_at (CaRet (True, True, None)) GEnd False False False)"
proof -
  let ?s = "ca_step (sshd_reads False)"
  note ca_to_send [of False]
  also have "?s (ca_at CaSend GSelect False False False) (ca_at CaSet GEnd False False False)"
    using ca_step.sent [of "ca_at CaSend GSelect False False False"] by (simp add: ca_at_def)
  also (rtranclp.rtrancl_into_rtrancl) have "?s (ca_at CaSet GEnd False False False) (ca_at (CaRet (True, True, None)) GEnd False False True)"
    using ca_step.flagged [of "ca_at CaSet GEnd False False False"] by (simp add: ca_at_def)
  also (rtranclp.rtrancl_into_rtrancl) have "?s (ca_at (CaRet (True, True, None)) GEnd False False True) (ca_at (CaRet (True, True, None)) GEnd False False False)"
    using ca_step.finished [of "ca_at (CaRet (True, True, None)) GEnd False False True"] by (simp add: ca_at_def)
  finally (rtranclp.rtrancl_into_rtrancl) show ?thesis .
qed

lemma ca_end_stuck: "\<not> ca_step (sshd_reads cancels) (ca_at (CaRet r) GEnd False cancels False) c"
  by (auto simp: ca_at_def sshd_reads_def elim: ca_step.cases)

theorem ca_Run_ends_witness:
  "\<exists>c. (ca_step (sshd_reads False))\<^sup>*\<^sup>* (ca_Run False False) c \<and> ca_pc c = CaRet (True, True, None) \<and>
     (\<nexists>\<sigma>. \<sigma> 0 = ca_Run False False \<and> (\<forall>i. ca_step (sshd_reads False) (\<sigma> i) (\<sigma> (Suc i))))"
proof -
  have "ca_served (sshd_reads False)" "ca_value (sshd_reads False) = (True, True, None)" "\<not> gets_cancelled (sshd_reads False)"
    by (simp_all add: ca_served_def ca_value_def sshd_reads_def)
  with ca_Run_ends [of False False "sshd_reads False"] ca_answered ca_end_stuck [of False] show ?thesis
    by metis
qed

text \<open>
  C39: a cancellation can block the watcher for ever. If the context is cancelled after \<^verbatim>\<open>Run\<close> has looked at the flag
  and before it has told its goroutine, the goroutine leaves by the branch for the context; then nobody receives what
  \<^verbatim>\<open>Run\<close> sends on the unbuffered channel, and nothing can happen any more.
\<close>

theorem ca_Run_can_block:
  "\<exists>c. (ca_step (sshd_reads True))\<^sup>*\<^sup>* (ca_Run False False) c \<and> ca_pc c = CaSend \<and> (\<nexists>c'. ca_step (sshd_reads True) c c')"
proof -
  let ?s = "ca_step (sshd_reads True)"
  note ca_to_send [of True]
  also have "?s (ca_at CaSend GSelect False False False) (ca_at CaSend GSelect False True False)"
    using ca_step.cancelled [of "sshd_reads True" "ca_at CaSend GSelect False False False"] by (simp add: ca_at_def sshd_reads_def)
  also (rtranclp.rtrancl_into_rtrancl) have "?s (ca_at CaSend GSelect False True False) (ca_at CaSend GStore False True False)"
    using ca_step.go_done [of "ca_at CaSend GSelect False True False"] by (simp add: ca_at_def)
  also (rtranclp.rtrancl_into_rtrancl) have "?s (ca_at CaSend GStore False True False) (ca_at CaSend GOpen True True False)"
    using ca_step.go_store [of "ca_at CaSend GStore False True False"] by (simp add: ca_at_def)
  also (rtranclp.rtrancl_into_rtrancl) have "?s (ca_at CaSend GOpen True True False) (ca_at CaSend GEnd True True False)"
    using ca_step.go_opened [of "ca_at CaSend GOpen True True False" "sshd_reads True"] by (simp add: ca_at_def sshd_reads_def)
  finally (rtranclp.rtrancl_into_rtrancl) have "?s\<^sup>*\<^sup>* (ca_Run False False) (ca_at CaSend GEnd True True False)" .
  moreover have "\<nexists>c'. ?s (ca_at CaSend GEnd True True False) c'"
    by (auto simp: ca_at_def elim: ca_step.cases)
  ultimately show ?thesis
    by (intro exI [of _ "ca_at CaSend GEnd True True False"]) (simp add: ca_at_def)
qed


end
