(* ===== verification/Telemetry.thy ===== *)
theory Telemetry
  imports Scheduler
begin

text \<open>
  The telemetry job (\<^verbatim>\<open>telemetry/telemetry.go\<close>): a request to the metadata server whose headers describe the agent and
  the system. The encoding of the two messages is a parameter; the architecture is an argument.
\<close>

section \<open>Definitions\<close>

record Data =
  AgentName :: string
  AgentVersion :: string
  AgentArch :: string
  data_OS :: string
  LongName :: string
  ShortName :: string
  data_Version :: string
  data_KernelRelease :: string
  data_KernelVersion :: string

text \<open>The encoding of \<^verbatim>\<open>AgentInfo\<close> (name, version, architecture) and of \<^verbatim>\<open>OSInfo\<close>, in the order of the source's fields.\<close>

record proto_lib =
  Marshal_AgentInfo :: "string \<times> string \<times> string \<Rightarrow> string res"
  Marshal_OSInfo :: "string \<times> string \<times> string \<times> string \<times> string \<times> string \<Rightarrow> string res"

definition bytes_or_nil :: "string res \<Rightarrow> string" where
  "bytes_or_nil r = (case r of Inl _ \<Rightarrow> [] | Inr b \<Rightarrow> b)"

definition formatGuestAgent :: "proto_lib \<Rightarrow> Data \<Rightarrow> string" where
  "formatGuestAgent lib d = EncodeToString (bytes_or_nil (Marshal_AgentInfo lib (AgentName d, AgentVersion d, AgentArch d)))"

definition formatGuestOS :: "proto_lib \<Rightarrow> Data \<Rightarrow> string" where
  "formatGuestOS lib d = EncodeToString (bytes_or_nil (Marshal_OSInfo lib
     (data_OS d, LongName d, ShortName d, data_Version d, data_KernelVersion d, data_KernelRelease d)))"

definition telemetry_Record :: "proto_lib \<Rightarrow> Data \<Rightarrow> ('z, goerr option) mds_io" where
  "telemetry_Record lib d = do {
     r \<leftarrow> GetKey [] [(''X-Google-Guest-Agent'', formatGuestAgent lib d), (''X-Google-Guest-OS'', formatGuestOS lib d)];
     State_Monad.return (err_of r) }"

definition telemetry_ShouldEnable :: "('z, bool) mds_io" where
  "telemetry_ShouldEnable = do {
     r \<leftarrow> Get;
     State_Monad.return (case r of
       Inl _ \<Rightarrow> False
     | Inr md \<Rightarrow> \<not> DisableTelemetry (inst_attr md) \<and> \<not> DisableTelemetry (proj_attr md)) }"

definition telemetry_Run :: "proto_lib \<Rightarrow> string \<Rightarrow> string \<Rightarrow> string \<Rightarrow> ('z, bool \<times> goerr option) net_io" where
  "telemetry_Run lib programName agentVersion arch = do {
     info \<leftarrow> net_osinfo;
     os \<leftarrow> gets goos;
     _ \<leftarrow> telemetry_Record lib \<lparr>AgentName = programName, AgentVersion = agentVersion, AgentArch = arch, data_OS = os,
       LongName = PrettyName info, ShortName = OS info, data_Version = VersionID info,
       data_KernelRelease = KernelRelease info, data_KernelVersion = KernelVersion info\<rparr>;
     b \<leftarrow> telemetry_ShouldEnable;
     State_Monad.return (b, None) }"

definition telemetryJobID :: string where
  "telemetryJobID = ''telemetryJobID''"

definition telemetryInterval :: int where
  "telemetryInterval = 24 * 3600 * 1000000000"

definition TelemetryJob :: "proto_lib \<Rightarrow> string \<Rightarrow> string \<Rightarrow> string \<Rightarrow> ('c, 'z) Job" where
  "TelemetryJob lib programName agentVersion arch =
     \<lparr>job_ID = telemetryJobID, Interval = (telemetryInterval, True), ShouldEnable = telemetry_ShouldEnable,
      job_Run = telemetry_Run lib programName agentVersion arch\<rparr>"

end
