(* ===== verification/OsLogin.thy ===== *)
theory OsLogin
  imports Accounts
begin

text \<open>
  The OS Login manager (\<^verbatim>\<open>osloginMgr\<close> of \<^verbatim>\<open>oslogin.go\<close>). The fill of the NSS cache that \<^verbatim>\<open>Set\<close> starts in a
  goroutine is its last command. Enabling OS Login clears the metadata's SSH keys and runs the
  accounts manager once, which may panic.
\<close>

definition oslogin_Diff :: "('z, bool \<times> goerr option) agent_io" where
  "oslogin_Diff = do {
     p \<leftarrow> gets oldMetadata;
     n \<leftarrow> gets newMetadata;
     (case (getOSLoginEnabled p, getOSLoginEnabled n) of
        ((oldEnable, oldTwoFactor, oldSkey, oldReqCerts), (enable, twofactor, skey, reqCerts)) \<Rightarrow>
          State_Monad.return
            (ProjectID (Proj p) = [] \<or> oldTwoFactor \<noteq> twofactor \<or> oldEnable \<noteq> enable \<or>
             oldSkey \<noteq> skey \<or> oldReqCerts \<noteq> reqCerts, None)) }"

definition oslogin_Timeout :: "('z, bool \<times> goerr option) agent_io" where
  "oslogin_Timeout = State_Monad.return (False, None)"

definition oslogin_Disabled :: "('z, bool \<times> goerr option) agent_io" where
  "oslogin_Disabled = do { b \<leftarrow> is_goos ''windows''; State_Monad.return (b, None) }"

text \<open>The metadata without its SSH keys.\<close>

definition clear_keys :: "Descriptor \<Rightarrow> Descriptor" where
  "clear_keys md =
     md\<lparr>Inst := (Inst md)\<lparr>InstanceAttributes := (inst_attr md)\<lparr>SSHKeys := []\<rparr>\<rparr>,
        Proj := (Proj md)\<lparr>ProjectAttributes := (proj_attr md)\<lparr>SSHKeys := []\<rparr>\<rparr>\<rparr>"

definition oslogin_write_files :: "bool \<times> bool \<times> bool \<times> bool \<Rightarrow> ('z, unit) agent_io" where
  "oslogin_write_files s =
     (case s of (enable, twofactor, skey, reqCerts) \<Rightarrow> do {
        _ \<leftarrow> writeSSHConfig enable twofactor skey reqCerts;
        _ \<leftarrow> writeNSSwitchConfig enable;
        _ \<leftarrow> writePAMConfig enable twofactor;
        _ \<leftarrow> writeGroupConf enable;
        State_Monad.return () })"

definition oslogin_services :: "('z, unit) agent_io" where
  "oslogin_services = do {
     for_all (\<lambda>svc. do { _ \<leftarrow> systemctlTryRestart svc; State_Monad.return () })
       [''nscd'', ''unscd'', ''systemd-logind'', ''cron'', ''crond''];
     for_all (\<lambda>svc. do { _ \<leftarrow> systemctlReloadOrRestart svc; State_Monad.return () }) [''ssh'', ''sshd''] }"

definition oslogin_Set :: "key_parser \<Rightarrow> ('z, goerr option outcome) agent_io" where
  "oslogin_Set parse_key = do {
     p \<leftarrow> gets oldMetadata;
     n \<leftarrow> gets newMetadata;
     (let oldEnable = oslogin_enabled p; settings = getOSLoginEnabled n; enable = fst settings in do {
        cleanupDeprecatedDirectives;
        r \<leftarrow> (if enable \<and> \<not> oldEnable then do {
                modify (\<lambda>w. w\<lparr>newMetadata := clear_keys (newMetadata w)\<rparr>);
                accounts_Set parse_key }
              else State_Monad.return (Ret None));
        (case r of
           Panic m \<Rightarrow> State_Monad.return (Panic m)
         | Ret _ \<Rightarrow> do {
             oslogin_write_files settings;
             oslogin_services;
             t \<leftarrow> time_Now;
             _ \<leftarrow> WriteGuestAttributes ''guest-agent/sshable'' (show_int (t div 1000000000));
             (if enable then do {
                _ \<leftarrow> createOSLoginDirs;
                _ \<leftarrow> createOSLoginSudoersFile;
                _ \<leftarrow> Quiet [''google_oslogin_nss_cache''];
                State_Monad.return (Ret None) }
              else State_Monad.return (Ret None)) }) }) }"

subsection \<open>Properties\<close>

text \<open>The files of OS Login.\<close>

definition oslogin_files :: "string set" where
  "oslogin_files = {''/etc/pam.d/su'', ''/etc/ssh/sshd_config'', ''/etc/nsswitch.conf'', ''/etc/pam.d/sshd'',
     ''/etc/security/group.conf'', ''/var/google-sudoers.d'', ''/var/google-users.d'',
     ''/etc/sudoers.d/google-oslogin'', ''/usr/local/etc/sudoers.d/google-oslogin''}"

lemma within_cleanupDirectives: "keeps (confined oslogin_files) cleanupDeprecatedDirectives"
  unfolding cleanupDeprecatedDirectives_def
  by (rule within_bind_range_map)
     (auto simp: deprecatedConfigDirectives_def oslogin_files_def intro!: frame_intros)

lemma within_oslogin_write_files: "keeps (confined oslogin_files) (oslogin_write_files s)"
  unfolding oslogin_write_files_def writeSSHConfig_def writeNSSwitchConfig_def writePAMConfig_def writeGroupConf_def
  by (intro frame_intros) (simp_all add: oslogin_files_def)

lemma within_oslogin_services: "keeps (confined S) oslogin_services"
  unfolding oslogin_services_def by (intro frame_intros)

lemma within_createOSLoginDirs: "keeps (confined oslogin_files) createOSLoginDirs"
  unfolding createOSLoginDirs_def by (intro frame_intros) (auto simp: oslogin_files_def)

lemma within_sudoers: "keeps (confined oslogin_files) createOSLoginSudoersFile"
proof -
  have "keeps (confined oslogin_files) (do {
     r \<leftarrow> os_Open True True False 288 p;
     (case r of
        Inl e \<Rightarrow> State_Monad.return (if os_IsExist e then None else Some e)
      | Inr f \<Rightarrow> do { _ \<leftarrow> os_Write f c; State_Monad.return None }) })"
    if "p \<in> oslogin_files" for p c
    using that by (rule within_open_write) (auto intro: frame_intros)
  note open_write = this
  show ?thesis
    unfolding createOSLoginSudoersFile_def Let_def
    by (rule confined.keeps_bind [OF within_env(2)], rule open_write) (simp add: oslogin_files_def)
qed



end
