(* ===== verification/AgentMain.thy ===== *)
theory AgentMain
  imports InstanceSetup TrustedCa Telemetry OsLogin
begin

text \<open>
  The agent as a whole (\<^verbatim>\<open>main.go\<close>, \<^verbatim>\<open>clock.go\<close>, \<^verbatim>\<open>agentInit\<close> of \<^verbatim>\<open>instance_setup.go\<close>): the managers, how they are run, what
  is done at the start, and the handler for new metadata. The managers that are updated side by side run one after the
  other here, each from its start to its end, in an order the world picks. A manager's \<^verbatim>\<open>Set\<close> may not return (it may draw
  passwords), so the operations that call one are partial.
\<close>

section \<open>The clock\<close>

definition clockskew_Diff :: "('z, bool \<times> goerr option) agent_io" where
  "clockskew_Diff = do {
     p \<leftarrow> gets oldMetadata;
     n \<leftarrow> gets newMetadata;
     State_Monad.return (DriftToken (Inst p) \<noteq> DriftToken (Inst n), None) }"

definition clockskew_Timeout :: "('z, bool \<times> goerr option) agent_io" where
  "clockskew_Timeout = State_Monad.return (False, None)"

definition clockskew_Disabled :: "('z, bool \<times> goerr option) agent_io" where
  "clockskew_Disabled = do {
     w \<leftarrow> State_Monad.get;
     State_Monad.return (goos w = ''windows'' \<or> \<not> ClockSkewDaemon (Daemons (config w)), None) }"

text \<open>The time service of FreeBSD is stopped while the clock is set and started again, whatever comes of it.\<close>

definition clockskew_Set :: "('z, goerr option) agent_io" where
  "clockskew_Set = do {
     freebsd \<leftarrow> is_goos ''freebsd'';
     (if freebsd then do {
        status \<leftarrow> Quiet [''service'', ''ntpd'', ''status''];
        (case status of
           Some _ \<Rightarrow> Quiet [''ntpdate'', ''169.254.169.254'']
         | None \<Rightarrow> if_ok (Quiet [''service'', ''ntpd'', ''stop'']) Some (do {
             e \<leftarrow> Quiet [''ntpdate'', ''169.254.169.254''];
             _ \<leftarrow> Quiet [''service'', ''ntpd'', ''start''];
             State_Monad.return e })) }
      else do {
        res \<leftarrow> WithOutput [''/sbin/hwclock'', ''--hctosys'', ''-u'', ''--noadjfile''];
        State_Monad.return (if ExitCode res \<noteq> 0 \<or> StdErr res \<noteq> [] then Some (ResultErr res) else None) }) }"

section \<open>Managers\<close>

record 's manager =
  mgr_Diff :: "('s, bool \<times> goerr option) state"
  mgr_Disabled :: "('s, bool \<times> goerr option) state"
  mgr_Set :: "('s, goerr option outcome) pst"
  mgr_Timeout :: "('s, bool \<times> goerr option) state"

definition runManager :: "'s manager \<Rightarrow> ('s, unit outcome) pst" where
  "runManager mgr =
     pbind (lift_st (mgr_Disabled mgr)) (\<lambda>(disabled, err). if err \<noteq> None \<or> disabled then preturn (Ret ()) else
     pbind (lift_st (mgr_Timeout mgr)) (\<lambda>(timeout, err). if err \<noteq> None then preturn (Ret ()) else
     pbind (lift_st (mgr_Diff mgr)) (\<lambda>(diff, err). if err \<noteq> None then preturn (Ret ())
       else if \<not> timeout \<and> \<not> diff then preturn (Ret ())
       else pbind (mgr_Set mgr) (\<lambda>r. preturn (case r of Panic m \<Rightarrow> Panic m | Ret _ \<Rightarrow> Ret ())))))"

text \<open>Methods that report no error, and those that cannot panic.\<close>

definition no_err :: "('s, bool) state \<Rightarrow> ('s, bool \<times> goerr option) state" where
  "no_err m = do { b \<leftarrow> m; State_Monad.return (b, None) }"

definition no_panic :: "('s, goerr option) pst \<Rightarrow> ('s, goerr option outcome) pst" where
  "no_panic m = pbind m (\<lambda>e. preturn (Ret e))"

text \<open>The state of the whole agent: whether there are metadata yet, and whether the watcher for the authorities was added.\<close>

record 'c main_agent = "'c creds_agent" +
  metadata_known :: bool
  trustedCAWatcher :: bool
  snapshot_listeners :: "(string \<times> int) list"

type_synonym ('c, 'z, 'a) main_io = "(('c, 'z) main_agent_scheme, 'a) state"

type_synonym ('c, 'z, 'a) main_pst = "(('c, 'z) main_agent_scheme, 'a) pst"

text \<open>
  What is not part of the repository: the calls of Windows for addresses, accounts and routes, the formats of network
  files, the parser of keys and the other libraries, and what the build sets.
\<close>

type_synonym ('c, 'z) main_diag = "('c, 'z main_agent_ext creds_agent_ext) sched_agent_ext diag_agent_ext"

record ('c, 'z, 'cert, 'pool, 'blob) agent_lib =
  lib_addresses :: "('c, 'z) main_diag win_agent_ext command_agent_ext wsfc_agent_ext win_ops"
  lib_accounts :: "('c, 'z) main_diag win_api"
  lib_routes :: "('c, 'z) main_diag win_agent_ext command_agent_ext wsfc_agent_ext address_agent_ext net_agent_ext agent_ext mds_world_ext route_api"
  lib_net :: net_codecs
  lib_keys :: key_parser
  lib_crypto :: "('cert, 'pool, 'blob) crypto_lib"
  lib_cron :: "'c cron_ops"
  lib_proto :: proto_lib
  lib_boto :: boto_lib
  lib_ParseDuration :: "string \<Rightarrow> int option"
  lib_arch :: string
  lib_version :: string

definition addressManager :: "('c, 'z, 'cert, 'pool, 'blob) agent_lib \<Rightarrow> ('c, 'z) main_agent_scheme manager" where
  "addressManager lib = \<lparr>mgr_Diff = no_err address_Diff, mgr_Disabled = no_err address_Disabled,
     mgr_Set = lift_st (address_Set (lib_addresses lib) (knownNetworkManagers (lib_net lib))), mgr_Timeout = no_err address_Timeout\<rparr>"

definition wsfcMgr :: "wsfcManager \<Rightarrow> ('c, 'z) main_agent_scheme manager" where
  "wsfcMgr m = \<lparr>mgr_Diff = no_err (wsfc_Diff m), mgr_Disabled = no_err (wsfc_Disabled m),
     mgr_Set = no_panic (lift_st (wsfc_Set m)), mgr_Timeout = no_err (wsfc_Timeout m)\<rparr>"

definition winAccountsMgr :: "('c, 'z, 'cert, 'pool, 'blob) agent_lib \<Rightarrow> ('c, 'z) main_agent_scheme manager" where
  "winAccountsMgr lib = \<lparr>mgr_Diff = winAccounts_Diff, mgr_Disabled = winAccounts_Disabled False,
     mgr_Set = no_panic (winAccounts_Set (lib_keys lib) (lib_accounts lib)), mgr_Timeout = winAccounts_Timeout\<rparr>"

definition diagnosticsMgr :: "('c, 'z, 'cert, 'pool, 'blob) agent_lib \<Rightarrow> ('c, 'z) main_agent_scheme manager" where
  "diagnosticsMgr lib = \<lparr>mgr_Diff = diagnostics_Diff, mgr_Disabled = diagnostics_Disabled False,
     mgr_Set = no_panic (lift_st (diagnostics_Set (lib_accounts lib))), mgr_Timeout = diagnostics_Timeout\<rparr>"

definition clockskewMgr :: "('c, 'z) main_agent_scheme manager" where
  "clockskewMgr = \<lparr>mgr_Diff = clockskew_Diff, mgr_Disabled = clockskew_Disabled,
     mgr_Set = no_panic (lift_st clockskew_Set), mgr_Timeout = clockskew_Timeout\<rparr>"

definition osloginMgr :: "('c, 'z, 'cert, 'pool, 'blob) agent_lib \<Rightarrow> ('c, 'z) main_agent_scheme manager" where
  "osloginMgr lib = \<lparr>mgr_Diff = oslogin_Diff, mgr_Disabled = oslogin_Disabled,
     mgr_Set = lift_st (oslogin_Set (lib_keys lib)), mgr_Timeout = oslogin_Timeout\<rparr>"

definition accountsMgr :: "('c, 'z, 'cert, 'pool, 'blob) agent_lib \<Rightarrow> ('c, 'z) main_agent_scheme manager" where
  "accountsMgr lib = \<lparr>mgr_Diff = accounts_Diff (lib_keys lib), mgr_Disabled = accounts_Disabled,
     mgr_Set = lift_st (accounts_Set (lib_keys lib)), mgr_Timeout = accounts_Timeout\<rparr>"

definition availableManagers ::
  "('c, 'z, 'cert, 'pool, 'blob) agent_lib \<Rightarrow> ('c, 'z, ('c, 'z) main_agent_scheme manager list) main_io" where
  "availableManagers lib = do {
     windows \<leftarrow> is_goos ''windows'';
     (if windows then do {
        m \<leftarrow> newWsfcManager;
        State_Monad.return [addressManager lib, wsfcMgr m, winAccountsMgr lib, diagnosticsMgr lib] }
      else State_Monad.return [addressManager lib, clockskewMgr, osloginMgr lib, accountsMgr lib]) }"

text \<open>A panic of one manager ends the program.\<close>

fun run_managers :: "'s manager list \<Rightarrow> ('s, unit outcome) pst" where
  "run_managers [] = preturn (Ret ())"
| "run_managers (m # ms) = pbind (runManager m) (\<lambda>r. case r of Panic e \<Rightarrow> preturn (Panic e) | Ret _ \<Rightarrow> run_managers ms)"

definition runUpdate :: "('c, 'z, 'cert, 'pool, 'blob) agent_lib \<Rightarrow> ('c, 'z, unit outcome) main_pst" where
  "runUpdate lib =
     pbind (lift_st (availableManagers lib)) (\<lambda>ms.
     pbind (lift_st (range_map ms)) run_managers)"

section \<open>The start\<close>

text \<open>The watcher for the authorities, added to the events manager; the goroutines it starts are those of \<^verbatim>\<open>Events\<close>.\<close>

definition enable_cert_auth :: "('c, 'z, goerr option) main_io" where
  "enable_cert_auth = State (\<lambda>w.
     case enableDisableOSLoginCertAuth () (if metadata_known w then Some (newMetadata w) else None)
            (trustedCAWatcher w, fresh_config (eventManager w) :: (unit, unit) config) of
       (e, added, c) \<Rightarrow> (e, w\<lparr>trustedCAWatcher := added, eventManager := mngr c\<rparr>))"

definition get_metadata :: "('c, 'z, bool) main_io" where
  "get_metadata = do {
     r \<leftarrow> Get;
     (case r of
        Inl _ \<Rightarrow> State_Monad.return False
      | Inr md \<Rightarrow> do { modify (\<lambda>w. w\<lparr>newMetadata := md, metadata_known := True\<rparr>); State_Monad.return True }) }"

datatype init_end = Started | Stopped int | Crashed string

text \<open>The first metadata, with the fallback of the network in between; \<^const>\<open>None\<close> goes on.\<close>

definition first_metadata :: "('c, 'z, 'cert, 'pool, 'blob) agent_lib \<Rightarrow> ('c, 'z, init_end option) main_io" where
  "first_metadata lib = do {
     known \<leftarrow> gets metadata_known;
     (if known then State_Monad.return None else do {
        ok \<leftarrow> get_metadata;
        (if ok then State_Monad.return None else do {
           f \<leftarrow> FallbackToDefault (knownNetworkManagers (lib_net lib));
           (case f of
              Panic m \<Rightarrow> State_Monad.return (Some (Crashed m))
            | Ret _ \<Rightarrow> do {
                ok \<leftarrow> get_metadata;
                State_Monad.return (if ok then None else Some (Stopped 1)) }) }) }) }"

definition linux_setup :: "('c, 'z, unit) main_io" where
  "linux_setup = do {
     cfg \<leftarrow> gets config;
     (if snapshots_Enabled (Snapshots cfg) then do {
        l \<leftarrow> startSnapshotListener (SnapshotServiceIP (Snapshots cfg)) (SnapshotServicePort (Snapshots cfg)) (TimeoutInSeconds (Snapshots cfg));
        modify (\<lambda>w. w\<lparr>snapshot_listeners := snapshot_listeners w @ [l]\<rparr>) }
      else State_Monad.return ());
     setup_scripts (InstanceSetup cfg);
     _ \<leftarrow> setIOScheduler;
     State_Monad.return () }"

definition linux_boot :: "('c, 'z, 'cert, 'pool, 'blob) agent_lib \<Rightarrow> ('c, 'z, unit) main_io" where
  "linux_boot lib = do {
     md \<leftarrow> gets newMetadata;
     disable_overcommit (MachineType (Inst md));
     _ \<leftarrow> first_boot (lib_boto lib);
     State_Monad.return () }"

text \<open>The deferred call runs when the function returns and when it panics, but not when the program exits.\<close>

definition notify_systemd :: "init_end \<Rightarrow> ('z, init_end) io" where
  "notify_systemd e = (case e of
     Stopped _ \<Rightarrow> State_Monad.return e
   | _ \<Rightarrow> do { _ \<leftarrow> Quiet [''systemd-notify'', ''--ready'']; State_Monad.return e })"

definition linux_init :: "('c, 'z, 'cert, 'pool, 'blob) agent_lib \<Rightarrow> ('c, 'z, init_end) main_pst" where
  "linux_init lib =
     pbind (lift_st linux_setup) (\<lambda>_.
     pbind (lift_st (gets (\<lambda>w. NetworkEnabled (InstanceSetup (config w))))) (\<lambda>enabled. if \<not> enabled then preturn Started else
     pbind (lift_st (first_metadata lib)) (\<lambda>e. case e of Some e \<Rightarrow> preturn e | None \<Rightarrow>
     pbind (runManager (addressManager lib)) (\<lambda>r. case r of Panic m \<Rightarrow> preturn (Crashed m) | Ret _ \<Rightarrow>
     pbind (lift_st (linux_boot lib)) (\<lambda>_.
     pbind (lift_st (crypto_Init (lib_crypto lib) (lib_cron lib))) (\<lambda>_. preturn Started))))))"

definition windows_init :: "('c, 'z, 'cert, 'pool, 'blob) agent_lib \<Rightarrow> ('c, 'z, init_end) main_io" where
  "windows_init lib = do {
     e \<leftarrow> retry_Run route_policy (Some (addMetadataRoute (lib_routes lib)));
     (case e of
        Some _ \<Rightarrow> State_Monad.return (Crashed ''Failed to set metadata route'')
      | None \<Rightarrow> do { crypto_Init (lib_crypto lib) (lib_cron lib); State_Monad.return Started }) }"

definition agentInit :: "('c, 'z, 'cert, 'pool, 'blob) agent_lib \<Rightarrow> ('c, 'z, init_end) main_pst" where
  "agentInit lib = pbind (lift_st (is_goos ''windows'')) (\<lambda>windows.
     if windows then lift_st (windows_init lib)
     else pbind (linux_init lib) (\<lambda>e. lift_st (notify_systemd e)))"

section \<open>New metadata\<close>

text \<open>The event's data as in \<^const>\<open>mdsSchedulerHandler\<close>; the value asks to stay subscribed.\<close>

definition main_handler :: "('c, 'z, 'cert, 'pool, 'blob) agent_lib \<Rightarrow> Descriptor option res \<Rightarrow> ('c, 'z, bool outcome) main_pst" where
  "main_handler lib ev = (case ev of
     Inl _ \<Rightarrow> preturn (Ret True)
   | Inr None \<Rightarrow> preturn (Ret True)
   | Inr (Some md) \<Rightarrow>
       pbind (lift_st (modify (\<lambda>w. w\<lparr>newMetadata := md, metadata_known := True\<rparr>))) (\<lambda>_.
       pbind (lift_st enable_cert_auth) (\<lambda>_.
       pbind (runUpdate lib) (\<lambda>r. case r of Panic m \<Rightarrow> preturn (Panic m) | Ret _ \<Rightarrow>
       pbind (lift_st (modify (\<lambda>w. w\<lparr>oldMetadata := newMetadata w\<rparr>))) (\<lambda>_. preturn (Ret True))))))"

definition programName :: string where
  "programName = ''GCEGuestAgent''"

definition defaultWatchers :: "Watcher list" where
  "defaultWatchers = [metadata_watcher, shutdown_watcher]"

definition AddDefaultWatchers :: "('c, 'z, goerr option) main_io" where
  "AddDefaultWatchers = State (\<lambda>w.
     case AddWatchers defaultWatchers (fresh_config (eventManager w) :: (unit, unit) config) of
       (e, c) \<Rightarrow> (e, w\<lparr>eventManager := mngr c\<rparr>))"

text \<open>
  From the metadata to the subscription of the handler. The goroutine that schedules the telemetry job runs at once; an
  error of the watchers ends the agent.
\<close>

definition subscribe_agent :: "('c, 'z, 'cert, 'pool, 'blob) agent_lib \<Rightarrow> ('c, 'z, init_end) main_io" where
  "subscribe_agent lib = do {
     known \<leftarrow> gets metadata_known;
     (if known then State_Monad.return () else do { _ \<leftarrow> get_metadata; State_Monad.return () });
     Get_scheduler (lib_cron lib);
     _ \<leftarrow> ScheduleJob (lib_cron lib) (TelemetryJob (lib_proto lib) programName (lib_version lib) (lib_arch lib)) False;
     if_ok AddDefaultWatchers (\<lambda>_. Stopped 0)
       (if_ok enable_cert_auth (\<lambda>_. Stopped 0) (do {
          modify (\<lambda>w. w\<lparr>oldMetadata := empty_descriptor, eventManager := Subscribe LongpollEvent () (eventManager w)\<rparr>);
          State_Monad.return Started })) }"

text \<open>\<^verbatim>\<open>runAgent\<close> up to the call of the event manager's \<^verbatim>\<open>Run\<close>; setting up the logger is left out.\<close>

definition runAgent :: "('c, 'z, 'cert, 'pool, 'blob) agent_lib \<Rightarrow> ('c, 'z, init_end) main_pst" where
  "runAgent lib =
     pbind (lift_st net_osinfo) (\<lambda>info.
     pbind (lift_st (modify (\<lambda>w. w\<lparr>osInfo := info\<rparr>))) (\<lambda>_.
     pbind (agentInit lib) (\<lambda>e. if e \<noteq> Started then preturn e else
     pbind (lift_st (do {
         b \<leftarrow> gets (\<lambda>w. CommandMonitorEnabled (Unstable (config w)));
         (if b then cmd_Init (lib_ParseDuration lib) else State_Monad.return (Ret ())) })) (\<lambda>c. case c of
       Panic m \<Rightarrow> preturn (Crashed m)
     | Ret _ \<Rightarrow> lift_st (subscribe_agent lib)))))"

section \<open>Lemmas\<close>

text \<open>A manager that finds nothing to do: from a state on, whatever the time, it only looks.\<close>

definition quiet :: "'z world_scheme \<Rightarrow> 'z world_scheme manager \<Rightarrow> bool" where
  "quiet w0 m \<longleftrightarrow> (\<forall>w. ticks_only w0 w \<longrightarrow> (\<exists>w'. runManager m w = Some (Ret (), w') \<and> ticks_only w w'))"

lemma quiet_managers:
  assumes "\<forall>m \<in> set ms. quiet w0 m" and "ticks_only w0 w"
  shows "\<exists>w'. run_managers ms w = Some (Ret (), w') \<and> ticks_only w w'"
  using assms
proof (induction ms arbitrary: w)
  case (Cons m ms)
  then obtain w1 where w1: "runManager m w = Some (Ret (), w1)" "ticks_only w w1"
    by (auto simp: quiet_def)
  with Cons.prems(2) have "ticks_only w0 w1"
    by (blast intro: ticks.frame_trans)
  with Cons obtain w' where "run_managers ms w1 = Some (Ret (), w')" "ticks_only w1 w'"
    by auto
  with w1 show ?case
    by (auto simp: pbind_def intro: ticks.frame_trans)
qed (simp add: preturn_def ticks.frame_refl)

lemma quiet_disabled:
  assumes "\<And>w. ticks_only w0 w \<Longrightarrow> run_state (mgr_Disabled m) w = ((True, e), w)"
  shows "quiet w0 m"
  using assms ticks.frame_refl by (fastforce simp: quiet_def runManager_def pbind_def lift_st_def preturn_def)

lemma quiet_no_diff:
  assumes "\<And>w. ticks_only w0 w \<Longrightarrow> \<exists>b. run_state (mgr_Disabled m) w = ((b, None), w)"
    and "\<And>w. ticks_only w0 w \<Longrightarrow> run_state (mgr_Timeout m) w = ((False, None), w)"
    and "\<And>w. ticks_only w0 w \<Longrightarrow> \<exists>w'. run_state (mgr_Diff m) w = ((False, None), w') \<and> ticks_only w w'"
  shows "quiet w0 m"
proof -
  have "\<exists>w'. runManager m w = Some (Ret (), w') \<and> ticks_only w w'" if w: "ticks_only w0 w" for w
    using assms(1) [OF w] assms(2) [OF w] assms(3) [OF w] ticks.frame_refl [of w]
    by (auto simp: runManager_def pbind_def lift_st_def preturn_def)
  then show ?thesis
    by (simp add: quiet_def)
qed

text \<open>Keys that have not expired are all kept.\<close>

lemma removeExpiredKeys_live:
  assumes "frozen n w" and "\<forall>k \<in> set keys. key_live parse_key n k"
  shows "\<exists>w'. run_state (removeExpiredKeys parse_key keys) w = (keys, w') \<and> ticks_only w w'"
proof -
  let ?f = "\<lambda>key validKeys. do {
    err \<leftarrow> CheckExpiredKey parse_key key;
    State_Monad.return (Inr (if err = None then validKeys @ [key] else validKeys) :: unit + string list) }"
  have "\<exists>w'. run_state (for_range ?f keys acc) w = (Inr (acc @ keys), w') \<and> ticks_only w w'" for acc
    using assms
  proof (induction keys arbitrary: acc w)
    case (Cons key keys)
    obtain e w1 where e: "run_state (CheckExpiredKey parse_key key) w = (e, w1)"
      by (metis surj_pair)
    then have "e = None" and w1: "ticks_only w w1"
      using CheckExpiredKey_frozen [OF Cons.prems(1), of parse_key key] Cons.prems(2)
        keepsD [OF ticks.keeps_CheckExpiredKey, of w parse_key key] by simp_all
    moreover from Cons.prems w1 frozen_ticks have "frozen n w1" "\<forall>k \<in> set keys. key_live parse_key n k"
      by auto
    ultimately show ?case
      using Cons.IH [of w1 "acc @ [key]"] e by (auto intro: ticks.frame_trans)
  qed (simp add: ticks.frame_refl)
  from this [of "[]"] show ?thesis
    by (auto simp: removeExpiredKeys_def)
qed

text \<open>The remembered keys are looked through without finding one that has expired.\<close>

lemma no_expired_key:
  assumes "frozen n w" and "\<forall>keys \<in> set kss. \<forall>k \<in> set keys. key_live parse_key n k"
  shows "\<exists>w'. run_state (for_range (\<lambda>keys u. do {
      valid \<leftarrow> removeExpiredKeys parse_key keys;
      State_Monad.return (if length keys \<noteq> length valid then Inl () else Inr ()) }) kss ()) w = (Inr (), w') \<and> ticks_only w w'"
  using assms
proof (induction kss arbitrary: w)
  case (Cons keys kss)
  then obtain w1 where w1: "run_state (removeExpiredKeys parse_key keys) w = (keys, w1)" "ticks_only w w1"
    using removeExpiredKeys_live [OF Cons.prems(1)] by (meson list.set_intros(1))
  moreover from Cons.prems w1(2) frozen_ticks have "frozen n w1" "\<forall>keys \<in> set kss. \<forall>k \<in> set keys. key_live parse_key n k"
    by auto
  ultimately show ?case
    using Cons.IH [of w1] by (auto intro: ticks.frame_trans)
qed (simp add: ticks.frame_refl)

lemma accounts_Diff_none:
  assumes "frozen n w" and "newMetadata w = oldMetadata w"
    and "\<forall>keys \<in> set (map snd (deref_or [] (sshKeys w))). \<forall>k \<in> set keys. key_live parse_key n k"
  shows "\<exists>w'. run_state (accounts_Diff parse_key) w = ((False, None), w') \<and> ticks_only w w'"
proof -
  let ?kss = "map snd (deref_or [] (sshKeys w))"
  obtain kss w1 where kss: "run_state (range_map ?kss) w = (kss, w1)" "set kss = set ?kss" and w1: "ticks_only w w1"
    by (auto simp: range_map_def)
  have "frozen n w1"
    using assms(1) w1 frozen_ticks by blast
  with no_expired_key [of n w1 kss parse_key] assms(3) kss(2) obtain w2 where
    "run_state (for_range (\<lambda>keys u. do {
      valid \<leftarrow> removeExpiredKeys parse_key keys;
      State_Monad.return (if length keys \<noteq> length valid then Inl () else Inr ()) }) kss ()) w1 = (Inr (), w2)" "ticks_only w1 w2"
    by auto
  with kss w1 show ?thesis
    using assms(2) by (auto simp: accounts_Diff_def compareStringSlice_iff intro: ticks.frame_trans)
qed

text \<open>The managers of Linux on metadata that have not changed.\<close>

lemmas manager_ops = clockskewMgr_def osloginMgr_def accountsMgr_def clockskew_Disabled_def clockskew_Timeout_def clockskew_Diff_def
  oslogin_Disabled_def oslogin_Timeout_def oslogin_Diff_def accounts_Disabled_def accounts_Timeout_def is_goos_def

lemma address_Disabled_cong:
  assumes "config s = config w" "newMetadata s = newMetadata w"
  shows "run_state address_Disabled s = (fst (run_state address_Disabled w), s)"
  using assms by (simp add: address_Disabled_def cong: option.case_cong)

lemma quiet_addresses:
  assumes "fst (run_state address_Disabled w)"
  shows "quiet w (addressManager lib)"
proof (rule quiet_disabled)
  fix s assume "ticks_only w s"
  then have "run_state address_Disabled s = (True, s)"
    using address_Disabled_cong [of s w] assms by (auto simp: ticks_only_def)
  then show "run_state (mgr_Disabled (addressManager lib)) s = ((True, None), s)"
    by (simp add: addressManager_def no_err_def)
qed

lemma quiet_clockskew:
  assumes "newMetadata w = oldMetadata w"
  shows "quiet w clockskewMgr"
proof (rule quiet_no_diff)
  fix s assume "ticks_only w s"
  with assms have "newMetadata s = oldMetadata s"
    by (auto simp: ticks_only_def)
  then show "\<exists>s'. run_state (mgr_Diff clockskewMgr) s = ((False, None), s') \<and> ticks_only s s'"
    using ticks.frame_refl [of s] by (simp add: manager_ops)
qed (simp_all add: manager_ops)

lemma quiet_oslogin:
  assumes "newMetadata w = oldMetadata w" and "ProjectID (Proj (oldMetadata w)) \<noteq> []"
  shows "quiet w (osloginMgr lib)"
proof (rule quiet_no_diff)
  fix s assume s: "ticks_only w s"
  then have "newMetadata s = oldMetadata s" "ProjectID (Proj (oldMetadata s)) \<noteq> []"
    using assms by (auto simp: ticks_only_def)
  then show "\<exists>s'. run_state (mgr_Diff (osloginMgr lib)) s = ((False, None), s') \<and> ticks_only s s'"
    using ticks.frame_refl [of s] by (auto simp: manager_ops split_beta)
qed (auto simp: manager_ops)

lemma quiet_accounts:
  assumes "newMetadata w = oldMetadata w" and "frozen n w"
    and "\<forall>keys \<in> set (map snd (deref_or [] (sshKeys w))). \<forall>k \<in> set keys. key_live (lib_keys lib) n k"
  shows "quiet w (accountsMgr lib)"
proof (rule quiet_no_diff)
  fix s assume s: "ticks_only w s"
  then have "newMetadata s = oldMetadata s" "sshKeys s = sshKeys w"
    using assms(1) by (auto simp: ticks_only_def)
  then show "\<exists>s'. run_state (mgr_Diff (accountsMgr lib)) s = ((False, None), s') \<and> ticks_only s s'"
    using accounts_Diff_none [of n s "lib_keys lib"] assms(2,3) frozen_ticks [OF s] by (simp add: accountsMgr_def)
qed (auto simp: manager_ops)

text \<open>When every manager is quiet, so is the update.\<close>

lemma quiet_update:
  assumes "goos w \<noteq> ''windows''"
    and "quiet w (addressManager lib)" "quiet w clockskewMgr" "quiet w (osloginMgr lib)" "quiet w (accountsMgr lib)"
  shows "\<exists>w'. runUpdate lib w = Some (Ret (), w') \<and> ticks_only w w'"
proof -
  let ?ms = "[addressManager lib, clockskewMgr, osloginMgr lib, accountsMgr lib]"
  obtain ms w1 where ms: "run_state (range_map ?ms) w = (ms, w1)" "set ms = set ?ms" and w1: "ticks_only w w1"
    by (auto simp: range_map_def)
  with assms have "\<forall>m \<in> set ms. quiet w m"
    by simp
  from quiet_managers [OF this w1] obtain w2 where "run_managers ms w1 = Some (Ret (), w2)" "ticks_only w1 w2"
    by blast
  with ms w1 assms(1) show ?thesis
    by (auto simp: runUpdate_def availableManagers_def is_goos_def pbind_def lift_st_def intro: ticks.frame_trans)
qed

lemma enable_cert_auth_again:
  assumes "trustedCAWatcher w \<or> \<not> oslogin_enabled (newMetadata w)"
  shows "run_state enable_cert_auth w = (None, w)"
  using assms by (auto simp: enable_cert_auth_def enableDisableOSLoginCertAuth_def oslogin_enabled_def fresh_config_def split: option.splits)


definition calm_main :: "files \<Rightarrow> (nat \<times> (nat \<times> string) list) main_agent" where
  "calm_main f = creds_agent.extend (calm_creds f) \<lparr>metadata_known = False, trustedCAWatcher = False, snapshot_listeners = []\<rparr>"

definition plain_agent :: "(nat \<times> (nat \<times> string) list, unit, string, string, string) agent_lib" where
  "plain_agent = \<lparr>
     lib_addresses = \<lparr>win_Addrs = (\<lambda>_. State_Monad.return (Inr [])), readRegMultiString = (\<lambda>_. State_Monad.return (Inl None)),
       deleteRegKey = (\<lambda>_. State_Monad.return None), writeRegMultiString = (\<lambda>_ _. State_Monad.return None),
       addAddress = (\<lambda>_ _ _. State_Monad.return None), removeAddress = (\<lambda>_ _ _. State_Monad.return None)\<rparr>,
     lib_accounts = \<lparr>win_userExists = (\<lambda>_. State_Monad.return None), win_resetPwd = (\<lambda>_ _. State_Monad.return None),
       win_createUser = (\<lambda>_ _. State_Monad.return None), win_addUserToGroup = (\<lambda>_ _. State_Monad.return None),
       reg_readMultiString = (\<lambda>_ _. State_Monad.return (Inl None)), reg_writeMultiString = (\<lambda>_ _ _. State_Monad.return None),
       getWindowsServiceImagePath = (\<lambda>_. State_Monad.return (Inr [])), getWindowsExeVersion = (\<lambda>_. State_Monad.return (Inr minSSHVersion)),
       checkWindowsServiceRunning = (\<lambda>_. State_Monad.return True), EncryptOAEP = (\<lambda>_ _ _ p. State_Monad.return (Inr p)),
       credsWriter = (\<lambda>_. State_Monad.return None), error_String = (\<lambda>_. [])\<rparr>,
     lib_routes = \<lparr>getIPForwardEntries = State_Monad.return (Inr []), addIPForwardEntry = (\<lambda>_. State_Monad.return None)\<rparr>,
     lib_net = no_codecs, lib_keys = Inr, lib_crypto = plain_lib, lib_cron = list_cron,
     lib_proto = \<lparr>Marshal_AgentInfo = (\<lambda>_. Inr []), Marshal_OSInfo = (\<lambda>_. Inr [])\<rparr>, lib_boto = plain_boto,
     lib_ParseDuration = (\<lambda>_. None), lib_arch = ''amd64'', lib_version = ''1''\<rparr>"

definition settled_md :: Descriptor where
  "settled_md = empty_descriptor\<lparr>Proj := (Proj empty_descriptor)\<lparr>ProjectID := ''p''\<rparr>,
     Inst := (Inst empty_descriptor)\<lparr>InstanceAttributes := (inst_attr empty_descriptor)\<lparr>DisableAddressManager := Some True\<rparr>\<rparr>\<rparr>"

definition settled_agent :: "(nat \<times> (nat \<times> string) list) main_agent" where
  "settled_agent = (calm_main [])\<lparr>oldMetadata := settled_md, sshKeys := Some [(''u'', [''ssh-rsa AAAA u''])]\<rparr>"


lemma Quiet_last: "\<exists>r w'. run_state (Quiet cmd) w = (r, w') \<and> (\<exists>cmds. trace w' = cmds @ [cmd])"
  by (auto simp: Quiet_def execCommand_def spawn_def split_beta split: proc_end.split)

lemma runManager_addresses_ends: "\<exists>r w'. runManager (addressManager lib) w = Some (r, w')"
  by (auto simp: runManager_def addressManager_def pbind_def lift_st_def preturn_def split_beta)

lemma first_metadata_ends:
  "fst (run_state (first_metadata lib) w) = Some (Stopped n) \<Longrightarrow> n = 1"
  by (auto simp: first_metadata_def split_beta split: if_splits outcome.splits)

lemma linux_init_ends: "\<exists>e w'. linux_init lib w = Some (e, w') \<and> (\<forall>n. e = Stopped n \<longrightarrow> n = 1)"
proof -
  define w1 where "w1 = snd (run_state linux_setup w)"
  obtain e w2 where md: "run_state (first_metadata lib) w1 = (e, w2)" "\<And>n. e = Some (Stopped n) \<Longrightarrow> n = 1"
    using first_metadata_ends [of lib w1] by (metis fst_conv surj_pair)
  obtain r w3 where "runManager (addressManager lib) w2 = Some (r, w3)"
    using runManager_addresses_ends by blast
  with md show ?thesis
    by (cases r; cases e) (auto simp: linux_init_def w1_def [symmetric] pbind_def lift_st_def preturn_def split_beta)
qed



end
