(* ===== verification/Spec2Isabelle.thy ===== *)
theory Spec2Isabelle
  imports ScriptRunner CertRefresh AgentMain
begin

text \<open>
  A verification development of the guest agent of Google Compute Engine and of the programs beside it.

  \<^bold>\<open>The program.\<close> The agent (\<^verbatim>\<open>google_guest_agent\<close>) reads a descriptor of the instance and its project from
  the metadata server and brings the machine into the state it describes: users and their SSH keys, OS Login,
  network interfaces, routes and forwarded addresses, failover cluster support, credentials for the server's
  HTTPS endpoint. It is driven by an events manager whose watchers poll the server, by a scheduler of
  periodic jobs, and by commands it accepts on a socket. Beside it are \<^verbatim>\<open>google_authorized_keys\<close>, which sshd asks
  for a user's keys, \<^verbatim>\<open>google_metadata_script_runner\<close>, which runs the scripts given in the metadata, and
  \<^verbatim>\<open>gce_workload_cert_refresh\<close>, which keeps a workload's certificates fresh.

  \<^bold>\<open>The world.\<close> A Go function with effects is an operation in the state monad over a record. \<^verbatim>\<open>World\<close> has the
  part everything shares: the files by path (regular files, directories, symbolic links, named pipes), and
  what the environment answers at each tick: the error of a system call, what a command exits with and does to
  the files, the clock, random names, the order of a map, the context. The fields for the metadata server
  (\<^verbatim>\<open>MdsClient\<close>), the agent's package variables (\<^verbatim>\<open>Globals\<close>), network interfaces (\<^verbatim>\<open>NetCommon\<close>) and the states
  of the managers, each in its theory, extend this record one after the other, so operations of different components
  compose. A theorem
  about any world therefore covers every combination of failures. Errors are values of \<^verbatim>\<open>goerr\<close>; a wrapped error
  keeps what it wraps, one formatted with \<^verbatim>\<open>%v\<close> does not. A panic is the value \<^verbatim>\<open>Panic\<close>. Messages keep their fixed
  text; quoted arguments are shown without escapes.

  \<^bold>\<open>The library.\<close>
  \<^item> \<^verbatim>\<open>Prelude\<close>: strings, paths and slices as Go's standard library has them, with their lemmas.
  \<^item> \<^verbatim>\<open>World\<close>, \<^verbatim>\<open>Calm\<close>: system calls and loops; worlds without failures, in which operations compute.
  \<^item> \<^verbatim>\<open>Frame\<close>, \<^verbatim>\<open>Guard\<close>, \<^verbatim>\<open>IoFrame\<close>: what an operation leaves unchanged, as the locales \<^verbatim>\<open>frame_rel\<close>, \<^verbatim>\<open>clock_frame\<close>,
    \<^verbatim>\<open>wait_frame\<close>, \<^verbatim>\<open>io_frame\<close> and (in \<^verbatim>\<open>MdsClient\<close>) \<^verbatim>\<open>http_frame\<close>, interpreted on the relations the components
    use; \<^verbatim>\<open>Guard\<close> follows files that carry the agent's mark.
  \<^item> \<^verbatim>\<open>Triple\<close>, \<^verbatim>\<open>AtomicFile\<close>: Hoare triples over the system calls, and replacing a file as a whole.
  \<^item> \<^verbatim>\<open>Live\<close>: the locale \<^verbatim>\<open>ends_well\<close> for step relations that always end well, interpreted in \<^verbatim>\<open>Events\<close>.
  \<^item> \<^verbatim>\<open>GoTime\<close>, \<^verbatim>\<open>Json\<close>, \<^verbatim>\<open>JsonPrint\<close>, \<^verbatim>\<open>NetIP\<close>: times, JSON texts and IP addresses as the standard library reads and
    prints them.

  \<^bold>\<open>The components\<close>, and what is shown of them.
  \<^item> \<^verbatim>\<open>Run\<close>, \<^verbatim>\<open>Retry\<close> (\<^verbatim>\<open>run/run.go\<close>, \<^verbatim>\<open>retry/retry.go\<close>): commands and the retry loop; the attempt at which the loop
    stops and the waits before it.
  \<^item> \<^verbatim>\<open>Metadata\<close>, \<^verbatim>\<open>MdsClient\<close> (\<^verbatim>\<open>metadata/*.go\<close>): the descriptor and the client; how the etag moves, when it retries.
  \<^item> \<^verbatim>\<open>SshKeys\<close>, \<^verbatim>\<open>Accounts\<close> (\<^verbatim>\<open>utils/ssh.go\<close>, \<^verbatim>\<open>google_authorized_keys\<close>, \<^verbatim>\<open>non_windows_accounts.go\<close>, \<^verbatim>\<open>accounts_unix.go\<close>):
    both readers of the keys agree, what an update of \<^verbatim>\<open>authorized_keys\<close> leaves, and that a user's own lines stay.
  \<^item> \<^verbatim>\<open>WinAccounts\<close> (\<^verbatim>\<open>windows_accounts.go\<close>): passwords and keys on Windows; when drawing a password ends, that it is
    strong, and that a key is acted on once.
  \<^item> \<^verbatim>\<open>Diagnostics\<close> (\<^verbatim>\<open>diagnostics.go\<close>): collecting logs on Windows; one program at a time.
  \<^item> \<^verbatim>\<open>OsLoginConf\<close>, \<^verbatim>\<open>OsLogin\<close> (\<^verbatim>\<open>oslogin.go\<close>): the configuration files change back when OS Login is switched off, and
    a run changes no other file.
  \<^item> \<^verbatim>\<open>Cfg\<close>, \<^verbatim>\<open>OsInfo\<close>, \<^verbatim>\<open>Globals\<close> (\<^verbatim>\<open>cfg/cfg.go\<close>, \<^verbatim>\<open>osinfo/*.go\<close>): settings and release.
  \<^item> \<^verbatim>\<open>NetCommon\<close>, \<^verbatim>\<open>Wicked\<close>, \<^verbatim>\<open>NetworkMgr\<close>, \<^verbatim>\<open>Networkd\<close>, \<^verbatim>\<open>Netplan\<close>, \<^verbatim>\<open>Dhclient\<close>, \<^verbatim>\<open>NetManager\<close>
    (\<^verbatim>\<open>network/manager/*.go\<close>, \<^verbatim>\<open>ps/*.go\<close>, \<^verbatim>\<open>utils/file.go\<close>): every network manager of Linux and their choice. Each
    interprets the locale \<^verbatim>\<open>sparing_service\<close>: its rollback removes only files with the agent's mark; from these the
    same follows for the fallback over all of them.
  \<^item> \<^verbatim>\<open>Addresses\<close>, \<^verbatim>\<open>Wsfc\<close> (\<^verbatim>\<open>addresses.go\<close>, \<^verbatim>\<open>wsfc.go\<close>): the commands that bring the routes to the wanted set, which
    refines the change of a set; the agent for failover clusters.
  \<^item> \<^verbatim>\<open>Events\<close>, \<^verbatim>\<open>Watchers\<close> (\<^verbatim>\<open>events/*.go\<close>): the goroutines of \<^verbatim>\<open>Run\<close> as a step relation; it returns, every event
    arrives once and in order, and it need not return after a cancellation.
  \<^item> \<^verbatim>\<open>TrustedCa\<close> (\<^verbatim>\<open>events/sshtrustedca/*.go\<close>, \<^verbatim>\<open>sshca/sshca.go\<close>): the pipe from which sshd reads the trusted authorities; every
    reader is served, the watcher with its goroutine ends, and how a cancellation can block it.
  \<^item> \<^verbatim>\<open>Snapshots\<close> (\<^verbatim>\<open>snapshot_listener.go\<close>): every snapshot operation is answered once.
  \<^item> \<^verbatim>\<open>InstanceSetup\<close> (\<^verbatim>\<open>instance_setup.go\<close>): the route to the metadata server and the actions of the first boot, which run
    once.
  \<^item> \<^verbatim>\<open>Scheduler\<close> (\<^verbatim>\<open>scheduler/scheduler.go\<close>): calls from start to end, and interleaved; what is noted as scheduled is
    what cron has, and how two calls for one job break that.
  \<^item> \<^verbatim>\<open>Crypto\<close> (\<^verbatim>\<open>agentcrypto/*.go\<close>, \<^verbatim>\<open>uefi/*.go\<close>): the job that fetches the credentials for the HTTPS endpoint; nothing
    unverified is stored, and the job is scheduled exactly when it is wanted and can be served.
  \<^item> \<^verbatim>\<open>Command\<close> (\<^verbatim>\<open>command/*.go\<close>): the server on the socket; every request is answered.
  \<^item> \<^verbatim>\<open>Telemetry\<close> (\<^verbatim>\<open>telemetry/telemetry.go\<close>): the job that reports the agent and the system.
  \<^item> \<^verbatim>\<open>AgentMain\<close> (\<^verbatim>\<open>main.go\<close>, \<^verbatim>\<open>clock.go\<close>, \<^verbatim>\<open>agentInit\<close> of \<^verbatim>\<open>instance_setup.go\<close>): the managers put together, the start
    of the agent and its handler for new metadata. The start always ends and tells systemd so, and the handler changes
    nothing when the metadata have not changed. The managers run one after the other, in any order; the goroutines
    of the watchers and of the event manager's \<^verbatim>\<open>Run\<close> are those of \<^verbatim>\<open>Events\<close>.
  \<^item> \<^verbatim>\<open>ScriptRunner\<close>, \<^verbatim>\<open>CertRefresh\<close> (\<^verbatim>\<open>google_metadata_script_runner\<close>, \<^verbatim>\<open>gce_workload_cert_refresh\<close>): scripts touch
    only their directory; certificates are rotated as a whole.

  \<^bold>\<open>Bounds.\<close> Most loops are structural recursion. The others: symbolic links are followed at most 40 times, as in the
  kernel, after which the call fails; \<^verbatim>\<open>mkdirpWithPerms\<close> recurses on the length of the path; an IPv6 text has at most
  nine fields, so nine rounds read it; the retry loop is a recursive function whose termination is proved from the
  maximal number of attempts; drawing a password may not end and is a partial function, with the exact condition
  under which it returns. Integers are unbounded where the source's values cannot leave the machine range, and
  words where they wrap. A system call, a read or a write of an unlocked flag and a step under a mutex are atomic.

  \<^bold>\<open>Parameters.\<close> Code that is not part of the repository is a parameter of the definitions that use it: the ini and
  yaml libraries, the parser of SSH keys, cron, gRPC, protobuf, the LRU cache, PEM, X.509, RSA, AES-GCM, protojson, the TPM, the client of Cloud Storage.

  \<^bold>\<open>Not modelled.\<close> The generated \<^verbatim>\<open>*.pb.go\<close>, the fakes and tests; the files that call the Windows API
  (\<^verbatim>\<open>addresses_windows.go\<close>, \<^verbatim>\<open>accounts_windows.go\<close>, \<^verbatim>\<open>system_windows.go\<close>, \<^verbatim>\<open>osinfo_windows.go\<close>, \<^verbatim>\<open>uefi_windows.go\<close>,
  \<^verbatim>\<open>command_windows.go\<close>, \<^verbatim>\<open>mtls_mds_windows.go\<close>), whose operations are parameters where the modelled code calls them;
  \<^verbatim>\<open>service.go\<close>, which hands control to the service manager of the system, and \<^verbatim>\<open>main\<close> of the agent, which calls it; logging and the
  serial port.
\<close>

end
